(* ===== verification/Prelude.thy ===== *)
theory Prelude
  imports Main "HOL-Library.Word" "HOL-Library.Monad_Syntax"
begin

text \<open>
  Shared vocabulary of the development: the machine integer types of the Go source, little-endian
  byte strings (the byte order of \<^verbatim>\<open>encoding/binary.LittleEndian\<close> and of the x86-64
  machine), the conversions between Go's integer types, the error values, and the generic lemmas
  on lists, options and words that the component theories use.

  Conventions. A Go function that can panic returns an \<open>option\<close>: \<open>None\<close> is the panic (there is
  no \<^verbatim>\<open>recover\<close> in the program) or, for a loop with a fuel argument, no result within the fuel.
  A Go error result is a \<open>gerr option\<close>: \<open>None\<close> is \<^verbatim>\<open>nil\<close>. Go's \<^verbatim>\<open>int\<close> is 64 bits wide on
  the only target (amd64); it is an \<open>int\<close> here and every conversion from or to a machine word
  is written out (\<open>sint\<close>, \<open>word_of_int\<close>).
\<close>

unbundle bit_operations_syntax

type_synonym u8 = "8 word"
type_synonym u16 = "16 word"
type_synonym u32 = "32 word"
type_synonym u64 = "64 word"

named_theorems le_simps \<open>little-endian encoding and decoding\<close>
named_theorems mem_simps \<open>reading and writing memory\<close>
named_theorems status_simps \<open>status codes and the errors made from them\<close>

section \<open>Definitions\<close>

text \<open>
  Error values: an EFI status with its low byte (what \<^verbatim>\<open>parseStatus\<close> formats), a message, the
  standard library's \<^verbatim>\<open>io.EOF\<close>, and a message with the text of another error appended.
\<close>

datatype gerr =
    EfiStatusErr u64 u64
  | ErrMsg string
  | EOF
  | ErrWrap string gerr

text \<open>Little-endian byte strings.\<close>

fun le_bytes :: "nat \<Rightarrow> nat \<Rightarrow> u8 list" where
  "le_bytes 0 v = []"
| "le_bytes (Suc w) v = of_nat v # le_bytes w (v div 256)"

fun le_nat :: "u8 list \<Rightarrow> nat" where
  "le_nat [] = 0"
| "le_nat (b # bs) = unat b + 256 * le_nat bs"

text \<open>
  A fixed-size struct is a sequence of fields of known widths: \<open>le_emit\<close> writes (width, value)
  pairs, \<open>le_fields\<close> reads the values of consecutive fields.
\<close>

fun le_emit :: "(nat \<times> nat) list \<Rightarrow> u8 list" where
  "le_emit [] = []"
| "le_emit ((w, v) # fs) = le_bytes w v @ le_emit fs"

fun le_fields :: "nat list \<Rightarrow> u8 list \<Rightarrow> nat list" where
  "le_fields [] bs = []"
| "le_fields (w # ws) bs = le_nat (take w bs) # le_fields ws (drop w bs)"

section \<open>Lemmas\<close>

subsection \<open>Little-endian byte strings\<close>

lemma length_le_bytes [simp]: "length (le_bytes w v) = w"
  by (induction w arbitrary: v) auto

lemma length_le_emit [simp]: "length (le_emit fs) = sum_list (map fst fs)"
  by (induction fs) auto

lemma length_le_fields [simp]: "length (le_fields ws bs) = length ws"
  by (induction ws arbitrary: bs) auto

lemma unat_less_width: "unat (x::'a::len word) < 2 ^ LENGTH('a)"
  by (rule unsigned_less)

lemma unat_mod_width: "unat (x::'a::len word) mod 2 ^ LENGTH('a) = unat x"
  by (simp add: unat_less_width)

lemma unat_of_nat_u8 [simp]: "unat (of_nat v :: u8) = v mod 256"
  by (simp add: unat_of_nat)

lemma le_nat_bound: "le_nat bs < 256 ^ length bs"
proof (induction bs)
  case (Cons b bs)
  have "unat b < 256" using unat_less_width [of b] by simp
  with Cons.IH show ?case by simp
qed simp

lemma mod_mult_digit: "(v::nat) mod 256 + 256 * (v div 256 mod 256 ^ w) = v mod 256 ^ Suc w"
  by (simp add: mod_mult2_eq)

lemma le_nat_le_bytes [le_simps]: "le_nat (le_bytes w v) = v mod 256 ^ w"
proof (induction w arbitrary: v)
  case (Suc w)
  then show ?case using mod_mult_digit [of v w] by simp
qed simp

lemma le_bytes_le_nat [le_simps]: "le_bytes (length bs) (le_nat bs) = bs"
proof (induction bs)
  case (Cons b bs)
  have "unat b < 256" using unat_less_width [of b] by simp
  then have "(unat b + 256 * le_nat bs) div 256 = le_nat bs" by simp
  moreover have z: "(256 :: u8) = 0" by simp
  have "of_nat (unat b + 256 * le_nat bs) = b" by (simp add: z)
  ultimately show ?case using Cons.IH by simp
qed simp

lemma le_nat_append: "le_nat (xs @ ys) = le_nat xs + 256 ^ length xs * le_nat ys"
  by (induction xs) (auto simp: algebra_simps)

lemma le_fields_emit [le_simps]:
  "le_fields (map fst fs) (le_emit fs @ rest) = map (\<lambda>(w, v). v mod 256 ^ w) fs"
  by (induction fs) (auto simp: le_simps)

lemma le_fields_take:
  "sum_list ws \<le> n \<Longrightarrow> le_fields ws (take n bs) = le_fields ws bs"
proof (induction ws arbitrary: n bs)
  case (Cons w ws)
  then have "le_fields ws (take (n - w) (drop w bs)) = le_fields ws (drop w bs)" by simp
  with Cons.prems show ?case by (simp add: drop_take min_absorb1)
qed simp

text \<open>A word of width \<open>8 * w\<close> survives being written in \<open>w\<close> bytes.\<close>

lemma of_nat_unat_mod_u8 [simp]: "of_nat (unat (x::u8) mod 256) = x"
  using unat_less_width [of x] by simp

lemma of_nat_unat_mod_u16 [simp]: "of_nat (unat (x::u16) mod 65536) = x"
  using unat_less_width [of x] by simp

lemma of_nat_unat_mod_u32 [simp]: "of_nat (unat (x::u32) mod 4294967296) = x"
  using unat_less_width [of x] by simp

lemma of_nat_unat_mod_u64 [simp]: "of_nat (unat (x::u64) mod 18446744073709551616) = x"
  using unat_less_width [of x] by simp

lemma unat_of_nat_small_u64: "n < 2 ^ 64 \<Longrightarrow> unat (of_nat n :: u64) = n"
  by (simp add: unat_of_nat)

subsection \<open>Lists\<close>

lemma take_append_exact: "length xs = n \<Longrightarrow> take n (xs @ ys) = xs"
  by simp

lemma drop_append_exact: "length xs = n \<Longrightarrow> drop n (xs @ ys) = ys"
  by simp

end
