(* ===== verification/Machine.thy ===== *)
theory Machine
  imports Prelude
begin

text \<open>
  The machine the program runs on: a flat 64-bit byte memory shared by the Go runtime and the
  firmware, the Go objects the code takes the address of, and the firmware as a parameter.

  Go's \<^verbatim>\<open>&x\<close> of a fresh object is \<open>new_obj\<close>: the address of the k-th such object is
  \<open>place m k\<close>, an arbitrary function, because the Go runtime decides it. A slice whose first
  element's address is taken is \<open>new_slice\<close>. The state of the firmware and of the devices behind
  it is \<open>world\<close>, of an arbitrary type. \<open>calls\<close> records every call the program makes
  into the firmware, in order; nothing reads it but the theorems.
\<close>

section \<open>Definitions\<close>

type_synonym memory = "u64 \<Rightarrow> u8"

definition load_bytes :: "memory \<Rightarrow> u64 \<Rightarrow> nat \<Rightarrow> u8 list" where
  "load_bytes f a n = map (\<lambda>i. f (a + of_nat i)) [0..<n]"

definition store_bytes :: "u64 \<Rightarrow> u8 list \<Rightarrow> memory \<Rightarrow> memory" where
  "store_bytes a bs f = (\<lambda>x. let i = unat (x - a) in if i < length bs then bs ! i else f x)"

definition zero_fill :: "u64 \<Rightarrow> nat \<Rightarrow> memory \<Rightarrow> memory" where
  "zero_fill a n f = (\<lambda>x. if unat (x - a) < n then 0 else f x)"

definition load16 :: "memory \<Rightarrow> u64 \<Rightarrow> u16" where
  "load16 f a = of_nat (le_nat (load_bytes f a 2))"

definition load32 :: "memory \<Rightarrow> u64 \<Rightarrow> u32" where
  "load32 f a = of_nat (le_nat (load_bytes f a 4))"

definition load64 :: "memory \<Rightarrow> u64 \<Rightarrow> u64" where
  "load64 f a = of_nat (le_nat (load_bytes f a 8))"

definition store32 :: "u64 \<Rightarrow> u32 \<Rightarrow> memory \<Rightarrow> memory" where
  "store32 a v f = store_bytes a (le_bytes 4 (unat v)) f"

definition store64 :: "u64 \<Rightarrow> u64 \<Rightarrow> memory \<Rightarrow> memory" where
  "store64 a v f = store_bytes a (le_bytes 8 (unat v)) f"

text \<open>
  Two regions \<open>[a, a + n)\<close> and \<open>[b, b + k)\<close> of the (cyclic) address space are apart when
  neither starts inside the other.
\<close>

definition apart :: "u64 \<Rightarrow> nat \<Rightarrow> u64 \<Rightarrow> nat \<Rightarrow> bool" where
  "apart a n b k \<longleftrightarrow> n \<le> unat (b - a) \<and> k \<le> unat (a - b)"

text \<open>
  A call into the firmware: through a table entry (the address of the entry, the code address it
  held, the arguments), or straight to a code address.
\<close>

datatype efi_call = Indirect u64 u64 "u64 list" | Direct u64 "u64 list"

record 'w machine =
  mem :: memory
  place :: "nat \<Rightarrow> u64"
  objs :: nat
  stale :: u64 \<comment> \<open>what a result slot holds when assembly code returns without writing it\<close>
  calls :: "efi_call list"
  world :: 'w

text \<open>
  The firmware: what a function at a code address does with its arguments, the memory and the
  state of the world.
\<close>

type_synonym 'w firmware = "u64 \<Rightarrow> u64 list \<Rightarrow> memory \<Rightarrow> 'w \<Rightarrow> u64 \<times> memory \<times> 'w"

definition new_obj :: "nat \<Rightarrow> 'w machine \<Rightarrow> u64 \<times> 'w machine" where
  "new_obj n m = (place m (objs m),
     m\<lparr>objs := Suc (objs m), mem := zero_fill (place m (objs m)) n (mem m)\<rparr>)"

definition new_slice :: "u8 list \<Rightarrow> 'w machine \<Rightarrow> u64 \<times> 'w machine" where
  "new_slice bs m = (place m (objs m),
     m\<lparr>objs := Suc (objs m), mem := store_bytes (place m (objs m)) bs (mem m)\<rparr>)"

definition new_uint64 :: "u64 \<Rightarrow> 'w machine \<Rightarrow> u64 \<times> 'w machine" where
  "new_uint64 v m = new_slice (le_bytes 8 (unat v)) m"

text \<open>\<^verbatim>\<open>&buf[0]\<close>: taking the address of the first element panics on an empty slice.\<close>

definition first_elem :: "u8 list \<Rightarrow> 'w machine \<Rightarrow> (u64 \<times> 'w machine) option" where
  "first_elem bs m = (if bs = [] then None else Some (new_slice bs m))"

section \<open>Lemmas\<close>

subsection \<open>Reading and writing memory\<close>

lemma length_load_bytes [simp]: "length (load_bytes f a n) = n"
  by (simp add: load_bytes_def)

lemma load_bytes_empty_iff [simp]: "load_bytes f a n = [] \<longleftrightarrow> n = 0"
  by (simp add: load_bytes_def)

lemma load_bytes_0 [simp]: "load_bytes f a 0 = []"
  by (simp add: load_bytes_def)

lemma nth_load_bytes [simp]: "i < n \<Longrightarrow> load_bytes f a n ! i = f (a + of_nat i)"
  by (simp add: load_bytes_def)

lemma take_load_bytes: "k \<le> n \<Longrightarrow> take k (load_bytes f a n) = load_bytes f a k"
  by (simp add: load_bytes_def take_map min_absorb1)

lemma drop_load_bytes: "drop k (load_bytes f a n) = load_bytes f (a + of_nat k) (n - k)"
  by (rule nth_equalityI) (auto simp: ac_simps)

lemma load_bytes_add:
  "load_bytes f a (n + k) = load_bytes f a n @ load_bytes f (a + of_nat n) k"
  by (rule nth_equalityI) (auto simp: nth_append add.assoc simp flip: of_nat_add)

lemma unat_add_of_nat_diff: "i < 2 ^ 64 \<Longrightarrow> unat ((a::u64) + of_nat i - a) = i"
  by (simp add: unat_of_nat)

lemma load_store_same [mem_simps]:
  assumes "length bs \<le> 2 ^ 64"
  shows "load_bytes (store_bytes a bs f) a (length bs) = bs"
proof (rule nth_equalityI)
  fix i assume "i < length (load_bytes (store_bytes a bs f) a (length bs))"
  then have i: "i < length bs" by simp
  with assms have "unat (a + of_nat i - a) = i" by (intro unat_add_of_nat_diff) simp
  with i show "load_bytes (store_bytes a bs f) a (length bs) ! i = bs ! i"
    by (simp add: store_bytes_def)
qed simp

lemma load_store_sub:
  assumes "k + n \<le> length bs" "length bs \<le> 2 ^ 64"
  shows "load_bytes (store_bytes a bs f) (a + of_nat k) n = take n (drop k bs)"
proof -
  have "load_bytes (store_bytes a bs f) (a + of_nat k) n
      = take n (drop k (load_bytes (store_bytes a bs f) a (length bs)))"
    using assms(1) by (simp add: drop_load_bytes take_load_bytes)
  also have "\<dots> = take n (drop k bs)" by (subst load_store_same [OF assms(2)]) simp
  finally show ?thesis .
qed

lemma apart_sym: "apart a n b k \<longleftrightarrow> apart b k a n"
  by (auto simp: apart_def)

lemma apart_outside:
  assumes "apart a n b k" "unat (x - a) < n"
  shows "\<not> unat (x - b) < k"
proof -
  define d where "d = b - a"
  define e where "e = x - a"
  have de: "unat e < unat d" using assms by (simp add: apart_def d_def e_def)
  have "x - b = e - d" by (simp add: d_def e_def)
  moreover have "a - b = 0 - d" by (simp add: d_def)
  moreover have "unat (0 - d) \<le> unat (e - d)"
    using de unat_sub_if' [of 0 d] unat_sub_if' [of e d] by (simp split: if_splits)
  ultimately show ?thesis using assms(1) by (simp add: apart_def)
qed

lemma unat_sub_of_nat:
  assumes "i \<le> unat (x::u64)"
  shows "unat (x - of_nat i) = unat x - i"
proof -
  have "i < 2 ^ 64" using assms unat_less_width [of x] by simp
  then have "unat (of_nat i :: u64) = i" by (simp add: unat_of_nat)
  with assms show ?thesis by (simp add: unat_sub_if')
qed

lemma unat_diff_swap:
  "(a::u64) \<noteq> b \<Longrightarrow> unat (a - b) = 2 ^ 64 - unat (b - a)"
proof -
  assume "a \<noteq> b"
  then have "unat (b - a) \<noteq> 0" by (simp add: unat_eq_0)
  moreover have "a - b = 0 - (b - a)" by simp
  ultimately show ?thesis using unat_sub_if' [of 0 "b - a"] by simp
qed

lemma apart_sub:
  assumes "apart a n b k" "i + j \<le> n" "0 < j"
  shows "apart (a + of_nat i) j b k"
proof (cases "a = b")
  case True
  with assms show ?thesis by (simp add: apart_def)
next
  case False
  have n: "n \<le> unat (b - a)" and k: "k \<le> unat (a - b)" using assms(1) by (simp_all add: apart_def)
  have eq: "unat (b - (a + of_nat i)) = unat (b - a) - i"
    using unat_sub_of_nat [of i "b - a"] n assms(2) by (simp add: algebra_simps)
  then have pos: "b - (a + of_nat i) \<noteq> 0"
    using n assms(2,3) by (auto simp: unat_eq_0)
  then have "a + of_nat i \<noteq> b" by auto
  then have "unat (a + of_nat i - b) = 2 ^ 64 - (unat (b - a) - i)"
    using unat_diff_swap [of "a + of_nat i" b] eq by simp
  moreover have "unat (a - b) = 2 ^ 64 - unat (b - a)" using False by (rule unat_diff_swap)
  ultimately show ?thesis using eq n k assms(2) unfolding apart_def by auto
qed

lemma apart_from_diff:
  assumes "unat ((b::u64) - a) = d" "0 < d" "N \<le> d" "d + N \<le> 2 ^ 64"
  shows "apart a N b N"
proof -
  have "a \<noteq> b" using assms(1,2) by auto
  then have "unat (a - b) = 2 ^ 64 - d" using unat_diff_swap assms(1) by metis
  then show ?thesis using assms unfolding apart_def by linarith
qed

lemma apart_multiples:
  assumes "i < j" "S * Suc j < 2 ^ 63" "N \<le> S" "0 < S"
  shows "apart (of_nat (S * Suc i)) N (of_nat (S * Suc j)) N"
proof (rule apart_from_diff [where d = "S * (j - i)"])
  have pow: "(2::nat) ^ 63 < 2 ^ 64" by simp
  obtain k where k: "j = i + k" "0 < k" using assms(1) less_imp_add_positive by blast
  have le: "S * k \<le> S * Suc j" using k by (intro mult_le_mono2) simp
  have "of_nat (S * Suc j) - of_nat (S * Suc i) = (of_nat (S * k) :: u64)"
    by (simp add: k(1) algebra_simps)
  moreover have "unat (of_nat (S * k) :: u64) = S * k"
    using le assms(2) pow by (intro unat_of_nat_small_u64) linarith
  ultimately show "unat (of_nat (S * Suc j) - of_nat (S * Suc i) :: u64) = S * (j - i)"
    using k(1) by (metis add_diff_cancel_left')
  show "0 < S * (j - i)" using assms(1,4) by simp
  show "N \<le> S * (j - i)" using assms(1,3) by (metis Suc_leI zero_less_diff mult_le_mono2 le_trans nat_mult_1_right One_nat_def)
  show "S * (j - i) + N \<le> 2 ^ 64"
  proof -
    have "S * (j - i) + S \<le> S * Suc j" using assms(1) by (simp add: algebra_simps)
    then show ?thesis using assms(2,3) pow by linarith
  qed
qed

lemma load_store_apart [mem_simps]:
  assumes "apart a n b (length bs)" "n \<le> 2 ^ 64"
  shows "load_bytes (store_bytes b bs f) a n = load_bytes f a n"
proof (rule nth_equalityI)
  fix i assume "i < length (load_bytes (store_bytes b bs f) a n)"
  then have i: "i < n" by simp
  then have "unat (a + of_nat i - a) < n" using assms(2) by (subst unat_add_of_nat_diff) auto
  then have "\<not> unat (a + of_nat i - b) < length bs" by (rule apart_outside [OF assms(1)])
  with i show "load_bytes (store_bytes b bs f) a n ! i = load_bytes f a n ! i"
    by (simp add: store_bytes_def)
qed simp

lemma load_zero_apart [mem_simps]:
  assumes "apart a n b k" "n \<le> 2 ^ 64"
  shows "load_bytes (zero_fill b k f) a n = load_bytes f a n"
proof (rule nth_equalityI)
  fix i assume "i < length (load_bytes (zero_fill b k f) a n)"
  then have i: "i < n" by simp
  then have "unat (a + of_nat i - a) < n" using assms(2) by (subst unat_add_of_nat_diff) auto
  then have "\<not> unat (a + of_nat i - b) < k" by (rule apart_outside [OF assms(1)])
  with i show "load_bytes (zero_fill b k f) a n ! i = load_bytes f a n ! i"
    by (simp add: zero_fill_def)
qed simp

lemma load64_store64 [mem_simps]: "load64 (store64 a v f) a = v"
proof -
  have "load_bytes (store_bytes a (le_bytes 8 (unat v)) f) a (length (le_bytes 8 (unat v)))
      = le_bytes 8 (unat v)"
    by (rule load_store_same) simp
  then have "load_bytes (store_bytes a (le_bytes 8 (unat v)) f) a 8 = le_bytes 8 (unat v)"
    by (simp del: le_bytes.simps)
  then show ?thesis by (simp add: load64_def store64_def le_nat_le_bytes)
qed

lemma load32_store32 [mem_simps]: "load32 (store32 a v f) a = v"
proof -
  have "load_bytes (store_bytes a (le_bytes 4 (unat v)) f) a (length (le_bytes 4 (unat v)))
      = le_bytes 4 (unat v)"
    by (rule load_store_same) simp
  then have "load_bytes (store_bytes a (le_bytes 4 (unat v)) f) a 4 = le_bytes 4 (unat v)"
    by (simp del: le_bytes.simps)
  then show ?thesis by (simp add: load32_def store32_def le_nat_le_bytes)
qed

lemma load64_store64_apart [mem_simps]:
  "apart a 8 b 8 \<Longrightarrow> load64 (store64 b v f) a = load64 f a"
  by (simp add: load64_def store64_def load_store_apart)

lemma load64_store_apart [mem_simps]:
  "apart a 8 b (length bs) \<Longrightarrow> load64 (store_bytes b bs f) a = load64 f a"
  by (simp add: load64_def load_store_apart)

lemma load64_store32_apart [mem_simps]:
  "apart a 8 b 4 \<Longrightarrow> load64 (store32 b v f) a = load64 f a"
  by (simp add: load64_def store32_def load_store_apart)

lemma load32_store64_apart [mem_simps]:
  "apart a 4 b 8 \<Longrightarrow> load32 (store64 b v f) a = load32 f a"
  by (simp add: load32_def store64_def load_store_apart)

subsection \<open>Frame facts of the Go object operations\<close>

lemma new_obj_frame [simp]:
  "fst (new_obj n m) = place m (objs m)"
  "calls (snd (new_obj n m)) = calls m"
  "world (snd (new_obj n m)) = world m"
  "place (snd (new_obj n m)) = place m"
  by (simp_all add: new_obj_def)

lemma new_slice_frame [simp]:
  "fst (new_slice bs m) = place m (objs m)"
  "calls (snd (new_slice bs m)) = calls m"
  "world (snd (new_slice bs m)) = world m"
  "place (snd (new_slice bs m)) = place m"
  by (simp_all add: new_slice_def)

lemma first_elem_Some:
  "first_elem bs m = Some r \<longleftrightarrow> bs \<noteq> [] \<and> r = new_slice bs m"
  by (auto simp: first_elem_def)

end
