(* ===== verification/Calling.thy ===== *)
theory Calling
  imports Machine
begin

text \<open>
  Calls into the firmware: \<^verbatim>\<open>pkg/ueficore/uefi.go\<close> (\<^verbatim>\<open>CallService\<close>,
  \<^verbatim>\<open>CallServiceTable\<close>, \<^verbatim>\<open>ptrval\<close>), the assembly routine \<^verbatim>\<open>callFn\<close> of
  \<^verbatim>\<open>pkg/ueficore/uefi.s\<close>, and the status codes of \<^verbatim>\<open>pkg/ueficore/error.go\<close>.

  The rest of the development sees a call as \<open>callFn\<close>: the code address is loaded from the
  table entry and the firmware gets the argument list. \<open>asm_callFn\<close> is the assembly routine
  itself, from its first instruction to the \<^verbatim>\<open>CALL\<close>; \<open>asm_callFn_args\<close> shows that the
  registers and stack slots the Microsoft x64 convention assigns to the arguments hold exactly
  that list. The mutex around the call is not modelled: the program has one goroutine.
\<close>

section \<open>Definitions\<close>

subsection \<open>uefi.go: pointers and calls\<close>

text \<open>The dynamic types \<^verbatim>\<open>ptrval\<close> distinguishes; \<open>PtrOther\<close> stands for any other.\<close>

datatype goptr =
    PtrUint64 u64
  | PtrUint32 u64
  | PtrUint16 u64
  | PtrByte u64
  | PtrInputKey u64
  | PtrOther u64

fun ptrval :: "goptr \<Rightarrow> u64 option" where
  "ptrval (PtrUint64 p) = Some p"
| "ptrval (PtrUint32 p) = Some p"
| "ptrval (PtrUint16 p) = Some p"
| "ptrval (PtrByte p) = Some p"
| "ptrval (PtrInputKey p) = Some p"
| "ptrval (PtrOther p) = None"

definition Ptrval :: "goptr \<Rightarrow> u64 option" where
  "Ptrval p = ptrval p"

definition callFn :: "'w firmware \<Rightarrow> u64 \<Rightarrow> u64 list \<Rightarrow> 'w machine \<Rightarrow> u64 \<times> 'w machine" where
  "callFn fw fn args m =
     (if args = [] then (stale m, m)
      else let code = load64 (mem m) fn;
               (status, f, w) = fw code args (mem m) (world m)
           in (status, m\<lparr>mem := f, world := w, calls := calls m @ [Indirect fn code args]\<rparr>))"

definition CallService :: "'w firmware \<Rightarrow> u64 \<Rightarrow> u64 list \<Rightarrow> 'w machine \<Rightarrow> u64 \<times> 'w machine" where
  "CallService fw fn args m = callFn fw fn args m"

definition CallServiceTable ::
    "'w firmware \<Rightarrow> u64 \<Rightarrow> int \<Rightarrow> u64 list \<Rightarrow> 'w machine \<Rightarrow> u64 \<times> 'w machine" where
  "CallServiceTable fw tablePtr idx args m =
     callFn fw (tablePtr + 24 + word_of_int (8 * idx)) args m"

subsection \<open>uefi.s: the call sequence\<close>

record asm_state =
  RCX :: u64
  RDX :: u64
  R8 :: u64
  R9 :: u64
  RSP :: u64
  amem :: memory

text \<open>
  The \<^verbatim>\<open>push:\<close> loop: \<open>R13\<close> counts down, \<open>R12\<close> walks down the argument array, each round
  pushes the quadword \<open>R12\<close> points to.
\<close>

fun asm_push :: "nat \<Rightarrow> u64 \<Rightarrow> asm_state \<Rightarrow> asm_state" where
  "asm_push 0 r12 r = r"
| "asm_push (Suc r13) r12 r =
     asm_push r13 (r12 - 8)
       (r\<lparr>RSP := RSP r - 8, amem := store64 (RSP r - 8) (load64 (amem r) (r12 - 8)) (amem r)\<rparr>)"

text \<open>The \<^verbatim>\<open>call:\<close> label: stack alignment and shadow space.\<close>

definition asm_shadow :: "asm_state \<Rightarrow> asm_state" where
  "asm_shadow r = r\<lparr>RSP := (RSP r AND NOT 15) - 32\<rparr>"

text \<open>
  \<^verbatim>\<open>callFn\<close> up to the \<^verbatim>\<open>CALL\<close>: \<open>n\<close> is the number of arguments, \<open>p\<close> the address of the
  array. \<open>None\<close> is the jump to \<^verbatim>\<open>ret:\<close> without a call.
\<close>

definition asm_callFn :: "nat \<Rightarrow> u64 \<Rightarrow> asm_state \<Rightarrow> asm_state option" where
  "asm_callFn n p r =
     (if n = 0 \<or> p = 0 then None
      else let r = r\<lparr>RCX := load64 (amem r) p\<rparr> in
      if n = 1 then Some (asm_shadow r)
      else let r = r\<lparr>RDX := load64 (amem r) (p + 8)\<rparr> in
      if n = 2 then Some (asm_shadow r)
      else let r = r\<lparr>R8 := load64 (amem r) (p + 16)\<rparr> in
      if n = 3 then Some (asm_shadow r)
      else let r = r\<lparr>R9 := load64 (amem r) (p + 24)\<rparr> in
      if n = 4 then Some (asm_shadow r)
      else let r13 = n - 4;
               r12 = p + 24 + of_nat (8 * (r13 + 1));
               r = r\<lparr>RSP := RSP r AND NOT 15\<rparr>;
               r = (if r13 = r13 mod 2
                    then r\<lparr>RSP := RSP r - 8, amem := store64 (RSP r - 8) 0 (amem r)\<rparr> else r);
               r = asm_push r13 r12 r
           in Some (r\<lparr>RSP := RSP r - 32\<rparr>))"

text \<open>
  The arguments a callee with \<open>n\<close> parameters finds under the Microsoft x64 convention: four
  registers, then the quadwords above the 32 bytes of shadow space.
\<close>

definition frame_args :: "nat \<Rightarrow> 'a asm_state_scheme \<Rightarrow> u64 list" where
  "frame_args n r = take n ([RCX r, RDX r, R8 r, R9 r]
     @ map (\<lambda>i. load64 (amem r) (RSP r + 32 + 8 * of_nat i)) [0..<n - 4])"

text \<open>The argument array at address \<open>p\<close>.\<close>

definition args_at :: "memory \<Rightarrow> u64 \<Rightarrow> u64 list \<Rightarrow> bool" where
  "args_at f p args \<longleftrightarrow> (\<forall>i<length args. load64 f (p + 8 * of_nat i) = args ! i)"

subsection \<open>error.go\<close>

definition EFI_SUCCESS :: u64 where "EFI_SUCCESS = 0"
definition EFI_LOAD_ERROR :: u64 where "EFI_LOAD_ERROR = 1"
definition EFI_INVALID_PARAMETER :: u64 where "EFI_INVALID_PARAMETER = 2"
definition EFI_BUFFER_TOO_SMALL :: u64 where "EFI_BUFFER_TOO_SMALL = 5"
definition EFI_NOT_READY :: u64 where "EFI_NOT_READY = 6"
definition EFI_DEVICE_ERROR :: u64 where "EFI_DEVICE_ERROR = 7"
definition EFI_NOT_FOUND :: u64 where "EFI_NOT_FOUND = 14"

definition parseStatus :: "u64 \<Rightarrow> gerr option" where
  "parseStatus status =
     (let code = status AND 255
      in if status \<noteq> EFI_SUCCESS then Some (EfiStatusErr status code) else None)"

text \<open>A frame with six arguments, for the concrete instances below.\<close>

definition demo_frame :: asm_state where
  "demo_frame = \<lparr>RCX = 0, RDX = 0, R8 = 0, R9 = 0, RSP = 36864, amem =
     store64 4096 10 (store64 4104 20 (store64 4112 30 (store64 4120 40
       (store64 4128 50 (store64 4136 60 (\<lambda>_. 0))))))\<rparr>"

section \<open>Lemmas\<close>

subsection \<open>Status codes\<close>

lemma parseStatus_None [simp]: "parseStatus st = None \<longleftrightarrow> st = 0"
  by (simp add: parseStatus_def EFI_SUCCESS_def)

lemma parseStatus_zero [simp]: "parseStatus 0 = None"
  by simp

lemma parseStatus_Some:
  "parseStatus st = Some e \<longleftrightarrow> st \<noteq> 0 \<and> e = EfiStatusErr st (st AND 255)"
  by (auto simp: parseStatus_def EFI_SUCCESS_def)

subsection \<open>Calls\<close>

lemma CallService_nonempty:
  "args \<noteq> [] \<Longrightarrow> CallService fw fn args m =
     (case fw (load64 (mem m) fn) args (mem m) (world m) of (status, f, w) \<Rightarrow>
       (status, m\<lparr>mem := f, world := w,
                  calls := calls m @ [Indirect fn (load64 (mem m) fn) args]\<rparr>))"
  by (simp add: CallService_def callFn_def Let_def)

lemma CallService_log:
  "args \<noteq> [] \<Longrightarrow>
   calls (snd (CallService fw fn args m)) = calls m @ [Indirect fn (load64 (mem m) fn) args]"
  by (simp add: CallService_nonempty split: prod.splits)

lemma CallService_frame [simp]:
  "place (snd (CallService fw fn args m)) = place m"
  "objs (snd (CallService fw fn args m)) = objs m"
  by (simp_all add: CallService_def callFn_def Let_def split: prod.splits)

subsection \<open>The assembly call sequence\<close>

lemma unat_8_times: "k < 2 ^ 60 \<Longrightarrow> unat (8 * of_nat k :: u64) = 8 * k"
  by (simp add: unat_word_ariths unat_of_nat)

lemma unat_neg_8_times: "0 < k \<Longrightarrow> k < 2 ^ 60 \<Longrightarrow> unat (- (8 * of_nat k) :: u64) = 2 ^ 64 - 8 * k"
  using unat_sub_if' [of 0 "8 * of_nat k :: u64"] by (simp add: unat_8_times)

lemma asm_push_regs [simp]:
  "RCX (asm_push k q r) = RCX r" "RDX (asm_push k q r) = RDX r"
  "R8 (asm_push k q r) = R8 r" "R9 (asm_push k q r) = R9 r"
  by (induction k q r rule: asm_push.induct) simp_all

lemma asm_push_RSP: "RSP (asm_push k q r) = RSP r - 8 * of_nat k"
  by (induction k q r rule: asm_push.induct) (simp_all add: algebra_simps)

text \<open>A stack of \<open>k\<close> quadwords below \<open>sp\<close>: its slots and its top part.\<close>

lemma apart_stack_slot:
  assumes "apart x n (sp - 8 * of_nat k) (8 * k)" "j < k"
  shows "apart x n (sp - 8 * of_nat k + 8 * of_nat j) 8"
proof -
  have "apart (sp - 8 * of_nat k + of_nat (8 * j)) 8 x n"
    by (rule apart_sub [of _ "8 * k"]) (use assms in \<open>auto simp: apart_sym\<close>)
  then show ?thesis by (simp add: apart_sym)
qed

lemma asm_push_outside:
  assumes "apart x 8 (RSP r - 8 * of_nat k) (8 * k)"
  shows "load64 (amem (asm_push k q r)) x = load64 (amem r) x"
  using assms
proof (induction k q r rule: asm_push.induct)
  case (2 k q r)
  let ?r = "r\<lparr>RSP := RSP r - 8, amem := store64 (RSP r - 8) (load64 (amem r) (q - 8)) (amem r)\<rparr>"
  have top: "apart x 8 (RSP r - 8) 8"
    using apart_stack_slot [OF "2.prems", of k] by (simp add: algebra_simps)
  have rest: "apart x 8 (RSP ?r - 8 * of_nat k) (8 * k)"
  proof (cases "k = 0")
    case True
    with top show ?thesis by (simp add: apart_def)
  next
    case False
    have "apart (RSP r - 8 * of_nat (Suc k) + of_nat 0) (8 * k) x 8"
      by (rule apart_sub [of _ "8 * Suc k"]) (use "2.prems" False in \<open>auto simp: apart_sym\<close>)
    then show ?thesis by (simp add: apart_sym algebra_simps)
  qed
  from "2.IH" [OF rest] top show ?case by (simp add: load64_store64_apart)
qed simp

lemma asm_push_slot:
  assumes "apart (RSP r - 8 * of_nat k) (8 * k) (q - 8 * of_nat k) (8 * k)" "i < k" "k < 2 ^ 32"
  shows "load64 (amem (asm_push k q r)) (RSP r - 8 * of_nat k + 8 * of_nat i)
       = load64 (amem r) (q - 8 * of_nat k + 8 * of_nat i)"
  using assms
proof (induction k q r rule: asm_push.induct)
  case (2 k q r)
  let ?r = "r\<lparr>RSP := RSP r - 8, amem := store64 (RSP r - 8) (load64 (amem r) (q - 8)) (amem r)\<rparr>"
  show ?case
  proof (cases "i = k")
    case True
    have "load64 (amem (asm_push k (q - 8) ?r)) (RSP r - 8) = load64 (amem ?r) (RSP r - 8)"
    proof (cases "k = 0")
      case False
      with "2.prems"(3) have "apart (RSP r - 8) 8 (RSP ?r - 8 * of_nat k) (8 * k)"
        using unat_neg_8_times [of k] by (simp add: apart_def unat_8_times)
      then show ?thesis by (rule asm_push_outside)
    qed simp
    with True show ?thesis by (simp add: load64_store64 algebra_simps)
  next
    case False
    with "2.prems"(2) have i: "i < k" by simp
    have big: "apart (RSP r - 8 * of_nat (Suc k)) (8 * Suc k) (q - 8 * of_nat (Suc k)) (8 * Suc k)"
      using "2.prems"(1) .
    have half: "apart (RSP r - 8 * of_nat (Suc k) + of_nat 0) (8 * k)
        (q - 8 * of_nat (Suc k)) (8 * Suc k)"
      by (rule apart_sub [OF big]) (use i in auto)
    have small: "apart (RSP ?r - 8 * of_nat k) (8 * k) (q - 8 - 8 * of_nat k) (8 * k)"
      using apart_sub [of "q - 8 * of_nat (Suc k)" "8 * Suc k" "RSP r - 8 * of_nat (Suc k)" "8 * k"
          0 "8 * k"] half i
      by (simp add: apart_sym algebra_simps)
    have "load64 (amem (asm_push k (q - 8) ?r)) (RSP ?r - 8 * of_nat k + 8 * of_nat i)
        = load64 (amem ?r) (q - 8 - 8 * of_nat k + 8 * of_nat i)"
      by (rule "2.IH" [OF small i]) (use "2.prems"(3) in simp)
    moreover have "apart (q - 8 * of_nat (Suc k) + 8 * of_nat i) 8 (RSP r - 8) 8"
    proof -
      have "apart (RSP r - 8 * of_nat (Suc k) + of_nat (8 * k)) 8 (q - 8 * of_nat (Suc k)) (8 * Suc k)"
        by (rule apart_sub [OF big]) auto
      then have "apart (RSP r - 8) 8 (q - 8 * of_nat (Suc k)) (8 * Suc k)"
        by (simp add: algebra_simps)
      then have "apart (RSP r - 8) 8 (q - 8 * of_nat (Suc k) + 8 * of_nat i) 8"
        by (rule apart_stack_slot) (use i in simp)
      then show ?thesis by (simp add: apart_sym)
    qed
    ultimately show ?thesis by (simp add: load64_store64_apart algebra_simps)
  qed
qed simp

lemma uint_and_not_15_mod: "uint ((sp::u64) AND - 16) mod 16 = 0"
proof -
  have "take_bit 4 (sp AND NOT (mask 4)) = 0"
    by (rule bit_eqI) (auto simp add: bit_simps)
  then have "take_bit 4 (uint (sp AND NOT (mask 4))) = 0"
    by (metis take_bit_eq_mod unsigned_0 unsigned_take_bit_eq)
  moreover have "(mask 4 :: u64) = 15" by (simp add: mask_eq_decr_exp)
  ultimately show ?thesis by (simp add: take_bit_eq_mod)
qed

lemma and_not_minus: "(x::u64) AND NOT y = x - (x AND y)"
  by (subst disjunctive_diff_eq_and_not) (auto simp: bit_eq_iff bit_simps)

lemma unat_and_15: "unat ((sp::u64) AND 15) \<le> 15"
  using word_and_le1 [of sp 15] by (simp add: word_le_nat_alt)

lemma uint_diff_mod_16: "uint ((x::u64) - y) mod 16 = (uint x mod 16 - uint y mod 16) mod 16"
  by (simp add: uint_word_ariths mod_mod_cancel mod_diff_eq)

lemma uint_8_times_mod_16: "uint (8 * of_nat k :: u64) mod 16 = (if even k then 0 else 8)"
proof -
  have "(8 * of_nat k :: u64) = word_of_int (8 * int k)" by simp
  then have "uint (8 * of_nat k :: u64) = (8 * int k) mod 2 ^ 64"
    by (simp only: uint_word_of_int) simp
  then have "uint (8 * of_nat k :: u64) mod 16 = (8 * int k) mod 16"
    by (simp add: mod_mod_cancel)
  also have "\<dots> = (if even k then 0 else 8)" by presburger
  finally show ?thesis .
qed

lemma shadow_aligned: "uint (RSP (asm_shadow r)) mod 16 = 0"
  by (simp add: asm_shadow_def uint_diff_mod_16 uint_and_not_15_mod del: uint_and)

lemma four_and_rest:
  assumes "4 \<le> length xs"
  shows "xs = [xs ! 0, xs ! 1, xs ! 2, xs ! 3] @ map (\<lambda>i. xs ! (4 + i)) [0..<length xs - 4]"
proof -
  obtain a b c d ys where "xs = a # b # c # d # ys"
    using assms by (auto simp: Suc_le_length_iff numeral_eq_Suc)
  then show ?thesis by (simp add: map_nth)
qed

lemma args_at_nth: "args_at f p args \<Longrightarrow> i < length args \<Longrightarrow> load64 f (p + 8 * of_nat i) = args ! i"
  by (simp add: args_at_def)

lemma args_at_Nil: "args_at f p []"
  by (simp add: args_at_def)

lemma args_at_Cons: "args_at f p (a # as) \<longleftrightarrow> load64 f p = a \<and> args_at f (p + 8) as"
  by (auto simp: args_at_def All_less_Suc2 algebra_simps)

lemma args_at_regs:
  assumes "args_at f p args"
  shows "0 < length args \<Longrightarrow> load64 f p = args ! 0"
    and "1 < length args \<Longrightarrow> load64 f (p + 8) = args ! 1"
    and "2 < length args \<Longrightarrow> load64 f (p + 16) = args ! 2"
    and "3 < length args \<Longrightarrow> load64 f (p + 24) = args ! 3"
  using args_at_nth [OF assms, of 0] args_at_nth [OF assms, of 1]
    args_at_nth [OF assms, of 2] args_at_nth [OF assms, of 3] by simp_all

text \<open>
  The stack below \<open>sp\<close> is disjoint from the argument array: so are the pad quadword and the
  slots the \<^verbatim>\<open>push:\<close> loop fills.
\<close>

lemma stack_part:
  assumes "apart (sp - 8 * of_nat n) (8 * n) p l" "d + j \<le> 8 * n" "0 < j"
  shows "apart (sp - of_nat d - of_nat j) j p l"
proof -
  have "apart (sp - 8 * of_nat n + of_nat (8 * n - d - j)) j p l"
    by (rule apart_sub [OF assms(1)]) (use assms(2,3) in auto)
  moreover have "sp - 8 * of_nat n + of_nat (8 * n - d - j) = sp - of_nat d - of_nat j"
    using assms(2) by (simp add: of_nat_diff)
  ultimately show ?thesis by metis
qed

lemma args_at_store:
  assumes "args_at f p args" "apart x 8 p (8 * length args)"
  shows "args_at (store64 x v f) p args"
  unfolding args_at_def
proof (intro allI impI)
  fix i assume i: "i < length args"
  have "apart (p + of_nat (8 * i)) 8 x 8"
    by (rule apart_sub [of p "8 * length args"]) (use assms(2) i in \<open>auto simp: apart_sym\<close>)
  then show "load64 (store64 x v f) (p + 8 * of_nat i) = args ! i"
    using args_at_nth [OF assms(1) i] by (simp add: load64_store64_apart)
qed

text \<open>Pushing the arguments from the fifth on puts them above the final stack pointer.\<close>

lemma asm_push_args:
  assumes args: "args_at (amem r) p args" and k: "length args = k + 4" "0 < k" "k < 2 ^ 32"
    and room: "apart (RSP r - 8 * of_nat k) (8 * k) p (8 * (k + 4))" and i: "i < k"
  defines "r' \<equiv> asm_push k (p + 8 * of_nat (k + 4)) r"
  shows "load64 (amem r') (RSP r' + 8 * of_nat i) = args ! (4 + i)"
proof -
  have q: "p + 8 * of_nat (k + 4) - 8 * of_nat k = p + of_nat 32" by simp
  have "apart (p + of_nat 32) (8 * k) (RSP r - 8 * of_nat k) (8 * k)"
    by (rule apart_sub [of _ "8 * (k + 4)"]) (use room k(2) in \<open>auto simp: apart_sym\<close>)
  then have "apart (RSP r - 8 * of_nat k) (8 * k) (p + 8 * of_nat (k + 4) - 8 * of_nat k) (8 * k)"
    unfolding q by (simp add: apart_sym)
  from asm_push_slot [OF this i k(3)]
  have "load64 (amem r') (RSP r' + 8 * of_nat i) = load64 (amem r) (p + 8 * of_nat (4 + i))"
    unfolding q r'_def by (simp add: asm_push_RSP algebra_simps)
  also have "\<dots> = args ! (4 + i)" by (rule args_at_nth [OF args]) (use i k in simp)
  finally show ?thesis .
qed

lemma asm_callFn_stack:
  assumes args: "args_at (amem r) p args" and n: "4 < length args" "length args < 2 ^ 32"
    and ap: "apart (RSP r - 8 * of_nat (length args)) (8 * length args) p (8 * length args)"
    and p: "p \<noteq> 0"
  shows "\<exists>r'. asm_callFn (length args) p r = Some r' \<and> frame_args (length args) r' = args"
proof -
  define k where "k = length args - 4"
  have k: "length args = k + 4" "0 < k" "k < 2 ^ 32" using n by (simp_all add: k_def)
  define pad where "pad = (k = k mod 2)"
  define a where "a = unat (RSP r AND 15)"
  have a: "a \<le> 15" using unat_and_15 [of "RSP r"] by (simp add: a_def)
  have sp: "RSP r AND NOT 15 = RSP r - of_nat a" by (simp only: and_not_minus a_def) simp
  define d where "d = a + (if pad then 8 else 0)"
  define f where "f = (if pad then store64 (RSP r - of_nat d) 0 (amem r) else amem r)"
  define r2 where "r2 = r\<lparr>RCX := args ! 0, RDX := args ! 1, R8 := args ! 2, R9 := args ! 3,
     RSP := RSP r - of_nat d, amem := f\<rparr>"
  define r3 where "r3 = asm_push k (p + 8 * of_nat (k + 4)) r2"
  have run: "asm_callFn (length args) p r = Some (r3\<lparr>RSP := RSP r3 - 32\<rparr>)"
    using k p args_at_regs [OF args]
    by (simp add: asm_callFn_def Let_def r3_def r2_def f_def d_def sp [simplified] pad_def
        algebra_simps)
  have "args_at f p args"
    using stack_part [OF ap, of a 8] args_at_store [OF args] a k
    by (simp add: f_def d_def args algebra_simps)
  moreover have "apart (RSP r2 - 8 * of_nat k) (8 * k) p (8 * (k + 4))"
    using stack_part [OF ap, of d "8 * k"] a k by (simp add: r2_def d_def)
  ultimately have slot: "load64 (amem r3) (RSP r3 + 8 * of_nat i) = args ! (4 + i)" if "i < k" for i
    unfolding r3_def by (intro asm_push_args k that) (simp_all add: r2_def)
  have "frame_args (length args) (r3\<lparr>RSP := RSP r3 - 32\<rparr>)
      = [args ! 0, args ! 1, args ! 2, args ! 3] @ map (\<lambda>i. args ! (4 + i)) [0..<length args - 4]"
    using slot k by (simp add: frame_args_def r3_def r2_def)
  also have "\<dots> = args" using four_and_rest [of args] n by simp
  finally show ?thesis using run by blast
qed

lemma asm_callFn_regs:
  assumes "args_at (amem r) p args" "0 < length args" "length args \<le> 4" "p \<noteq> 0"
  shows "\<exists>r'. asm_callFn (length args) p r = Some r' \<and> frame_args (length args) r' = args"
proof -
  have "length args = 1 \<or> length args = 2 \<or> length args = 3 \<or> length args = 4"
    using assms(2,3) by linarith
  then show ?thesis using args_at_regs [OF assms(1)] assms(4)
    by (auto simp: asm_callFn_def asm_shadow_def frame_args_def length_Suc_conv numeral_eq_Suc)
qed

section \<open>Properties\<close>

text \<open>
  Claim C12: argument passing. When the argument array and the stack below the stack pointer do not
  overlap, the assembly routine reaches its \<^verbatim>\<open>CALL\<close> with the registers and stack slots the
  Microsoft x64 convention assigns to the parameters holding exactly the arguments, in order, for
  every number of arguments.
\<close>

theorem callFn_passes_arguments:
  assumes "args_at (amem r) p args" "args \<noteq> []" "length args < 2 ^ 32" "p \<noteq> 0"
    and "apart (RSP r - 8 * of_nat (length args)) (8 * length args) p (8 * length args)"
  shows "\<exists>r'. asm_callFn (length args) p r = Some r' \<and> frame_args (length args) r' = args"
proof (cases "length args \<le> 4")
  case True
  then show ?thesis using asm_callFn_regs [OF assms(1)] assms(2,4) by simp
next
  case False
  then show ?thesis using asm_callFn_stack [OF assms(1)] assms(3,4,5) by simp
qed

theorem callFn_passes_arguments_witness:
  "\<exists>r'. asm_callFn (length [10, 20, 30, 40, 50, 60 :: u64]) 4096 demo_frame = Some r'
     \<and> frame_args (length [10, 20, 30, 40, 50, 60 :: u64]) r' = [10, 20, 30, 40, 50, 60]"
proof (rule callFn_passes_arguments)
  show "args_at (amem demo_frame) 4096 [10, 20, 30, 40, 50, 60]"
    by (simp add: args_at_Nil args_at_Cons demo_frame_def mem_simps apart_def)
qed (simp_all add: demo_frame_def apart_def)

text \<open>
  Claim C28: stack alignment at the call. The routine aligns the stack pointer to 16 bytes, as the
  x86-64 ABI requires, exactly for up to five arguments and for even numbers of arguments: the
  pad quadword is pushed only when one argument goes on the stack, not for every odd number, so
  seven or nine arguments would misalign the stack.
\<close>

theorem callFn_stack_alignment:
  assumes "0 < n" "p \<noteq> 0"
  shows "\<exists>r'. asm_callFn n p r = Some r' \<and> (uint (RSP r') mod 16 = 0 \<longleftrightarrow> n \<le> 5 \<or> even n)"
proof (cases "n \<le> 4")
  case True
  then have "n \<in> {1, 2, 3, 4}" using assms(1) by auto
  then show ?thesis using assms(2) by (auto simp: asm_callFn_def shadow_aligned)
next
  case False
  define k where "k = n - 4"
  have k: "n = k + 4" "0 < k" using False by (simp_all add: k_def)
  have pad: "k = k mod 2 \<longleftrightarrow> k = 1" using k(2) by (auto simp: mod2_eq_if)
  obtain r' where run: "asm_callFn n p r = Some r'"
    and sp: "RSP r' = (RSP r AND NOT 15) - 8 * of_nat (if k = 1 then 1 else 0) - 8 * of_nat k - 32"
  proof (cases "k = 1")
    case True
    then show ?thesis using that assms(2) k by (simp add: asm_callFn_def Let_def asm_push_RSP)
  next
    case False
    then show ?thesis using that assms(2) k pad by (simp add: asm_callFn_def Let_def asm_push_RSP)
  qed
  have "uint (RSP r') mod 16 = 0 \<longleftrightarrow> k = 1 \<or> even k"
    unfolding sp uint_diff_mod_16 uint_8_times_mod_16
    by (simp add: uint_and_not_15_mod del: uint_and)
  then show ?thesis using run k by (auto simp: le_Suc_eq)
qed

theorem callFn_stack_alignment_witness:
  "\<exists>r'. asm_callFn 7 4096 demo_frame = Some r' \<and> (uint (RSP r') mod 16 = 0 \<longleftrightarrow> 7 \<le> (5::nat) \<or> even (7::nat))"
  by (rule callFn_stack_alignment) simp_all

end
