(* ===== verification/Go_Text.thy ===== *)
theory Go_Text
  imports Prelude
begin

text \<open>
  What the program uses of Go's string handling. A Go string is a byte string (\<open>u8 list\<close>), a
  rune is a code point (\<open>nat\<close>). Modelled after the language specification and the standard
  library: conversion of a string to runes (UTF-8 with U+FFFD for every byte that starts no valid
  sequence), \<^verbatim>\<open>utf8.EncodeRune\<close>, \<^verbatim>\<open>utf16.Encode\<close>, \<^verbatim>\<open>utf16.Decode\<close>,
  \<^verbatim>\<open>hex.DecodeString\<close>, the hexadecimal verbs of \<^verbatim>\<open>fmt\<close>, \<^verbatim>\<open>strconv.Atoi\<close> and
  \<^verbatim>\<open>bytes.SplitN\<close>.
\<close>

section \<open>Definitions\<close>

type_synonym gostring = "u8 list"
type_synonym rune = nat

definition lit :: "string \<Rightarrow> gostring" where
  "lit s = map of_char s"

subsection \<open>UTF-8\<close>

definition rune_error :: rune where "rune_error = 65533"

definition in_range :: "nat \<Rightarrow> nat \<Rightarrow> u8 \<Rightarrow> bool" where
  "in_range lo hi b \<longleftrightarrow> lo \<le> unat b \<and> unat b \<le> hi"

definition low6 :: "u8 \<Rightarrow> nat" where
  "low6 b = unat b mod 64"

text \<open>The first rune of a non-empty string and the number of bytes it takes.\<close>

definition decode_rune :: "gostring \<Rightarrow> rune \<times> nat" where
  "decode_rune s = (case s of
     [] \<Rightarrow> (rune_error, 0)
   | p # rest \<Rightarrow>
      if unat p < 128 then (unat p, 1)
      else if in_range 194 223 p then
        (case rest of
           b1 # _ \<Rightarrow> if in_range 128 191 b1 then (unat p mod 32 * 64 + low6 b1, 2) else (rune_error, 1)
         | _ \<Rightarrow> (rune_error, 1))
      else if in_range 224 239 p then
        (case rest of
           b1 # b2 # _ \<Rightarrow>
             if in_range (if unat p = 224 then 160 else 128) (if unat p = 237 then 159 else 191) b1
                \<and> in_range 128 191 b2
             then ((unat p mod 16 * 64 + low6 b1) * 64 + low6 b2, 3) else (rune_error, 1)
         | _ \<Rightarrow> (rune_error, 1))
      else if in_range 240 244 p then
        (case rest of
           b1 # b2 # b3 # _ \<Rightarrow>
             if in_range (if unat p = 240 then 144 else 128) (if unat p = 244 then 143 else 191) b1
                \<and> in_range 128 191 b2 \<and> in_range 128 191 b3
             then (((unat p mod 8 * 64 + low6 b1) * 64 + low6 b2) * 64 + low6 b3, 4)
             else (rune_error, 1)
         | _ \<Rightarrow> (rune_error, 1))
      else (rune_error, 1))"

lemma decode_rune_size: "s \<noteq> [] \<Longrightarrow> 0 < snd (decode_rune s)"
  by (auto simp: decode_rune_def split: list.splits)

text \<open>\<^verbatim>\<open>[]rune(s)\<close>.\<close>

function runes :: "gostring \<Rightarrow> rune list" where
  "runes s = (if s = [] then [] else fst (decode_rune s) # runes (drop (snd (decode_rune s)) s))"
  by pat_completeness auto
termination
  by (relation "measure length") (auto intro!: diff_less decode_rune_size)

declare runes.simps [simp del]

definition utf8_encode :: "rune \<Rightarrow> gostring" where
  "utf8_encode r =
     (if r < 128 then [of_nat r]
      else if r < 2048 then [of_nat (192 + r div 64), of_nat (128 + r mod 64)]
      else if r > 1114111 \<or> 55296 \<le> r \<and> r < 57344 then [239, 191, 189]
      else if r < 65536 then
        [of_nat (224 + r div 4096), of_nat (128 + r div 64 mod 64), of_nat (128 + r mod 64)]
      else [of_nat (240 + r div 262144), of_nat (128 + r div 4096 mod 64),
            of_nat (128 + r div 64 mod 64), of_nat (128 + r mod 64)])"

text \<open>A Unicode scalar value: a code point that is not a surrogate.\<close>

definition scalar :: "rune \<Rightarrow> bool" where
  "scalar r \<longleftrightarrow> r \<le> 1114111 \<and> \<not> (55296 \<le> r \<and> r < 57344)"

subsection \<open>UTF-16\<close>

definition utf16_units :: "rune \<Rightarrow> u16 list" where
  "utf16_units r =
     (if r < 55296 \<or> 57344 \<le> r \<and> r < 65536 then [of_nat r]
      else if 65536 \<le> r \<and> r \<le> 1114111
      then [of_nat (55296 + (r - 65536) div 1024 mod 1024), of_nat (56320 + (r - 65536) mod 1024)]
      else [65533])"

definition utf16_encode :: "rune list \<Rightarrow> u16 list" where
  "utf16_encode rs = concat (map utf16_units rs)"

fun utf16_decode :: "u16 list \<Rightarrow> rune list" where
  "utf16_decode [] = []"
| "utf16_decode (u # us) =
     (if unat u < 55296 \<or> 57344 \<le> unat u then unat u # utf16_decode us
      else case us of
        v # vs \<Rightarrow>
          if unat u < 56320 \<and> 56320 \<le> unat v \<and> unat v < 57344
          then ((unat u - 55296) * 1024 + (unat v - 56320) + 65536) # utf16_decode vs
          else rune_error # utf16_decode us
      | [] \<Rightarrow> rune_error # utf16_decode us)"

subsection \<open>Hexadecimal\<close>

definition xdigit :: "u8 \<Rightarrow> bool" where
  "xdigit b \<longleftrightarrow> in_range 48 57 b \<or> in_range 65 70 b \<or> in_range 97 102 b"

definition hexval :: "u8 \<Rightarrow> nat" where
  "hexval b = (if in_range 48 57 b then unat b - 48
               else if in_range 97 102 b then unat b - 87 else unat b - 55)"

definition hexdigit :: "nat \<Rightarrow> u8" where
  "hexdigit d = (if d < 10 then of_nat (48 + d) else of_nat (87 + d))"

text \<open>\<^verbatim>\<open>hex.DecodeString\<close>: \<open>None\<close> is its error.\<close>

fun hex_decode :: "gostring \<Rightarrow> u8 list option" where
  "hex_decode [] = Some []"
| "hex_decode [a] = None"
| "hex_decode (a # b # rest) =
     (if xdigit a \<and> xdigit b
      then map_option ((#) (of_nat (16 * hexval a + hexval b))) (hex_decode rest) else None)"

text \<open>\<^verbatim>\<open>%x\<close> on a byte slice, and \<^verbatim>\<open>%08x\<close>, \<^verbatim>\<open>%04x\<close> on an unsigned integer of that width.\<close>

definition hex_encode :: "u8 list \<Rightarrow> gostring" where
  "hex_encode bs = concat (map (\<lambda>b. [hexdigit (unat b div 16), hexdigit (unat b mod 16)]) bs)"

fun hex_pad :: "nat \<Rightarrow> nat \<Rightarrow> gostring" where
  "hex_pad 0 v = []"
| "hex_pad (Suc w) v = hex_pad w (v div 16) @ [hexdigit (v mod 16)]"

subsection \<open>strconv.Atoi and bytes.SplitN\<close>

text \<open>
  The digit loop of \<^verbatim>\<open>ParseUint\<close> in base 10 with 64 bits: \<open>Inl True\<close> is a range error,
  \<open>Inl False\<close> a syntax error.
\<close>

fun parse_digits :: "nat \<Rightarrow> gostring \<Rightarrow> bool + nat" where
  "parse_digits n [] = Inr n"
| "parse_digits n (c # cs) =
     (if \<not> in_range 48 57 c then Inl False
      else if 10 * n + (unat c - 48) \<ge> 2 ^ 64 then Inl True
      else parse_digits (10 * n + (unat c - 48)) cs)"

text \<open>\<^verbatim>\<open>Atoi\<close>'s integer result; the callers drop its error.\<close>

definition Atoi :: "gostring \<Rightarrow> int" where
  "Atoi s =
     (let neg = (s \<noteq> [] \<and> hd s = 45);
          digits = (if s \<noteq> [] \<and> (hd s = 45 \<or> hd s = 43) then tl s else s)
      in if digits = [] then 0
         else case parse_digits 0 digits of
           Inl False \<Rightarrow> 0
         | Inl True \<Rightarrow> (if neg then - (2 ^ 63) else 2 ^ 63 - 1)
         | Inr un \<Rightarrow>
             if \<not> neg \<and> un \<ge> 2 ^ 63 then 2 ^ 63 - 1
             else if neg \<and> un > 2 ^ 63 then - (2 ^ 63)
             else if neg then - int un else int un)"

text \<open>\<^verbatim>\<open>bytes.SplitN(s, sep, n)\<close> for a one-byte separator and \<open>n > 0\<close>.\<close>

fun SplitN :: "u8 list \<Rightarrow> u8 \<Rightarrow> nat \<Rightarrow> u8 list list" where
  "SplitN s sep 0 = []"
| "SplitN s sep (Suc 0) = [s]"
| "SplitN s sep (Suc (Suc n)) =
     (if sep \<in> set s
      then takeWhile (\<lambda>b. b \<noteq> sep) s # SplitN (tl (dropWhile (\<lambda>b. b \<noteq> sep) s)) sep (Suc n)
      else [s])"

section \<open>Lemmas\<close>

subsection \<open>Bytes and characters\<close>

lemma unat_of_nat_small [simp]: "n < 256 \<Longrightarrow> unat (of_nat n :: u8) = n"
  by simp

lemma runes_Nil [simp]: "runes [] = []"
  by (simp add: runes.simps)

text \<open>Valid UTF-8 decodes to the runes it encodes: one, two, three and four byte sequences.\<close>

lemma decode_rune_1: "unat p < 128 \<Longrightarrow> decode_rune (p # rest) = (unat p, 1)"
  by (simp add: decode_rune_def)

lemma low6_cont: "unat q = 128 + b \<Longrightarrow> b < 64 \<Longrightarrow> low6 q = b"
  using mod_mult_self3 [of 2 64 b] by (simp add: low6_def)

lemma lead_bits:
  "a < 32 \<Longrightarrow> (192 + a) mod 32 = (a::nat)"
  "a < 16 \<Longrightarrow> (224 + a) mod 16 = (a::nat)"
  "a < 8 \<Longrightarrow> (240 + a) mod 8 = (a::nat)"
  using mod_mult_self3 [of 6 32 a] mod_mult_self3 [of 14 16 a] mod_mult_self3 [of 30 8 a] by simp_all

lemma div_mod_below: "(x::nat) div n = q \<Longrightarrow> x < q * n + c \<Longrightarrow> x mod n < c"
  using div_mult_mod_eq [of x n] by simp

lemma before_surrogates: "(r::nat) < 55296 \<Longrightarrow> r div 4096 = 13 \<Longrightarrow> r div 64 mod 64 < 32"
  by (rule div_mod_below [of _ _ 13]) (simp_all add: div_mult2_eq [symmetric] less_mult_imp_div_less)

lemma below_max_rune: "(r::nat) \<le> 1114111 \<Longrightarrow> r div 262144 = 4 \<Longrightarrow> r div 4096 mod 64 < 16"
  by (rule div_mod_below [of _ _ 4]) (simp_all add: div_mult2_eq [symmetric] less_mult_imp_div_less)

lemma decode_rune_2:
  assumes "unat p = 192 + a" "unat q = 128 + b" "2 \<le> a" "a < 32" "b < 64"
  shows "decode_rune (p # q # rest) = (a * 64 + b, 2)"
  using assms low6_cont [of q b] by (simp add: decode_rune_def in_range_def lead_bits)

lemma decode_rune_3:
  assumes "unat p = 224 + a" "unat q = 128 + b" "unat t = 128 + c" "a < 16" "b < 64" "c < 64"
    and "a = 0 \<Longrightarrow> 32 \<le> b" "a = 13 \<Longrightarrow> b < 32"
  shows "decode_rune (p # q # t # rest) = ((a * 64 + b) * 64 + c, 3)"
  using assms low6_cont [of q b] low6_cont [of t c]
  by (auto simp: decode_rune_def in_range_def lead_bits)

lemma decode_rune_4:
  assumes "unat p = 240 + a" "unat q = 128 + b" "unat t = 128 + c" "unat u = 128 + d"
    and "a < 5" "b < 64" "c < 64" "d < 64" "a = 0 \<Longrightarrow> 16 \<le> b" "a = 4 \<Longrightarrow> b < 16"
  shows "decode_rune (p # q # t # u # rest) = (((a * 64 + b) * 64 + c) * 64 + d, 4)"
  using assms low6_cont [of q b] low6_cont [of t c] low6_cont [of u d]
  by (auto simp: decode_rune_def in_range_def lead_bits)

lemma digits64_2: "(r::nat) div 64 * 64 + r mod 64 = r"
  by simp

lemma digits64_3: "((r::nat) div 4096 * 64 + r div 64 mod 64) * 64 + r mod 64 = r"
proof -
  have "r div 4096 = r div 64 div 64" by (simp add: div_mult2_eq [symmetric])
  then show ?thesis by simp
qed

lemma digits64_4:
  "(((r::nat) div 262144 * 64 + r div 4096 mod 64) * 64 + r div 64 mod 64) * 64 + r mod 64 = r"
proof -
  have "r div 262144 = r div 64 div 4096" "r div 4096 = r div 64 div 64"
    by (simp_all add: div_mult2_eq [symmetric])
  then show ?thesis using digits64_3 [of "r div 64"] by simp
qed

lemma decode_rune_encode:
  assumes "scalar r"
  shows "decode_rune (utf8_encode r @ rest) = (r, length (utf8_encode r))"
proof -
  consider "r < 128" | "128 \<le> r" "r < 2048" | "2048 \<le> r" "r < 65536" | "65536 \<le> r" by linarith
  then show ?thesis
  proof cases
    case 1
    then show ?thesis by (simp add: utf8_encode_def decode_rune_1)
  next
    case 2
    then have "decode_rune (of_nat (192 + r div 64) # of_nat (128 + r mod 64) # rest)
        = (r div 64 * 64 + r mod 64, 2)"
      by (intro decode_rune_2 unat_of_nat_small) auto
    with 2 show ?thesis by (simp add: utf8_encode_def del: of_nat_add)
  next
    case 3
    have "decode_rune (of_nat (224 + r div 4096) # of_nat (128 + r div 64 mod 64)
          # of_nat (128 + r mod 64) # rest) = ((r div 4096 * 64 + r div 64 mod 64) * 64 + r mod 64, 3)"
      by (intro decode_rune_3 unat_of_nat_small) (use 3 assms in \<open>auto simp: scalar_def before_surrogates\<close>)
    then have "decode_rune (of_nat (224 + r div 4096) # of_nat (128 + r div 64 mod 64)
          # of_nat (128 + r mod 64) # rest) = (r, 3)"
      by (simp only: digits64_3)
    with 3 assms show ?thesis by (auto simp: utf8_encode_def scalar_def simp del: of_nat_add)
  next
    case 4
    have "decode_rune (of_nat (240 + r div 262144) # of_nat (128 + r div 4096 mod 64)
          # of_nat (128 + r div 64 mod 64) # of_nat (128 + r mod 64) # rest)
        = (((r div 262144 * 64 + r div 4096 mod 64) * 64 + r div 64 mod 64) * 64 + r mod 64, 4)"
      by (intro decode_rune_4 unat_of_nat_small) (use 4 assms in \<open>auto simp: scalar_def below_max_rune\<close>)
    then have "decode_rune (of_nat (240 + r div 262144) # of_nat (128 + r div 4096 mod 64)
          # of_nat (128 + r div 64 mod 64) # of_nat (128 + r mod 64) # rest) = (r, 4)"
      by (simp only: digits64_4)
    with 4 assms show ?thesis by (auto simp: utf8_encode_def scalar_def simp del: of_nat_add)
  qed
qed

lemma runes_utf8:
  "list_all scalar rs \<Longrightarrow> runes (concat (map utf8_encode rs)) = rs"
proof (induction rs)
  case (Cons r rs)
  have "utf8_encode r \<noteq> []" by (simp add: utf8_encode_def)
  with Cons show ?case
    by (subst runes.simps) (simp add: decode_rune_encode)
qed simp

lemma runes_ascii: "list_all (\<lambda>b. unat b < 128) s \<Longrightarrow> runes s = map unat s"
proof (induction s)
  case (Cons b s)
  then show ?case by (subst runes.simps) (simp add: decode_rune_1)
qed simp

subsection \<open>UTF-16\<close>

lemma unat_of_nat_u16_small [simp]: "n < 65536 \<Longrightarrow> unat (of_nat n :: u16) = n"
  by (simp add: unat_of_nat)

lemma utf16_decode_units:
  assumes "scalar r"
  shows "utf16_decode (utf16_units r @ us) = r # utf16_decode us"
proof (cases "r < 65536")
  case True
  with assms show ?thesis by (auto simp: utf16_units_def scalar_def)
next
  case False
  define x where "x = r - 65536"
  have x: "x div 1024 < 1024" "r = x + 65536"
    using assms False by (auto simp: x_def scalar_def less_mult_imp_div_less)
  have hi: "unat (of_nat (55296 + x div 1024) :: u16) = 55296 + x div 1024"
    and lo: "unat (of_nat (56320 + x mod 1024) :: u16) = 56320 + x mod 1024"
    by (rule unat_of_nat_u16_small, use x in simp)+
  have "utf16_units r = [of_nat (55296 + x div 1024), of_nat (56320 + x mod 1024)]"
    using assms False x(1) by (simp add: utf16_units_def x_def scalar_def del: of_nat_add)
  then show ?thesis using hi lo x by (simp del: of_nat_add)
qed

lemma utf16_decode_encode: "list_all scalar rs \<Longrightarrow> utf16_decode (utf16_encode rs) = rs"
  by (induction rs) (simp_all add: utf16_encode_def utf16_decode_units)

lemma utf16_encode_Nil [simp]: "utf16_encode [] = []"
  by (simp add: utf16_encode_def)

lemma utf16_encode_Cons: "utf16_encode (r # rs) = utf16_units r @ utf16_encode rs"
  by (simp add: utf16_encode_def)

lemma utf16_units_nonempty [simp]: "utf16_units r \<noteq> []"
  by (simp add: utf16_units_def)

lemma utf16_encode_empty_iff [simp]: "utf16_encode rs = [] \<longleftrightarrow> rs = []"
  by (cases rs) (simp_all add: utf16_encode_Cons)

lemma runes_empty_iff [simp]: "runes s = [] \<longleftrightarrow> s = []"
  by (subst runes.simps) simp

lemma utf16_encode_ascii:
  "list_all (\<lambda>r. r < 128) rs \<Longrightarrow> utf16_encode rs = map of_nat rs"
  by (induction rs) (simp_all add: utf16_encode_Cons utf16_units_def)

text \<open>A unit of an encoded non-NUL rune is never zero, so the terminator is the first NUL.\<close>

lemma utf16_units_nonzero: "0 < r \<Longrightarrow> 0 \<notin> set (utf16_units r)"
proof -
  assume r: "0 < r"
  have nz: "0 < n \<Longrightarrow> n < 65536 \<Longrightarrow> (0::u16) \<noteq> of_nat n" for n
    using unat_of_nat_u16_small [of n] by (metis unsigned_0 less_irrefl)
  show ?thesis
    using r nz [of r] nz [of "55296 + (r - 65536) div 1024 mod 1024"]
      nz [of "56320 + (r - 65536) mod 1024"]
    by (auto simp: utf16_units_def simp del: of_nat_add)
qed

lemma utf16_encode_nonzero: "list_all ((<) 0) rs \<Longrightarrow> 0 \<notin> set (utf16_encode rs)"
  by (induction rs) (simp_all add: utf16_encode_Cons utf16_units_nonzero)

end
