(* ===== verification/Encoding.thy ===== *)
theory Encoding
  imports Calling Go_Text
begin

text \<open>
  \<^verbatim>\<open>pkg/ueficore/desc.go\<close>: UTF-16 strings for the firmware, the fixed-size binary encoding of
  structs (\<^verbatim>\<open>encoding/binary\<close>, little endian), and reading and writing a struct at a memory
  address through the third-party package \<^verbatim>\<open>tamago/dma\<close>, which is the parameter \<open>dma\<close>.

  A struct type is a size, an encoder and a decoder. The interface between these routines and the
  structs of the other theories is the locale \<open>struct_codec\<close>; every struct interprets it.
\<close>

section \<open>Definitions\<close>

definition utf16_bytes :: "u16 list \<Rightarrow> u8 list" where
  "utf16_bytes us = concat (map (\<lambda>r. [ucast (r AND 255), ucast (drop_bit 8 r)]) us)"

definition toUTF16 :: "gostring \<Rightarrow> u8 list" where
  "toUTF16 s = utf16_bytes (utf16_encode (runes s)) @ [0, 0]"

text \<open>
  \<^verbatim>\<open>binary.Write\<close> of a fixed-size struct never fails; \<^verbatim>\<open>binary.Decode\<close> fails only on a
  buffer that is shorter than the struct.
\<close>

definition marshalBinary :: "('a \<Rightarrow> u8 list) \<Rightarrow> 'a \<Rightarrow> u8 list \<times> gerr option" where
  "marshalBinary enc x = (enc x, None)"

definition unmarshalBinary :: "nat \<Rightarrow> (u8 list \<Rightarrow> 'a) \<Rightarrow> u8 list \<Rightarrow> gerr + 'a" where
  "unmarshalBinary n dec buf =
     (if length buf < n then Inl (ErrMsg ''buffer too small'') else Inr (dec buf))"

text \<open>
  The package \<^verbatim>\<open>tamago/dma\<close>. A region is its start address and size. \<open>NewRegion\<close> is the
  error of creating one. \<open>Reserve\<close> gives a slice inside a fresh region, with its address;
  \<open>Alloc\<close> copies bytes into a fresh region. \<open>None\<close> is a panic.
\<close>

record dma_pkg =
  NewRegion :: "u64 \<Rightarrow> int \<Rightarrow> gerr option"
  Reserve :: "u64 \<Rightarrow> int \<Rightarrow> int \<Rightarrow> int \<Rightarrow> memory \<Rightarrow> (u64 \<times> u8 list) option"
  Alloc :: "u64 \<Rightarrow> int \<Rightarrow> u8 list \<Rightarrow> int \<Rightarrow> memory \<Rightarrow> (u64 \<times> memory) option"

text \<open>
  What the code relies on: the first reservation (allocation) in a fresh region that is large
  enough is at the start of the region, and its slice is the memory there.
\<close>

definition dma_maps :: "dma_pkg \<Rightarrow> bool" where
  "dma_maps dma \<longleftrightarrow>
     (\<forall>a sz n f. NewRegion dma a sz = None \<longrightarrow> 0 < n \<longrightarrow> n \<le> sz \<longrightarrow>
        Reserve dma a sz n 0 f = Some (a, load_bytes f a (nat n))) \<and>
     (\<forall>a sz bs f. NewRegion dma a sz = None \<longrightarrow> bs \<noteq> [] \<longrightarrow> int (length bs) \<le> sz \<longrightarrow>
        Alloc dma a sz bs 0 f = Some (a, store_bytes a bs f))"

definition align :: nat where "align = 8"

definition encode :: "dma_pkg \<Rightarrow> ('a \<Rightarrow> u8 list) \<Rightarrow> 'a \<Rightarrow> u64 \<Rightarrow> memory \<Rightarrow> (gerr option \<times> memory) option" where
  "encode dma enc x addr f =
     (if addr = 0 then Some (Some (ErrMsg ''invalid address''), f)
      else let buf = fst (marshalBinary enc x); n = int (length buf) in
      case NewRegion dma addr n of
        Some err \<Rightarrow> Some (Some err, f)
      | None \<Rightarrow> do { (ptr, f) \<leftarrow> Alloc dma addr n buf 0 f; Some (None, f) })"

text \<open>
  \<open>n\<close> is the length of the marshalled struct. \<open>Inr\<close> is the struct the pointer argument holds
  afterwards.
\<close>

definition decode :: "dma_pkg \<Rightarrow> nat \<Rightarrow> (u8 list \<Rightarrow> 'a) \<Rightarrow> u64 \<Rightarrow> memory \<Rightarrow> (gerr + 'a) option" where
  "decode dma n dec addr f =
     (if addr = 0 then Some (Inl (ErrMsg ''invalid address''))
      else let sz = int (n + n mod align) in
      case NewRegion dma addr sz of
        Some err \<Rightarrow> Some (Inl err)
      | None \<Rightarrow> do { (ptr, buf) \<leftarrow> Reserve dma addr sz (int n) 0 f;
                     Some (unmarshalBinary n dec buf) })"

text \<open>The 16-bit units a little-endian machine reads back.\<close>

fun le_units :: "u8 list \<Rightarrow> u16 list" where
  "le_units (a # b # rest) = of_nat (le_nat [a, b]) # le_units rest"
| "le_units _ = []"

section \<open>The struct interface\<close>

locale struct_codec =
  fixes size :: nat
    and enc :: "'a \<Rightarrow> u8 list"
    and dec :: "u8 list \<Rightarrow> 'a"
    and valid :: "'a \<Rightarrow> bool"
  assumes size_pos: "0 < size"
    and size_bound: "size \<le> 4096"
    and length_enc: "valid x \<Longrightarrow> length (enc x) = size"
    and dec_enc: "valid x \<Longrightarrow> dec (enc x @ rest) = x"
    and dec_take: "size \<le> length bs \<Longrightarrow> dec (take size bs) = dec bs"
begin

lemma dec_enc_exact: "valid x \<Longrightarrow> dec (enc x) = x"
  using dec_enc [of x "[]"] by simp

lemma unmarshal_enc: "valid x \<Longrightarrow> unmarshalBinary size dec (enc x @ rest) = Inr x"
  by (simp add: unmarshalBinary_def length_enc dec_enc)

lemma unmarshal_short: "length bs < size \<Longrightarrow> unmarshalBinary size dec bs = Inl (ErrMsg ''buffer too small'')"
  by (simp add: unmarshalBinary_def)

lemma enc_nonempty: "valid x \<Longrightarrow> enc x \<noteq> []"
  using length_enc [of x] size_pos by auto

text \<open>Decoding reads exactly the struct's bytes at the address.\<close>

lemma decode_at:
  assumes "dma_maps dma" "addr \<noteq> 0" "NewRegion dma addr (int (size + size mod align)) = None"
  shows "decode dma size dec addr f = Some (Inr (dec (load_bytes f addr size)))"
  using assms size_pos by (simp add: decode_def dma_maps_def Let_def unmarshalBinary_def)

lemma decode_stored:
  assumes "dma_maps dma" "addr \<noteq> 0" "NewRegion dma addr (int (size + size mod align)) = None"
    and "load_bytes f addr size = enc x" "valid x"
  shows "decode dma size dec addr f = Some (Inr x)"
  using decode_at [OF assms(1-3)] assms(4,5) by (simp add: dec_enc_exact)

lemma encode_decode:
  assumes "dma_maps dma" "addr \<noteq> 0" "NewRegion dma addr (int (size + size mod align)) = None"
    and "NewRegion dma addr (int size) = None" "valid x"
  shows "\<exists>f'. encode dma enc x addr f = Some (None, f') \<and> decode dma size dec addr f' = Some (Inr x)"
proof -
  have "encode dma enc x addr f = Some (None, store_bytes addr (enc x) f)"
    using assms enc_nonempty [of x]
    by (simp add: encode_def dma_maps_def Let_def marshalBinary_def length_enc)
  moreover have "load_bytes (store_bytes addr (enc x) f) addr size = enc x"
    using load_store_same [of "enc x" addr f] size_bound length_enc [OF assms(5)] by simp
  ultimately show ?thesis using decode_stored [OF assms(1-3) _ assms(5)] by blast
qed

text \<open>An array of structs.\<close>

lemma dec_nth:
  assumes "list_all valid xs" "i < length xs"
  shows "dec (drop (i * size) (concat (map enc xs) @ rest)) = xs ! i"
  using assms
proof (induction xs arbitrary: i)
  case (Cons x xs)
  show ?case
  proof (cases i)
    case 0
    with Cons.prems show ?thesis by (simp add: dec_enc)
  next
    case (Suc j)
    with Cons show ?thesis by (simp add: length_enc)
  qed
qed simp

lemma length_concat_enc: "list_all valid xs \<Longrightarrow> length (concat (map enc xs)) = size * length xs"
  by (induction xs) (auto simp: length_enc)

end

section \<open>Lemmas\<close>

lemma length_utf16_bytes [simp]: "length (utf16_bytes us) = 2 * length us"
  by (induction us) (simp_all add: utf16_bytes_def)

lemma utf16_bytes_append: "utf16_bytes (us @ vs) = utf16_bytes us @ utf16_bytes vs"
  by (simp add: utf16_bytes_def)

lemma utf16_bytes_Cons: "utf16_bytes (u # us) = ucast (u AND 255) # ucast (drop_bit 8 u) # utf16_bytes us"
  by (simp add: utf16_bytes_def)

lemma length_toUTF16: "length (toUTF16 s) = 2 * length (utf16_encode (runes s)) + 2"
  by (simp add: toUTF16_def)

lemma toUTF16_nonempty [simp]: "toUTF16 s \<noteq> []"
  by (simp add: toUTF16_def)

lemma le_unit_bytes: "(of_nat (le_nat [ucast ((u::u16) AND 255), ucast (drop_bit 8 u)]) :: u16) = u"
proof -
  have u: "unat u < 65536" using unat_less_width [of u] by simp
  have lo: "unat (ucast (u AND 255) :: u8) = unat u mod 256"
  proof -
    have "u AND 255 = take_bit 8 u" by (simp add: take_bit_eq_mask mask_eq_decr_exp)
    then show ?thesis
      by (simp add: unsigned_ucast_eq take_bit_eq_mod unat_mod)
  qed
  have hi: "unat (ucast (drop_bit 8 u) :: u8) = unat u div 256"
    using u by (simp add: unsigned_ucast_eq take_bit_eq_mod drop_bit_eq_div unat_div)
  have "le_nat [ucast (u AND 255), ucast (drop_bit 8 u)] = unat u mod 256 + 256 * (unat u div 256)"
    by (simp add: lo hi)
  also have "\<dots> = unat u" by simp
  finally show ?thesis by simp
qed

lemma le_units_bytes: "le_units (utf16_bytes us @ rest) = us @ le_units rest"
  by (induction us) (simp_all add: utf16_bytes_Cons le_unit_bytes del: le_nat.simps,
      simp add: utf16_bytes_def)

section \<open>Properties\<close>

text \<open>
  Strings for the firmware. For any Unicode text without NUL characters, given as a
  Go string (UTF-8), the buffer \<^verbatim>\<open>toUTF16\<close> returns is, read as little-endian 16-bit units, a
  NUL-terminated UTF-16 string whose first NUL is the terminator and that decodes to the text.
\<close>

theorem toUTF16_roundtrip:
  assumes "list_all scalar rs" "list_all ((<) 0) rs"
  shows "\<exists>us. le_units (toUTF16 (concat (map utf8_encode rs))) = us @ [0]
           \<and> 0 \<notin> set us \<and> utf16_decode us = rs"
  using assms le_units_bytes [of "utf16_encode rs" "[0, 0]"]
  by (intro exI [of _ "utf16_encode rs"])
     (simp add: toUTF16_def runes_utf8 utf16_decode_encode utf16_encode_nonzero)

theorem toUTF16_roundtrip_witness:
  "\<exists>us. le_units (toUTF16 (concat (map utf8_encode [75, 228, 8364, 128512]))) = us @ [0]
      \<and> 0 \<notin> set us \<and> utf16_decode us = [75, 228, 8364, 128512]"
  by (rule toUTF16_roundtrip) (simp_all add: scalar_def)

end
