(* ===== verification/Guid.thy ===== *)
theory Guid
  imports Encoding
begin

text \<open>
  \<^verbatim>\<open>pkg/ueficore/guid.go\<close> and the GUID part of \<^verbatim>\<open>pkg/ueficore/config.go\<close>: the textual
  (registry) and the binary form of an EFI GUID. The regular expression of \<^verbatim>\<open>guidPattern\<close> is
  written as the recogniser of its five groups.
\<close>

section \<open>Definitions\<close>

text \<open>
  One group of \<^verbatim>\<open>guidPattern\<close>: exactly \<open>n\<close> hexadecimal digits, followed by a dash or the end
  of the text.
\<close>

fun guid_groups :: "nat list \<Rightarrow> gostring \<Rightarrow> gostring list option" where
  "guid_groups [] s = None"
| "guid_groups [n] s = (if length s = n \<and> list_all xdigit s then Some [s] else None)"
| "guid_groups (n # ns) s =
     (if n < length s \<and> list_all xdigit (take n s) \<and> s ! n = 45
      then map_option ((#) (take n s)) (guid_groups ns (drop (Suc n) s)) else None)"

definition guidPattern :: "gostring \<Rightarrow> gostring list option" where
  "guidPattern = guid_groups [8, 4, 4, 4, 12]"

text \<open>The \<^verbatim>\<open>switch\<close> on the group number; an index out of range is a panic.\<close>

definition guid_field :: "nat \<Rightarrow> u8 list \<Rightarrow> u8 list option" where
  "guid_field i buf =
     (if i = 0 then
        (if 3 < length buf then Some [buf ! 3, buf ! 2, buf ! 1, buf ! 0] else None)
      else if i = 1 \<or> i = 2 then
        (if 1 < length buf then Some [buf ! 1, buf ! 0] else None)
      else Some buf)"

fun guid_loop :: "nat \<Rightarrow> gostring list \<Rightarrow> u8 list \<Rightarrow> u8 list option" where
  "guid_loop i [] guid = Some guid"
| "guid_loop i (b # m) guid =
     (case hex_decode b of
        None \<Rightarrow> Some (replicate 16 0)
      | Some buf \<Rightarrow> do { x \<leftarrow> guid_field i buf; guid_loop (Suc i) m (guid @ x) })"

definition Bytes :: "gostring \<Rightarrow> u8 list option" where
  "Bytes g = (case guidPattern g of
     None \<Rightarrow> Some (replicate 16 0)
   | Some m \<Rightarrow> guid_loop 0 m [])"

text \<open>\<^verbatim>\<open>GUID.ptrval\<close>: the address of the first byte of a fresh slice with the GUID's bytes.\<close>

definition guid_ptrval :: "gostring \<Rightarrow> 'w machine \<Rightarrow> (u64 \<times> 'w machine) option" where
  "guid_ptrval g m = do {
     buf \<leftarrow> Bytes g;
     (a, m) \<leftarrow> first_elem buf m;
     p \<leftarrow> ptrval (PtrByte a);
     Some (p, m) }"

text \<open>\<^verbatim>\<open>ConfigurationTable\<close>; its GUID field is an array of 16 bytes.\<close>

record configuration_table =
  ct_GUID :: "u8 list"
  ct_VendorTable :: u64

definition RegistryFormat :: "configuration_table \<Rightarrow> gostring" where
  "RegistryFormat d =
     (let g = ct_GUID d in
      hex_pad 8 (le_nat (take 4 g)) @ [45] @ hex_pad 4 (le_nat (take 2 (drop 4 g))) @ [45]
      @ hex_pad 4 (le_nat (take 2 (drop 6 g))) @ [45] @ hex_encode (take 2 (drop 8 g)) @ [45]
      @ hex_encode (drop 10 g))"

text \<open>Lower case of a hexadecimal digit, for comparing GUID texts.\<close>

definition hexlower :: "u8 \<Rightarrow> u8" where
  "hexlower b = (if in_range 65 70 b then b + 32 else b)"

section \<open>Lemmas\<close>

subsection \<open>Hexadecimal digits\<close>

lemma hexdigit_cases:
  assumes "d < 16"
  shows "xdigit (hexdigit d) \<and> hexval (hexdigit d) = d \<and> hexdigit d \<noteq> 45 \<and> hexlower (hexdigit d) = hexdigit d"
proof -
  have "d \<in> set [0..<16]" using assms by simp
  moreover have "list_all (\<lambda>d. xdigit (hexdigit d) \<and> hexval (hexdigit d) = d \<and> hexdigit d \<noteq> 45
      \<and> hexlower (hexdigit d) = hexdigit d) [0..<16]"
    by code_simp
  ultimately show ?thesis unfolding list_all_iff by blast
qed

lemma hexval_digit:
  assumes "xdigit b"
  shows "hexval b < 16 \<and> hexdigit (hexval b) = hexlower b"
proof -
  consider "in_range 48 57 b" | "in_range 65 70 b" | "in_range 97 102 b"
    using assms by (auto simp: xdigit_def)
  then show ?thesis
  proof cases
    case 2
    then have "of_nat (87 + (unat b - 55)) = (of_nat (unat b + 32) :: u8)" by (simp add: in_range_def)
    with 2 show ?thesis by (simp add: in_range_def hexval_def hexdigit_def hexlower_def, arith)
  qed (auto simp: in_range_def hexval_def hexdigit_def hexlower_def simp flip: of_nat_add)
qed

lemmas hexdigit_simps [simp] =
  hexdigit_cases [THEN conjunct1]
  hexdigit_cases [THEN conjunct2, THEN conjunct1]
  hexdigit_cases [THEN conjunct2, THEN conjunct2, THEN conjunct1]

lemma byte_digits: "of_nat (16 * (unat (b::u8) div 16) + unat b mod 16) = b"
  by (simp only: mult_div_mod_eq) simp

lemma byte_high [simp]: "unat (b::u8) div 16 < 16"
  using unat_less_width [of b] by (simp add: less_mult_imp_div_less)

lemma hex_encode_Cons:
  "hex_encode (b # bs) = hexdigit (unat b div 16) # hexdigit (unat b mod 16) # hex_encode bs"
  by (simp add: hex_encode_def)

lemma hex_encode_Nil [simp]: "hex_encode [] = []"
  by (simp add: hex_encode_def)

lemma length_hex_encode [simp]: "length (hex_encode bs) = 2 * length bs"
  by (induction bs) (simp_all add: hex_encode_Cons)

lemma xdigit_hex_encode [simp]: "list_all xdigit (hex_encode bs)"
  by (induction bs) (simp_all add: hex_encode_Cons)

lemma hex_decode_encode [simp]: "hex_decode (hex_encode bs) = Some bs"
  by (induction bs) (simp_all add: hex_encode_Cons byte_digits del: of_nat_add of_nat_mult)

lemma hex_encode_append: "hex_encode (xs @ ys) = hex_encode xs @ hex_encode ys"
  by (simp add: hex_encode_def)

text \<open>A padded number is the big-endian hexadecimal text of its bytes.\<close>

lemma hex_pad_le_bytes: "hex_pad (2 * w) v = hex_encode (rev (le_bytes w v))"
proof (induction w arbitrary: v)
  case (Suc w)
  have "v div 16 div 16 = v div 256" by (simp add: div_mult2_eq [symmetric])
  moreover have "v div 16 mod 16 = v mod 256 div 16" "v mod 16 = v mod 256 mod 16"
    using mod_mult2_eq [of v 16 16] by (simp_all add: mod_mod_cancel)
  ultimately show ?case
    using Suc by (simp add: hex_encode_append hex_encode_Cons)
qed simp

lemma hex_pad_bytes:
  "length bs = w \<Longrightarrow> hex_pad (2 * w) (le_nat bs) = hex_encode (rev bs)"
  using le_bytes_le_nat [of bs] by (simp add: hex_pad_le_bytes)

lemma hex_decode_total:
  "even (length s) \<Longrightarrow> list_all xdigit s \<Longrightarrow>
   \<exists>bs. hex_decode s = Some bs \<and> 2 * length bs = length s \<and> hex_encode bs = map hexlower s"
proof (induction s rule: hex_decode.induct)
  case (3 a b rest)
  then obtain bs where bs: "hex_decode rest = Some bs" "2 * length bs = length rest"
    "hex_encode bs = map hexlower rest" by auto
  have d: "hexval a < 16" "hexval b < 16" using 3 hexval_digit by auto
  then have "unat (of_nat (16 * hexval a + hexval b) :: u8) = 16 * hexval a + hexval b"
    by (intro unat_of_nat_small) simp
  moreover have "(16 * hexval a + hexval b) div 16 = hexval a" "(16 * hexval a + hexval b) mod 16 = hexval b"
    using d by simp_all
  ultimately have "hex_encode (of_nat (16 * hexval a + hexval b) # bs) = map hexlower (a # b # rest)"
    using 3 bs hexval_digit by (simp add: hex_encode_Cons del: of_nat_add of_nat_mult unat_of_nat_u8)
  with bs 3 show ?case by (simp del: of_nat_add of_nat_mult)
qed simp_all

subsection \<open>The pattern and the loop\<close>

lemma list_length_split: "length xs = n + k \<Longrightarrow> \<exists>ys zs. xs = ys @ zs \<and> length ys = n \<and> length zs = k"
  by (intro exI [of _ "take n xs"] exI [of _ "drop n xs"]) simp

lemma guid_groups_shape:
  "guid_groups ns s = Some m \<Longrightarrow>
     map length m = ns \<and> list_all (list_all xdigit) m \<and> s = concat (map (\<lambda>g. g @ [45]) (butlast m)) @ last m"
proof (induction ns s arbitrary: m rule: guid_groups.induct)
  case (3 n n' ns s)
  then obtain m' where m: "m = take n s # m'" "guid_groups (n' # ns) (drop (Suc n) s) = Some m'"
    and n: "n < length s" "s ! n = 45" "list_all xdigit (take n s)"
    by (auto split: if_splits)
  from "3.IH" [OF _ m(2)] n have IH: "map length m' = n' # ns" "list_all (list_all xdigit) m'"
    "drop (Suc n) s = concat (map (\<lambda>g. g @ [45]) (butlast m')) @ last m'" by auto
  have "s = take n s @ [45] @ drop (Suc n) s" using id_take_nth_drop [OF n(1)] n(2) by simp
  with IH m n show ?case by (auto simp: min_def)
qed (auto split: if_splits)

lemma guid_groups_concat:
  "list_all (list_all xdigit) m \<Longrightarrow> m \<noteq> [] \<Longrightarrow>
   guid_groups (map length m) (concat (map (\<lambda>g. g @ [45]) (butlast m)) @ last m) = Some m"
proof (induction m rule: induct_list012)
  case (3 a b m)
  then show ?case by (simp add: nth_append)
qed auto

text \<open>The five groups of a match decode to 4, 2, 2, 2 and 6 bytes: the loop never panics.\<close>

lemma guidPattern_Some:
  assumes "guidPattern g = Some m"
  obtains a b c d e where
    "g = a @ [45] @ b @ [45] @ c @ [45] @ d @ [45] @ e" "m = [a, b, c, d, e]"
    "length a = 8" "length b = 4" "length c = 4" "length d = 4" "length e = 12"
    "list_all xdigit a" "list_all xdigit b" "list_all xdigit c" "list_all xdigit d" "list_all xdigit e"
proof -
  have s: "map length m = [8, 4, 4, 4, 12]" "list_all (list_all xdigit) m"
    "g = concat (map (\<lambda>g. g @ [45]) (butlast m)) @ last m"
    using guid_groups_shape [of "[8, 4, 4, 4, 12]" g m] assms by (simp_all add: guidPattern_def)
  then obtain a b c d e where "m = [a, b, c, d, e]" by (auto simp: map_eq_Cons_conv)
  with s that show ?thesis by simp
qed

lemma guid_loop_groups:
  assumes "length a = 4" "length b = 2" "length c = 2"
    and "hex_decode sa = Some a" "hex_decode sb = Some b" "hex_decode sc = Some c"
    and "hex_decode sd = Some d" "hex_decode se = Some e"
  shows "guid_loop 0 [sa, sb, sc, sd, se] [] = Some (rev a @ rev b @ rev c @ d @ e)"
proof -
  obtain a0 a1 a2 a3 where "a = [a0, a1, a2, a3]"
    using assms(1) by (auto simp: length_Suc_conv numeral_eq_Suc)
  moreover obtain b0 b1 where "b = [b0, b1]"
    using assms(2) by (auto simp: length_Suc_conv numeral_eq_Suc)
  moreover obtain c0 c1 where "c = [c0, c1]"
    using assms(3) by (auto simp: length_Suc_conv numeral_eq_Suc)
  ultimately show ?thesis using assms by (simp add: guid_field_def)
qed

lemma Bytes_match:
  assumes "guidPattern g = Some m"
  obtains a b c d e where
    "Bytes g = Some (rev a @ rev b @ rev c @ d @ e)"
    "length a = 4" "length b = 2" "length c = 2" "length d = 2" "length e = 6"
    "hex_encode a @ [45] @ hex_encode b @ [45] @ hex_encode c @ [45] @ hex_encode d @ [45]
       @ hex_encode e = map hexlower g"
proof -
  obtain sa sb sc sd se where g: "g = sa @ [45] @ sb @ [45] @ sc @ [45] @ sd @ [45] @ se"
    and m: "m = [sa, sb, sc, sd, se]"
    and l: "length sa = 8" "length sb = 4" "length sc = 4" "length sd = 4" "length se = 12"
    and x: "list_all xdigit sa" "list_all xdigit sb" "list_all xdigit sc" "list_all xdigit sd"
      "list_all xdigit se"
    using guidPattern_Some [OF assms] by blast
  obtain a b c d e where
    h: "hex_decode sa = Some a" "hex_decode sb = Some b" "hex_decode sc = Some c"
      "hex_decode sd = Some d" "hex_decode se = Some e"
    and k: "2 * length a = 8" "2 * length b = 4" "2 * length c = 4" "2 * length d = 4"
      "2 * length e = 12"
    and t: "hex_encode a = map hexlower sa" "hex_encode b = map hexlower sb"
      "hex_encode c = map hexlower sc" "hex_encode d = map hexlower sd" "hex_encode e = map hexlower se"
    using hex_decode_total [of sa] hex_decode_total [of sb] hex_decode_total [of sc]
      hex_decode_total [of sd] hex_decode_total [of se] l x by auto
  have "hexlower 45 = 45" by (simp add: hexlower_def in_range_def)
  with that [of a b c d e] guid_loop_groups [OF _ _ _ h] assms k t show ?thesis
    by (simp add: Bytes_def m g)
qed

lemma Bytes_total: "\<exists>bs. Bytes g = Some bs \<and> length bs = 16"
proof (cases "guidPattern g")
  case None
  then show ?thesis by (simp add: Bytes_def)
next
  case (Some m)
  then show ?thesis by (rule Bytes_match) auto
qed

lemma guid_ptrval_total:
  "\<exists>bs. length bs = 16 \<and> Bytes g = Some bs \<and> guid_ptrval g m = Some (new_slice bs m)"
  using Bytes_total [of g] by (auto simp: guid_ptrval_def first_elem_def split: prod.splits)

lemma guid_split:
  assumes "length g = 16"
  obtains a b c d e where "g = a @ b @ c @ d @ e"
    "length a = 4" "length b = 2" "length c = 2" "length d = 2" "length e = 6"
  using that [of "take 4 g" "take 2 (drop 4 g)" "take 2 (drop 6 g)" "take 2 (drop 8 g)" "drop 10 g"]
    assms append_take_drop_id [of 4 g] append_take_drop_id [of 2 "drop 4 g"]
    append_take_drop_id [of 2 "drop 6 g"] append_take_drop_id [of 2 "drop 8 g"]
  by (simp del: append_take_drop_id)

lemma RegistryFormat_split:
  assumes "length a = 4" "length b = 2" "length c = 2" "length d = 2" "length e = 6"
  shows "RegistryFormat \<lparr>ct_GUID = a @ b @ c @ d @ e, ct_VendorTable = v\<rparr> =
    hex_encode (rev a) @ [45] @ hex_encode (rev b) @ [45] @ hex_encode (rev c) @ [45]
      @ hex_encode d @ [45] @ hex_encode e"
  using assms hex_pad_bytes [of a 4] hex_pad_bytes [of b 2] hex_pad_bytes [of c 2]
  by (simp add: RegistryFormat_def)

lemma guidPattern_text:
  assumes "length a = 4" "length b = 2" "length c = 2" "length d = 2" "length e = 6"
  shows "guidPattern (hex_encode a @ [45] @ hex_encode b @ [45] @ hex_encode c @ [45]
    @ hex_encode d @ [45] @ hex_encode e)
      = Some [hex_encode a, hex_encode b, hex_encode c, hex_encode d, hex_encode e]"
  using guid_groups_concat [of "[hex_encode a, hex_encode b, hex_encode c, hex_encode d, hex_encode e]"]
    assms by (simp add: guidPattern_def)

section \<open>Properties\<close>

text \<open>
  Claim C26: binary GUIDs survive a round trip through text. The registry format that
  \<^verbatim>\<open>ConfigurationTable.RegistryFormat\<close> prints of any 16-byte GUID is accepted by
  \<^verbatim>\<open>GUID.Bytes\<close>, which returns exactly those 16 bytes.
\<close>

theorem guid_bytes_roundtrip:
  assumes "length (ct_GUID d) = 16"
  shows "Bytes (RegistryFormat d) = Some (ct_GUID d)"
proof -
  obtain a b c x y where g: "ct_GUID d = a @ b @ c @ x @ y"
    and l: "length a = 4" "length b = 2" "length c = 2" "length x = 2" "length y = 6"
    using guid_split [OF assms] .
  have "d = \<lparr>ct_GUID = a @ b @ c @ x @ y, ct_VendorTable = ct_VendorTable d\<rparr>" using g by simp
  then have "RegistryFormat d = hex_encode (rev a) @ [45] @ hex_encode (rev b) @ [45]
      @ hex_encode (rev c) @ [45] @ hex_encode x @ [45] @ hex_encode y"
    using RegistryFormat_split [OF l] by metis
  moreover have "guid_loop 0 [hex_encode (rev a), hex_encode (rev b), hex_encode (rev c),
      hex_encode x, hex_encode y] [] = Some (a @ b @ c @ x @ y)"
    using guid_loop_groups [OF _ _ _ hex_decode_encode hex_decode_encode hex_decode_encode
        hex_decode_encode hex_decode_encode, of "rev a" "rev b" "rev c" x y] l
    by (simp del: guid_loop.simps)
  ultimately show ?thesis
    using guidPattern_text [of "rev a" "rev b" "rev c" x y] l g by (simp add: Bytes_def)
qed

theorem guid_bytes_roundtrip_witness:
  "Bytes (RegistryFormat \<lparr>ct_GUID = map of_nat [1..<17], ct_VendorTable = 0\<rparr>)
     = Some (map of_nat [1..<17])"
  using guid_bytes_roundtrip [of "\<lparr>ct_GUID = map of_nat [1..<17], ct_VendorTable = 0\<rparr>"] by simp

text \<open>
  Claim C27: GUID texts. \<^verbatim>\<open>GUID.Bytes\<close> never panics and always gives 16 bytes; a text that does
  not match the pattern gives 16 zero bytes, and a text that matches gives the bytes whose
  registry format is the text in lower case.
\<close>

theorem guid_text:
  "\<exists>bs. Bytes g = Some bs \<and> length bs = 16
     \<and> (case guidPattern g of
          None \<Rightarrow> bs = replicate 16 0
        | Some m \<Rightarrow> RegistryFormat \<lparr>ct_GUID = bs, ct_VendorTable = v\<rparr> = map hexlower g)"
proof (cases "guidPattern g")
  case None
  then show ?thesis by (simp add: Bytes_def)
next
  case (Some m)
  then obtain a b c d e where
    "Bytes g = Some (rev a @ rev b @ rev c @ d @ e)"
    "length a = 4" "length b = 2" "length c = 2" "length d = 2" "length e = 6"
    "hex_encode a @ [45] @ hex_encode b @ [45] @ hex_encode c @ [45] @ hex_encode d @ [45]
       @ hex_encode e = map hexlower g"
    by (rule Bytes_match)
  with Some RegistryFormat_split [of "rev a" "rev b" "rev c" d e v] show ?thesis by simp
qed

end
