(* ===== verification/Service.thy ===== *)
theory Service
  imports Calling
begin

text \<open>
  The interface of the services that are one firmware call: the operation calls the entry of a
  table with its arguments and turns the status into an error, unless a guard (a table pointer
  that is nil) makes it return without a call. Most operations of \<^verbatim>\<open>pkg/ueficore\<close> interpret
  it.
\<close>

section \<open>The interface\<close>

locale efi_service =
  fixes service :: "'w firmware \<Rightarrow> 'a \<Rightarrow> 'w machine \<Rightarrow> gerr option \<times> 'w machine"
    and entry :: "'a \<Rightarrow> u64"
    and args :: "'a \<Rightarrow> u64 list"
    and enabled :: "'a \<Rightarrow> bool"
  assumes when_enabled: "enabled x \<Longrightarrow>
      service fw x m = apfst parseStatus (CallService fw (entry x) (args x) m)"
    and when_disabled: "\<not> enabled x \<Longrightarrow> service fw x m = (None, m)"
    and args_nonempty: "args x \<noteq> []"
begin

text \<open>One call, logged, with the code address the table entry held.\<close>

lemma service_calls:
  "calls (snd (service fw x m)) =
     calls m @ (if enabled x then [Indirect (entry x) (load64 (mem m) (entry x)) (args x)] else [])"
  using CallService_log [OF args_nonempty [of x]]
  by (cases "enabled x") (simp_all add: when_enabled when_disabled)

text \<open>The result is nil exactly when the firmware reported success.\<close>

lemma service_result:
  assumes "enabled x" "fw (load64 (mem m) (entry x)) (args x) (mem m) (world m) = (status, f, w)"
  shows "service fw x m = (parseStatus status, m\<lparr>mem := f, world := w,
           calls := calls m @ [Indirect (entry x) (load64 (mem m) (entry x)) (args x)]\<rparr>)"
  using assms args_nonempty [of x] by (simp add: when_enabled CallService_nonempty)

lemma service_nil_iff:
  "enabled x \<Longrightarrow> fst (service fw x m) = None
     \<longleftrightarrow> fst (fw (load64 (mem m) (entry x)) (args x) (mem m) (world m)) = EFI_SUCCESS"
  using args_nonempty [of x]
  by (simp add: when_enabled CallService_nonempty EFI_SUCCESS_def split: prod.splits)

lemma service_frame:
  "place (snd (service fw x m)) = place m" "objs (snd (service fw x m)) = objs m"
  by (cases "enabled x"; simp add: when_enabled when_disabled)+

end

end
