(* ===== verification/Console.thy ===== *)
theory Console
  imports Encoding Service
begin

text \<open>
  \<^verbatim>\<open>pkg/ueficore/console.go\<close> and \<^verbatim>\<open>pkg/ueficore/x64/console.go\<close>: the text console over
  \<^verbatim>\<open>EFI_SIMPLE_TEXT_INPUT_PROTOCOL\<close> and \<^verbatim>\<open>EFI_SIMPLE_TEXT_OUTPUT_PROTOCOL\<close>.
\<close>

section \<open>Definitions\<close>

definition outputString :: u64 where "outputString = 8"
definition setMode :: u64 where "setMode = 32"
definition setAttribute :: u64 where "setAttribute = 40"
definition clearScreen :: u64 where "clearScreen = 48"
definition readKeyStroke :: u64 where "readKeyStroke = 8"

definition null_ch :: u8 where "null_ch = 0"
definition bs_ch :: u8 where "bs_ch = 8"
definition tab_ch :: u16 where "tab_ch = 9"
definition lf_ch :: u16 where "lf_ch = 10"
definition cr_ch :: u8 where "cr_ch = 13"
definition space_ch :: u8 where "space_ch = 32"

definition cub :: "u8 list" where
  "cub = [27, 91, 68, 32, 27, 91, 68]"

record console =
  ForceLine :: bool
  ReplaceTabs :: int
  ConsoleIn :: u64
  ConsoleOut :: u64

definition ClearScreen :: "'w firmware \<Rightarrow> console \<Rightarrow> 'w machine \<Rightarrow> gerr option \<times> 'w machine" where
  "ClearScreen fw c m =
     (if ConsoleOut c = 0 then (None, m)
      else let (status, m) = CallService fw (ConsoleOut c + clearScreen) [ConsoleOut c] m
           in (parseStatus status, m))"

definition SetMode :: "'w firmware \<Rightarrow> console \<Rightarrow> u64 \<Rightarrow> 'w machine \<Rightarrow> gerr option \<times> 'w machine" where
  "SetMode fw c mode m =
     (if ConsoleOut c = 0 then (None, m)
      else let (status, m) = CallService fw (ConsoleOut c + setMode) [ConsoleOut c, mode] m
           in (parseStatus status, m))"

definition SetAttribute :: "'w firmware \<Rightarrow> console \<Rightarrow> u64 \<Rightarrow> 'w machine \<Rightarrow> gerr option \<times> 'w machine" where
  "SetAttribute fw c attr m =
     (if ConsoleOut c = 0 then (None, m)
      else let (status, m) = CallService fw (ConsoleOut c + setAttribute) [ConsoleOut c, attr] m
           in (parseStatus status, m))"

text \<open>\<open>k\<close> is the address of the \<^verbatim>\<open>InputKey\<close>: a scan code and two bytes of a character.\<close>

definition Input :: "'w firmware \<Rightarrow> console \<Rightarrow> u64 \<Rightarrow> 'w machine \<Rightarrow> (u64 \<times> 'w machine) option" where
  "Input fw c k m =
     (if ConsoleIn c = 0 then Some (0, m)
      else do {
        p \<leftarrow> ptrval (PtrInputKey k);
        Some (CallService fw (ConsoleIn c + readKeyStroke) [ConsoleIn c, p] m) })"

text \<open>\<^verbatim>\<open>p[len(p)-1]\<close> panics on an empty slice.\<close>

definition Output :: "'w firmware \<Rightarrow> console \<Rightarrow> u8 list \<Rightarrow> 'w machine \<Rightarrow> (u64 \<times> 'w machine) option" where
  "Output fw c p m =
     (if p = [] then None
      else let p = (if last p \<noteq> null_ch then p @ [null_ch] else p) in
      if ConsoleOut c = 0 then Some (0, m)
      else do {
        (a, m) \<leftarrow> first_elem p m;
        q \<leftarrow> ptrval (PtrByte a);
        Some (CallService fw (ConsoleOut c + outputString) [ConsoleOut c, q] m) })"

text \<open>
  \<^verbatim>\<open>Console.Read\<close>: the number of bytes, the error, and the buffer afterwards.
  \<^verbatim>\<open>binary.LittleEndian.PutUint16\<close> panics when fewer than two bytes are left,
  \<^verbatim>\<open>copy\<close> copies what fits.
\<close>

function console_read_loop ::
    "'w firmware \<Rightarrow> console \<Rightarrow> u64 \<Rightarrow> nat \<Rightarrow> u8 list \<Rightarrow> 'w machine
      \<Rightarrow> (nat \<times> gerr option \<times> u8 list \<times> 'w machine) option" where
  "console_read_loop fw c k n p m =
     (if length p \<le> n then Some (n, None, p, m)
      else case Input fw c k m of
        None \<Rightarrow> None
      | Some (status, m) \<Rightarrow>
          if status AND 255 = EFI_NOT_READY then Some (n, None, p, m)
          else if status \<noteq> EFI_SUCCESS then Some (n, parseStatus status, p, m)
          else if 0 < load16 (mem m) k then
            (if length p < n + 2 then None
             else console_read_loop fw c k (n + 2)
                    (take n p @ le_bytes 2 (unat (load16 (mem m) k)) @ drop (n + 2) p) m)
          else console_read_loop fw c k (n + 2)
                 (take n p @ take (length p - n) (load_bytes (mem m) (k + 2) 2) @ drop (n + 2) p) m)"
  by pat_completeness auto
termination
  by (relation "measure (\<lambda>(fw, c, k, n, p, m). length p - n)") auto

declare console_read_loop.simps [simp del]

definition console_Read :: "'w firmware \<Rightarrow> console \<Rightarrow> u8 list \<Rightarrow> 'w machine
    \<Rightarrow> (nat \<times> gerr option \<times> u8 list \<times> 'w machine) option" where
  "console_Read fw c p m = (let (k, m) = new_obj 4 m in console_read_loop fw c k 0 p m)"

text \<open>The body of the loop of \<^verbatim>\<open>Console.Write\<close> over the UTF-16 units.\<close>

definition console_unit :: "console \<Rightarrow> u16 \<Rightarrow> u8 list" where
  "console_unit c r =
     (if r = tab_ch \<and> ReplaceTabs c > 0 then concat (replicate (nat (ReplaceTabs c)) [space_ch, 0])
      else [ucast (r AND 255), ucast (drop_bit 8 r)]
           @ (if r = lf_ch \<and> ForceLine c then [cr_ch, 0] else []))"

definition console_Write :: "'w firmware \<Rightarrow> console \<Rightarrow> u8 list \<Rightarrow> 'w machine
    \<Rightarrow> (nat \<times> gerr option \<times> 'w machine) option" where
  "console_Write fw c p m =
     (if p = [] then Some (0, None, m)
      else let p = (if length p = length cub \<and> cub = p then [bs_ch, 0] else p);
               b = utf16_encode (runes p);
               s = concat (map (console_unit c) b)
           in do {
             (status, m) \<leftarrow> Output fw c s m;
             if status \<noteq> EFI_SUCCESS then Some (0, parseStatus status, m)
             else Some (0, None, m) })"

text \<open>\<^verbatim>\<open>x64.printk\<close>, the runtime's early console: results of \<^verbatim>\<open>Output\<close> are dropped.\<close>

definition printk :: "'w firmware \<Rightarrow> console \<Rightarrow> u8 \<Rightarrow> 'w machine \<Rightarrow> 'w machine option" where
  "printk fw con c m =
     (if ConsoleOut con = 0 then Some m
      else do {
        (_, m) \<leftarrow> Output fw con [c] m;
        if c = 10 \<and> ForceLine con
        then do { (_, m) \<leftarrow> Output fw con [13] m; Some m }
        else Some m })"

text \<open>The text a console shows for UTF-16 text: tabs replaced, carriage returns added.\<close>

definition console_text :: "console \<Rightarrow> u16 list \<Rightarrow> u16 list" where
  "console_text c us = concat (map (\<lambda>r.
     if r = 9 \<and> ReplaceTabs c > 0 then replicate (nat (ReplaceTabs c)) 32
     else if r = 10 \<and> ForceLine c then [10, 13] else [r]) us)"

text \<open>A console and a machine for the concrete instances below.\<close>

definition demo_console :: console where
  "demo_console = \<lparr>ForceLine = True, ReplaceTabs = 8, ConsoleIn = 4096, ConsoleOut = 8192\<rparr>"

definition demo_machine :: "unit machine" where
  "demo_machine = \<lparr>mem = (\<lambda>_. 0), place = (\<lambda>k. 1048576 + 65536 * of_nat k), objs = 0, stale = 0,
     calls = [], world = ()\<rparr>"

section \<open>Lemmas\<close>

interpretation clear_screen: efi_service ClearScreen "\<lambda>c. ConsoleOut c + clearScreen"
  "\<lambda>c. [ConsoleOut c]" "\<lambda>c. ConsoleOut c \<noteq> 0"
  by unfold_locales (simp_all add: ClearScreen_def apfst_def map_prod_def)

interpretation set_mode: efi_service "\<lambda>fw (c, mode). SetMode fw c mode"
  "\<lambda>(c, mode). ConsoleOut c + setMode" "\<lambda>(c, mode). [ConsoleOut c, mode]" "\<lambda>(c, mode). ConsoleOut c \<noteq> 0"
  by unfold_locales (auto simp: SetMode_def apfst_def map_prod_def)

interpretation set_attribute: efi_service "\<lambda>fw (c, attr). SetAttribute fw c attr"
  "\<lambda>(c, attr). ConsoleOut c + setAttribute" "\<lambda>(c, attr). [ConsoleOut c, attr]"
  "\<lambda>(c, attr). ConsoleOut c \<noteq> 0"
  by unfold_locales (auto simp: SetAttribute_def apfst_def map_prod_def)

lemma utf16_bytes_empty_iff [simp]: "utf16_bytes us = [] \<longleftrightarrow> us = []"
  by (cases us) (simp_all add: utf16_bytes_def)

lemma utf16_bytes_Nil [simp]: "utf16_bytes [] = []"
  by simp

lemma utf16_bytes_single: "[ucast (r AND 255), ucast (drop_bit 8 r)] = utf16_bytes [r]"
  by (simp add: utf16_bytes_def)

lemma console_unit_text: "console_unit c r = utf16_bytes (console_text c [r])"
proof -
  have "concat (replicate n [space_ch, 0]) = utf16_bytes (replicate n 32)" for n
    by (induction n) (simp_all add: utf16_bytes_def space_ch_def)
  then show ?thesis
    by (simp add: console_unit_def console_text_def tab_ch_def lf_ch_def utf16_bytes_Cons cr_ch_def)
qed

lemma console_text_Nil [simp]: "console_text c [] = []"
  by (simp add: console_text_def)

lemma console_text_Cons: "console_text c (u # us) = console_text c [u] @ console_text c us"
  by (simp add: console_text_def)

lemma console_text_empty_iff [simp]: "console_text c us = [] \<longleftrightarrow> us = []"
  by (cases us) (simp_all add: console_text_def)

lemma console_units: "concat (map (console_unit c) us) = utf16_bytes (console_text c us)"
proof (induction us)
  case Nil
  then show ?case by (simp add: utf16_bytes_def)
next
  case (Cons u us)
  then show ?case by (simp add: console_unit_text console_text_Cons [of c u us] utf16_bytes_append)
qed

lemma last_utf16_bytes: "us \<noteq> [] \<Longrightarrow> last (utf16_bytes us) = ucast (drop_bit 8 (last us))"
  by (induction us) (auto simp: utf16_bytes_Cons)

lemma Output_call:
  assumes "p \<noteq> []" "ConsoleOut c \<noteq> 0"
  shows "Output fw c p m = Some (CallService fw (ConsoleOut c + outputString)
      [ConsoleOut c, place m (objs m)]
      (snd (new_slice (if last p \<noteq> 0 then p @ [0] else p) m)))"
  using assms by (simp add: Output_def Let_def first_elem_def new_slice_def null_ch_def)

lemma console_Write_nonempty:
  assumes "p \<noteq> []" "p \<noteq> cub"
  shows "console_Write fw c p m =
    (case Output fw c (utf16_bytes (console_text c (utf16_encode (runes p)))) m of
       None \<Rightarrow> None | Some (status, m) \<Rightarrow> Some (0, parseStatus status, m))"
  using assms by (auto simp: console_Write_def console_units EFI_SUCCESS_def split: Option.bind_splits)

text \<open>One round of \<^verbatim>\<open>Console.Read\<close> on an even buffer stores two bytes at an even offset.\<close>

lemma console_read_loop_even:
  assumes "even (length p)" "even n" "n \<le> length p"
  shows "\<exists>n' err p' m'. console_read_loop fw c k n p m = Some (n', err, p', m')
    \<and> n \<le> n' \<and> n' \<le> length p \<and> even n' \<and> length p' = length p
    \<and> take n p' = take n p \<and> drop n' p' = drop n' p"
  using assms
proof (induction fw c k n p m rule: console_read_loop.induct)
  case (1 fw c k n p m)
  have step: ?case
    if go: "console_read_loop fw c k n p m = console_read_loop fw c k (n + 2) q m'"
      and rest: "\<exists>n' err p' m''. console_read_loop fw c k (n + 2) q m' = Some (n', err, p', m'')
        \<and> n + 2 \<le> n' \<and> n' \<le> length q \<and> even n' \<and> length p' = length q
        \<and> take (n + 2) p' = take (n + 2) q \<and> drop n' p' = drop n' q"
      and q: "q = take n p @ xs @ drop (n + 2) p" "length xs = 2" "n + 2 \<le> length p" for q xs m'
  proof -
    obtain n' err p' m'' where r: "console_read_loop fw c k (n + 2) q m' = Some (n', err, p', m'')"
      "n + 2 \<le> n'" "n' \<le> length q" "even n'" "length p' = length q"
      "take (n + 2) p' = take (n + 2) q" "drop n' p' = drop n' q"
      using rest by blast
    have "take n p' = take n (take (n + 2) q)" using r(6) by (metis take_take min.absorb1 le_add1)
    then have "take n p' = take n p" using q by simp
    moreover have "drop n' q = drop n' p" using q le_Suc_ex [OF r(2)] by (auto simp: ac_simps)
    ultimately show ?thesis using go q r by auto
  qed
  show ?case
  proof (cases "length p \<le> n")
    case True
    with "1.prems" show ?thesis by (subst console_read_loop.simps) simp
  next
    case False
    then have room: "n + 2 \<le> length p" using "1.prems" by presburger
    obtain st m1 where inp: "Input fw c k m = Some (st, m1)"
      by (cases "Input fw c k m") (auto simp: Input_def split: if_splits)
    consider "st AND 255 = EFI_NOT_READY" | "st AND 255 \<noteq> EFI_NOT_READY" "st \<noteq> EFI_SUCCESS"
      | "st AND 255 \<noteq> EFI_NOT_READY" "st = EFI_SUCCESS" "0 < load16 (mem m1) k"
      | "st AND 255 \<noteq> EFI_NOT_READY" "st = EFI_SUCCESS" "\<not> 0 < load16 (mem m1) k" by blast
    then show ?thesis
    proof cases
      case 3
      let ?q = "take n p @ le_bytes 2 (unat (load16 (mem m1) k)) @ drop (n + 2) p"
      have "console_read_loop fw c k n p m = console_read_loop fw c k (n + 2) ?q m1"
        using False inp 3 room by (subst console_read_loop.simps) simp
      then show ?thesis
        by (rule step) (use "1.IH"(1) [OF False inp] 3 room "1.prems" in auto)
    next
      case 4
      let ?q = "take n p @ take (length p - n) (load_bytes (mem m1) (k + 2) 2) @ drop (n + 2) p"
      have "console_read_loop fw c k n p m = console_read_loop fw c k (n + 2) ?q m1"
        using False inp 4 by (subst console_read_loop.simps) simp
      then show ?thesis
        by (rule step) (use "1.IH"(2) [OF False inp] 4 room "1.prems" in auto)
    qed (use False inp "1.prems" in \<open>subst console_read_loop.simps, simp\<close>)+
  qed
qed

section \<open>Properties\<close>

text \<open>
  Claim C29: console output. Writing a non-empty text other than the cursor-back sequence never
  panics and is one call of \<^verbatim>\<open>OutputString\<close> with the console and a fresh buffer: the text's
  UTF-16 encoding with tabs replaced by spaces and line feeds supplemented by carriage returns,
  and one zero byte appended when the last byte is not zero. The error is the status of the call;
  the count returned is 0, also on success.
\<close>

theorem console_Write_output:
  fixes c :: console
  assumes "p \<noteq> []" "p \<noteq> cub" "ConsoleOut c \<noteq> 0"
  defines "t \<equiv> utf16_bytes (console_text c (utf16_encode (runes p)))"
  shows "console_Write fw c p m =
    (let (_, m1) = new_slice (if last t \<noteq> 0 then t @ [0] else t) m;
         (status, m2) = CallService fw (ConsoleOut c + outputString) [ConsoleOut c, place m (objs m)] m1
     in Some (0, parseStatus status, m2))"
  using assms by (simp add: console_Write_nonempty Output_call split: prod.splits)

theorem console_Write_output_witness:
  "console_Write (\<lambda>code args f w. (0, f, w)) demo_console [72, 105, 10] demo_machine =
    (let (_, m1) = new_slice (if last (utf16_bytes (console_text demo_console
             (utf16_encode (runes [72, 105, 10])))) \<noteq> 0
           then utf16_bytes (console_text demo_console (utf16_encode (runes [72, 105, 10]))) @ [0]
           else utf16_bytes (console_text demo_console (utf16_encode (runes [72, 105, 10])))) demo_machine;
         (status, m2) = CallService (\<lambda>code args f w. (0, f, w)) (ConsoleOut demo_console + outputString)
           [ConsoleOut demo_console, place demo_machine (objs demo_machine)] m1
     in Some (0, parseStatus status, m2))"
  by (rule console_Write_output) (simp_all add: demo_console_def cub_def)

text \<open>
  Console text is not NUL terminated. For non-empty ASCII text without NUL characters
  every 16-bit unit of the buffer handed to \<^verbatim>\<open>OutputString\<close>, which expects a NUL-terminated
  string, is non-zero: the terminator test looks at the last byte, which is the zero high byte of
  the last character.
\<close>

theorem console_Write_unterminated:
  fixes c :: console
  assumes "p \<noteq> []" "list_all (\<lambda>b. 0 < unat b \<and> unat b < 128) p"
  defines "t \<equiv> utf16_bytes (console_text c (utf16_encode (runes p)))"
  shows "last t = 0 \<and> even (length t) \<and> 0 \<notin> set (le_units t)"
proof -
  define us where "us = console_text c (utf16_encode (runes p))"
  have ascii: "utf16_encode (runes p) = map (\<lambda>b. of_nat (unat b)) p"
    using assms(2) utf16_encode_ascii [of "map unat p"] runes_ascii [of p]
    by (simp add: list_all_iff)
  have small: "0 < u \<and> u < 128" if "u \<in> set us" for u
  proof -
    have b: "0 < (of_nat (unat b) :: u16) \<and> (of_nat (unat b) :: u16) < 128" if "b \<in> set p" for b
      using assms(2) that unat_of_nat_u16_small [of "unat b"]
      by (auto simp: list_all_iff word_less_nat_alt simp del: of_nat_unat)
    show ?thesis using that b by (auto simp: us_def console_text_def ascii split: if_splits)
  qed
  have ne: "us \<noteq> []" using assms(1) by (simp add: us_def)
  then have "last us < 128" using small by simp
  then have "unat (last us) div 256 = 0" by (simp add: word_less_nat_alt)
  then have "unat (drop_bit 8 (last us)) = 0" by (simp add: drop_bit_eq_div unat_div)
  then have "drop_bit 8 (last us) = 0" by (simp only: unat_eq_0)
  moreover have "0 \<notin> set us" using small by blast
  ultimately show ?thesis using ne le_units_bytes [of us "[]"]
    by (simp add: t_def us_def [symmetric] last_utf16_bytes)
qed

theorem console_Write_unterminated_witness:
  "last (utf16_bytes (console_text demo_console (utf16_encode (runes [72, 105])))) = 0
   \<and> even (length (utf16_bytes (console_text demo_console (utf16_encode (runes [72, 105])))))
   \<and> 0 \<notin> set (le_units (utf16_bytes (console_text demo_console (utf16_encode (runes [72, 105])))))"
  by (rule console_Write_unterminated) simp_all

text \<open>
  Claim C30: console input. Reading into a buffer of even length never panics whatever the firmware
  does: it stops at an even count within the buffer and leaves the rest of the buffer as it was.
\<close>

theorem console_Read_safe:
  assumes "even (length p)"
  shows "\<exists>n err p' m'. console_Read fw c p m = Some (n, err, p', m')
    \<and> n \<le> length p \<and> even n \<and> length p' = length p \<and> drop n p' = drop n p"
  using console_read_loop_even [OF assms, of 0]
  by (fastforce simp: console_Read_def split: prod.splits)

theorem console_Read_safe_witness:
  "\<exists>n err p' m'. console_Read (\<lambda>code args f w. (0, f, w)) demo_console [1, 2, 3, 4] demo_machine
      = Some (n, err, p', m')
    \<and> n \<le> length [1, 2, 3, 4 :: u8] \<and> even n \<and> length p' = length [1, 2, 3, 4 :: u8]
    \<and> drop n p' = drop n [1, 2, 3, 4 :: u8]"
  by (rule console_Read_safe) simp

end
