(* ===== verification/Services.thy ===== *)
theory Services
  imports Guid Console
begin

text \<open>
  \<^verbatim>\<open>pkg/ueficore/uefi.go\<close>: the EFI System Table, the services instance and its
  initialisation; \<^verbatim>\<open>pkg/ueficore/config.go\<close>: the configuration tables the system table
  points to; and, from \<^verbatim>\<open>pkg/uefi/uefi_spec.go\<close>, the order of the entries of the boot and
  runtime services tables.
\<close>

section \<open>Definitions\<close>

definition signature :: u64 where "signature = 0x5453595320494249"

record table_header =
  Signature :: u64
  Revision_field :: u32
  HeaderSize :: u32
  CRC32 :: u32
  Reserved :: u32

record system_table =
  st_Header :: table_header
  FirmwareVendor :: u64
  FirmwareRevision :: u32
  ConsoleInHandle :: u64
  ConIn :: u64
  ConsoleOutHandle :: u64
  ConOut :: u64
  StandardErrorHandle :: u64
  StdErr :: u64
  st_RuntimeServices :: u64
  st_BootServices :: u64
  NumberOfTableEntries :: u64
  st_ConfigurationTable :: u64

text \<open>The binary layout; the blank field after \<open>FirmwareRevision\<close> is written as zero and skipped.\<close>

definition system_table_enc :: "system_table \<Rightarrow> u8 list" where
  "system_table_enc t = le_emit
     [(8, unat (Signature (st_Header t))), (4, unat (Revision_field (st_Header t))),
      (4, unat (HeaderSize (st_Header t))), (4, unat (CRC32 (st_Header t))),
      (4, unat (Reserved (st_Header t))),
      (8, unat (FirmwareVendor t)), (4, unat (FirmwareRevision t)), (4, 0),
      (8, unat (ConsoleInHandle t)), (8, unat (ConIn t)), (8, unat (ConsoleOutHandle t)),
      (8, unat (ConOut t)), (8, unat (StandardErrorHandle t)), (8, unat (StdErr t)),
      (8, unat (st_RuntimeServices t)), (8, unat (st_BootServices t)),
      (8, unat (NumberOfTableEntries t)), (8, unat (st_ConfigurationTable t))]"

definition system_table_dec :: "u8 list \<Rightarrow> system_table" where
  "system_table_dec bs =
     (let v = le_fields [8, 4, 4, 4, 4, 8, 4, 4, 8, 8, 8, 8, 8, 8, 8, 8, 8, 8] bs
      in \<lparr>st_Header = \<lparr>Signature = of_nat (v ! 0), Revision_field = of_nat (v ! 1),
             HeaderSize = of_nat (v ! 2), CRC32 = of_nat (v ! 3), Reserved = of_nat (v ! 4)\<rparr>,
          FirmwareVendor = of_nat (v ! 5), FirmwareRevision = of_nat (v ! 6),
          ConsoleInHandle = of_nat (v ! 8), ConIn = of_nat (v ! 9),
          ConsoleOutHandle = of_nat (v ! 10), ConOut = of_nat (v ! 11),
          StandardErrorHandle = of_nat (v ! 12), StdErr = of_nat (v ! 13),
          st_RuntimeServices = of_nat (v ! 14), st_BootServices = of_nat (v ! 15),
          NumberOfTableEntries = of_nat (v ! 16), st_ConfigurationTable = of_nat (v ! 17)\<rparr>)"

text \<open>The two numbers \<^verbatim>\<open>SystemTable.Revision\<close> prints around the dot.\<close>

definition Revision :: "system_table \<Rightarrow> u32 \<times> u32" where
  "Revision d = (let r = Revision_field (st_Header d) in (drop_bit 16 r, r AND 65535))"

record boot_services =
  bs_base :: u64
  bs_imageHandle :: u64

record runtime_services =
  rs_base :: u64

text \<open>\<^verbatim>\<open>Services\<close>; a nil pointer field is \<open>None\<close>.\<close>

record services =
  sv_SystemTable :: "system_table option"
  sv_Console :: "console option"
  sv_Boot :: "boot_services option"
  sv_Runtime :: "runtime_services option"
  sv_imageHandle :: u64
  sv_systemTable :: u64

definition zero_header :: table_header where
  "zero_header = \<lparr>Signature = 0, Revision_field = 0, HeaderSize = 0, CRC32 = 0, Reserved = 0\<rparr>"

definition zero_system_table :: system_table where
  "zero_system_table = \<lparr>st_Header = zero_header, FirmwareVendor = 0, FirmwareRevision = 0,
     ConsoleInHandle = 0, ConIn = 0, ConsoleOutHandle = 0, ConOut = 0, StandardErrorHandle = 0,
     StdErr = 0, st_RuntimeServices = 0, st_BootServices = 0, NumberOfTableEntries = 0,
     st_ConfigurationTable = 0\<rparr>"

text \<open>
  \<^verbatim>\<open>Services.Init\<close>. On an error of \<^verbatim>\<open>decode\<close> the system table is the zero struct the
  pointer was set to.
\<close>

definition Services_Init :: "dma_pkg \<Rightarrow> services \<Rightarrow> u64 \<Rightarrow> u64 \<Rightarrow> memory \<Rightarrow> (gerr option \<times> services) option" where
  "Services_Init dma s imageHandle systemTable f =
     (let s = s\<lparr>sv_imageHandle := imageHandle, sv_systemTable := systemTable,
                sv_SystemTable := Some zero_system_table\<rparr>
      in do {
        d \<leftarrow> decode dma 120 system_table_dec systemTable f;
        case d of
          Inl err \<Rightarrow> Some (Some err, s)
        | Inr t \<Rightarrow>
            let s = s\<lparr>sv_SystemTable := Some t\<rparr> in
            if Signature (st_Header t) \<noteq> signature
            then Some (Some (ErrMsg ''EFI System Table pointer is invalid''), s)
            else Some (None, s\<lparr>
              sv_Console := Some \<lparr>ForceLine = True, ReplaceTabs = 8, ConsoleIn = ConIn t, ConsoleOut = ConOut t\<rparr>,
              sv_Boot := Some \<lparr>bs_base = st_BootServices t, bs_imageHandle = imageHandle\<rparr>,
              sv_Runtime := Some \<lparr>rs_base = st_RuntimeServices t\<rparr>\<rparr>) })"

definition ImageHandle :: "services \<Rightarrow> u64" where
  "ImageHandle s = sv_imageHandle s"

definition Services_Address :: "services \<Rightarrow> u64" where
  "Services_Address s = sv_systemTable s"

subsection \<open>config.go\<close>

definition configuration_table_enc :: "configuration_table \<Rightarrow> u8 list" where
  "configuration_table_enc t = ct_GUID t @ le_emit [(8, unat (ct_VendorTable t))]"

definition configuration_table_dec :: "u8 list \<Rightarrow> configuration_table" where
  "configuration_table_dec bs =
     \<lparr>ct_GUID = take 16 bs, ct_VendorTable = of_nat (le_fields [8] (drop 16 bs) ! 0)\<rparr>"

text \<open>
  The loop \<^verbatim>\<open>for i := 0; i < tableSize; i += entrySize\<close> over a buffer; slicing past its end
  panics. \<open>tableSize\<close> is a Go \<^verbatim>\<open>int\<close>: the product wraps around.
\<close>

function config_loop :: "int \<Rightarrow> u8 list \<Rightarrow> int \<Rightarrow> configuration_table list
    \<Rightarrow> (configuration_table list \<times> gerr option) option" where
  "config_loop tableSize buf i c =
     (if i < tableSize then
        if i < 0 \<or> int (length buf) < i + 24 then None
        else case unmarshalBinary 24 configuration_table_dec (take 24 (drop (nat i) buf)) of
          Inl err \<Rightarrow> Some (c, Some err)
        | Inr t \<Rightarrow> config_loop tableSize buf (i + 24) (c @ [t])
      else Some (c, None))"
  by pat_completeness auto
termination
  by (relation "measure (\<lambda>(tableSize, buf, i, c). nat (tableSize - i))") auto

declare config_loop.simps [simp del]

definition go_int :: "int \<Rightarrow> int" where
  "go_int x = sint (word_of_int x :: u64)"

definition ConfigurationTables :: "dma_pkg \<Rightarrow> system_table \<Rightarrow> memory
    \<Rightarrow> (configuration_table list \<times> gerr option) option" where
  "ConfigurationTables dma d f =
     (if NumberOfTableEntries d = 0 \<or> st_ConfigurationTable d = 0
      then Some ([], Some (ErrMsg ''EFI Configuration Table is invalid''))
      else let tableSize = go_int (24 * sint (NumberOfTableEntries d)) in
      case NewRegion dma (st_ConfigurationTable d) tableSize of
        Some err \<Rightarrow> Some ([], Some err)
      | None \<Rightarrow> do {
          (addr, buf) \<leftarrow> Reserve dma (st_ConfigurationTable d) tableSize tableSize 0 f;
          config_loop tableSize buf 0 [] })"

subsection \<open>uefi\_spec.go: the entries of the service tables\<close>

definition EFI_BOOT_SERVICES :: "string list" where
  "EFI_BOOT_SERVICES =
    [''raiseTPL'', ''restoreTPL'', ''allocatePages'', ''freePages'', ''getMemoryMap'',
     ''allocatePool'', ''freePool'', ''createEvent'', ''setTimer'', ''waitForEvent'',
     ''signalEvent'', ''closeEvent'', ''checkEvent'', ''installProtocolInterface'',
     ''reinstallProtocolInterface'', ''uninstallProtocolInterface'', ''handleProtocol'',
     ''Reserved'', ''registerProtocolNotify'', ''locateHandle'', ''locateDevicePath'',
     ''installConfigurationTable'', ''loadImage'', ''startImage'', ''exit'', ''unloadImage'',
     ''exitBootServices'', ''getNextMonotonicCount'', ''stall'', ''setWatchdogTimer'',
     ''connectController'', ''disconnectController'', ''openProtocol'', ''closeProtocol'',
     ''openProtocolInformation'', ''protocolsPerHandle'', ''locateHandleBuffer'',
     ''locateProtocol'', ''installMultipleProtocolInterfaces'',
     ''uninstallMultipleProtocolInterfaces'', ''calculateCrc32'', ''copyMem'', ''setMem'',
     ''createEventEx'']"

definition EFI_RUNTIME_SERVICES :: "string list" where
  "EFI_RUNTIME_SERVICES =
    [''getTime'', ''setTime'', ''getWakeupTime'', ''setWakeupTime'', ''setVirtualAddressMap'',
     ''convertPointer'', ''getVariable'', ''getNextVariableName'', ''setVariable'',
     ''getNextHighMonotonicCount'', ''resetSystem'', ''updateCapsule'',
     ''queryCapsuleCapabilities'', ''queryVariableInfo'']"

text \<open>The offset of a named entry: a 24 byte header, then one pointer per entry.\<close>

fun index_of :: "'a \<Rightarrow> 'a list \<Rightarrow> nat option" where
  "index_of x [] = None"
| "index_of x (y # ys) = (if x = y then Some 0 else map_option Suc (index_of x ys))"

definition entry_offset :: "string list \<Rightarrow> string \<Rightarrow> u64 option" where
  "entry_offset table name = map_option (\<lambda>i. of_nat (24 + 8 * i)) (index_of name table)"

text \<open>Instances of the third-party parameters and of the structs, for the examples below.\<close>

definition demo_dma :: dma_pkg where
  "demo_dma = \<lparr>NewRegion = (\<lambda>a n. None), Reserve = (\<lambda>a sz n al f. Some (a, load_bytes f a (nat n))),
     Alloc = (\<lambda>a sz bs al f. Some (a, store_bytes a bs f))\<rparr>"

definition demo_system_table :: system_table where
  "demo_system_table = zero_system_table\<lparr>
     st_Header := \<lparr>Signature = signature, Revision_field = 131162, HeaderSize = 120, CRC32 = 0, Reserved = 0\<rparr>,
     ConIn := 4096, ConOut := 8192, st_RuntimeServices := 12288, st_BootServices := 16384,
     NumberOfTableEntries := 2, st_ConfigurationTable := 20480\<rparr>"

definition demo_config :: "configuration_table list" where
  "demo_config = [\<lparr>ct_GUID = replicate 16 1, ct_VendorTable = 7\<rparr>, \<lparr>ct_GUID = replicate 16 2, ct_VendorTable = 9\<rparr>]"

definition demo_services :: services where
  "demo_services = \<lparr>sv_SystemTable = None, sv_Console = None, sv_Boot = None, sv_Runtime = None,
     sv_imageHandle = 0, sv_systemTable = 0\<rparr>"

section \<open>Lemmas\<close>

subsection \<open>Struct layouts\<close>

interpretation system_table: struct_codec 120 system_table_enc system_table_dec "\<lambda>_. True"
proof unfold_locales
  fix t rest show "system_table_dec (system_table_enc t @ rest) = t"
    by (simp add: system_table_dec_def system_table_enc_def le_simps)
next
  fix bs :: "u8 list" assume "120 \<le> length bs"
  show "system_table_dec (take 120 bs) = system_table_dec bs"
    by (simp add: system_table_dec_def le_fields_take del: le_fields.simps)
qed (simp_all add: system_table_enc_def)

interpretation configuration_table: struct_codec 24 configuration_table_enc configuration_table_dec
  "\<lambda>t. length (ct_GUID t) = 16"
proof unfold_locales
  fix t :: configuration_table and rest assume "length (ct_GUID t) = 16"
  then show "configuration_table_dec (configuration_table_enc t @ rest) = t"
    by (simp add: configuration_table_dec_def configuration_table_enc_def le_simps)
next
  fix bs :: "u8 list" assume "24 \<le> length bs"
  show "configuration_table_dec (take 24 bs) = configuration_table_dec bs"
    by (simp add: configuration_table_dec_def drop_take min_absorb1)
qed (simp_all add: configuration_table_enc_def)

lemma config_loop_tables:
  assumes "list_all (\<lambda>t. length (ct_GUID t) = 16) ts" "j \<le> length ts"
  shows "config_loop (24 * int (length ts)) (concat (map configuration_table_enc ts)) (24 * int j) c
    = Some (c @ drop j ts, None)"
  using assms(2)
proof (induction "length ts - j" arbitrary: j c)
  case 0
  then show ?case by (subst config_loop.simps) simp
next
  case (Suc k)
  define buf where "buf = concat (map configuration_table_enc ts)"
  have j: "j < length ts" using Suc by simp
  have len: "length buf = 24 * length ts"
    using configuration_table.length_concat_enc [OF assms(1)] by (simp add: buf_def)
  have "configuration_table_dec (drop (24 * j) buf) = ts ! j"
    using configuration_table.dec_nth [OF assms(1) j, of "[]"] by (simp add: buf_def mult.commute)
  then have "unmarshalBinary 24 configuration_table_dec (take 24 (drop (nat (24 * int j)) buf)) = Inr (ts ! j)"
    using len j configuration_table.dec_take [of "drop (24 * j) buf"]
    by (simp add: unmarshalBinary_def nat_mult_distrib)
  then have "config_loop (24 * int (length ts)) buf (24 * int j) c
      = config_loop (24 * int (length ts)) buf (24 * int (Suc j)) (c @ [ts ! j])"
    using len j by (subst config_loop.simps) (simp add: algebra_simps)
  also have "\<dots> = Some ((c @ [ts ! j]) @ drop (Suc j) ts, None)"
    unfolding buf_def by (rule Suc.hyps(1)) (use Suc j in auto)
  finally show ?case using j by (simp add: buf_def Cons_nth_drop_Suc)
qed

lemma go_int_small: "- (2 ^ 63) \<le> x \<Longrightarrow> x < 2 ^ 63 \<Longrightarrow> go_int x = x"
  by (simp add: go_int_def signed_of_int signed_take_bit_int_eq_self)

lemma sint_small:
  assumes "unat (x::u64) < 2 ^ 63"
  shows "sint x = int (unat x)"
proof -
  have "unat x < 9223372036854775808" using assms by simp
  moreover have "uint x = int (unat x)" by (simp only: uint_nat)
  ultimately have "uint x < 9223372036854775808" "- 9223372036854775808 \<le> uint x" by linarith+
  then have "uint x < 2 ^ 63" "- (2 ^ 63) \<le> uint x" by simp_all
  from go_int_small [OF this(2,1)] show ?thesis by (simp add: go_int_def)
qed

lemma demo_dma_maps [simp]: "dma_maps demo_dma"
  by (simp add: dma_maps_def demo_dma_def)

lemma demo_dma_region [simp]: "NewRegion demo_dma a n = None"
  by (simp add: demo_dma_def)

section \<open>Properties\<close>

text \<open>
  Initialisation. If an EFI System Table \<open>t\<close> is in memory at the address the firmware
  passed and that region can be mapped, \<^verbatim>\<open>Services.Init\<close> succeeds exactly when the table has
  the EFI signature; the services then use the boot and runtime tables and the consoles \<open>t\<close>
  names. With a wrong signature no service is set.
\<close>

theorem Services_Init_spec:
  assumes "dma_maps dma" "a \<noteq> 0" "NewRegion dma a 120 = None"
    and "load_bytes f a 120 = system_table_enc t"
  shows "\<exists>err s'. Services_Init dma s h a f = Some (err, s')
    \<and> (err = None \<longleftrightarrow> Signature (st_Header t) = signature)
    \<and> sv_SystemTable s' = Some t \<and> ImageHandle s' = h \<and> Services_Address s' = a
    \<and> (if err = None
        then sv_Boot s' = Some \<lparr>bs_base = st_BootServices t, bs_imageHandle = h\<rparr>
           \<and> sv_Runtime s' = Some \<lparr>rs_base = st_RuntimeServices t\<rparr>
           \<and> (\<exists>c. sv_Console s' = Some c \<and> ConsoleIn c = ConIn t \<and> ConsoleOut c = ConOut t)
        else sv_Boot s' = sv_Boot s \<and> sv_Runtime s' = sv_Runtime s \<and> sv_Console s' = sv_Console s)"
proof -
  have "decode dma 120 system_table_dec a f = Some (Inr t)"
    using system_table.decode_stored [OF assms(1,2)] assms(3,4) by (simp add: align_def)
  then show ?thesis
    by (simp add: Services_Init_def Let_def ImageHandle_def Services_Address_def)
qed

theorem Services_Init_spec_witness:
  "\<exists>err s'. Services_Init demo_dma demo_services 77 4096
        (store_bytes 4096 (system_table_enc demo_system_table) (\<lambda>_. 0)) = Some (err, s')
    \<and> (err = None \<longleftrightarrow> Signature (st_Header demo_system_table) = signature)
    \<and> sv_SystemTable s' = Some demo_system_table \<and> ImageHandle s' = 77 \<and> Services_Address s' = 4096
    \<and> (if err = None
        then sv_Boot s' = Some \<lparr>bs_base = st_BootServices demo_system_table, bs_imageHandle = 77\<rparr>
           \<and> sv_Runtime s' = Some \<lparr>rs_base = st_RuntimeServices demo_system_table\<rparr>
           \<and> (\<exists>c. sv_Console s' = Some c \<and> ConsoleIn c = ConIn demo_system_table
                \<and> ConsoleOut c = ConOut demo_system_table)
        else sv_Boot s' = sv_Boot demo_services \<and> sv_Runtime s' = sv_Runtime demo_services
           \<and> sv_Console s' = sv_Console demo_services)"
proof (rule Services_Init_spec)
  show "load_bytes (store_bytes 4096 (system_table_enc demo_system_table) (\<lambda>_. 0)) 4096 120
      = system_table_enc demo_system_table"
    using load_store_same [of "system_table_enc demo_system_table"]
    by (simp add: system_table.length_enc [simplified])
qed simp_all

text \<open>
  Configuration tables. If an array of configuration tables is in memory at the address
  and of the length the system table names, \<^verbatim>\<open>ConfigurationTables\<close> returns exactly that
  array, in order.
\<close>

theorem ConfigurationTables_spec:
  assumes "dma_maps dma" "st_ConfigurationTable d \<noteq> 0"
    and "ts \<noteq> []" "length ts < 2 ^ 32" "NumberOfTableEntries d = of_nat (length ts)"
    and "list_all (\<lambda>t. length (ct_GUID t) = 16) ts"
    and "NewRegion dma (st_ConfigurationTable d) (24 * int (length ts)) = None"
    and "load_bytes f (st_ConfigurationTable d) (24 * length ts) = concat (map configuration_table_enc ts)"
  shows "ConfigurationTables dma d f = Some (ts, None)"
proof -
  have u: "unat (NumberOfTableEntries d) = length ts" using assms(4,5) by (simp add: unat_of_nat)
  then have "sint (NumberOfTableEntries d) = int (length ts)" using assms(4) by (simp add: sint_small)
  then have sz: "go_int (24 * sint (NumberOfTableEntries d)) = 24 * int (length ts)"
    using assms(4) by (simp add: go_int_small)
  have "Reserve dma (st_ConfigurationTable d) (24 * int (length ts)) (24 * int (length ts)) 0 f
      = Some (st_ConfigurationTable d, concat (map configuration_table_enc ts))"
    using assms(1,3,7,8) by (simp add: dma_maps_def nat_mult_distrib)
  moreover have "NumberOfTableEntries d \<noteq> 0" using u assms(3) by auto
  ultimately show ?thesis
    using assms(2,7) config_loop_tables [OF assms(6), of 0 "[]"]
    by (simp add: ConfigurationTables_def Let_def sz)
qed

theorem ConfigurationTables_spec_witness:
  "ConfigurationTables demo_dma demo_system_table
     (store_bytes 20480 (concat (map configuration_table_enc demo_config)) (\<lambda>_. 0)) = Some (demo_config, None)"
proof (rule ConfigurationTables_spec)
  show "load_bytes (store_bytes 20480 (concat (map configuration_table_enc demo_config)) (\<lambda>_. 0))
      (st_ConfigurationTable demo_system_table) (24 * length demo_config)
    = concat (map configuration_table_enc demo_config)"
    using load_store_same [of "concat (map configuration_table_enc demo_config)" 20480]
    by (simp add: demo_system_table_def demo_config_def configuration_table_enc_def)
qed (simp_all add: demo_system_table_def demo_config_def)

end
