(* ===== verification/Memory_Map.thy ===== *)
theory Memory_Map
  imports Services
begin

text \<open>
  \<^verbatim>\<open>pkg/ueficore/mem.go\<close> and \<^verbatim>\<open>pkg/ueficore/pages.go\<close>: the EFI memory map, its
  conversion to an x86 E820 map, and page allocation. The third-party package
  \<^verbatim>\<open>u-root/bzimage\<close> contributes the numbers of four memory types (parameter \<open>ty\<close>), the Go
  runtime the bounds of its own memory (\<^verbatim>\<open>runtime.MemRegion\<close>, parameters \<open>ramStart\<close> and
  \<open>ramEnd\<close>).
\<close>

section \<open>Definitions\<close>

subsection \<open>pages.go\<close>

definition allocatePages :: u64 where "allocatePages = 0x28"
definition freePages :: u64 where "freePages = 0x30"

definition AllocateAnyPages :: int where "AllocateAnyPages = 0"
definition AllocateMaxAddress :: int where "AllocateMaxAddress = 1"
definition AllocateAddress :: int where "AllocateAddress = 2"

definition EfiLoaderCode :: u32 where "EfiLoaderCode = 1"
definition EfiLoaderData :: u32 where "EfiLoaderData = 2"
definition EfiBootServicesCode :: u32 where "EfiBootServicesCode = 3"
definition EfiBootServicesData :: u32 where "EfiBootServicesData = 4"
definition EfiConventionalMemory :: u32 where "EfiConventionalMemory = 7"
definition EfiACPIReclaimMemory :: u32 where "EfiACPIReclaimMemory = 9"
definition EfiACPIMemoryNVS :: u32 where "EfiACPIMemoryNVS = 10"
definition EfiPersistentMemory :: u32 where "EfiPersistentMemory = 14"

definition PageSize :: u64 where "PageSize = 4096"

text \<open>\<open>physicalAddress\<close> is a parameter whose address is passed: the firmware updates a copy.\<close>

definition AllocatePages :: "'w firmware \<Rightarrow> boot_services \<Rightarrow> int \<Rightarrow> int \<Rightarrow> int \<Rightarrow> u64 \<Rightarrow> 'w machine
    \<Rightarrow> (gerr option \<times> 'w machine) option" where
  "AllocatePages fw s allocateType memoryType sz physicalAddress m =
     (let (a, m) = new_uint64 physicalAddress m in do {
        p \<leftarrow> ptrval (PtrUint64 a);
        let (status, m) = CallService fw (bs_base s + allocatePages)
              [word_of_int allocateType, word_of_int memoryType, word_of_int sz div PageSize, p] m;
        Some (parseStatus status, m) })"

definition FreePages :: "'w firmware \<Rightarrow> boot_services \<Rightarrow> u64 \<Rightarrow> int \<Rightarrow> 'w machine \<Rightarrow> gerr option \<times> 'w machine" where
  "FreePages fw s physicalAddress sz m =
     (let (status, m) = CallService fw (bs_base s + freePages)
            [physicalAddress, word_of_int sz div PageSize] m
      in (parseStatus status, m))"

subsection \<open>mem.go\<close>

definition getMemoryMap :: u64 where "getMemoryMap = 0x38"
definition maxEntries :: nat where "maxEntries = 1000"
definition AddressRangePersistentMemory :: u32 where "AddressRangePersistentMemory = 7"

record memory_descriptor =
  md_Type :: u32
  PhysicalStart :: u64
  VirtualStart :: u64
  NumberOfPages :: u64
  md_Attribute :: u64

definition descriptor_enc :: "memory_descriptor \<Rightarrow> u8 list" where
  "descriptor_enc d = le_emit
     [(4, unat (md_Type d)), (4, 0), (8, unat (PhysicalStart d)), (8, unat (VirtualStart d)),
      (8, unat (NumberOfPages d)), (8, unat (md_Attribute d)), (8, 0)]"

definition descriptor_dec :: "u8 list \<Rightarrow> memory_descriptor" where
  "descriptor_dec bs =
     (let v = le_fields [4, 4, 8, 8, 8, 8, 8] bs
      in \<lparr>md_Type = of_nat (v ! 0), PhysicalStart = of_nat (v ! 2), VirtualStart = of_nat (v ! 3),
          NumberOfPages = of_nat (v ! 4), md_Attribute = of_nat (v ! 5)\<rparr>)"

definition PhysicalEnd :: "memory_descriptor \<Rightarrow> u64" where
  "PhysicalEnd d = PhysicalStart d + NumberOfPages d * PageSize"

definition descriptor_Size :: "memory_descriptor \<Rightarrow> int" where
  "descriptor_Size d = sint (NumberOfPages d * PageSize)"

text \<open>The memory type numbers of \<^verbatim>\<open>bzimage\<close> and its \<^verbatim>\<open>E820Entry\<close>.\<close>

record bzimage_types =
  bz_RAM :: u32
  bz_ACPI :: u32
  bz_NVS :: u32
  bz_Reserved :: u32

record e820_entry =
  e_Addr :: u64
  e_Size :: u64
  e_MemType :: u32

definition descriptor_E820 :: "bzimage_types \<Rightarrow> memory_descriptor \<Rightarrow> e820_entry" where
  "descriptor_E820 ty d =
     \<lparr>e_Addr = PhysicalStart d, e_Size = NumberOfPages d * PageSize,
      e_MemType =
        (if md_Type d \<in> {EfiLoaderCode, EfiLoaderData, EfiBootServicesCode, EfiBootServicesData,
                         EfiConventionalMemory} then bz_RAM ty
         else if md_Type d = EfiPersistentMemory then AddressRangePersistentMemory
         else if md_Type d = EfiACPIReclaimMemory then bz_ACPI ty
         else if md_Type d = EfiACPIMemoryNVS then bz_NVS ty
         else bz_Reserved ty)\<rparr>"

record memory_map =
  MapSize :: u64
  Descriptors :: "memory_descriptor list"
  MapKey :: u64
  DescriptorSize :: u64
  DescriptorVersion :: u32
  mm_buf :: "u64 \<times> u8 list" \<comment> \<open>its address and contents\<close>

text \<open>\<^verbatim>\<open>MemoryMap.Address\<close> panics when there is no buffer.\<close>

definition MemoryMap_Address :: "memory_map \<Rightarrow> u64 option" where
  "MemoryMap_Address mm = (if snd (mm_buf mm) = [] then None else ptrval (PtrByte (fst (mm_buf mm))))"

text \<open>
  One round of the loop of \<^verbatim>\<open>MemoryMap.E820\<close>. \<open>prev\<close> is the entry the pointer refers to: either
  the entry appended last or, after a join, the last element itself, so both have the same value.
\<close>

fun E820_step :: "u64 \<Rightarrow> u64 \<Rightarrow> e820_entry option \<times> e820_entry list \<Rightarrow> e820_entry
    \<Rightarrow> e820_entry option \<times> e820_entry list" where
  "E820_step ramStart ramEnd (None, e820) entry = (Some entry, e820 @ [entry])"
| "E820_step ramStart ramEnd (Some prev, e820) entry =
     (if (e_Addr entry \<noteq> ramStart \<and> e_Addr prev + e_Size prev \<noteq> ramEnd)
         \<and> (e_MemType prev = e_MemType entry \<and> e_Addr prev + e_Size prev = e_Addr entry)
      then let l = (last e820)\<lparr>e_Size := e_Size (last e820) + e_Size entry\<rparr>
           in (Some l, butlast e820 @ [l])
      else (Some entry, e820 @ [entry]))"

definition MemoryMap_E820 :: "bzimage_types \<Rightarrow> u64 \<Rightarrow> u64 \<Rightarrow> memory_map \<Rightarrow> e820_entry list" where
  "MemoryMap_E820 ty ramStart ramEnd m =
     snd (foldl (\<lambda>st desc. E820_step ramStart ramEnd st (descriptor_E820 ty desc)) (None, []) (Descriptors m))"

text \<open>
  The loop \<^verbatim>\<open>for i := 0; i < int(m.MapSize); i += n\<close>: \<^verbatim>\<open>m.buf[i:]\<close> panics past the end of
  the buffer, a buffer that is too short for a descriptor ends the loop with an error.
\<close>

function descriptor_loop :: "int \<Rightarrow> u8 list \<Rightarrow> nat \<Rightarrow> memory_descriptor list
    \<Rightarrow> (memory_descriptor list \<times> gerr option) option" where
  "descriptor_loop mapSize buf i ds =
     (if int i < mapSize then
        if length buf < i then None
        else case unmarshalBinary 48 descriptor_dec (drop i buf) of
          Inl err \<Rightarrow> Some (ds, Some err)
        | Inr d \<Rightarrow> descriptor_loop mapSize buf (i + 48) (ds @ [d])
      else Some (ds, None))"
  by pat_completeness auto
termination
  by (relation "measure (\<lambda>(mapSize, buf, i, ds). nat (mapSize - int i))") auto

declare descriptor_loop.simps [simp del]

text \<open>
  The result object is one Go object: \<^verbatim>\<open>MapSize\<close> is at its start, \<^verbatim>\<open>MapKey\<close>,
  \<^verbatim>\<open>DescriptorSize\<close> and \<^verbatim>\<open>DescriptorVersion\<close> at offsets 32, 40 and 48 (a slice header of
  24 bytes is between). The buffer is a second object.
\<close>

definition GetMemoryMap :: "'w firmware \<Rightarrow> boot_services \<Rightarrow> 'w machine
    \<Rightarrow> (memory_map \<times> gerr option \<times> 'w machine) option" where
  "GetMemoryMap fw s m =
     (let n = 48;
          (o1, m) = new_obj 80 m;
          m = m\<lparr>mem := store64 (o1 + 40) (of_nat n) (store64 o1 (of_nat (n * maxEntries)) (mem m))\<rparr>
      in do {
        (b, m) \<leftarrow> first_elem (replicate (n * maxEntries) 0) m;
        p1 \<leftarrow> ptrval (PtrUint64 o1);
        p2 \<leftarrow> ptrval (PtrByte b);
        p3 \<leftarrow> ptrval (PtrUint64 (o1 + 32));
        p4 \<leftarrow> ptrval (PtrUint64 (o1 + 40));
        p5 \<leftarrow> ptrval (PtrUint32 (o1 + 48));
        let (status, m) = CallService fw (bs_base s + getMemoryMap) [p1, p2, p3, p4, p5] m;
        let buf = load_bytes (mem m) b (n * maxEntries);
        let r = \<lparr>MapSize = load64 (mem m) o1, Descriptors = [], MapKey = load64 (mem m) (o1 + 32),
                 DescriptorSize = load64 (mem m) (o1 + 40),
                 DescriptorVersion = load32 (mem m) (o1 + 48), mm_buf = (b, buf)\<rparr>;
        case parseStatus status of
          Some err \<Rightarrow> Some (r, Some err, m)
        | None \<Rightarrow> do {
            (ds, err) \<leftarrow> descriptor_loop (sint (MapSize r)) buf 0 [];
            Some (r\<lparr>Descriptors := ds\<rparr>, err, m) } })"

subsection \<open>What the E820 conversion promises\<close>

text \<open>
  A chain is a run of entries of one type where each starts at the end of the one before and no
  inner boundary is at \<open>ramStart\<close> or \<open>ramEnd\<close>. Its join is one entry.
\<close>

definition e_end :: "e820_entry \<Rightarrow> u64" where
  "e_end e = e_Addr e + e_Size e"

definition joinable :: "u64 \<Rightarrow> u64 \<Rightarrow> e820_entry \<Rightarrow> e820_entry \<Rightarrow> bool" where
  "joinable ramStart ramEnd a b \<longleftrightarrow>
     e_end a = e_Addr b \<and> e_MemType a = e_MemType b \<and> e_Addr b \<noteq> ramStart \<and> e_end a \<noteq> ramEnd"

definition e820_join :: "e820_entry list \<Rightarrow> e820_entry" where
  "e820_join g = (hd g)\<lparr>e_Size := sum_list (map e_Size g)\<rparr>"

definition e820_groups :: "u64 \<Rightarrow> u64 \<Rightarrow> e820_entry list \<Rightarrow> e820_entry list list \<Rightarrow> bool" where
  "e820_groups ramStart ramEnd es gs \<longleftrightarrow>
     concat gs = es
     \<and> list_all (\<lambda>g. g \<noteq> [] \<and> successively (joinable ramStart ramEnd) g) gs
     \<and> successively (\<lambda>g h. \<not> joinable ramStart ramEnd (last g) (hd h)) gs"

text \<open>The addresses of memory of a type, in unbounded arithmetic.\<close>

definition e820_covers :: "e820_entry list \<Rightarrow> u32 \<Rightarrow> nat \<Rightarrow> bool" where
  "e820_covers es t a \<longleftrightarrow>
     (\<exists>e \<in> set es. e_MemType e = t \<and> unat (e_Addr e) \<le> a \<and> a < unat (e_Addr e) + unat (e_Size e))"

definition descriptor_covers :: "bzimage_types \<Rightarrow> memory_descriptor list \<Rightarrow> u32 \<Rightarrow> nat \<Rightarrow> bool" where
  "descriptor_covers ty ds t a \<longleftrightarrow>
     (\<exists>d \<in> set ds. e_MemType (descriptor_E820 ty d) = t \<and> unat (PhysicalStart d) \<le> a
        \<and> a < unat (PhysicalStart d) + unat (NumberOfPages d) * 4096)"

definition descriptor_fits :: "memory_descriptor \<Rightarrow> bool" where
  "descriptor_fits d \<longleftrightarrow> unat (PhysicalStart d) + unat (NumberOfPages d) * 4096 < 2 ^ 64"

definition entry_fits :: "e820_entry \<Rightarrow> bool" where
  "entry_fits e \<longleftrightarrow> unat (e_Addr e) + unat (e_Size e) < 2 ^ 64"

text \<open>A memory map, the numbers of the memory types and a firmware for the examples below.\<close>

definition demo_types :: bzimage_types where
  "demo_types = \<lparr>bz_RAM = 1, bz_ACPI = 3, bz_NVS = 4, bz_Reserved = 2\<rparr>"

definition demo_descriptors :: "memory_descriptor list" where
  "demo_descriptors =
     [\<lparr>md_Type = 7, PhysicalStart = 4096, VirtualStart = 0, NumberOfPages = 15, md_Attribute = 15\<rparr>,
      \<lparr>md_Type = 4, PhysicalStart = 65536, VirtualStart = 0, NumberOfPages = 16, md_Attribute = 15\<rparr>,
      \<lparr>md_Type = 9, PhysicalStart = 131072, VirtualStart = 0, NumberOfPages = 1, md_Attribute = 15\<rparr>]"

definition demo_map :: memory_map where
  "demo_map = \<lparr>MapSize = 144, Descriptors = demo_descriptors, MapKey = 1, DescriptorSize = 48,
     DescriptorVersion = 1, mm_buf = (0, [])\<rparr>"

definition demo_boot :: boot_services where
  "demo_boot = \<lparr>bs_base = 16384, bs_imageHandle = 77\<rparr>"

definition demo_map_firmware :: "memory_descriptor list \<Rightarrow> unit firmware" where
  "demo_map_firmware ds code args f w =
     (0, store64 (args ! 0) (of_nat (48 * length ds))
           (store_bytes (args ! 1) (concat (map descriptor_enc ds)) f), w)"

section \<open>Lemmas\<close>

interpretation descriptor: struct_codec 48 descriptor_enc descriptor_dec "\<lambda>_. True"
proof unfold_locales
  fix d rest show "descriptor_dec (descriptor_enc d @ rest) = d"
    by (simp add: descriptor_dec_def descriptor_enc_def le_simps)
next
  fix bs :: "u8 list" assume "48 \<le> length bs"
  show "descriptor_dec (take 48 bs) = descriptor_dec bs"
    by (simp add: descriptor_dec_def le_fields_take del: le_fields.simps)
qed (simp_all add: descriptor_enc_def)

interpretation free_pages: efi_service "\<lambda>fw (s, a, sz). FreePages fw s a sz"
  "\<lambda>(s, a, sz). bs_base s + freePages" "\<lambda>(s, a, sz). [a, word_of_int sz div PageSize]" "\<lambda>_. True"
  by unfold_locales (auto simp: FreePages_def apfst_def map_prod_def)

subsection \<open>The E820 conversion\<close>

lemma chain_end:
  "g \<noteq> [] \<Longrightarrow> successively (joinable rs re) g \<Longrightarrow> e_end (e820_join g) = e_end (last g)"
proof (induction g rule: rev_induct)
  case (snoc e g)
  show ?case
  proof (cases "g = []")
    case False
    with snoc.prems have j: "joinable rs re (last g) e" and g: "successively (joinable rs re) g"
      by (auto simp: successively_append_iff)
    have "e_end (e820_join (g @ [e])) = e_end (e820_join g) + e_Size e"
      using False by (simp add: e820_join_def e_end_def algebra_simps)
    then show ?thesis using snoc.IH [OF False g] j by (simp add: joinable_def e_end_def)
  qed (simp add: e820_join_def e_end_def)
qed simp

lemma chain_type:
  "g \<noteq> [] \<Longrightarrow> successively (joinable rs re) g \<Longrightarrow> e \<in> set g \<Longrightarrow> e_MemType e = e_MemType (hd g)"
proof (induction g arbitrary: e rule: rev_induct)
  case (snoc x g)
  show ?case
  proof (cases "g = []")
    case False
    with snoc.prems have "joinable rs re (last g) x" "successively (joinable rs re) g"
      by (auto simp: successively_append_iff)
    with snoc.IH [of "last g"] snoc.IH [of e] snoc.prems(3) False show ?thesis
      by (auto simp: joinable_def)
  qed (use snoc.prems in simp)
qed simp

text \<open>The loop invariant: the entries so far are the joins of maximal chains.\<close>

lemma E820_step_groups:
  assumes "e820_groups rs re es gs"
    and "st = (if gs = [] then None else Some (e820_join (last gs)), map e820_join gs)"
  shows "\<exists>gs'. e820_groups rs re (es @ [e]) gs' \<and> gs' \<noteq> []
           \<and> E820_step rs re st e = (Some (e820_join (last gs')), map e820_join gs')"
proof (cases "gs = []")
  case True
  with assms show ?thesis
    by (intro exI [of _ "[[e]]"]) (auto simp: e820_groups_def e820_join_def)
next
  case False
  then obtain gs0 g where gs: "gs = gs0 @ [g]" by (metis append_butlast_last_id)
  have g: "g \<noteq> []" "successively (joinable rs re) g" using assms(1) gs by (simp_all add: e820_groups_def)
  have en: "e_Addr (e820_join g) + e_Size (e820_join g) = e_end (last g)"
    using chain_end [OF g] by (simp add: e_end_def)
  have ty: "e_MemType (e820_join g) = e_MemType (last g)"
    using chain_type [OF g, of "last g"] g(1) by (simp add: e820_join_def)
  have st: "st = (Some (e820_join g), map e820_join gs0 @ [e820_join g])" using assms(2) gs by simp
  show ?thesis
  proof (cases "joinable rs re (last g) e")
    case True
    have "e820_join (g @ [e]) = (e820_join g)\<lparr>e_Size := e_Size (e820_join g) + e_Size e\<rparr>"
      using g(1) by (simp add: e820_join_def)
    moreover have "e820_groups rs re (es @ [e]) (gs0 @ [g @ [e]])"
      using assms(1) gs g True
      by (auto simp: e820_groups_def successively_append_iff)
    ultimately show ?thesis using True st en ty
      by (intro exI [of _ "gs0 @ [g @ [e]]"]) (auto simp: joinable_def Let_def)
  next
    case no: False
    have "e820_groups rs re (es @ [e]) (gs @ [[e]])"
      using assms(1) gs no by (auto simp: e820_groups_def successively_append_iff)
    moreover have "E820_step rs re st e = (Some e, map e820_join gs @ [e])"
      using no st en ty gs by (auto simp: joinable_def)
    ultimately show ?thesis by (intro exI [of _ "gs @ [[e]]"]) (simp add: e820_join_def)
  qed
qed

lemma E820_fold_groups:
  "\<exists>gs. e820_groups rs re es gs
     \<and> foldl (E820_step rs re) (None, []) es
       = (if gs = [] then None else Some (e820_join (last gs)), map e820_join gs)"
proof (induction es rule: rev_induct)
  case Nil
  then show ?case by (intro exI [of _ "[]"]) (simp add: e820_groups_def)
next
  case (snoc e es)
  then obtain gs where "e820_groups rs re es gs"
    "foldl (E820_step rs re) (None, []) es
       = (if gs = [] then None else Some (e820_join (last gs)), map e820_join gs)" by blast
  from E820_step_groups [OF this, of e] show ?case by (auto simp del: E820_step.simps)
qed

lemma MemoryMap_E820_fold:
  "MemoryMap_E820 ty rs re m
     = snd (foldl (E820_step rs re) (None, []) (map (descriptor_E820 ty) (Descriptors m)))"
  by (simp add: MemoryMap_E820_def foldl_map)

text \<open>A chain of entries that do not wrap around covers what its join covers.\<close>

lemma unat_e_end: "entry_fits e \<Longrightarrow> unat (e_end e) = unat (e_Addr e) + unat (e_Size e)"
  by (simp add: entry_fits_def e_end_def unat_add_lem [THEN iffD1])

lemma covers_Cons:
  "e820_covers (e # es) t a \<longleftrightarrow> e820_covers [e] t a \<or> e820_covers es t a"
  by (auto simp: e820_covers_def)

lemma covers_append: "e820_covers (xs @ ys) t a \<longleftrightarrow> e820_covers xs t a \<or> e820_covers ys t a"
  by (auto simp: e820_covers_def)

lemma chain_join_covers:
  assumes "g \<noteq> []" "successively (joinable rs re) g" "list_all entry_fits g"
  shows "entry_fits (e820_join g) \<and> (\<forall>t a. e820_covers [e820_join g] t a \<longleftrightarrow> e820_covers g t a)"
  using assms
proof (induction g rule: rev_induct)
  case (snoc e g)
  show ?case
  proof (cases "g = []")
    case True
    with snoc.prems show ?thesis by (simp add: e820_join_def)
  next
    case False
    then have c: "successively (joinable rs re) g" "joinable rs re (last g) e"
      using snoc.prems(2) by (auto simp: successively_append_iff)
    have fits: "entry_fits (e820_join g)" "entry_fits e" and cov: "e820_covers [e820_join g] t a \<longleftrightarrow> e820_covers g t a" for t a
      using snoc False c by auto
    have at: "unat (e_Addr e) = unat (e_Addr (e820_join g)) + unat (e_Size (e820_join g))"
      using unat_e_end [OF fits(1)] chain_end [OF False c(1)] c(2) by (simp add: joinable_def)
    have ty: "e_MemType e = e_MemType (e820_join g)"
      using chain_type [OF False c(1), of "last g"] c(2) False by (simp add: joinable_def e820_join_def)
    have j: "e820_join (g @ [e]) = (e820_join g)\<lparr>e_Size := e_Size (e820_join g) + e_Size e\<rparr>"
      using False by (simp add: e820_join_def)
    have sz: "unat (e_Size (e820_join g) + e_Size e) = unat (e_Size (e820_join g)) + unat (e_Size e)"
      using at fits(2) by (simp add: entry_fits_def unat_add_lem [THEN iffD1])
    have "e820_covers [e820_join (g @ [e])] t a \<longleftrightarrow> e820_covers [e820_join g] t a \<or> e820_covers [e] t a" for t a
      using at ty sz by (auto simp: e820_covers_def j)
    moreover have "entry_fits (e820_join (g @ [e]))"
      using fits(2) at sz by (simp add: j entry_fits_def)
    ultimately show ?thesis by (simp add: covers_append cov)
  qed
qed simp

lemma groups_cover:
  assumes "e820_groups rs re es gs" "list_all entry_fits es"
  shows "e820_covers (map e820_join gs) t a \<longleftrightarrow> e820_covers es t a"
proof -
  have "e820_covers (map e820_join hs) t a \<longleftrightarrow> e820_covers (concat hs) t a" if "set hs \<subseteq> set gs" for hs
    using that
  proof (induction hs)
    case (Cons h hs)
    then have "h \<noteq> []" "successively (joinable rs re) h" "list_all entry_fits h"
      using assms by (auto simp: e820_groups_def list_all_iff)
    with chain_join_covers [of h rs re] Cons show ?case
      by (simp add: covers_Cons [of "e820_join h" "map e820_join hs"] covers_append)
  qed simp
  from this [of gs] assms(1) show ?thesis by (simp add: e820_groups_def)
qed

lemma descriptor_pages: "descriptor_fits d \<Longrightarrow> unat (NumberOfPages d * PageSize) = unat (NumberOfPages d) * 4096"
  by (simp add: descriptor_fits_def PageSize_def unat_word_ariths)

lemma descriptor_entry_fits: "descriptor_fits d \<Longrightarrow> entry_fits (descriptor_E820 ty d)"
  using descriptor_pages [of d] by (simp add: descriptor_fits_def entry_fits_def descriptor_E820_def)

lemma descriptor_covers_entries:
  "list_all descriptor_fits ds \<Longrightarrow>
   descriptor_covers ty ds t a \<longleftrightarrow> e820_covers (map (descriptor_E820 ty) ds) t a"
  by (induction ds)
     (auto simp: descriptor_covers_def e820_covers_def descriptor_pages descriptor_E820_def)

subsection \<open>Reading the memory map\<close>

lemma descriptor_loop_total:
  assumes "length buf = 48 * k" "j \<le> k"
  shows "\<exists>ds' err. descriptor_loop sz buf (48 * j) ds = Some (ds @ ds', err) \<and> length ds' \<le> k - j"
  using assms(2)
proof (induction "k - j" arbitrary: j ds)
  case 0
  then show ?case using assms(1) by (subst descriptor_loop.simps) (simp add: unmarshalBinary_def)
next
  case (Suc i)
  then have "length (drop (48 * j) buf) \<ge> 48" using assms(1) by simp
  then have step: "descriptor_loop sz buf (48 * j) ds = (if int (48 * j) < sz
      then descriptor_loop sz buf (48 * Suc j) (ds @ [descriptor_dec (drop (48 * j) buf)]) else Some (ds, None))"
    using assms(1) Suc.prems by (subst descriptor_loop.simps) (simp add: unmarshalBinary_def algebra_simps)
  have "i = k - Suc j" "Suc j \<le> k" using Suc by linarith+
  from Suc.hyps(1) [OF this, of "ds @ [descriptor_dec (drop (48 * j) buf)]"]
  obtain ds' err where "descriptor_loop sz buf (48 * Suc j) (ds @ [descriptor_dec (drop (48 * j) buf)])
      = Some ((ds @ [descriptor_dec (drop (48 * j) buf)]) @ ds', err)" "length ds' \<le> k - Suc j" by blast
  then show ?case using step Suc by auto
qed

lemma descriptor_loop_no_status:
  "descriptor_loop sz buf i ds = Some (ds', err) \<Longrightarrow> \<not> (\<exists>st c. err = Some (EfiStatusErr st c))"
proof (induction sz buf i ds rule: descriptor_loop.induct)
  case (1 sz buf i ds)
  then show ?case
    by (subst (asm) (2) descriptor_loop.simps)
       (auto simp: unmarshalBinary_def split: if_splits)
qed

lemma descriptor_loop_exact:
  assumes "j \<le> length ds" "48 * length ds \<le> length buf"
    and "take (48 * length ds) buf = concat (map descriptor_enc ds)"
  shows "descriptor_loop (int (48 * length ds)) buf (48 * j) acc = Some (acc @ drop j ds, None)"
  using assms(1)
proof (induction "length ds - j" arbitrary: j acc)
  case 0
  then show ?case by (subst descriptor_loop.simps) simp
next
  case (Suc i)
  then have j: "j < length ds" by simp
  have "buf = concat (map descriptor_enc ds) @ drop (48 * length ds) buf"
    using assms(3) append_take_drop_id [of "48 * length ds" buf] by simp
  then have "descriptor_dec (drop (j * 48) buf) = ds ! j"
    using descriptor.dec_nth [of ds j "drop (48 * length ds) buf"] j by (simp add: list_all_iff)
  moreover have "48 \<le> length (drop (48 * j) buf)" using j assms(2) by simp
  ultimately have "descriptor_loop (int (48 * length ds)) buf (48 * j) acc
      = descriptor_loop (int (48 * length ds)) buf (48 * Suc j) (acc @ [ds ! j])"
    using j assms(2) by (subst descriptor_loop.simps) (simp add: unmarshalBinary_def algebra_simps)
  with Suc.hyps(1) [of "Suc j" "acc @ [ds ! j]"] Suc j show ?case
    by (simp add: Cons_nth_drop_Suc)
qed

lemma GetMemoryMap_call:
  fixes m :: "'w machine"
  defines "o1 \<equiv> place m (objs m)" and "b \<equiv> place m (Suc (objs m))"
  defines "m1 \<equiv> snd (new_slice (replicate 48000 0)
      ((snd (new_obj 80 m))\<lparr>mem := store64 (o1 + 40) 48 (store64 o1 48000 (mem (snd (new_obj 80 m))))\<rparr>))"
  assumes "CallService fw (bs_base s + getMemoryMap) [o1, b, o1 + 32, o1 + 40, o1 + 48] m1 = (status, m2)"
  shows "GetMemoryMap fw s m =
    (let r = \<lparr>MapSize = load64 (mem m2) o1, Descriptors = [], MapKey = load64 (mem m2) (o1 + 32),
              DescriptorSize = load64 (mem m2) (o1 + 40), DescriptorVersion = load32 (mem m2) (o1 + 48),
              mm_buf = (b, load_bytes (mem m2) b 48000)\<rparr>
     in case parseStatus status of
          Some err \<Rightarrow> Some (r, Some err, m2)
        | None \<Rightarrow> do {
            (ds, err) \<leftarrow> descriptor_loop (sint (load64 (mem m2) o1)) (load_bytes (mem m2) b 48000) 0 [];
            Some (r\<lparr>Descriptors := ds\<rparr>, err, m2) })"
  using assms
  by (simp add: GetMemoryMap_def Let_def new_obj_def new_slice_def first_elem_def maxEntries_def
      del: replicate.simps split: option.split)

lemma GetMemoryMap_cases:
  obtains r err m' where "GetMemoryMap fw s m = Some (r, err, m')" "length (Descriptors r) \<le> maxEntries"
    "length (snd (mm_buf r)) = 48 * maxEntries"
    "(\<exists>st c. err = Some (EfiStatusErr st c)) \<longrightarrow> Descriptors r = []"
proof -
  let ?o = "place m (objs m)" and ?b = "place m (Suc (objs m))"
  obtain status m2 where "CallService fw (bs_base s + getMemoryMap) [?o, ?b, ?o + 32, ?o + 40, ?o + 48]
      (snd (new_slice (replicate 48000 0)
        ((snd (new_obj 80 m))\<lparr>mem := store64 (?o + 40) 48 (store64 ?o 48000 (mem (snd (new_obj 80 m))))\<rparr>)))
      = (status, m2)" by fastforce
  note run = GetMemoryMap_call [OF this]
  obtain ds err where loop: "descriptor_loop (sint (load64 (mem m2) ?o)) (load_bytes (mem m2) ?b 48000) 0 []
      = Some (ds, err)" "length ds \<le> 1000"
    using descriptor_loop_total [of "load_bytes (mem m2) ?b 48000" 1000 0 "sint (load64 (mem m2) ?o)" "[]"] by auto
  have noefi: "\<not> (\<exists>st c. err = Some (EfiStatusErr st c))"
    using descriptor_loop_no_status [OF loop(1)] .
  show ?thesis
    using that loop noefi by (cases "parseStatus status") (simp_all add: run Let_def maxEntries_def)
qed

lemma GetMemoryMap_total: "\<exists>r err m'. GetMemoryMap fw s m = Some (r, err, m')"
  by (rule GetMemoryMap_cases) blast

lemma GetMemoryMap_stored:
  fixes m :: "'w machine"
  defines "o1 \<equiv> place m (objs m)" and "b \<equiv> place m (Suc (objs m))"
  defines "m1 \<equiv> snd (new_slice (replicate 48000 0)
      ((snd (new_obj 80 m))\<lparr>mem := store64 (o1 + 40) 48 (store64 o1 48000 (mem (snd (new_obj 80 m))))\<rparr>))"
  assumes "fw (load64 (mem m1) (bs_base s + getMemoryMap)) [o1, b, o1 + 32, o1 + 40, o1 + 48] (mem m1) (world m1)
      = (EFI_SUCCESS, f, w)"
    and "length ds \<le> maxEntries" "load64 f o1 = of_nat (48 * length ds)"
    and "load_bytes f b (48 * length ds) = concat (map descriptor_enc ds)"
  shows "\<exists>r m'. GetMemoryMap fw s m = Some (r, None, m') \<and> Descriptors r = ds
    \<and> MapKey r = load64 f (o1 + 32) \<and> MemoryMap_Address r = Some b \<and> mem m' = f \<and> world m' = w"
proof -
  have call: "CallService fw (bs_base s + getMemoryMap) [o1, b, o1 + 32, o1 + 40, o1 + 48] m1
      = (0, m1\<lparr>mem := f, world := w, calls := calls m1 @
          [Indirect (bs_base s + getMemoryMap) (load64 (mem m1) (bs_base s + getMemoryMap))
             [o1, b, o1 + 32, o1 + 40, o1 + 48]]\<rparr>)" (is "_ = (0, ?m2)")
    using assms(4) by (simp add: CallService_nonempty EFI_SUCCESS_def)
  note run = GetMemoryMap_call [OF call [unfolded m1_def o1_def b_def], folded o1_def b_def]
  have "unat (of_nat (48 * length ds) :: u64) = 48 * length ds"
    using assms(5) by (intro unat_of_nat_small_u64) (simp add: maxEntries_def)
  then have size: "sint (load64 f o1) = int (48 * length ds)"
    using assms(5,6) by (subst sint_small) (simp_all add: maxEntries_def)
  have "take (48 * length ds) (load_bytes f b 48000) = concat (map descriptor_enc ds)"
    using assms(5,7) by (subst take_load_bytes) (simp_all add: maxEntries_def)
  then have "descriptor_loop (int (48 * length ds)) (load_bytes f b 48000) 0 [] = Some (ds, None)"
    using descriptor_loop_exact [of 0 ds "load_bytes f b 48000" "[]"] assms(5) by (simp add: maxEntries_def)
  then show ?thesis
    using size by (simp add: run Let_def m1_def [symmetric] MemoryMap_Address_def)
qed

text \<open>The firmware of the examples is such a firmware.\<close>

lemma demo_map_firmware_reads:
  assumes "length ds \<le> maxEntries" "place m = place demo_machine" "objs m = 0"
  shows "\<exists>r m'. GetMemoryMap (demo_map_firmware ds) demo_boot m = Some (r, None, m') \<and> Descriptors r = ds"
proof -
  let ?o = "place m (objs m)" and ?b = "place m (Suc (objs m))"
  let ?m = "snd (new_slice (replicate 48000 0)
      ((snd (new_obj 80 m))\<lparr>mem := store64 (?o + 40) 48 (store64 ?o 48000 (mem (snd (new_obj 80 m))))\<rparr>))"
  let ?bs = "concat (map descriptor_enc ds)"
  let ?f = "store64 ?o (of_nat (48 * length ds)) (store_bytes ?b ?bs (mem ?m))"
  have len: "length ?bs = 48 * length ds"
    using descriptor.length_concat_enc [of ds] by (simp add: list_all_iff)
  have "apart ?b (48 * length ds) ?o 8"
    using assms by (simp add: demo_machine_def apart_def maxEntries_def)
  then have "load_bytes ?f ?b (48 * length ds) = ?bs"
    using load_store_same [of ?bs ?b "mem ?m"] len assms
    by (simp add: store64_def load_store_apart maxEntries_def)
  then show ?thesis
    using GetMemoryMap_stored [where m = m and fw = "demo_map_firmware ds" and s = demo_boot and f = ?f
        and w = "()" and ds = ds] assms
    by (auto simp: demo_map_firmware_def EFI_SUCCESS_def load64_store64)
qed

lemma demo_map_firmware_run:
  "length ds \<le> maxEntries
     \<Longrightarrow> \<exists>r m'. GetMemoryMap (demo_map_firmware ds) demo_boot demo_machine = Some (r, None, m') \<and> Descriptors r = ds"
  by (rule demo_map_firmware_reads) (simp_all add: demo_machine_def)

section \<open>Properties\<close>

text \<open>
  Claim C18: reading the memory map is safe. Whatever the firmware does with the map size, the key
  and the buffer, \<^verbatim>\<open>GetMemoryMap\<close> never panics, returns at most 1000 descriptors, and
  reports an error of the firmware without any descriptor.
\<close>

theorem GetMemoryMap_safe:
  "\<exists>r err m'. GetMemoryMap fw s m = Some (r, err, m') \<and> length (Descriptors r) \<le> maxEntries
     \<and> length (snd (mm_buf r)) = 48 * maxEntries
     \<and> (case err of Some (EfiStatusErr st c) \<Rightarrow> Descriptors r = [] | _ \<Rightarrow> True)"
  by (rule GetMemoryMap_cases [of fw s m]) (auto split: option.split gerr.split)

text \<open>
  Claim C17: reading the memory map is complete. When the firmware succeeds and has stored up to
  1000 descriptors back to back in the buffer, with their total size as the map size,
  \<^verbatim>\<open>GetMemoryMap\<close> returns exactly these descriptors in order, with no error.
\<close>

theorem GetMemoryMap_exact:
  fixes m :: "'w machine"
  defines "o1 \<equiv> place m (objs m)" and "b \<equiv> place m (Suc (objs m))"
  defines "m1 \<equiv> snd (new_slice (replicate 48000 0)
      ((snd (new_obj 80 m))\<lparr>mem := store64 (o1 + 40) 48 (store64 o1 48000 (mem (snd (new_obj 80 m))))\<rparr>))"
  assumes "fw (load64 (mem m1) (bs_base s + getMemoryMap)) [o1, b, o1 + 32, o1 + 40, o1 + 48] (mem m1) (world m1)
      = (EFI_SUCCESS, f, w)"
    and "length ds \<le> maxEntries" "load64 f o1 = of_nat (48 * length ds)"
    and "load_bytes f b (48 * length ds) = concat (map descriptor_enc ds)"
  shows "\<exists>r m'. GetMemoryMap fw s m = Some (r, None, m') \<and> Descriptors r = ds
    \<and> MapKey r = load64 f (o1 + 32) \<and> MemoryMap_Address r = Some b \<and> mem m' = f \<and> world m' = w"
  unfolding o1_def b_def
  by (rule GetMemoryMap_stored [where fw = fw and s = s and m = m, OF assms(4-7) [unfolded m1_def o1_def b_def]])

theorem GetMemoryMap_exact_witness:
  "\<exists>r m'. GetMemoryMap (demo_map_firmware demo_descriptors) demo_boot demo_machine = Some (r, None, m')
    \<and> Descriptors r = demo_descriptors"
proof -
  let ?o = "place demo_machine (objs demo_machine)" and ?b = "place demo_machine (Suc (objs demo_machine))"
  let ?m = "snd (new_slice (replicate 48000 0)
      ((snd (new_obj 80 demo_machine))\<lparr>mem := store64 (?o + 40) 48 (store64 ?o 48000 (mem (snd (new_obj 80 demo_machine))))\<rparr>))"
  let ?f = "store64 ?o 144 (store_bytes ?b (concat (map descriptor_enc demo_descriptors)) (mem ?m))"
  have len: "length (concat (map descriptor_enc demo_descriptors)) = 144"
    by (simp add: demo_descriptors_def descriptor_enc_def)
  have ap: "apart ?b 144 ?o 8" by (simp add: demo_machine_def apart_def)
  have "load_bytes (store_bytes a (concat (map descriptor_enc demo_descriptors)) g) a 144
      = concat (map descriptor_enc demo_descriptors)" for a g
    using load_store_same [of "concat (map descriptor_enc demo_descriptors)" a g] len by simp
  moreover have "load_bytes (store64 ?o v g) ?b 144 = load_bytes g ?b 144" for v g
    using ap by (simp add: store64_def load_store_apart)
  ultimately have "load_bytes ?f ?b (48 * length demo_descriptors) = concat (map descriptor_enc demo_descriptors)"
    by (simp add: demo_descriptors_def)
  then show ?thesis
    using GetMemoryMap_exact [where m = demo_machine and fw = "demo_map_firmware demo_descriptors" and s = demo_boot and f = ?f
        and w = "()" and ds = demo_descriptors]
    by (auto simp: demo_map_firmware_def EFI_SUCCESS_def maxEntries_def load64_store64 demo_descriptors_def)
qed

text \<open>
  Claim C7: what the E820 conversion computes. For any memory map the E820 entries are the joins
  of maximal groups of consecutive descriptors: every group is a run of contiguous entries of one
  type with no inner boundary at the start or end of the Go runtime's memory, and no two
  neighbouring groups could be joined.
\<close>

theorem E820_maximal_groups:
  "\<exists>gs. e820_groups ramStart ramEnd (map (descriptor_E820 ty) (Descriptors m)) gs
      \<and> MemoryMap_E820 ty ramStart ramEnd m = map e820_join gs"
  using E820_fold_groups [of ramStart ramEnd "map (descriptor_E820 ty) (Descriptors m)"]
  by (auto simp: MemoryMap_E820_fold)

text \<open>
  Claim C11: the E820 map describes the same memory. If no descriptor wraps around the address
  space, an address is memory of a type in the E820 map exactly when it is in a descriptor of
  that type.
\<close>

theorem E820_preserves_memory:
  assumes "list_all descriptor_fits (Descriptors m)"
  shows "e820_covers (MemoryMap_E820 ty ramStart ramEnd m) t a \<longleftrightarrow> descriptor_covers ty (Descriptors m) t a"
proof -
  obtain gs where gs: "e820_groups ramStart ramEnd (map (descriptor_E820 ty) (Descriptors m)) gs"
    "MemoryMap_E820 ty ramStart ramEnd m = map e820_join gs"
    using E820_fold_groups [of ramStart ramEnd "map (descriptor_E820 ty) (Descriptors m)"]
    by (auto simp: MemoryMap_E820_fold)
  have "list_all entry_fits (map (descriptor_E820 ty) (Descriptors m))"
    using assms by (auto simp: list_all_iff descriptor_entry_fits)
  with groups_cover [OF gs(1)] gs(2) descriptor_covers_entries [OF assms] show ?thesis by simp
qed

theorem E820_preserves_memory_witness:
  "e820_covers (MemoryMap_E820 demo_types 0 0 demo_map) 1 70000
     \<longleftrightarrow> descriptor_covers demo_types (Descriptors demo_map) 1 70000"
  by (rule E820_preserves_memory) (simp add: demo_map_def demo_descriptors_def descriptor_fits_def)

end
