(* ===== verification/Boot_Services.thy ===== *)
theory Boot_Services
  imports Memory_Map
begin

text \<open>
  The boot and runtime services of \<^verbatim>\<open>pkg/ueficore\<close> that are a call and its status:
  \<^verbatim>\<open>protocol.go\<close>, \<^verbatim>\<open>exit.go\<close>, \<^verbatim>\<open>wdog.go\<close>, \<^verbatim>\<open>reset.go\<close> and
  \<^verbatim>\<open>StartImage\<close> of \<^verbatim>\<open>image.go\<close>.
\<close>

section \<open>Definitions\<close>

subsection \<open>protocol.go\<close>

definition handleProtocol :: u64 where "handleProtocol = 0x98"
definition locateProtocol :: u64 where "locateProtocol = 0x140"

definition HandleProtocol :: "'w firmware \<Rightarrow> boot_services \<Rightarrow> u64 \<Rightarrow> gostring \<Rightarrow> 'w machine
    \<Rightarrow> (u64 \<times> gerr option \<times> 'w machine) option" where
  "HandleProtocol fw s handle guid m =
     (let (a, m) = new_obj 8 m in do {
        (g, m) \<leftarrow> guid_ptrval guid m;
        p \<leftarrow> ptrval (PtrUint64 a);
        let (status, m) = CallService fw (bs_base s + handleProtocol) [handle, g, p] m;
        Some (load64 (mem m) a, parseStatus status, m) })"

definition LocateProtocol :: "'w firmware \<Rightarrow> boot_services \<Rightarrow> gostring \<Rightarrow> 'w machine
    \<Rightarrow> (u64 \<times> gerr option \<times> 'w machine) option" where
  "LocateProtocol fw s guid m =
     (let (a, m) = new_obj 8 m in do {
        (g, m) \<leftarrow> guid_ptrval guid m;
        p \<leftarrow> ptrval (PtrUint64 a);
        let (status, m) = CallService fw (bs_base s + locateProtocol) [g, 0, p] m;
        Some (load64 (mem m) a, parseStatus status, m) })"

subsection \<open>exit.go\<close>

definition exit :: u64 where "exit = 0xd8"
definition exitBootServices :: u64 where "exitBootServices = 0xe8"

definition Exit :: "'w firmware \<Rightarrow> boot_services \<Rightarrow> int \<Rightarrow> 'w machine \<Rightarrow> gerr option \<times> 'w machine" where
  "Exit fw s code m =
     (let (status, m) = CallService fw (bs_base s + exit) [bs_imageHandle s, word_of_int code, 0, 0] m
      in (parseStatus status, m))"

definition ExitBootServices :: "'w firmware \<Rightarrow> boot_services \<Rightarrow> 'w machine
    \<Rightarrow> (memory_map \<times> gerr option \<times> 'w machine) option" where
  "ExitBootServices fw s m = do {
     (memoryMap, err, m) \<leftarrow> GetMemoryMap fw s m;
     case err of
       Some e \<Rightarrow> Some (memoryMap, Some e, m)
     | None \<Rightarrow>
         let (status, m) = CallService fw (bs_base s + exitBootServices)
               [bs_imageHandle s, MapKey memoryMap] m
         in Some (memoryMap, parseStatus status, m) }"

subsection \<open>wdog.go\<close>

definition setWatchdogTimer :: u64 where "setWatchdogTimer = 0x100"
definition watchdogCode :: u64 where "watchdogCode = 0xba3e5e7a1"

definition SetWatchdogTimer :: "'w firmware \<Rightarrow> boot_services \<Rightarrow> int \<Rightarrow> 'w machine \<Rightarrow> gerr option \<times> 'w machine" where
  "SetWatchdogTimer fw s sec m =
     (let (status, m) = CallService fw (bs_base s + setWatchdogTimer) [word_of_int sec, watchdogCode, 0, 0] m
      in (parseStatus status, m))"

subsection \<open>reset.go\<close>

definition getTime :: u64 where "getTime = 0x18"
definition setTime :: u64 where "setTime = 0x20"
definition getVariable :: u64 where "getVariable = 0x48"
definition getNextVariable :: u64 where "getNextVariable = 0x50"
definition setVariable :: u64 where "setVariable = 0x58"
definition getNextHighMonotonicCount :: u64 where "getNextHighMonotonicCount = 0x60"
definition resetSystem :: u64 where "resetSystem = 0x68"
definition querVariableInfo :: u64 where "querVariableInfo = 0x80"

definition EfiResetCold :: int where "EfiResetCold = 0"
definition EfiResetWarm :: int where "EfiResetWarm = 1"
definition EfiResetShutdown :: int where "EfiResetShutdown = 2"

definition ResetSystem :: "'w firmware \<Rightarrow> runtime_services \<Rightarrow> int \<Rightarrow> 'w machine \<Rightarrow> gerr option \<times> 'w machine" where
  "ResetSystem fw s resetType m =
     (let (status, m) = CallService fw (rs_base s + resetSystem) [word_of_int resetType, EFI_SUCCESS, 0, 0] m
      in (parseStatus status, m))"

text \<open>
  \<^verbatim>\<open>GetVariable\<close>: \<^verbatim>\<open>&name[0]\<close> and \<^verbatim>\<open>&guid[0]\<close> panic on empty slices. The first two
  results are always nil and 0.
\<close>

definition GetVariable :: "'w firmware \<Rightarrow> runtime_services \<Rightarrow> u16 list \<Rightarrow> u8 list \<Rightarrow> 'w machine
    \<Rightarrow> (u8 list \<times> u32 \<times> gerr option \<times> 'w machine) option" where
  "GetVariable fw s name guid m =
     (let (dataSize, m) = new_obj 8 m;
          (data, m) = new_obj 16 m
      in do {
        (n, m) \<leftarrow> first_elem (concat (map (\<lambda>u. le_bytes 2 (unat u)) name)) m;
        (g, m) \<leftarrow> first_elem guid m;
        let (status, m) = CallService fw (rs_base s + getVariable) [n, g, data, dataSize] m;
        Some ([], 0, parseStatus status, m) })"

subsection \<open>image.go\<close>

definition startImage :: u64 where "startImage = 0xd0"

definition StartImage :: "'w firmware \<Rightarrow> boot_services \<Rightarrow> u64 \<Rightarrow> 'w machine \<Rightarrow> gerr option \<times> 'w machine" where
  "StartImage fw s imageHandle m =
     (let (status, m) = CallService fw (bs_base s + startImage) [imageHandle, 0, 0] m
      in (parseStatus status, m))"

text \<open>The machine at the call of a protocol lookup: a cell for the result and the GUID's bytes.\<close>

definition lookup_machine :: "u8 list \<Rightarrow> 'w machine \<Rightarrow> 'w machine" where
  "lookup_machine bs m = snd (new_slice bs (snd (new_obj 8 m)))"

section \<open>Lemmas\<close>

interpretation exit_service: efi_service "\<lambda>fw (s, code). Exit fw s code" "\<lambda>(s, code). bs_base s + exit"
  "\<lambda>(s, code). [bs_imageHandle s, word_of_int code, 0, 0]" "\<lambda>_. True"
  by unfold_locales (auto simp: Exit_def apfst_def map_prod_def)

interpretation watchdog: efi_service "\<lambda>fw (s, sec). SetWatchdogTimer fw s sec"
  "\<lambda>(s, sec). bs_base s + setWatchdogTimer" "\<lambda>(s, sec). [word_of_int sec, watchdogCode, 0, 0]" "\<lambda>_. True"
  by unfold_locales (auto simp: SetWatchdogTimer_def apfst_def map_prod_def)

interpretation reset: efi_service "\<lambda>fw (s, t). ResetSystem fw s t" "\<lambda>(s, t). rs_base s + resetSystem"
  "\<lambda>(s, t). [word_of_int t, EFI_SUCCESS, 0, 0]" "\<lambda>_. True"
  by unfold_locales (auto simp: ResetSystem_def apfst_def map_prod_def)

interpretation start_image: efi_service "\<lambda>fw (s, h). StartImage fw s h" "\<lambda>(s, h). bs_base s + startImage"
  "\<lambda>(s, h). [h, 0, 0]" "\<lambda>_. True"
  by unfold_locales (auto simp: StartImage_def apfst_def map_prod_def)

text \<open>
  A protocol lookup is total: a cell for the result, the GUID's 16 bytes, one call, and the
  contents of the cell.
\<close>

lemma lookup_machine_frame [simp]:
  "calls (lookup_machine bs m) = calls m" "world (lookup_machine bs m) = world m"
  "place (lookup_machine bs m) = place m" "objs (lookup_machine bs m) = objs m + 2"
  by (simp_all add: lookup_machine_def new_obj_def new_slice_def)

lemma HandleProtocol_call:
  assumes "Bytes guid = Some bs"
  shows "HandleProtocol fw s handle guid m =
    (case CallService fw (bs_base s + handleProtocol)
        [handle, place m (Suc (objs m)), place m (objs m)] (lookup_machine bs m) of
      (status, m') \<Rightarrow> Some (load64 (mem m') (place m (objs m)), parseStatus status, m'))"
proof -
  have "bs \<noteq> []" using Bytes_total [of guid] assms by auto
  then show ?thesis using assms
    by (simp add: HandleProtocol_def guid_ptrval_def first_elem_def new_obj_def new_slice_def
        lookup_machine_def Let_def split: prod.splits)
qed

lemma LocateProtocol_call:
  assumes "Bytes guid = Some bs"
  shows "LocateProtocol fw s guid m =
    (case CallService fw (bs_base s + locateProtocol)
        [place m (Suc (objs m)), 0, place m (objs m)] (lookup_machine bs m) of
      (status, m') \<Rightarrow> Some (load64 (mem m') (place m (objs m)), parseStatus status, m'))"
proof -
  have "bs \<noteq> []" using Bytes_total [of guid] assms by auto
  then show ?thesis using assms
    by (simp add: LocateProtocol_def guid_ptrval_def first_elem_def new_obj_def new_slice_def
        lookup_machine_def Let_def split: prod.splits)
qed

lemma lookup_machine_guid:
  assumes "length bs = 16"
  shows "load_bytes (mem (lookup_machine bs m)) (place m (Suc (objs m))) 16 = bs"
  using load_store_same [of bs] assms by (simp add: lookup_machine_def new_slice_def new_obj_def)

lemma GetMemoryMap_log:
  assumes "GetMemoryMap fw s m = Some (r, err, m')"
  shows "\<exists>code args. calls m' = calls m @ [Indirect (bs_base s + getMemoryMap) code args]"
proof -
  let ?o = "place m (objs m)" and ?b = "place m (Suc (objs m))"
  let ?m1 = "snd (new_slice (replicate 48000 0)
        ((snd (new_obj 80 m))\<lparr>mem := store64 (?o + 40) 48 (store64 ?o 48000 (mem (snd (new_obj 80 m))))\<rparr>))"
  let ?args = "[?o, ?b, ?o + 32, ?o + 40, ?o + 48]"
  obtain status m2 where call: "CallService fw (bs_base s + getMemoryMap) ?args ?m1 = (status, m2)" by fastforce
  have "m' = m2"
    using assms unfolding GetMemoryMap_call [OF call] Let_def
    by (auto split: option.splits Option.bind_splits)
  moreover have "calls m2 = calls m @ [Indirect (bs_base s + getMemoryMap)
      (load64 (mem ?m1) (bs_base s + getMemoryMap)) ?args]"
    using CallService_log [of ?args fw "bs_base s + getMemoryMap" ?m1] call by simp
  ultimately show ?thesis by blast
qed

section \<open>Properties\<close>


text \<open>
  Claim C20: leaving the boot services. \<^verbatim>\<open>ExitBootServices\<close> never panics. If the memory map
  cannot be read its error is returned and the boot services stay on: the firmware is not asked
  to exit. Otherwise the last two calls are \<^verbatim>\<open>GetMemoryMap\<close> and \<^verbatim>\<open>ExitBootServices\<close> with
  the image handle and the key of that very map, with nothing in between.
\<close>

theorem ExitBootServices_order:
  "\<exists>r err m'. ExitBootServices fw s m = Some (r, err, m') \<and>
     (\<exists>code args e m1. GetMemoryMap fw s m = Some (r, e, m1) \<and>
       calls m' = calls m @ [Indirect (bs_base s + getMemoryMap) code args] @
         (if e = None then [Indirect (bs_base s + exitBootServices)
             (load64 (mem m1) (bs_base s + exitBootServices)) [bs_imageHandle s, MapKey r]]
          else []) \<and>
       (case e of None \<Rightarrow> True | Some x \<Rightarrow> err = Some x))"
proof -
  obtain r e m1 where g: "GetMemoryMap fw s m = Some (r, e, m1)"
    using GetMemoryMap_total [of fw s m] by blast
  obtain code args where c: "calls m1 = calls m @ [Indirect (bs_base s + getMemoryMap) code args]"
    using GetMemoryMap_log [OF g] by blast
  show ?thesis
  proof (cases e)
    case None
    obtain st m2 where c2: "CallService fw (bs_base s + exitBootServices) [bs_imageHandle s, MapKey r] m1 = (st, m2)"
      by fastforce
    then have "calls m2 = calls m1 @ [Indirect (bs_base s + exitBootServices)
        (load64 (mem m1) (bs_base s + exitBootServices)) [bs_imageHandle s, MapKey r]]"
      using CallService_log [of "[bs_imageHandle s, MapKey r]" fw "bs_base s + exitBootServices" m1] by simp
    then show ?thesis using None g c c2 by (auto simp: ExitBootServices_def)
  next
    case (Some x)
    then show ?thesis using g c by (simp add: ExitBootServices_def)
  qed
qed

text \<open>
  Protocol lookup. For every GUID text \<^verbatim>\<open>HandleProtocol\<close> makes one call with the
  handle, a pointer to the 16 bytes of the GUID, and a pointer to a cell of its own; it returns
  what the firmware left in the cell and the error of the status.
\<close>

theorem HandleProtocol_spec:
  "\<exists>bs st m'. Bytes guid = Some bs
     \<and> load_bytes (mem (lookup_machine bs m)) (place m (Suc (objs m))) 16 = bs
     \<and> CallService fw (bs_base s + handleProtocol) [handle, place m (Suc (objs m)), place m (objs m)]
         (lookup_machine bs m) = (st, m')
     \<and> HandleProtocol fw s handle guid m = Some (load64 (mem m') (place m (objs m)), parseStatus st, m')"
proof -
  obtain bs where bs: "Bytes guid = Some bs" "length bs = 16" using Bytes_total by blast
  obtain st m' where c: "CallService fw (bs_base s + handleProtocol)
      [handle, place m (Suc (objs m)), place m (objs m)] (lookup_machine bs m) = (st, m')" by fastforce
  show ?thesis using bs c lookup_machine_guid [OF bs(2), of m] HandleProtocol_call [OF bs(1), of fw s handle m]
    by (intro exI [of _ bs] exI [of _ st] exI [of _ m']) simp
qed

text \<open>
  Reading a variable. \<^verbatim>\<open>GetVariable\<close> passes four arguments, the third of them its
  data buffer and the fourth a cell holding 0, and never returns data, whatever the firmware
  answers.
\<close>

theorem GetVariable_no_data:
  assumes "name \<noteq> []" "guid \<noteq> []"
  shows "\<exists>n g err m'. GetVariable fw s name guid m = Some ([], 0, err, m')
    \<and> (\<exists>code. calls m' = calls m @ [Indirect (rs_base s + getVariable) code
          [n, g, place m (Suc (objs m)), place m (objs m)]])"
proof -
  have "concat (map (\<lambda>u. le_bytes 2 (unat u)) name) \<noteq> []" using assms(1) by (cases name) (auto simp: numeral_2_eq_2)
  then show ?thesis using assms(2)
    by (auto simp: GetVariable_def first_elem_def new_obj_def new_slice_def Let_def CallService_nonempty
        split: prod.splits)
qed

theorem GetVariable_no_data_witness:
  "\<exists>n g err m'. GetVariable (\<lambda>code args f w. (0, f, w)) \<lparr>rs_base = 12288\<rparr> [66, 0] (replicate 16 1) demo_machine
       = Some ([], 0, err, m')
    \<and> (\<exists>code. calls m' = calls demo_machine @ [Indirect (rs_base \<lparr>rs_base = 12288\<rparr> + getVariable) code
          [n, g, place demo_machine (Suc (objs demo_machine)), place demo_machine (objs demo_machine)]])"
  by (rule GetVariable_no_data) simp_all

end
