(* ===== verification/Read_All.thy ===== *)
theory Read_All
  imports Machine
begin

text \<open>
  \<^verbatim>\<open>io.ReadAll\<close> of the standard library, over an abstract reader, and the contract of the
  readers it is used with. A byte slice that aliases memory is a \<open>gslice\<close>: the address of its
  first element and its length.

  The locale \<open>byte_reader\<close> is that contract: a read stores the next bytes of the source in the
  buffer, keeps what the buffer holds before them, and reports the end of the source with
  \<open>EOF\<close>. Reading a whole source is proved once against it; files interpret it.
\<close>

section \<open>Definitions\<close>

type_synonym gslice = "u64 \<times> nat"

text \<open>
  The growing buffer of \<^verbatim>\<open>io.ReadAll\<close>: backing array at \<open>base\<close>, \<open>len\<close> bytes read, capacity
  \<open>cap\<close>. \<open>grow\<close> is the capacity \<^verbatim>\<open>append\<close> chooses for a full array. Slicing beyond the capacity
  panics. \<open>fuel\<close> bounds the rounds: the loop ends only when the reader reports an error.
\<close>

fun ReadAll_loop :: "nat \<Rightarrow> (nat \<Rightarrow> nat) \<Rightarrow> (gslice \<Rightarrow> 'w machine \<Rightarrow> (int \<times> gerr option \<times> 'w machine) option)
    \<Rightarrow> u64 \<Rightarrow> nat \<Rightarrow> nat \<Rightarrow> 'w machine \<Rightarrow> (gslice \<times> gerr option \<times> 'w machine) option" where
  "ReadAll_loop 0 grow rd base len cap m = None"
| "ReadAll_loop (Suc fuel) grow rd base len cap m =
     (case rd (base + of_nat len, cap - len) m of
        None \<Rightarrow> None
      | Some (n, err, m) \<Rightarrow>
          if n < 0 \<or> int cap < int len + n then None
          else let len = len + nat n in
          case err of
            Some e \<Rightarrow> Some ((base, len), if e = EOF then None else Some e, m)
          | None \<Rightarrow>
              if len = cap then
                let (base', m) = new_slice (load_bytes (mem m) base len @ replicate (grow cap - len) 0) m
                in ReadAll_loop fuel grow rd base' len (grow cap) m
              else ReadAll_loop fuel grow rd base len cap m)"

definition ReadAll :: "nat \<Rightarrow> (nat \<Rightarrow> nat) \<Rightarrow> (gslice \<Rightarrow> 'w machine \<Rightarrow> (int \<times> gerr option \<times> 'w machine) option)
    \<Rightarrow> 'w machine \<Rightarrow> (gslice \<times> gerr option \<times> 'w machine) option" where
  "ReadAll fuel grow rd m =
     (let (base, m) = new_obj 512 m in ReadAll_loop fuel grow rd base 0 512 m)"

text \<open>
  Where the Go runtime puts objects: the first \<open>L\<close> objects have \<open>N\<close> bytes each, are apart from
  each other and from the regions \<open>R\<close>.
\<close>

definition layout :: "(nat \<Rightarrow> u64) \<Rightarrow> nat \<Rightarrow> nat \<Rightarrow> (u64 \<times> nat) list \<Rightarrow> bool" where
  "layout pl L N R \<longleftrightarrow>
     (\<forall>i<L. \<forall>j<L. i \<noteq> j \<longrightarrow> apart (pl i) N (pl j) N) \<and>
     (\<forall>i<L. \<forall>r \<in> set R. apart (pl i) N (fst r) (snd r))"

text \<open>The same for the objects from number \<open>K\<close> on, those a part of a run makes itself.\<close>

definition fresh_layout :: "(nat \<Rightarrow> u64) \<Rightarrow> nat \<Rightarrow> nat \<Rightarrow> nat \<Rightarrow> (u64 \<times> nat) list \<Rightarrow> bool" where
  "fresh_layout pl K L N R \<longleftrightarrow>
     (\<forall>i j. K \<le> i \<longrightarrow> i < L \<longrightarrow> K \<le> j \<longrightarrow> j < L \<longrightarrow> i \<noteq> j \<longrightarrow> apart (pl i) N (pl j) N) \<and>
     (\<forall>i. K \<le> i \<longrightarrow> i < L \<longrightarrow> (\<forall>r \<in> set R. apart (pl i) N (fst r) (snd r)))"

text \<open>Regions that hold what they held in another memory.\<close>

definition same_regions :: "(u64 \<times> nat) list \<Rightarrow> memory \<Rightarrow> memory \<Rightarrow> bool" where
  "same_regions R f f' \<longleftrightarrow> list_all (\<lambda>(a, n). n \<le> 2 ^ 64 \<and> load_bytes f' a n = load_bytes f a n) R"

section \<open>Objects and regions\<close>

lemma zero_fill_store: "zero_fill a n f = store_bytes a (replicate n 0) f"
  by (simp add: fun_eq_iff zero_fill_def store_bytes_def Let_def)

lemma layout_apart:
  assumes "layout pl L N R" "i < L" "j < L" "i \<noteq> j" "n \<le> N" "k \<le> N"
  shows "apart (pl i) n (pl j) k"
proof -
  have "apart (pl i) N (pl j) N" using assms(1-4) by (simp add: layout_def)
  with assms(5,6) show ?thesis by (simp add: apart_def)
qed

lemma layout_fresh: "layout pl L N R \<Longrightarrow> fresh_layout pl K L N R"
  by (simp add: layout_def fresh_layout_def)

lemma fresh_layout_objs:
  "fresh_layout pl K L N R \<Longrightarrow> K \<le> i \<Longrightarrow> i < L \<Longrightarrow> K \<le> j \<Longrightarrow> j < L \<Longrightarrow> i \<noteq> j \<Longrightarrow> apart (pl i) N (pl j) N"
  by (simp add: fresh_layout_def)

lemma fresh_layout_regions:
  "fresh_layout pl K L N R \<Longrightarrow> K \<le> i \<Longrightarrow> i < L \<Longrightarrow> r \<in> set R \<Longrightarrow> apart (pl i) N (fst r) (snd r)"
  by (simp add: fresh_layout_def)

lemma apart_above:
  assumes "unat c + k \<le> unat (a::u64)" "unat a + n \<le> 2 ^ 64" "0 < k"
  shows "apart a n c k"
  using assms unat_sub_if' [of a c] unat_sub_if' [of c a] by (auto simp: apart_def)

text \<open>A store in one object leaves another object alone.\<close>

lemma store_other_object:
  assumes "layout pl L N R" "i < L" "j < L" "i \<noteq> j" "n \<le> N" "length bs \<le> N" "N < 2 ^ 63"
  shows "load_bytes (store_bytes (pl j) bs f) (pl i) n = load_bytes f (pl i) n"
  using load_store_apart [OF layout_apart [OF assms(1-6)]] assms(5,7) by simp

lemma store64_bytes: "store64 a v f = store_bytes a (le_bytes 8 (unat v)) f"
  by (simp add: store64_def)

lemma layout_subset: "layout pl L N R \<Longrightarrow> set R' \<subseteq> set R \<Longrightarrow> layout pl L N R'"
  unfolding layout_def by blast

lemma store_region:
  assumes "layout pl L N R" "j < L" "length bs \<le> N" "(a, n) \<in> set R" "n \<le> 2 ^ 64"
  shows "load_bytes (store_bytes (pl j) bs f) a n = load_bytes f a n"
proof -
  have "\<forall>r \<in> set R. apart (pl j) N (fst r) (snd r)" using assms(1,2) by (simp add: layout_def)
  then have "apart (pl j) N a n" using assms(4) by force
  then have "apart a n (pl j) (length bs)" using assms(3) by (simp add: apart_def)
  then show ?thesis using assms(5) by (rule load_store_apart)
qed

lemma same_regions_store:
  assumes "layout pl L N R" "j < L" "length bs \<le> N" "same_regions R f0 f"
  shows "same_regions R f0 (store_bytes (pl j) bs f)"
  using assms store_region [OF assms(1-3)] by (auto simp: same_regions_def list_all_iff)

section \<open>The reader interface\<close>

locale byte_reader =
  fixes rd :: "'w firmware \<Rightarrow> 'x \<Rightarrow> gslice \<Rightarrow> 'w machine \<Rightarrow> (int \<times> gerr option \<times> 'w machine) option"
    and regions :: "'x \<Rightarrow> (u64 \<times> nat) list"
    and ok :: "'w firmware \<Rightarrow> 'x \<Rightarrow> ('w \<Rightarrow> u8 list) \<Rightarrow> memory \<Rightarrow> bool"
  assumes ok_frame: "ok fw x rest f \<Longrightarrow>
      (\<And>r. r \<in> set (regions x) \<Longrightarrow> load_bytes f' (fst r) (snd r) = load_bytes f (fst r) (snd r)) \<Longrightarrow>
      ok fw x rest f'"
    and region_size: "r \<in> set (regions x) \<Longrightarrow> snd r \<le> 2 ^ 64"
    and read_spec: "ok fw x rest (mem m) \<Longrightarrow> fresh_layout (place m) K L N (regions x) \<Longrightarrow> objs m < L \<Longrightarrow>
      K \<le> i \<Longrightarrow> i < objs m \<Longrightarrow> 0 < n \<Longrightarrow> off + n \<le> N \<Longrightarrow> N < 2 ^ 63 \<Longrightarrow> 8 \<le> N \<Longrightarrow>
      j = min n (length (rest (world m))) \<Longrightarrow>
      \<exists>m'. rd fw x (place m i + of_nat off, n) m = Some (int j, if j = 0 then Some EOF else None, m')
        \<and> place m' = place m \<and> objs m' = Suc (objs m) \<and> ok fw x rest (mem m')
        \<and> rest (world m') = drop j (rest (world m))
        \<and> load_bytes (mem m') (place m i) (off + j) = load_bytes (mem m) (place m i) off @ take j (rest (world m))"
begin

text \<open>Growing the buffer keeps the reader working and the bytes read so far.\<close>

lemma grow_ok:
  assumes "ok fw x rest (mem m)" "fresh_layout (place m) K L N (regions x)" "K \<le> objs m" "objs m < L"
    and "length bs \<le> N" "0 < length bs"
  shows "ok fw x rest (mem (snd (new_slice bs m)))"
proof (rule ok_frame [OF assms(1)])
  fix r assume r: "r \<in> set (regions x)"
  have "apart (place m (objs m)) N (fst r) (snd r)" by (rule fresh_layout_regions [OF assms(2-4) r])
  then have "apart (place m (objs m) + of_nat 0) (length bs) (fst r) (snd r)"
    by (rule apart_sub) (use assms(5,6) in auto)
  then show "load_bytes (mem (snd (new_slice bs m))) (fst r) (snd r) = load_bytes (mem m) (fst r) (snd r)"
    using region_size [OF r] by (simp add: new_slice_def load_store_apart apart_sym)
qed

lemma ReadAll_loop_content:
  assumes "ok fw x rest (mem m)" "fresh_layout (place m) K L N (regions x)"
    and "K \<le> i" "i < objs m" "objs m + 2 * length (rest (world m)) + 1 \<le> L" "len < cap" "cap \<le> N"
    and "N < 2 ^ 63" "8 \<le> N" "length (rest (world m)) < fuel"
    and "\<And>c. cap \<le> c \<Longrightarrow> c \<le> len + length (rest (world m)) \<Longrightarrow> c < grow c \<and> grow c \<le> N"
  shows "\<exists>b m'. ReadAll_loop fuel grow (rd fw x) (place m i) len cap m
      = Some ((place m b, len + length (rest (world m))), None, m')
    \<and> load_bytes (mem m') (place m b) (len + length (rest (world m)))
      = load_bytes (mem m) (place m i) len @ rest (world m)
    \<and> rest (world m') = [] \<and> ok fw x rest (mem m') \<and> place m' = place m
    \<and> K \<le> b \<and> b < objs m' \<and> objs m' \<le> objs m + 2 * length (rest (world m)) + 1 \<and> len + length (rest (world m)) \<le> N"
  using assms
proof (induction fuel arbitrary: m i len cap)
  case (Suc fuel)
  define j where "j = min (cap - len) (length (rest (world m)))"
  have "len + (cap - len) \<le> N" using Suc.prems(6,7) by simp
  moreover have "objs m < L" "0 < cap - len" using Suc.prems(5,6) by simp_all
  ultimately obtain m1 where r: "rd fw x (place m i + of_nat len, cap - len) m
        = Some (int j, if j = 0 then Some EOF else None, m1)"
    and m1: "place m1 = place m" "objs m1 = Suc (objs m)" "ok fw x rest (mem m1)"
      "rest (world m1) = drop j (rest (world m))"
      "load_bytes (mem m1) (place m i) (len + j) = load_bytes (mem m) (place m i) len @ take j (rest (world m))"
    using read_spec [OF Suc.prems(1,2) _ Suc.prems(3,4) _ _ Suc.prems(8,9) j_def] by blast
  show ?case
  proof (cases "rest (world m) = []")
    case True
    then have "j = 0" by (simp add: j_def)
    with True r m1 Suc.prems(3,4,6,7) show ?thesis by (intro exI [of _ i] exI [of _ m1]) simp
  next
    case False
    then have j: "0 < j" "j \<le> cap - len" "j \<le> length (rest (world m))"
      using Suc.prems(6) by (simp_all add: j_def)
    show ?thesis
    proof (cases "len + j = cap")
      case full: True
      define bs where "bs = load_bytes (mem m1) (place m i) cap @ replicate (grow cap - cap) 0"
      define m2 where "m2 = snd (new_slice bs m1)"
      have g: "cap < grow cap" "grow cap \<le> N" using Suc.prems(11) [of cap] full j by simp_all
      then have bs: "length bs = grow cap" by (simp add: bs_def)
      have m2: "place m2 = place m" "objs m2 = Suc (Suc (objs m))" "world m2 = world m1"
        by (simp_all add: m2_def m1 new_slice_def)
      have "ok fw x rest (mem m2)" unfolding m2_def
        by (rule grow_ok [OF m1(3)]) (use Suc.prems(2-5) m1 bs g j in auto)
      moreover have "load_bytes (mem m2) (place m (Suc (objs m))) cap = load_bytes (mem m1) (place m i) cap"
        using load_store_sub [of 0 cap bs "place m (Suc (objs m))" "mem m1"] bs g Suc.prems(8)
        by (simp add: m2_def new_slice_def m1 bs_def)
      moreover have "objs m2 + 2 * length (rest (world m2)) + 1 \<le> L" "length (rest (world m2)) < fuel"
        using Suc.prems(5,10) m1(4) m2 j by auto
      ultimately obtain b m' where
        "ReadAll_loop fuel grow (rd fw x) (place m (Suc (objs m))) cap (grow cap) m2
          = Some ((place m b, cap + length (rest (world m1))), None, m')"
        "load_bytes (mem m') (place m b) (cap + length (rest (world m1)))
          = load_bytes (mem m1) (place m i) cap @ rest (world m1)"
        "rest (world m') = []" "ok fw x rest (mem m')" "place m' = place m"
        "K \<le> b" "b < objs m'" "objs m' \<le> objs m2 + 2 * length (rest (world m1)) + 1" "cap + length (rest (world m1)) \<le> N"
        using Suc.IH [of m2 "Suc (objs m)" cap "grow cap"] Suc.prems m1 m2 g j full by auto
      moreover have "ReadAll_loop (Suc fuel) grow (rd fw x) (place m i) len cap m
          = ReadAll_loop fuel grow (rd fw x) (place m (Suc (objs m))) cap (grow cap) m2"
        using r j full by (simp add: m2_def bs_def new_slice_def m1)
      ultimately show ?thesis using m1 m2 j full by (intro exI [of _ b] exI [of _ m']) auto
    next
      case part: False
      then have lt: "len + j < cap" using j by simp
      have "objs m1 + 2 * length (rest (world m1)) + 1 \<le> L" "length (rest (world m1)) < fuel"
        using Suc.prems(5,10) m1(2,4) j by auto
      then obtain b m' where
        "ReadAll_loop fuel grow (rd fw x) (place m i) (len + j) cap m1
          = Some ((place m b, len + j + length (rest (world m1))), None, m')"
        "load_bytes (mem m') (place m b) (len + j + length (rest (world m1)))
          = load_bytes (mem m1) (place m i) (len + j) @ rest (world m1)"
        "rest (world m') = []" "ok fw x rest (mem m')" "place m' = place m"
        "K \<le> b" "b < objs m'" "objs m' \<le> objs m1 + 2 * length (rest (world m1)) + 1" "len + j + length (rest (world m1)) \<le> N"
        using Suc.IH [of m1 i "len + j" cap] Suc.prems m1 lt j by auto
      moreover have "ReadAll_loop (Suc fuel) grow (rd fw x) (place m i) len cap m
          = ReadAll_loop fuel grow (rd fw x) (place m i) (len + j) cap m1"
        using r j part lt by simp
      ultimately show ?thesis using m1 j by (intro exI [of _ b] exI [of _ m']) auto
    qed
  qed
qed simp

text \<open>\<^verbatim>\<open>io.ReadAll\<close> returns the whole source, in an object it made.\<close>

lemma ReadAll_content:
  assumes "ok fw x rest (mem m)" "fresh_layout (place m) (objs m) L N (regions x)"
    and "objs m + 2 * length (rest (world m)) + 2 \<le> L" "512 \<le> N" "N < 2 ^ 63"
    and "length (rest (world m)) < fuel"
    and "\<And>c. 512 \<le> c \<Longrightarrow> c \<le> length (rest (world m)) \<Longrightarrow> c < grow c \<and> grow c \<le> N"
  shows "\<exists>b m'. ReadAll fuel grow (rd fw x) m = Some ((place m b, length (rest (world m))), None, m')
    \<and> load_bytes (mem m') (place m b) (length (rest (world m))) = rest (world m)
    \<and> rest (world m') = [] \<and> ok fw x rest (mem m') \<and> place m' = place m
    \<and> objs m \<le> b \<and> b < objs m' \<and> objs m' \<le> objs m + 2 * length (rest (world m)) + 2 \<and> length (rest (world m)) \<le> N"
proof -
  define m1 where "m1 = snd (new_obj 512 m)"
  have m1: "place m1 = place m" "world m1 = world m" "objs m1 = Suc (objs m)"
    by (simp_all add: m1_def new_obj_def)
  have "ok fw x rest (mem m1)"
    using grow_ok [OF assms(1,2), of "replicate 512 0"] assms(3,4)
    by (simp add: m1_def new_obj_def new_slice_def zero_fill_store)
  with ReadAll_loop_content [of fw x rest m1 "objs m" L N "objs m" 0 512 fuel grow] assms m1
  show ?thesis by (simp add: ReadAll_def m1_def [symmetric] split: prod.splits) (simp add: m1_def new_obj_def)
qed

end

end
