(* ===== verification/File_System.thy ===== *)
theory File_System
  imports Boot_Services Read_All
begin

text \<open>
  \<^verbatim>\<open>pkg/ueficore/file.go\<close> and \<^verbatim>\<open>pkg/ueficore/fs.go\<close>: files and the root volume over
  \<^verbatim>\<open>EFI_FILE_PROTOCOL\<close> and \<^verbatim>\<open>EFI_SIMPLE_FILE_SYSTEM_PROTOCOL\<close>, and the loaded image
  protocol.

  The protocol structs are Go objects in memory: the code passes the address of a field, such as
  \<^verbatim>\<open>&f.Open\<close>, as the table entry to call through. A pointer to one is its address, 0 is nil.
\<close>

section \<open>Definitions\<close>

subsection \<open>file.go\<close>

definition EFI_FILE_INFO_ID :: gostring where
  "EFI_FILE_INFO_ID = lit ''09576e92-6d3f-11d2-8e39-00a0c969723b''"

definition EFI_FILE_PROTOCOL_REVISION :: u64 where "EFI_FILE_PROTOCOL_REVISION = 0x00010000"
definition EFI_FILE_PROTOCOL_REVISION2 :: u64 where "EFI_FILE_PROTOCOL_REVISION2 = 0x00020000"
definition EFI_FILE_MODE_READ :: u64 where "EFI_FILE_MODE_READ = 1"
definition EFI_FILE_DIRECTORY :: u64 where "EFI_FILE_DIRECTORY = 16"

record file_protocol =
  fp_Revision :: u64
  fp_Open :: u64
  fp_Close :: u64
  fp_Delete :: u64
  fp_Read :: u64
  fp_Write :: u64
  fp_GetPosition :: u64
  fp_SetPosition :: u64
  fp_GetInfo :: u64
  fp_SetInfo :: u64
  fp_Flush :: u64

definition file_protocol_enc :: "file_protocol \<Rightarrow> u8 list" where
  "file_protocol_enc p = le_emit
     [(8, unat (fp_Revision p)), (8, unat (fp_Open p)), (8, unat (fp_Close p)), (8, unat (fp_Delete p)),
      (8, unat (fp_Read p)), (8, unat (fp_Write p)), (8, unat (fp_GetPosition p)),
      (8, unat (fp_SetPosition p)), (8, unat (fp_GetInfo p)), (8, unat (fp_SetInfo p)), (8, unat (fp_Flush p))]"

definition file_protocol_dec :: "u8 list \<Rightarrow> file_protocol" where
  "file_protocol_dec bs =
     (let v = le_fields [8, 8, 8, 8, 8, 8, 8, 8, 8, 8, 8] bs
      in \<lparr>fp_Revision = of_nat (v ! 0), fp_Open = of_nat (v ! 1), fp_Close = of_nat (v ! 2),
          fp_Delete = of_nat (v ! 3), fp_Read = of_nat (v ! 4), fp_Write = of_nat (v ! 5),
          fp_GetPosition = of_nat (v ! 6), fp_SetPosition = of_nat (v ! 7), fp_GetInfo = of_nat (v ! 8),
          fp_SetInfo = of_nat (v ! 9), fp_Flush = of_nat (v ! 10)\<rparr>)"

text \<open>The offsets of the fields the code takes the address of.\<close>

definition off_Open :: u64 where "off_Open = 8"
definition off_Close :: u64 where "off_Close = 16"
definition off_Read :: u64 where "off_Read = 32"
definition off_GetInfo :: u64 where "off_GetInfo = 64"

record efi_time =
  Year :: u16
  Month :: u8
  Day :: u8
  Hour :: u8
  Minute :: u8
  Second :: u8
  Nanosecond :: u8
  TimeZone :: u16 \<comment> \<open>an \<open>int16\<close>: read with \<open>sint\<close>\<close>
  Daylight :: u8

record file_info =
  fi_Size :: u64
  fi_FileSize :: u64
  fi_PhysicalSize :: u64
  CreateTime :: efi_time
  LastAccessTime :: efi_time
  ModificationTime :: efi_time
  fi_Attribute :: u64

definition efi_time_fields :: "efi_time \<Rightarrow> (nat \<times> nat) list" where
  "efi_time_fields t =
     [(2, unat (Year t)), (1, unat (Month t)), (1, unat (Day t)), (1, unat (Hour t)), (1, unat (Minute t)),
      (1, unat (Second t)), (1, 0), (1, unat (Nanosecond t)), (2, unat (TimeZone t)), (1, unat (Daylight t)), (4, 0)]"

definition efi_time_widths :: "nat list" where
  "efi_time_widths = [2, 1, 1, 1, 1, 1, 1, 1, 2, 1, 4]"

definition efi_time_of :: "nat list \<Rightarrow> efi_time" where
  "efi_time_of v = \<lparr>Year = of_nat (v ! 0), Month = of_nat (v ! 1), Day = of_nat (v ! 2), Hour = of_nat (v ! 3),
     Minute = of_nat (v ! 4), Second = of_nat (v ! 5), Nanosecond = of_nat (v ! 7), TimeZone = of_nat (v ! 8),
     Daylight = of_nat (v ! 9)\<rparr>"

definition file_info_enc :: "file_info \<Rightarrow> u8 list" where
  "file_info_enc i = le_emit
     ([(8, unat (fi_Size i)), (8, unat (fi_FileSize i)), (8, unat (fi_PhysicalSize i))]
      @ efi_time_fields (CreateTime i) @ efi_time_fields (LastAccessTime i)
      @ efi_time_fields (ModificationTime i) @ [(8, unat (fi_Attribute i))])"

definition file_info_dec :: "u8 list \<Rightarrow> file_info" where
  "file_info_dec bs =
     (let v = le_fields ([8, 8, 8] @ efi_time_widths @ efi_time_widths @ efi_time_widths @ [8]) bs
      in \<lparr>fi_Size = of_nat (v ! 0), fi_FileSize = of_nat (v ! 1), fi_PhysicalSize = of_nat (v ! 2),
          CreateTime = efi_time_of (drop 3 v), LastAccessTime = efi_time_of (drop 14 v),
          ModificationTime = efi_time_of (drop 25 v), fi_Attribute = of_nat (v ! 36)\<rparr>)"

text \<open>\<^verbatim>\<open>decode\<close> into an object: on success the struct at the address replaces its contents.\<close>

definition decode_object :: "dma_pkg \<Rightarrow> nat \<Rightarrow> (u8 list \<Rightarrow> 'a) \<Rightarrow> ('a \<Rightarrow> u8 list) \<Rightarrow> u64 \<Rightarrow> u64
    \<Rightarrow> 'w machine \<Rightarrow> (gerr option \<times> 'w machine) option" where
  "decode_object dma n dec enc obj addr m = do {
     d \<leftarrow> decode dma n dec addr (mem m);
     case d of
       Inl err \<Rightarrow> Some (Some err, m)
     | Inr x \<Rightarrow> Some (None, m\<lparr>mem := store_bytes obj (enc x) (mem m)\<rparr>) }"

text \<open>
  The tail shared by \<^verbatim>\<open>fileProtocol.open\<close> and \<^verbatim>\<open>simpleFileSystem.openVolume\<close>, which have
  the same statements there: read the protocol the firmware returned and check its revision.
\<close>

definition new_file_protocol :: "dma_pkg \<Rightarrow> u64 \<Rightarrow> 'w machine \<Rightarrow> (u64 \<times> u64 \<times> gerr option \<times> 'w machine) option" where
  "new_file_protocol dma addr m =
     (let (obj, m) = new_obj 88 m in do {
        (err, m) \<leftarrow> decode_object dma 88 file_protocol_dec file_protocol_enc obj addr m;
        case err of
          Some e \<Rightarrow> Some (obj, addr, Some e, m)
        | None \<Rightarrow>
            if load64 (mem m) obj \<noteq> EFI_FILE_PROTOCOL_REVISION
               \<and> load64 (mem m) obj \<noteq> EFI_FILE_PROTOCOL_REVISION2
            then Some (0, 0, Some (ErrMsg ''invalid protocol revision''), m)
            else Some (obj, addr, None, m) })"

definition file_open :: "dma_pkg \<Rightarrow> 'w firmware \<Rightarrow> u64 \<Rightarrow> u64 \<Rightarrow> gostring \<Rightarrow> u64 \<Rightarrow> 'w machine
    \<Rightarrow> (u64 \<times> u64 \<times> gerr option \<times> 'w machine) option" where
  "file_open dma fw f handle name mode m =
     (let (a, m) = new_obj 8 m; fileName = toUTF16 name in do {
        entry \<leftarrow> ptrval (PtrUint64 (f + off_Open));
        p \<leftarrow> ptrval (PtrUint64 a);
        (n, m) \<leftarrow> first_elem fileName m;
        q \<leftarrow> ptrval (PtrByte n);
        let (status, m) = CallService fw entry [handle, p, q, mode, 0] m;
        case parseStatus status of
          Some err \<Rightarrow> Some (0, load64 (mem m) a, Some err, m)
        | None \<Rightarrow> new_file_protocol dma (load64 (mem m) a) m })"

definition file_close :: "'w firmware \<Rightarrow> u64 \<Rightarrow> u64 \<Rightarrow> 'w machine \<Rightarrow> gerr option \<times> 'w machine" where
  "file_close fw f handle m =
     (let (status, m) = CallService fw (f + off_Close) [handle] m in (parseStatus status, m))"

definition file_read :: "'w firmware \<Rightarrow> u64 \<Rightarrow> u64 \<Rightarrow> gslice \<Rightarrow> 'w machine
    \<Rightarrow> (int \<times> gerr option \<times> 'w machine) option" where
  "file_read fw f handle buf m =
     (if snd buf = 0 then Some (0, None, m)
      else let (a, m) = new_uint64 (of_nat (snd buf)) m in do {
        entry \<leftarrow> ptrval (PtrUint64 (f + off_Read));
        p \<leftarrow> ptrval (PtrUint64 a);
        q \<leftarrow> ptrval (PtrByte (fst buf));
        let (status, m) = CallService fw entry [handle, p, q] m;
        let sz = load64 (mem m) a;
        if status = EFI_DEVICE_ERROR \<or> sz = 0 then Some (0, Some EOF, m)
        else Some (sint sz, parseStatus status, m) })"

text \<open>\<^verbatim>\<open>buf[0:size]\<close> panics when the firmware reports a size above the buffer's.\<close>

definition file_getInfo :: "'w firmware \<Rightarrow> u64 \<Rightarrow> u64 \<Rightarrow> u8 list \<Rightarrow> 'w machine
    \<Rightarrow> (file_info option \<times> gerr option \<times> 'w machine) option" where
  "file_getInfo fw f handle guid m =
     (let n = 8 * 7 + 512;
          (b, m) = new_obj n m;
          (a, m) = new_uint64 (of_nat n) m
      in do {
        entry \<leftarrow> ptrval (PtrUint64 (f + off_GetInfo));
        (g, m) \<leftarrow> first_elem guid m;
        pg \<leftarrow> ptrval (PtrByte g);
        pa \<leftarrow> ptrval (PtrUint64 a);
        pb \<leftarrow> ptrval (PtrByte b);
        let (status, m) = CallService fw entry [handle, pg, pa, pb] m;
        case parseStatus status of
          Some err \<Rightarrow> Some (None, Some err, m)
        | None \<Rightarrow>
            let sz = unat (load64 (mem m) a) in
            if n < sz then None
            else case unmarshalBinary 80 file_info_dec (load_bytes (mem m) b sz) of
              Inl err \<Rightarrow> Some (Some (file_info_dec (replicate 80 0)), Some err, m)
            | Inr info \<Rightarrow> Some (Some info, None, m) })"

record efi_file =
  fl_file :: u64 \<comment> \<open>address of the \<open>fileProtocol\<close> object, 0 for nil\<close>
  fl_addr :: u64
  fl_name :: gostring

record file_stat =
  fs_info :: file_info
  fs_addr :: u64
  fs_name :: gostring

definition stat_Name :: "file_stat \<Rightarrow> gostring" where
  "stat_Name fi = fs_name fi"

definition stat_Size :: "file_stat \<Rightarrow> int" where
  "stat_Size fi = sint (fi_FileSize (fs_info fi))"

definition IsDir :: "file_stat \<Rightarrow> bool" where
  "IsDir fi = (0 < fi_Attribute (fs_info fi) AND EFI_FILE_DIRECTORY)"

text \<open>The mode is \<^verbatim>\<open>fs.ModeDir\<close> (bit 31) or 0.\<close>

definition stat_Mode :: "file_stat \<Rightarrow> u32" where
  "stat_Mode fi = (if IsDir fi then 0x80000000 else 0)"

text \<open>
  The arguments of \<^verbatim>\<open>time.Date\<close> (year, month, day, hour, minute, second, nanosecond) and the
  offset in seconds of the zone made by \<^verbatim>\<open>time.FixedZone\<close>.
\<close>

definition ModTime :: "file_stat \<Rightarrow> int list \<times> int" where
  "ModTime fi =
     (let t = ModificationTime (fs_info fi)
      in ([uint (Year t), uint (Month t), uint (Day t), uint (Hour t), uint (Minute t), uint (Second t),
           uint (Nanosecond t)], sint (TimeZone t)))"

definition stat_Sys :: "file_stat \<Rightarrow> u64" where
  "stat_Sys fi = fs_addr fi"

definition File_Stat :: "'w firmware \<Rightarrow> efi_file \<Rightarrow> 'w machine \<Rightarrow> ((gerr + file_stat) \<times> 'w machine) option" where
  "File_Stat fw f m =
     (if fl_addr f = 0 then Some (Inl (ErrMsg ''invalid file instance''), m)
      else do {
        infoType \<leftarrow> Bytes EFI_FILE_INFO_ID;
        (info, err, m) \<leftarrow> file_getInfo fw (fl_file f) (fl_addr f) infoType m;
        case err of
          Some e \<Rightarrow> Some (Inl e, m)
        | None \<Rightarrow> do { i \<leftarrow> info; Some (Inr \<lparr>fs_info = i, fs_addr = fl_addr f, fs_name = fl_name f\<rparr>, m) } })"

definition File_Read :: "'w firmware \<Rightarrow> efi_file \<Rightarrow> gslice \<Rightarrow> 'w machine \<Rightarrow> (int \<times> gerr option \<times> 'w machine) option" where
  "File_Read fw f b m =
     (if fl_addr f = 0 then Some (0, Some (ErrMsg ''invalid file instance''), m)
      else file_read fw (fl_file f) (fl_addr f) b m)"

definition File_Close :: "'w firmware \<Rightarrow> efi_file \<Rightarrow> 'w machine \<Rightarrow> gerr option \<times> 'w machine" where
  "File_Close fw f m =
     (if fl_addr f = 0 then (Some (ErrMsg ''invalid file instance''), m)
      else file_close fw (fl_file f) (fl_addr f) m)"

subsection \<open>fs.go\<close>

definition EFI_LOADED_IMAGE_PROTOCOL_GUID :: gostring where
  "EFI_LOADED_IMAGE_PROTOCOL_GUID = lit ''5b1b31a1-9562-11d2-8e3f-00a0c969723b''"
definition EFI_LOADED_IMAGE_DEVICE_PATH_PROTOCOL_GUID :: gostring where
  "EFI_LOADED_IMAGE_DEVICE_PATH_PROTOCOL_GUID = lit ''09576e91-6d3f-11d2-8e39-00a0c969723b''"
definition EFI_SIMPLE_FILE_SYSTEM_PROTOCOL_GUID :: gostring where
  "EFI_SIMPLE_FILE_SYSTEM_PROTOCOL_GUID = lit ''964e5b22-6459-11d2-8e39-00a0c969723b''"
definition EFI_LOADED_IMAGE_PROTOCOL_REVISION :: u32 where "EFI_LOADED_IMAGE_PROTOCOL_REVISION = 0x1000"
definition EFI_SIMPLE_FILE_SYSTEM_PROTOCOL_REVISION :: u64 where
  "EFI_SIMPLE_FILE_SYSTEM_PROTOCOL_REVISION = 0x00010000"

record loaded_image =
  li_Revision :: u32
  ParentHandle :: u64
  li_SystemTable :: u64
  DeviceHandle :: u64
  li_FilePath :: u64
  LoadOptionsSize :: u32
  LoadOptions :: u64
  ImageBase :: u64
  ImageSize :: u64
  ImageCodeType :: u64
  ImageDataType :: u64
  Unload :: u64

definition loaded_image_enc :: "loaded_image \<Rightarrow> u8 list" where
  "loaded_image_enc i = le_emit
     [(4, unat (li_Revision i)), (4, 0), (8, unat (ParentHandle i)), (8, unat (li_SystemTable i)),
      (8, unat (DeviceHandle i)), (8, unat (li_FilePath i)), (8, 0), (4, unat (LoadOptionsSize i)), (4, 0),
      (8, unat (LoadOptions i)), (8, unat (ImageBase i)), (8, unat (ImageSize i)), (8, unat (ImageCodeType i)),
      (8, unat (ImageDataType i)), (8, unat (Unload i))]"

definition loaded_image_dec :: "u8 list \<Rightarrow> loaded_image" where
  "loaded_image_dec bs =
     (let v = le_fields [4, 4, 8, 8, 8, 8, 8, 4, 4, 8, 8, 8, 8, 8, 8] bs
      in \<lparr>li_Revision = of_nat (v ! 0), ParentHandle = of_nat (v ! 2), li_SystemTable = of_nat (v ! 3),
          DeviceHandle = of_nat (v ! 4), li_FilePath = of_nat (v ! 5), LoadOptionsSize = of_nat (v ! 7),
          LoadOptions = of_nat (v ! 9), ImageBase = of_nat (v ! 10), ImageSize = of_nat (v ! 11),
          ImageCodeType = of_nat (v ! 12), ImageDataType = of_nat (v ! 13), Unload = of_nat (v ! 14)\<rparr>)"

text \<open>\<^verbatim>\<open>simpleFileSystem\<close>: a revision and the entry \<^verbatim>\<open>OpenVolume\<close> at offset 8.\<close>

record simple_file_system =
  sfs_Revision :: u64
  sfs_OpenVolume :: u64

definition simple_file_system_enc :: "simple_file_system \<Rightarrow> u8 list" where
  "simple_file_system_enc p = le_emit [(8, unat (sfs_Revision p)), (8, unat (sfs_OpenVolume p))]"

definition simple_file_system_dec :: "u8 list \<Rightarrow> simple_file_system" where
  "simple_file_system_dec bs =
     (let v = le_fields [8, 8] bs in \<lparr>sfs_Revision = of_nat (v ! 0), sfs_OpenVolume = of_nat (v ! 1)\<rparr>)"

definition off_OpenVolume :: u64 where "off_OpenVolume = 8"

definition openVolume :: "dma_pkg \<Rightarrow> 'w firmware \<Rightarrow> u64 \<Rightarrow> u64 \<Rightarrow> 'w machine
    \<Rightarrow> (u64 \<times> u64 \<times> gerr option \<times> 'w machine) option" where
  "openVolume dma fw root handle m =
     (let (a, m) = new_obj 8 m in do {
        entry \<leftarrow> ptrval (PtrUint64 (root + off_OpenVolume));
        p \<leftarrow> ptrval (PtrUint64 a);
        let (status, m) = CallService fw entry [handle, p] m;
        case parseStatus status of
          Some err \<Rightarrow> Some (0, load64 (mem m) a, Some err, m)
        | None \<Rightarrow> new_file_protocol dma (load64 (mem m) a) m })"

record efi_fs =
  fs_image :: "loaded_image option"
  fs_device :: u64
  fs_rootaddr :: u64
  fs_fs :: u64 \<comment> \<open>address of the \<open>simpleFileSystem\<close> object\<close>
  fs_volume :: "efi_file option"

definition FS_Open :: "dma_pkg \<Rightarrow> 'w firmware \<Rightarrow> efi_fs \<Rightarrow> gostring \<Rightarrow> 'w machine
    \<Rightarrow> ((gerr + efi_file) \<times> 'w machine) option" where
  "FS_Open dma fw root name m =
     (case fs_volume root of
        None \<Rightarrow> Some (Inl (ErrMsg ''invalid file system instance''), m)
      | Some v \<Rightarrow>
          if fl_file v = 0 \<or> fl_addr v = 0
          then Some (Inl (ErrMsg ''invalid file system instance''), m)
          else do {
            (file, addr, err, m) \<leftarrow> file_open dma fw (fl_file v) (fl_addr v) name EFI_FILE_MODE_READ m;
            case err of
              Some e \<Rightarrow> Some (Inl e, m)
            | None \<Rightarrow> Some (Inr \<lparr>fl_file = file, fl_addr = addr, fl_name = name\<rparr>, m) })"

text \<open>
  \<^verbatim>\<open>LoadImageHandle\<close>: image, protocol address, error. An error of \<^verbatim>\<open>HandleProtocol\<close> leaves
  the address the firmware stored, a failed \<^verbatim>\<open>decode\<close> the zero image.
\<close>

definition LoadImageHandle :: "dma_pkg \<Rightarrow> 'w firmware \<Rightarrow> boot_services \<Rightarrow> u64 \<Rightarrow> 'w machine
    \<Rightarrow> (loaded_image option \<times> u64 \<times> gerr option \<times> 'w machine) option" where
  "LoadImageHandle dma fw s imageHandle m = do {
     (addr, err, m) \<leftarrow> HandleProtocol fw s imageHandle EFI_LOADED_IMAGE_PROTOCOL_GUID m;
     case err of
       Some e \<Rightarrow> Some (None, addr, Some e, m)
     | None \<Rightarrow> do {
         d \<leftarrow> decode dma 104 loaded_image_dec addr (mem m);
         case d of
           Inl e \<Rightarrow> Some (Some (loaded_image_dec (replicate 104 0)), addr, Some e, m)
         | Inr img \<Rightarrow>
             if li_Revision img \<noteq> EFI_LOADED_IMAGE_PROTOCOL_REVISION
             then Some (None, 0, Some (ErrMsg ''invalid protocol revision''), m)
             else Some (Some img, addr, None, m) } }"

text \<open>
  \<^verbatim>\<open>Services.Root\<close>. A nil \<^verbatim>\<open>s.Boot\<close> is a panic (\<open>None\<close>). On an error the file system built
  so far is returned, or nil for a wrong revision; the callers drop it.
\<close>

definition Root :: "dma_pkg \<Rightarrow> 'w firmware \<Rightarrow> services \<Rightarrow> 'w machine
    \<Rightarrow> (efi_fs option \<times> gerr option \<times> 'w machine) option" where
  "Root dma fw s m =
     (let (obj, m) = new_obj 16 m;
          root = \<lparr>fs_image = None, fs_device = 0, fs_rootaddr = 0, fs_fs = obj,
                  fs_volume = Some \<lparr>fl_file = 0, fl_addr = 0, fl_name = []\<rparr>\<rparr>
      in do {
        boot \<leftarrow> sv_Boot s;
        (loaded, _, err, m) \<leftarrow> LoadImageHandle dma fw boot (sv_imageHandle s) m;
        let root = root\<lparr>fs_image := loaded\<rparr>;
        case err of Some e \<Rightarrow> Some (Some root, Some e, m) | None \<Rightarrow> do {
        img \<leftarrow> loaded;
        (device, err, m) \<leftarrow> HandleProtocol fw boot (DeviceHandle img) EFI_LOADED_IMAGE_DEVICE_PATH_PROTOCOL_GUID m;
        let root = root\<lparr>fs_device := device\<rparr>;
        case err of Some e \<Rightarrow> Some (Some root, Some e, m) | None \<Rightarrow> do {
        (addr, err, m) \<leftarrow> HandleProtocol fw boot (DeviceHandle img) EFI_SIMPLE_FILE_SYSTEM_PROTOCOL_GUID m;
        let root = root\<lparr>fs_rootaddr := addr\<rparr>;
        case err of Some e \<Rightarrow> Some (Some root, Some e, m) | None \<Rightarrow> do {
        (err, m) \<leftarrow> decode_object dma 16 simple_file_system_dec simple_file_system_enc obj addr m;
        case err of Some e \<Rightarrow> Some (Some root, Some e, m) | None \<Rightarrow>
        if load64 (mem m) obj \<noteq> EFI_SIMPLE_FILE_SYSTEM_PROTOCOL_REVISION
        then Some (None, Some (ErrMsg ''invalid protocol revision''), m)
        else do {
        (file, vaddr, err, m) \<leftarrow> openVolume dma fw obj addr m;
        Some (Some (root\<lparr>fs_volume := Some \<lparr>fl_file = file, fl_addr = vaddr, fl_name = []\<rparr>\<rparr>), err, m)
        } } } } })"

subsection \<open>What the firmware promises of a file\<close>

text \<open>
  \<^verbatim>\<open>EFI_FILE_PROTOCOL.Read\<close> as the UEFI specification documents it: \<open>rest w\<close> is what of the
  file is still to be read. A call reads as many bytes as asked for and available, stores their
  number in the size cell, and writes nothing else.
\<close>

definition efi_file_reads :: "'w firmware \<Rightarrow> u64 \<Rightarrow> u64 \<Rightarrow> ('w \<Rightarrow> u8 list) \<Rightarrow> bool" where
  "efi_file_reads fw code handle rest \<longleftrightarrow>
     (\<forall>f w sp bp. apart sp 8 bp (unat (load64 f sp)) \<longrightarrow>
        (let j = min (unat (load64 f sp)) (length (rest w)) in
         \<exists>f' w'. fw code [handle, sp, bp] f w = (EFI_SUCCESS, f', w')
           \<and> rest w' = drop j (rest w) \<and> load64 f' sp = of_nat j \<and> load_bytes f' bp j = take j (rest w)
           \<and> (\<forall>x. 8 \<le> unat (x - sp) \<and> unat (load64 f sp) \<le> unat (x - bp) \<longrightarrow> f' x = f x)))"

definition file_ok :: "'w firmware \<Rightarrow> efi_file \<Rightarrow> ('w \<Rightarrow> u8 list) \<Rightarrow> memory \<Rightarrow> bool" where
  "file_ok fw x rest f \<longleftrightarrow>
     fl_addr x \<noteq> 0 \<and> efi_file_reads fw (load64 f (fl_file x + off_Read)) (fl_addr x) rest"

definition file_regions :: "efi_file \<Rightarrow> (u64 \<times> nat) list" where
  "file_regions x = [(fl_file x + off_Read, 8)]"

text \<open>
  A file with further regions that reading leaves as they are in the memory \<open>f0\<close>. The file itself is the case without
  any.
\<close>

definition kept_regions :: "efi_file \<times> (u64 \<times> nat) list \<times> memory \<Rightarrow> (u64 \<times> nat) list" where
  "kept_regions x = (case x of (file, R, f0) \<Rightarrow> file_regions file @ filter (\<lambda>r. snd r \<le> 2 ^ 64) R)"

definition kept_ok :: "'w firmware \<Rightarrow> efi_file \<times> (u64 \<times> nat) list \<times> memory \<Rightarrow> ('w \<Rightarrow> u8 list) \<Rightarrow> memory \<Rightarrow> bool" where
  "kept_ok fw x rest f = (case x of (file, R, f0) \<Rightarrow> file_ok fw file rest f \<and> same_regions R f0 f)"

text \<open>
  A file system in a firmware, for the example below: the world is what is left of one file.
\<close>

definition demo_file_firmware :: "u8 list firmware" where
  "demo_file_firmware code args f w =
     (let sp = args ! 1; bp = args ! 2; j = min (unat (load64 f sp)) (length w)
      in (0, store64 sp (of_nat j) (store_bytes bp (take j w) f), drop j w))"

definition demo_file :: efi_file where
  "demo_file = \<lparr>fl_file = 4096, fl_addr = 8192, fl_name = lit ''kernel.efi''\<rparr>"

definition demo_file_machine :: "u8 list machine" where
  "demo_file_machine = \<lparr>mem = (\<lambda>_. 0), place = (\<lambda>k. of_nat (65536 * Suc k)), objs = 0, stale = 0,
     calls = [], world = [77, 90, 144]\<rparr>"

section \<open>Lemmas\<close>

subsection \<open>Struct layouts\<close>

interpretation file_protocol: struct_codec 88 file_protocol_enc file_protocol_dec "\<lambda>_. True"
proof unfold_locales
  fix t rest show "file_protocol_dec (file_protocol_enc t @ rest) = t"
    by (simp add: file_protocol_dec_def file_protocol_enc_def le_simps)
next
  fix bs :: "u8 list" assume "88 \<le> length bs"
  show "file_protocol_dec (take 88 bs) = file_protocol_dec bs"
    by (simp add: file_protocol_dec_def le_fields_take del: le_fields.simps)
qed (simp_all add: file_protocol_enc_def)

interpretation loaded_image: struct_codec 104 loaded_image_enc loaded_image_dec "\<lambda>_. True"
proof unfold_locales
  fix t rest show "loaded_image_dec (loaded_image_enc t @ rest) = t"
    by (simp add: loaded_image_dec_def loaded_image_enc_def le_simps)
next
  fix bs :: "u8 list" assume "104 \<le> length bs"
  show "loaded_image_dec (take 104 bs) = loaded_image_dec bs"
    by (simp add: loaded_image_dec_def le_fields_take del: le_fields.simps)
qed (simp_all add: loaded_image_enc_def)

interpretation simple_file_system: struct_codec 16 simple_file_system_enc simple_file_system_dec "\<lambda>_. True"
proof unfold_locales
  fix t rest show "simple_file_system_dec (simple_file_system_enc t @ rest) = t"
    by (simp add: simple_file_system_dec_def simple_file_system_enc_def le_simps)
next
  fix bs :: "u8 list" assume "16 \<le> length bs"
  show "simple_file_system_dec (take 16 bs) = simple_file_system_dec bs"
    by (simp add: simple_file_system_dec_def le_fields_take del: le_fields.simps)
qed (simp_all add: simple_file_system_enc_def)

interpretation file_info: struct_codec 80 file_info_enc file_info_dec "\<lambda>_. True"
proof unfold_locales
  fix t rest show "file_info_dec (file_info_enc t @ rest) = t"
    by (simp add: file_info_dec_def file_info_enc_def efi_time_fields_def efi_time_widths_def
        efi_time_of_def Let_def le_simps)
next
  fix bs :: "u8 list" assume "80 \<le> length bs"
  show "file_info_dec (take 80 bs) = file_info_dec bs"
    by (simp add: file_info_dec_def le_fields_take efi_time_widths_def del: le_fields.simps)
qed (simp_all add: file_info_enc_def efi_time_fields_def)

interpretation close_file: efi_service "\<lambda>fw (f, h). file_close fw f h" "\<lambda>(f, h). f + off_Close"
  "\<lambda>(f, h). [h]" "\<lambda>_. True"
  by unfold_locales (auto simp: file_close_def apfst_def map_prod_def)

subsection \<open>Files are readers\<close>

lemma load_bytes_cong:
  "(\<And>k. k < n \<Longrightarrow> f (a + of_nat k) = g (a + of_nat k)) \<Longrightarrow> load_bytes f a n = load_bytes g a n"
  by (simp add: load_bytes_def)

lemma unat_offset: "k < 2 ^ 64 \<Longrightarrow> unat ((a::u64) + of_nat k - a) = k"
  by (rule unat_add_of_nat_diff)

text \<open>Outside a region that is apart, and before a buffer, addresses are out of reach.\<close>

lemma apart_byte:
  assumes "apart a n b l" "k < n" "n \<le> 2 ^ 64"
  shows "l \<le> unat (a + of_nat k - b)"
  using apart_outside [OF assms(1), of "a + of_nat k"] assms(2,3) unat_offset [of k a] by simp

lemma before_buffer:
  assumes "k < off" "off + n \<le> 2 ^ 63"
  shows "n \<le> unat ((a::u64) + of_nat k - (a + of_nat off))"
proof -
  have "a + of_nat k - (a + of_nat off) = - (of_nat (off - k) :: u64)" using assms(1) by (simp add: of_nat_diff)
  moreover have "unat (- (of_nat (off - k) :: u64)) = 2 ^ 64 - (off - k)"
  proof -
    have "unat (of_nat (off - k) :: u64) = off - k" using assms by (intro unat_of_nat_small_u64) simp
    then show ?thesis using unat_sub_if' [of 0 "of_nat (off - k) :: u64"] assms(1) by simp
  qed
  ultimately show ?thesis using assms by simp
qed

lemma layout_objs: "layout pl L N R \<Longrightarrow> i < L \<Longrightarrow> j < L \<Longrightarrow> i \<noteq> j \<Longrightarrow> apart (pl i) N (pl j) N"
  by (simp add: layout_def)

lemma layout_regions: "layout pl L N R \<Longrightarrow> i < L \<Longrightarrow> r \<in> set R \<Longrightarrow> apart (pl i) N (fst r) (snd r)"
  by (simp add: layout_def)

lemma apart_prefix: "apart a n b k \<Longrightarrow> j \<le> n \<Longrightarrow> 0 < j \<Longrightarrow> apart a j b k"
  using apart_sub [of a n b k 0 j] by simp

lemma File_Read_step:
  assumes "fl_addr x \<noteq> 0" "efi_file_reads fw (load64 (mem m) (fl_file x + off_Read)) (fl_addr x) rest"
    and lay: "fresh_layout (place m) K L N (file_regions x)" and ix: "objs m < L" "K \<le> i" "i < objs m"
    and n: "0 < n" "off + n \<le> N" "N < 2 ^ 63" "8 \<le> N"
  defines "j \<equiv> min n (length (rest (world m)))"
  shows "\<exists>m'. File_Read fw x (place m i + of_nat off, n) m = Some (int j, if j = 0 then Some EOF else None, m')
    \<and> place m' = place m \<and> objs m' = Suc (objs m)
    \<and> (\<forall>b l. apart (place m i) N b l \<longrightarrow> apart (place m (objs m)) N b l \<longrightarrow> l \<le> 2 ^ 64 \<longrightarrow> load_bytes (mem m') b l = load_bytes (mem m) b l)
    \<and> rest (world m') = drop j (rest (world m))
    \<and> load_bytes (mem m') (place m i) (off + j) = load_bytes (mem m) (place m i) off @ take j (rest (world m))"
proof -
  define a where "a = place m (objs m)"
  define e where "e = fl_file x + off_Read"
  define m1 where "m1 = snd (new_uint64 (of_nat n) m)"
  have mem1: "mem m1 = store64 a (of_nat n) (mem m)"
    by (simp add: m1_def new_uint64_def new_slice_def a_def store64_def)
  have m1: "place m1 = place m" "world m1 = world m" "objs m1 = Suc (objs m)" "calls m1 = calls m"
    by (simp_all add: m1_def new_uint64_def new_slice_def)
  have ae: "apart a N e 8" using fresh_layout_regions [OF lay, of "objs m"] ix by (simp add: a_def file_regions_def e_def)
  have ai: "apart a N (place m i) N" using fresh_layout_objs [OF lay] ix by (simp add: a_def)
  have a8: "apart a 8 e 8" "apart a 8 (place m i) N" using apart_prefix [OF ae n(4)] apart_prefix [OF ai n(4)] by simp_all
  have un: "unat (of_nat n :: u64) = n" using n by (intro unat_of_nat_small_u64) simp
  have ld: "load64 (mem m1) a = of_nat n" by (simp add: mem1 load64_store64)
  have buf: "apart (place m i + of_nat off) n a 8"
    by (rule apart_sub [of _ N]) (use a8 n in \<open>auto simp: apart_sym\<close>)
  have code: "load64 (mem m1) e = load64 (mem m) e"
    unfolding mem1 using a8(1) by (simp add: load64_store64_apart apart_sym)
  obtain f' w' where call: "fw (load64 (mem m) e) [fl_addr x, a, place m i + of_nat off] (mem m1) (world m)
        = (0, f', w')"
    and r: "rest w' = drop j (rest (world m))" "load64 f' a = of_nat j"
      "load_bytes f' (place m i + of_nat off) j = take j (rest (world m))"
    and same: "\<And>y. 8 \<le> unat (y - a) \<Longrightarrow> n \<le> unat (y - (place m i + of_nat off)) \<Longrightarrow> f' y = mem m1 y"
    using assms(2) [unfolded efi_file_reads_def, rule_format, where f = "mem m1" and w = "world m"
        and sp = a and bp = "place m i + of_nat off"]
      buf ld un by (auto simp: Let_def j_def e_def EFI_SUCCESS_def apart_sym)
  define m2 where "m2 = m1\<lparr>mem := f', world := w', calls := calls m1 @ [Indirect e (load64 (mem m) e)
      [fl_addr x, a, place m i + of_nat off]]\<rparr>"
  have jn: "j \<le> n" by (simp add: j_def)
  have uj: "unat (of_nat j :: u64) = j" "sint (of_nat j :: u64) = int j"
  proof -
    show "unat (of_nat j :: u64) = j" using jn n by (intro unat_of_nat_small_u64) simp
    then show "sint (of_nat j :: u64) = int j" using jn n by (subst sint_small) simp_all
  qed
  have j0: "(of_nat j :: u64) = 0 \<longleftrightarrow> j = 0" using uj(1) by (metis unat_eq_0 of_nat_0)
  have nu: "new_uint64 (of_nat n) m = (a, m1)" by (simp add: m1_def a_def new_uint64_def new_slice_def)
  have cs: "CallService fw e [fl_addr x, a, place m i + of_nat off] m1 = (0, m2)"
    using call code by (simp add: CallService_nonempty m2_def m1)
  have run: "File_Read fw x (place m i + of_nat off, n) m = Some (int j, if j = 0 then Some EOF else None, m2)"
    using assms(1) n(1) r(2) uj(2) j0 cs
    by (simp add: File_Read_def file_read_def nu e_def [symmetric] EFI_DEVICE_ERROR_def) (simp add: m2_def)
  have keep: "load_bytes f' (place m i) off = load_bytes (mem m) (place m i) off"
  proof (rule load_bytes_cong)
    fix k assume k: "k < off"
    have "8 \<le> unat (place m i + of_nat k - a)"
      by (rule apart_byte [of _ N]) (use a8(2) k n in \<open>auto simp: apart_sym\<close>)
    moreover have "n \<le> unat (place m i + of_nat k - (place m i + of_nat off))"
      by (rule before_buffer) (use k n in auto)
    ultimately show "f' (place m i + of_nat k) = mem m (place m i + of_nat k)"
      using same by (simp add: mem1 store64_def store_bytes_def)
  qed
  have frame: "load_bytes f' b l = load_bytes (mem m) b l"
    if "apart (place m i) N b l" "apart a N b l" "l \<le> 2 ^ 64" for b l
  proof (rule load_bytes_cong)
    fix k assume k: "k < l"
    have "apart a 8 b l" using apart_prefix [OF that(2) n(4)] by simp
    then have a: "8 \<le> unat (b + of_nat k - a)" by (intro apart_byte [OF _ k that(3)]) (simp add: apart_sym)
    have "apart (place m i + of_nat off) n b l" by (rule apart_sub [OF that(1)]) (use n in auto)
    then have "n \<le> unat (b + of_nat k - (place m i + of_nat off))" by (intro apart_byte [OF _ k that(3)]) (simp add: apart_sym)
    then show "f' (b + of_nat k) = mem m (b + of_nat k)" using same a by (simp add: mem1 store64_def store_bytes_def)
  qed
  show ?thesis using run m1 r keep frame
    by (intro exI [of _ m2]) (simp add: m2_def load_bytes_add a_def)
qed

interpretation file_reader: byte_reader "\<lambda>fw x. File_Read fw (fst x)" kept_regions kept_ok
proof unfold_locales
  fix fw :: "'w firmware" and x rest f f'
  assume ok: "kept_ok fw x rest f"
    and eq: "\<And>r. r \<in> set (kept_regions x) \<Longrightarrow> load_bytes f' (fst r) (snd r) = load_bytes f (fst r) (snd r)"
  then show "kept_ok fw x rest f'"
    by (cases x) (auto simp: kept_ok_def kept_regions_def file_ok_def file_regions_def load64_def same_regions_def list_all_iff)
next
  fix r x assume "r \<in> set (kept_regions x)"
  then show "snd r \<le> 2 ^ 64" by (cases x) (auto simp: kept_regions_def file_regions_def)
next
  fix fw x rest and m :: "'w machine" and K L N i n off j
  assume a: "kept_ok fw x rest (mem m)" "fresh_layout (place m) K L N (kept_regions x)" "objs m < L" "K \<le> i" "i < objs m"
    "0 < n" "off + n \<le> N" "N < 2 ^ 63" "8 \<le> N" "j = min n (length (rest (world m)))"
  obtain x0 R f0 where x: "x = (x0, R, f0)" by (cases x) auto
  from a(1) have f: "fl_addr x0 \<noteq> 0" "efi_file_reads fw (load64 (mem m) (fl_file x0 + off_Read)) (fl_addr x0) rest"
    "same_regions R f0 (mem m)" by (simp_all add: x kept_ok_def file_ok_def)
  have lay: "fresh_layout (place m) K L N (file_regions x0)" using a(2) by (simp add: x kept_regions_def fresh_layout_def)
  from File_Read_step [OF f(1,2) lay a(3-9)] a(10)
  obtain m' where m': "File_Read fw x0 (place m i + of_nat off, n) m = Some (int j, if j = 0 then Some EOF else None, m')"
      "place m' = place m" "objs m' = Suc (objs m)" "rest (world m') = drop j (rest (world m))"
      "load_bytes (mem m') (place m i) (off + j) = load_bytes (mem m) (place m i) off @ take j (rest (world m))"
    and keep: "\<And>b l. apart (place m i) N b l \<Longrightarrow> apart (place m (objs m)) N b l \<Longrightarrow> l \<le> 2 ^ 64
      \<Longrightarrow> load_bytes (mem m') b l = load_bytes (mem m) b l" by blast
  have same: "load_bytes (mem m') b l = load_bytes (mem m) b l" if "(b, l) \<in> set (kept_regions x)" "l \<le> 2 ^ 64" for b l
    using fresh_layout_regions [OF a(2) a(4) _ that(1)] fresh_layout_regions [OF a(2) _ a(3) that(1)] a(3-5) that(2)
    by (intro keep) auto
  then have "load64 (mem m') (fl_file x0 + off_Read) = load64 (mem m) (fl_file x0 + off_Read)"
    by (simp add: x kept_regions_def file_regions_def load64_def)
  moreover have "same_regions R f0 (mem m')" using same f(3) by (auto simp: x kept_regions_def same_regions_def list_all_iff)
  ultimately have "kept_ok fw x rest (mem m')" using f by (simp add: x kept_ok_def file_ok_def)
  with m' show "\<exists>m'. File_Read fw (fst x) (place m i + of_nat off, n) m = Some (int j, if j = 0 then Some EOF else None, m')
        \<and> place m' = place m \<and> objs m' = Suc (objs m) \<and> kept_ok fw x rest (mem m')
        \<and> rest (world m') = drop j (rest (world m))
        \<and> load_bytes (mem m') (place m i) (off + j) = load_bytes (mem m) (place m i) off @ take j (rest (world m))"
    by (auto simp: x)
qed

subsection \<open>A firmware that reads files\<close>

lemma demo_file_reads: "efi_file_reads demo_file_firmware code handle (\<lambda>w. w)"
  unfolding efi_file_reads_def
proof (intro allI impI)
  fix f :: memory and w :: "u8 list" and sp bp :: u64
  define n where "n = unat (load64 f sp)"
  define j where "j = min n (length w)"
  define f1 where "f1 = store_bytes bp (take j w) f"
  assume "apart sp 8 bp (unat (load64 f sp))"
  then have ap: "apart bp n sp 8" by (simp add: apart_sym n_def)
  have j: "j \<le> n" "n < 2 ^ 64" "length (take j w) = j"
    using unat_less_width [of "load64 f sp"] by (simp_all add: j_def n_def)
  have "load_bytes (store64 sp (of_nat j) f1) bp j = take j w"
  proof (cases "j = 0")
    case False
    with ap j have "apart bp j sp 8" using apart_prefix by blast
    then have "load_bytes (store64 sp (of_nat j) f1) bp j = load_bytes f1 bp j"
      using j by (simp add: store64_def load_store_apart)
    also have "\<dots> = take j w" using load_store_same [of "take j w" bp f] j by (simp add: f1_def)
    finally show ?thesis .
  qed simp
  moreover have "store64 sp (of_nat j) f1 x = f x" if "8 \<le> unat (x - sp)" "n \<le> unat (x - bp)" for x
    using that j by (simp add: store64_def store_bytes_def f1_def)
  ultimately show "let j = min (unat (load64 f sp)) (length w) in
     \<exists>f' w'. demo_file_firmware code [handle, sp, bp] f w = (EFI_SUCCESS, f', w')
       \<and> w' = drop j w \<and> load64 f' sp = of_nat j \<and> load_bytes f' bp j = take j w
       \<and> (\<forall>x. 8 \<le> unat (x - sp) \<and> unat (load64 f sp) \<le> unat (x - bp) \<longrightarrow> f' x = f x)"
    by (simp add: demo_file_firmware_def Let_def EFI_SUCCESS_def load64_store64 n_def [symmetric]
        j_def [symmetric] f1_def [symmetric])
qed

section \<open>Properties\<close>

text \<open>
  Claim C6: a file is read completely. For a file whose protocol reads as the UEFI specification
  says, with room for new Go objects that do not overlap each other or the protocol's entry, any growth of the
  buffer that gives more room, and enough rounds (one more than bytes are left),
  \<^verbatim>\<open>io.ReadAll\<close> on the file ends without an error and returns exactly the rest of the
  file; nothing is left to read.
\<close>

theorem ReadAll_file:
  assumes "file_ok fw x rest (mem m)" "fresh_layout (place m) (objs m) L N (file_regions x)"
    and "objs m + 2 * length (rest (world m)) + 2 \<le> L" "512 \<le> N" "N < 2 ^ 63"
    and "length (rest (world m)) < fuel"
    and "\<And>c. 512 \<le> c \<Longrightarrow> c \<le> length (rest (world m)) \<Longrightarrow> c < grow c \<and> grow c \<le> N"
  shows "\<exists>base m'. ReadAll fuel grow (File_Read fw x) m = Some ((base, length (rest (world m))), None, m')
    \<and> load_bytes (mem m') base (length (rest (world m))) = rest (world m) \<and> rest (world m') = []"
proof -
  have ok: "kept_ok fw (x, [], mem m) rest (mem m)" using assms(1) by (simp add: kept_ok_def same_regions_def)
  have "fresh_layout (place m) (objs m) L N (kept_regions (x, [], mem m))" using assms(2) by (simp add: kept_regions_def)
  from file_reader.ReadAll_content [OF ok this assms(3-7)] show ?thesis by auto
qed

theorem ReadAll_file_witness:
  "\<exists>base m'. ReadAll 4 (\<lambda>c. 2 * c) (File_Read demo_file_firmware demo_file) demo_file_machine
      = Some ((base, length (world demo_file_machine)), None, m')
    \<and> load_bytes (mem m') base (length (world demo_file_machine)) = world demo_file_machine \<and> world m' = []"
proof (rule ReadAll_file [where rest = "\<lambda>w. w" and L = 8 and N = 4096])
  show "file_ok demo_file_firmware demo_file (\<lambda>w. w) (mem demo_file_machine)"
    by (simp add: file_ok_def demo_file_reads demo_file_def)
  have lt: "apart (of_nat (65536 * Suc i)) 4096 (of_nat (65536 * Suc j)) 4096" if "i < j" "j < 8" for i j
    by (rule apart_multiples) (use that in auto)
  have "apart (of_nat (65536 * Suc i)) 4096 (of_nat (65536 * Suc j)) 4096" if "i < 8" "j < 8" "i \<noteq> j" for i j
    using lt [of i j] lt [of j i] that apart_sym by (cases "i < j") (blast, metis linorder_neqE_nat)
  moreover have "apart (of_nat (65536 * Suc i)) 4096 (4128 :: u64) 8" if "i < 8" for i
  proof -
    have "i \<in> {0, 1, 2, 3, 4, 5, 6, 7}" using that by auto
    then show ?thesis by (auto simp: apart_def)
  qed
  ultimately show "fresh_layout (place demo_file_machine) (objs demo_file_machine) 8 4096 (file_regions demo_file)"
    by (simp add: fresh_layout_def demo_file_machine_def file_regions_def demo_file_def off_Read_def del: mult_Suc_right)
qed (simp_all add: demo_file_machine_def)

end
