(* ===== verification/Device_Path.thy ===== *)
theory Device_Path
  imports File_System
begin

text \<open>
  \<^verbatim>\<open>pkg/ueficore/path.go\<close>: parsing the device path of the boot volume from memory and
  building the device path of a file on it.
\<close>

section \<open>Definitions\<close>

definition bufferSize :: nat where "bufferSize = 65536"
definition maxDepth :: nat where "maxDepth = 16"

record device_path_node =
  dn_Type :: u8
  dn_SubType :: u8
  dn_Length :: u16

text \<open>\<^verbatim>\<open>DevicePathNode.Bytes\<close>; its inverse is \<^verbatim>\<open>unmarshalBinary\<close> of the struct.\<close>

definition node_Bytes :: "'a device_path_node_scheme \<Rightarrow> u8 list" where
  "node_Bytes d = le_emit [(1, unat (dn_Type d)), (1, unat (dn_SubType d)), (2, unat (dn_Length d))]"

definition node_dec :: "u8 list \<Rightarrow> device_path_node" where
  "node_dec bs = (let v = le_fields [1, 1, 2] bs
     in \<lparr>dn_Type = of_nat (v ! 0), dn_SubType = of_nat (v ! 1), dn_Length = of_nat (v ! 2)\<rparr>)"

record device_path = device_path_node +
  dp_Data :: "u8 list"

text \<open>
  The loop of \<^verbatim>\<open>FS.devicePath\<close>. A slice expression past the end of the buffer panics. The
  data size is computed in 16 bits: a length below 4 wraps around.
\<close>

function devicePath_loop :: "u8 list \<Rightarrow> nat \<Rightarrow> nat \<Rightarrow> device_path list \<Rightarrow> (gerr + device_path list \<times> nat) option" where
  "devicePath_loop buf i off ds =
     (if maxDepth < i then Some (Inr (ds, off))
      else if i = maxDepth then Some (Inl (ErrMsg ''device path nodes limit exceeded''))
      else if length buf < off + 4 then None
      else case unmarshalBinary 4 node_dec (take 4 (drop off buf)) of
        Inl err \<Rightarrow> Some (Inl err)
      | Inr node \<Rightarrow>
          if dn_Type node = 0x7f \<and> dn_SubType node = 0xff then Some (Inr (ds, off))
          else if dn_Length node = 0 \<or> dn_Length node > 0xff then Some (Inl (ErrMsg ''invalid length''))
          else let off = off + 4; dataSize = unat (dn_Length node - 4) in
            if length buf < off + dataSize then None
            else devicePath_loop buf (Suc i) (off + dataSize)
                   (ds @ [\<lparr>dn_Type = dn_Type node, dn_SubType = dn_SubType node, dn_Length = dn_Length node,
                           dp_Data = take dataSize (drop off buf)\<rparr>]))"
  by pat_completeness auto
termination
  by (relation "measure (\<lambda>(buf, i, off, ds). Suc maxDepth - i)") auto

declare devicePath_loop.simps [simp del]

text \<open>\<^verbatim>\<open>FS.devicePath\<close>: the nodes, their bytes, and the error.\<close>

definition devicePath :: "dma_pkg \<Rightarrow> efi_fs \<Rightarrow> memory \<Rightarrow> (device_path list \<times> u8 list \<times> gerr option) option" where
  "devicePath dma root f =
     (let addr = fs_device root in
      case NewRegion dma addr (int bufferSize) of
        Some err \<Rightarrow> Some ([], [], Some err)
      | None \<Rightarrow> do {
          (_, buf) \<leftarrow> Reserve dma addr (int bufferSize) (int bufferSize) 0 f;
          r \<leftarrow> devicePath_loop buf 0 0 [];
          case r of
            Inl err \<Rightarrow> Some ([], [], Some err)
          | Inr (ds, off) \<Rightarrow> Some (ds, take off buf, None) })"

record file_path = device_path_node +
  fp_PathName :: "u8 list"

definition file_path_Bytes :: "file_path \<Rightarrow> u8 list" where
  "file_path_Bytes d = node_Bytes d @ fp_PathName d"

definition FilePath :: "dma_pkg \<Rightarrow> efi_fs \<Rightarrow> gostring \<Rightarrow> memory
    \<Rightarrow> (device_path list \<times> file_path \<times> u8 list \<times> gerr option) option" where
  "FilePath dma root name f =
     (let pathName = toUTF16 name;
          filePath = \<lparr>dn_Type = 0x04, dn_SubType = 0x04, dn_Length = of_nat (4 + length pathName),
                      fp_PathName = pathName\<rparr>
      in do {
        (ds, desc, err) \<leftarrow> devicePath dma root f;
        case err of
          Some e \<Rightarrow> Some (ds, filePath, desc, Some e)
        | None \<Rightarrow>
            let devicePathEnd = \<lparr>dn_Type = 0x7f, dn_SubType = 0xff, dn_Length = 4\<rparr> in
            Some (ds, filePath, desc @ file_path_Bytes filePath @ node_Bytes devicePathEnd, None) })"

subsection \<open>Well-formed device paths\<close>

definition path_node :: "device_path \<Rightarrow> bool" where
  "path_node d \<longleftrightarrow> \<not> (dn_Type d = 0x7f \<and> dn_SubType d = 0xff)
     \<and> unat (dn_Length d) = 4 + length (dp_Data d) \<and> unat (dn_Length d) \<le> 255"

definition path_bytes :: "device_path list \<Rightarrow> u8 list" where
  "path_bytes ds = concat (map (\<lambda>d. node_Bytes d @ dp_Data d) ds)"

definition end_node :: "u8 list" where
  "end_node = [0x7f, 0xff, 4, 0]"

text \<open>A file system at a device whose path has a PCI and a partition node, for the examples below.\<close>

definition demo_nodes :: "device_path list" where
  "demo_nodes = [\<lparr>dn_Type = 1, dn_SubType = 1, dn_Length = 6, dp_Data = [0, 31]\<rparr>,
                 \<lparr>dn_Type = 4, dn_SubType = 1, dn_Length = 5, dp_Data = [9]\<rparr>]"

definition demo_fs :: efi_fs where
  "demo_fs = \<lparr>fs_image = None, fs_device = 2097152, fs_rootaddr = 0, fs_fs = 0, fs_volume = None\<rparr>"

definition demo_path_mem :: memory where
  "demo_path_mem = store_bytes 2097152 ((path_bytes demo_nodes @ end_node) @
      replicate (bufferSize - length (path_bytes demo_nodes @ end_node)) 0) (\<lambda>_. 0)"

section \<open>Lemmas\<close>

lemma length_node_Bytes [simp]: "length (node_Bytes d) = 4"
  by (simp add: node_Bytes_def)

lemma node_dec_Bytes: "node_dec (node_Bytes d @ rest) = \<lparr>dn_Type = dn_Type d, dn_SubType = dn_SubType d, dn_Length = dn_Length d\<rparr>"
  by (simp add: node_dec_def node_Bytes_def le_simps)

interpretation device_path_node: struct_codec 4 "node_Bytes :: device_path_node \<Rightarrow> u8 list" node_dec "\<lambda>_. True"
proof unfold_locales
  fix d :: device_path_node and rest show "node_dec (node_Bytes d @ rest) = d"
    by (simp add: node_dec_Bytes)
next
  fix bs :: "u8 list" assume "4 \<le> length bs"
  show "node_dec (take 4 bs) = node_dec bs"
    by (simp add: node_dec_def le_fields_take del: le_fields.simps)
qed simp_all

lemma le_bytes_two: "le_bytes 2 v = [of_nat v, of_nat (v div 256)]"
  by (simp add: numeral_2_eq_2)

lemma node_Bytes_end: "node_Bytes \<lparr>dn_Type = 0x7f, dn_SubType = 0xff, dn_Length = 4\<rparr> = end_node"
  by (simp add: node_Bytes_def end_node_def le_bytes_two)

lemma path_bytes_Nil [simp]: "path_bytes [] = []"
  by (simp add: path_bytes_def)

lemma path_bytes_Cons: "path_bytes (d # ds) = node_Bytes d @ dp_Data d @ path_bytes ds"
  by (simp add: path_bytes_def)

lemma path_bytes_append: "path_bytes (ds @ es) = path_bytes ds @ path_bytes es"
  by (simp add: path_bytes_def)

lemma node_at:
  assumes "drop off buf = node_Bytes d @ rest"
  shows "off + 4 \<le> length buf"
    and "unmarshalBinary 4 node_dec (take 4 (drop off buf))
       = Inr \<lparr>dn_Type = dn_Type d, dn_SubType = dn_SubType d, dn_Length = dn_Length d\<rparr>"
proof -
  have "length (drop off buf) \<ge> 4" by (simp add: assms del: length_drop)
  then show "off + 4 \<le> length buf" by simp
  show "unmarshalBinary 4 node_dec (take 4 (drop off buf))
      = Inr \<lparr>dn_Type = dn_Type d, dn_SubType = dn_SubType d, dn_Length = dn_Length d\<rparr>"
    using node_dec_Bytes [of d "[]"] by (simp add: assms unmarshalBinary_def)
qed

lemma devicePath_loop_end:
  assumes "i < maxDepth" "drop off buf = end_node @ rest"
  shows "devicePath_loop buf i off ds = Some (Inr (ds, off))"
  using assms node_at [of off buf "\<lparr>dn_Type = 0x7f, dn_SubType = 0xff, dn_Length = 4\<rparr>" rest]
  by (subst devicePath_loop.simps) (simp add: node_Bytes_end)

lemma devicePath_loop_node:
  assumes "i < maxDepth" "drop off buf = node_Bytes d @ dp_Data d @ rest" "path_node d"
  shows "devicePath_loop buf i off ds = devicePath_loop buf (Suc i) (off + (4 + length (dp_Data d))) (ds @ [d])"
proof -
  have l: "unat (dn_Length d) = 4 + length (dp_Data d)" "unat (dn_Length d) \<le> 255"
    and e: "\<not> (dn_Type d = 127 \<and> dn_SubType d = 255)"
    using assms(3) by (auto simp: path_node_def)
  have "unat (dn_Length d - 4) = length (dp_Data d)" using l by (simp add: unat_sub_if')
  moreover have "dn_Length d \<noteq> 0" using l by auto
  moreover have "\<not> 255 < dn_Length d" using l by (simp add: word_less_nat_alt)
  moreover have "drop (off + 4) buf = dp_Data d @ rest"
    using arg_cong [OF assms(2), of "drop 4"] by (simp add: add.commute)
  moreover have "off + (4 + length (dp_Data d)) \<le> length buf"
    using arg_cong [OF assms(2), of length] by (simp split: if_splits)
  moreover have d: "\<lparr>dn_Type = dn_Type d, dn_SubType = dn_SubType d, dn_Length = dn_Length d, dp_Data = dp_Data d\<rparr> = d"
    by simp
  ultimately show ?thesis using assms(1) e node_at [OF assms(2)]
    by (subst devicePath_loop.simps) (auto simp: d add.commute add.left_commute)
qed

lemma devicePath_loop_path:
  assumes "list_all path_node ds" "i + length ds < maxDepth" "drop off buf = path_bytes ds @ end_node @ rest"
  shows "devicePath_loop buf i off acc = Some (Inr (acc @ ds, off + length (path_bytes ds)))"
  using assms
proof (induction ds arbitrary: i off acc)
  case Nil
  then show ?case using devicePath_loop_end by simp
next
  case (Cons d ds)
  have "drop (off + (4 + length (dp_Data d))) buf = drop (4 + length (dp_Data d)) (drop off buf)"
    by (simp add: add.commute)
  also have "\<dots> = path_bytes ds @ end_node @ rest" using Cons.prems(3) by (simp add: path_bytes_Cons)
  finally have "devicePath_loop buf (Suc i) (off + (4 + length (dp_Data d))) (acc @ [d])
      = Some (Inr ((acc @ [d]) @ ds, off + (4 + length (dp_Data d)) + length (path_bytes ds)))"
    using Cons.prems by (intro Cons.IH) auto
  moreover have "devicePath_loop buf i off acc
      = devicePath_loop buf (Suc i) (off + (4 + length (dp_Data d))) (acc @ [d])"
    using Cons.prems by (intro devicePath_loop_node) (auto simp: path_bytes_Cons)
  ultimately show ?case by (simp add: path_bytes_Cons)
qed

lemma devicePath_path:
  assumes "dma_maps dma" "NewRegion dma (fs_device root) (int bufferSize) = None"
    and "list_all path_node ds" "length ds < maxDepth"
    and "load_bytes f (fs_device root) bufferSize = path_bytes ds @ end_node @ rest"
  shows "devicePath dma root f = Some (ds, path_bytes ds, None)"
  using assms devicePath_loop_path [of ds 0 0 "load_bytes f (fs_device root) bufferSize" rest "[]"]
  by (simp add: devicePath_def dma_maps_def Let_def bufferSize_def)

lemma load_padded:
  assumes "length bs \<le> n" "n \<le> 2 ^ 64"
  shows "load_bytes (store_bytes a (bs @ replicate (n - length bs) 0) f) a n = bs @ replicate (n - length bs) 0"
  using load_store_same [of "bs @ replicate (n - length bs) 0" a f] assms by simp

lemma demo_name_length: "length (toUTF16 (lit ''k'')) < 65532"
  using utf16_encode_ascii [of "map unat (lit ''k'')"] runes_ascii [of "lit ''k''"]
  by (simp add: length_toUTF16 lit_def)

lemma demo_path_memory:
  "load_bytes demo_path_mem (fs_device demo_fs) bufferSize
    = path_bytes demo_nodes @ end_node @ replicate (bufferSize - length (path_bytes demo_nodes @ end_node)) 0"
proof -
  have "length (path_bytes demo_nodes @ end_node) \<le> bufferSize" "bufferSize \<le> 2 ^ 64"
    by (simp_all add: demo_nodes_def path_bytes_Cons end_node_def bufferSize_def)
  from load_padded [OF this, of 2097152 "\<lambda>_. 0"] show ?thesis
    by (simp only: demo_path_mem_def demo_fs_def efi_fs.select_convs append_assoc)
qed

lemma length_path_bytes: "list_all path_node ds \<Longrightarrow> length (path_bytes ds) \<le> 255 * length ds"
  by (induction ds) (auto simp: path_bytes_Cons path_node_def)

lemma FilePath_desc:
  assumes "dma_maps dma" "NewRegion dma (fs_device root) (int bufferSize) = None"
    and "list_all path_node ds" "length ds < maxDepth"
    and "load_bytes f (fs_device root) bufferSize = path_bytes ds @ end_node @ rest"
    and "length (toUTF16 name) < 65532"
  shows "\<exists>fp n. FilePath dma root name f = Some (ds, fp, path_bytes (ds @ [n]) @ end_node, None)
    \<and> dn_Type n = 4 \<and> dn_SubType n = 4 \<and> dp_Data n = toUTF16 name
    \<and> unat (dn_Length n) = 4 + length (dp_Data n)
    \<and> length (path_bytes (ds @ [n]) @ end_node) \<le> 2 ^ 64"
proof -
  let ?n = "\<lparr>dn_Type = 4, dn_SubType = 4, dn_Length = of_nat (4 + length (toUTF16 name)), dp_Data = toUTF16 name\<rparr>"
  have "unat (of_nat (4 + length (toUTF16 name)) :: u16) = 4 + length (toUTF16 name)"
    using assms(6) by (intro unat_of_nat_u16_small) simp
  moreover have "length (path_bytes (ds @ [?n]) @ end_node) \<le> 2 ^ 64"
    using length_path_bytes [OF assms(3)] assms(4,6)
    by (simp add: path_bytes_append path_bytes_Cons end_node_def maxDepth_def)
  ultimately show ?thesis using devicePath_path [OF assms(1-5)]
    by (intro exI [of _ "\<lparr>dn_Type = 4, dn_SubType = 4, dn_Length = of_nat (4 + length (toUTF16 name)),
          fp_PathName = toUTF16 name\<rparr>"] exI [of _ ?n])
       (simp add: FilePath_def Let_def file_path_Bytes_def node_Bytes_end path_bytes_append path_bytes_Cons
          node_Bytes_def [of "_ :: file_path"] node_Bytes_def [of ?n] del: of_nat_add)
qed

section \<open>Properties\<close>

text \<open>
  Claim C21: device paths are parsed back. If memory at the device holds up to 15 well-formed
  device path nodes (type, subtype, length and data, at most 255 bytes each) followed by the end
  node, \<^verbatim>\<open>devicePath\<close> returns exactly these nodes and their bytes without the end node.
\<close>

theorem devicePath_roundtrip:
  assumes "dma_maps dma" "NewRegion dma (fs_device root) (int bufferSize) = None"
    and "list_all path_node ds" "length ds < maxDepth"
    and "load_bytes f (fs_device root) bufferSize = path_bytes ds @ end_node @ rest"
  shows "devicePath dma root f = Some (ds, path_bytes ds, None)"
  using assms by (rule devicePath_path)

theorem devicePath_roundtrip_witness:
  "devicePath demo_dma demo_fs demo_path_mem
   = Some (demo_nodes, path_bytes demo_nodes, None)"
proof (rule devicePath_roundtrip)
  show "load_bytes demo_path_mem (fs_device demo_fs) bufferSize
    = path_bytes demo_nodes @ end_node @ replicate (bufferSize - length (path_bytes demo_nodes @ end_node)) 0"
    by (rule demo_path_memory)
qed (simp_all add: demo_nodes_def path_node_def maxDepth_def)

text \<open>
  Claim C22: the device path of a file. On a volume with a well-formed device path,
  \<^verbatim>\<open>FilePath\<close> returns the bytes of a well-formed device path: the volume's nodes, a file path
  media node (type and subtype 4) whose data is the UTF-16 name, and the end node. The length
  field of the file node is its true length as long as the name is short enough for 16 bits.
\<close>

theorem FilePath_wellformed:
  assumes "dma_maps dma" "NewRegion dma (fs_device root) (int bufferSize) = None"
    and "list_all path_node ds" "length ds < maxDepth"
    and "load_bytes f (fs_device root) bufferSize = path_bytes ds @ end_node @ rest"
    and "length (toUTF16 name) < 65532"
  shows "\<exists>fp n. FilePath dma root name f = Some (ds, fp, path_bytes (ds @ [n]) @ end_node, None)
    \<and> dn_Type n = 4 \<and> dn_SubType n = 4 \<and> dp_Data n = toUTF16 name
    \<and> unat (dn_Length n) = 4 + length (dp_Data n)"
  using FilePath_desc [OF assms] by blast

theorem FilePath_wellformed_witness:
  "\<exists>fp n. FilePath demo_dma demo_fs (lit ''k'') demo_path_mem
      = Some (demo_nodes, fp, path_bytes (demo_nodes @ [n]) @ end_node, None)
    \<and> dn_Type n = 4 \<and> dn_SubType n = 4 \<and> dp_Data n = toUTF16 (lit ''k'')
    \<and> unat (dn_Length n) = 4 + length (dp_Data n)"
proof (rule FilePath_wellformed)
  show "load_bytes demo_path_mem (fs_device demo_fs) bufferSize
    = path_bytes demo_nodes @ end_node @ replicate (bufferSize - length (path_bytes demo_nodes @ end_node)) 0"
    by (rule demo_path_memory)
  show "length (toUTF16 (lit ''k'')) < 65532" by (rule demo_name_length)
qed (simp_all add: demo_nodes_def path_node_def maxDepth_def)

text \<open>
  A short node length stops the program. A device path whose first node is not the end
  node and has a length of 1, 2 or 3 makes \<^verbatim>\<open>devicePath\<close> panic, although its parser is meant to
  handle invalid paths gracefully: the data size wraps around to almost 65536 bytes.
\<close>

theorem devicePath_short_node_panics:
  assumes "dma_maps dma" "NewRegion dma (fs_device root) (int bufferSize) = None"
    and "load_bytes f (fs_device root) bufferSize = node_Bytes d @ rest"
    and "\<not> (dn_Type d = 0x7f \<and> dn_SubType d = 0xff)" "0 < dn_Length d" "dn_Length d < 4"
  shows "devicePath dma root f = None"
proof -
  let ?buf = "load_bytes f (fs_device root) bufferSize"
  have l: "0 < unat (dn_Length d)" "unat (dn_Length d) < 4"
    using assms(5,6) by (simp_all add: word_less_nat_alt)
  then have big: "length ?buf < 4 + unat (dn_Length d - 4)"
    by (simp add: unat_sub_if' bufferSize_def)
  have "devicePath_loop ?buf 0 0 [] = None"
    using node_at [of 0 ?buf d rest] assms(3,4) big l
    by (subst devicePath_loop.simps) (auto simp: maxDepth_def Let_def word_less_nat_alt)
  then show ?thesis using assms(1,2) by (simp add: devicePath_def dma_maps_def Let_def bufferSize_def)
qed

theorem devicePath_short_node_panics_witness:
  "devicePath demo_dma demo_fs (store_bytes 2097152 (node_Bytes \<lparr>dn_Type = 1, dn_SubType = 1, dn_Length = 3\<rparr> @
      replicate (bufferSize - length (node_Bytes \<lparr>dn_Type = 1, dn_SubType = 1, dn_Length = 3\<rparr>)) 0) (\<lambda>_. 0)) = None"
proof (rule devicePath_short_node_panics)
  let ?d = "\<lparr>dn_Type = 1, dn_SubType = 1, dn_Length = 3\<rparr>"
  have "length (node_Bytes ?d) \<le> bufferSize" "bufferSize \<le> 2 ^ 64" by (simp_all add: bufferSize_def)
  from load_padded [OF this, of 2097152 "\<lambda>_. 0"]
  show "load_bytes (store_bytes 2097152 (node_Bytes ?d @ replicate (bufferSize - length (node_Bytes ?d)) 0) (\<lambda>_. 0))
      (fs_device demo_fs) bufferSize = node_Bytes ?d @ replicate (bufferSize - length (node_Bytes ?d)) 0"
    by (simp only: demo_fs_def efi_fs.select_convs)
qed simp_all

end
