(* ===== verification/Image.thy ===== *)
theory Image
  imports Device_Path
begin

text \<open>
  \<^verbatim>\<open>pkg/ueficore/image.go\<close>: loading an image from a file or from memory, with
  \<^verbatim>\<open>fs.ReadFile\<close> of the standard library.
\<close>

section \<open>Definitions\<close>

definition loadImage :: u64 where "loadImage = 0xc8"

subsection \<open>fs.ReadFile\<close>

fun ReadFile_loop :: "nat \<Rightarrow> (nat \<Rightarrow> nat) \<Rightarrow> (gslice \<Rightarrow> 'w machine \<Rightarrow> (int \<times> gerr option \<times> 'w machine) option)
    \<Rightarrow> u64 \<Rightarrow> nat \<Rightarrow> nat \<Rightarrow> 'w machine \<Rightarrow> (gslice \<times> gerr option \<times> 'w machine) option" where
  "ReadFile_loop 0 grow rd base len cap m = None"
| "ReadFile_loop (Suc fuel) grow rd base len cap m =
     (let (base, cap, m) =
        (if cap \<le> len then
           let (base', m) = new_slice (load_bytes (mem m) base cap @ replicate (grow cap - cap) 0) m
           in (base', grow cap, m)
         else (base, cap, m))
      in case rd (base + of_nat len, cap - len) m of
        None \<Rightarrow> None
      | Some (n, err, m) \<Rightarrow>
          if n < 0 \<or> int cap < int len + n then None
          else let len = len + nat n in
          case err of
            Some e \<Rightarrow> Some ((base, len), if e = EOF then None else Some e, m)
          | None \<Rightarrow> ReadFile_loop fuel grow rd base len cap m)"

text \<open>
  The buffer is made for the size the file reports (0 if that fails) plus one; \<^verbatim>\<open>make\<close> panics on
  a negative capacity. The file is closed at the end, its error dropped.
\<close>

definition ReadFile :: "dma_pkg \<Rightarrow> 'w firmware \<Rightarrow> nat \<Rightarrow> (nat \<Rightarrow> nat) \<Rightarrow> efi_fs \<Rightarrow> gostring \<Rightarrow> 'w machine
    \<Rightarrow> ((gerr + gslice) \<times> 'w machine) option" where
  "ReadFile dma fw fuel grow root name m = do {
     (r, m) \<leftarrow> FS_Open dma fw root name m;
     case r of
       Inl err \<Rightarrow> Some (Inl err, m)
     | Inr file \<Rightarrow> do {
         (st, m) \<leftarrow> File_Stat fw file m;
         let sz = (case st of Inl _ \<Rightarrow> 0 | Inr fi \<Rightarrow> stat_Size fi);
         let cap = go_int (sz + 1);
         if cap < 0 then None
         else do {
           let (base, m) = new_obj (nat cap) m;
           (data, err, m) \<leftarrow> ReadFile_loop fuel grow (File_Read fw file) base 0 (nat cap) m;
           let (_, m) = File_Close fw file m;
           case err of
             Some e \<Rightarrow> Some (Inl e, m)
           | None \<Rightarrow> Some (Inr data, m) } } }"

subsection \<open>image.go\<close>

text \<open>
  The call both operations end with: \<open>h\<close> is the cell of the result \<^verbatim>\<open>imageHandle\<close>.
  \<^verbatim>\<open>&buf[0]\<close> panics on an empty image.
\<close>

definition call_LoadImage :: "'w firmware \<Rightarrow> boot_services \<Rightarrow> int \<Rightarrow> u8 list \<Rightarrow> gslice \<Rightarrow> u64 \<Rightarrow> 'w machine
    \<Rightarrow> (u64 \<times> gerr option \<times> 'w machine) option" where
  "call_LoadImage fw s boot path buf h m = do {
     (d, m) \<leftarrow> first_elem path m;
     pd \<leftarrow> ptrval (PtrByte d);
     pb \<leftarrow> (if snd buf = 0 then None else ptrval (PtrByte (fst buf)));
     ph \<leftarrow> ptrval (PtrUint64 h);
     let (status, m) = CallService fw (bs_base s + loadImage)
           [word_of_int boot, bs_imageHandle s, pd, pb, of_nat (snd buf), ph] m;
     Some (load64 (mem m) h, parseStatus status, m) }"

definition LoadImageMem :: "dma_pkg \<Rightarrow> 'w firmware \<Rightarrow> boot_services \<Rightarrow> int \<Rightarrow> efi_fs \<Rightarrow> gostring \<Rightarrow> gslice
    \<Rightarrow> 'w machine \<Rightarrow> (u64 \<times> gerr option \<times> 'w machine) option" where
  "LoadImageMem dma fw s boot root name buf m =
     (let (h, m) = new_obj 8 m in do {
        (_, _, path, err) \<leftarrow> FilePath dma root name (mem m);
        case err of
          Some e \<Rightarrow> Some (0, Some e, m)
        | None \<Rightarrow> call_LoadImage fw s boot path buf h m })"

definition LoadImage :: "dma_pkg \<Rightarrow> 'w firmware \<Rightarrow> nat \<Rightarrow> (nat \<Rightarrow> nat) \<Rightarrow> boot_services \<Rightarrow> int \<Rightarrow> efi_fs \<Rightarrow> gostring
    \<Rightarrow> 'w machine \<Rightarrow> (u64 \<times> gerr option \<times> 'w machine) option" where
  "LoadImage dma fw fuel grow s boot root name m =
     (let (h, m) = new_obj 8 m in do {
        (r, m) \<leftarrow> ReadFile dma fw fuel grow root name m;
        case r of
          Inl e \<Rightarrow> Some (0, Some e, m)
        | Inr buf \<Rightarrow> do {
            (_, _, path, err) \<leftarrow> FilePath dma root name (mem m);
            case err of
              Some e \<Rightarrow> Some (0, Some e, m)
            | None \<Rightarrow> call_LoadImage fw s boot path buf h m } })"

section \<open>Lemmas\<close>

lemma call_LoadImage_call:
  assumes "path \<noteq> []" "0 < snd buf"
  shows "call_LoadImage fw s boot path buf h m =
    (case CallService fw (bs_base s + loadImage)
        [word_of_int boot, bs_imageHandle s, place m (objs m), fst buf, of_nat (snd buf), h]
        (snd (new_slice path m)) of
      (status, m') \<Rightarrow> Some (load64 (mem m') h, parseStatus status, m'))"
  using assms by (simp add: call_LoadImage_def first_elem_def new_slice_def Let_def split: prod.splits)

lemma LoadImageMem_call:
  assumes "FilePath dma root name (mem (snd (new_obj 8 m))) = Some (ds, fp, path, None)"
    and "path \<noteq> []" "0 < snd buf"
  shows "LoadImageMem dma fw s boot root name buf m =
    (case CallService fw (bs_base s + loadImage)
        [word_of_int boot, bs_imageHandle s, place m (Suc (objs m)), fst buf, of_nat (snd buf), place m (objs m)]
        (snd (new_slice path (snd (new_obj 8 m)))) of
      (status, m') \<Rightarrow> Some (load64 (mem m') (place m (objs m)), parseStatus status, m'))"
  using assms by (simp add: LoadImageMem_def new_obj_def call_LoadImage_call)

lemma new_obj_apart:
  "apart (place m (objs m)) k a n \<Longrightarrow> n \<le> 2 ^ 64 \<Longrightarrow>
   load_bytes (mem (snd (new_obj k m))) a n = load_bytes (mem m) a n"
  by (simp add: new_obj_def load_zero_apart apart_sym)

section \<open>Properties\<close>

text \<open>
  Loading an image from memory. On a volume with a well-formed device path and for a
  non-empty image, \<^verbatim>\<open>LoadImageMem\<close> is one call of \<^verbatim>\<open>LoadImage\<close>: the boot policy, the
  program's own image handle, a pointer to the bytes of a well-formed device path that ends in the
  file's node, the address and length of the image, and a result cell. It returns the handle the
  firmware stored there and the error of the status.
\<close>

theorem LoadImageMem_spec:
  assumes "dma_maps dma" "NewRegion dma (fs_device root) (int bufferSize) = None"
    and "list_all path_node ds" "length ds < maxDepth"
    and "load_bytes (mem m) (fs_device root) bufferSize = path_bytes ds @ end_node @ rest"
    and "length (toUTF16 name) < 65532" "0 < len"
    and "apart (place m (objs m)) 8 (fs_device root) bufferSize"
  shows "\<exists>n m1 st m2. LoadImageMem dma fw s boot root name (p, len) m
        = Some (load64 (mem m2) (place m (objs m)), parseStatus st, m2)
    \<and> dn_Type n = 4 \<and> dn_SubType n = 4 \<and> dp_Data n = toUTF16 name
    \<and> load_bytes (mem m1) (place m (Suc (objs m))) (length (path_bytes (ds @ [n]) @ end_node))
        = path_bytes (ds @ [n]) @ end_node
    \<and> calls m1 = calls m
    \<and> CallService fw (bs_base s + loadImage)
        [word_of_int boot, bs_imageHandle s, place m (Suc (objs m)), p, of_nat len, place m (objs m)] m1 = (st, m2)"
proof -
  let ?m = "snd (new_obj 8 m)"
  have "load_bytes (mem ?m) (fs_device root) bufferSize = path_bytes ds @ end_node @ rest"
    using assms(5,8) by (simp add: new_obj_apart bufferSize_def)
  from FilePath_desc [OF assms(1-4) this assms(6)]
  obtain fp n where fp: "FilePath dma root name (mem ?m) = Some (ds, fp, path_bytes (ds @ [n]) @ end_node, None)"
    and n: "dn_Type n = 4" "dn_SubType n = 4" "dp_Data n = toUTF16 name"
    and len: "length (path_bytes (ds @ [n]) @ end_node) \<le> 2 ^ 64" by blast
  let ?path = "path_bytes (ds @ [n]) @ end_node"
  let ?m1 = "snd (new_slice ?path ?m)"
  obtain st m2 where call: "CallService fw (bs_base s + loadImage)
      [word_of_int boot, bs_imageHandle s, place m (Suc (objs m)), p, of_nat len, place m (objs m)] ?m1 = (st, m2)"
    by fastforce
  have "LoadImageMem dma fw s boot root name (p, len) m
      = Some (load64 (mem m2) (place m (objs m)), parseStatus st, m2)"
    using LoadImageMem_call [OF fp, of "(p, len)" fw s boot] call assms(7) by (simp add: end_node_def)
  moreover have "load_bytes (mem ?m1) (place m (Suc (objs m))) (length ?path) = ?path"
    using load_store_same [OF len] by (simp add: new_slice_def new_obj_def)
  ultimately show ?thesis using n call
    by (intro exI [of _ n] exI [of _ ?m1] exI [of _ st] exI [of _ m2]) simp
qed

theorem LoadImageMem_spec_witness:
  "\<exists>n m1 st m2. LoadImageMem demo_dma (\<lambda>code args f w. (0, f, w)) demo_boot 0 demo_fs (lit ''k'') (805306368, 4096)
        (demo_machine\<lparr>mem := demo_path_mem\<rparr>)
        = Some (load64 (mem m2) (place (demo_machine\<lparr>mem := demo_path_mem\<rparr>) (objs (demo_machine\<lparr>mem := demo_path_mem\<rparr>))),
            parseStatus st, m2)
    \<and> dn_Type n = 4 \<and> dn_SubType n = 4 \<and> dp_Data n = toUTF16 (lit ''k'')
    \<and> load_bytes (mem m1) (place (demo_machine\<lparr>mem := demo_path_mem\<rparr>) (Suc (objs (demo_machine\<lparr>mem := demo_path_mem\<rparr>))))
          (length (path_bytes (demo_nodes @ [n]) @ end_node))
        = path_bytes (demo_nodes @ [n]) @ end_node
    \<and> calls m1 = calls (demo_machine\<lparr>mem := demo_path_mem\<rparr>)
    \<and> CallService (\<lambda>code args f w. (0, f, w)) (bs_base demo_boot + loadImage)
        [word_of_int 0, bs_imageHandle demo_boot,
         place (demo_machine\<lparr>mem := demo_path_mem\<rparr>) (Suc (objs (demo_machine\<lparr>mem := demo_path_mem\<rparr>))),
         805306368, of_nat 4096, place (demo_machine\<lparr>mem := demo_path_mem\<rparr>) (objs (demo_machine\<lparr>mem := demo_path_mem\<rparr>))]
        m1 = (st, m2)"
proof (rule LoadImageMem_spec)
  show "load_bytes (mem (demo_machine\<lparr>mem := demo_path_mem\<rparr>)) (fs_device demo_fs) bufferSize
    = path_bytes demo_nodes @ end_node @ replicate (bufferSize - length (path_bytes demo_nodes @ end_node)) 0"
    using demo_path_memory by simp
  show "length (toUTF16 (lit ''k'')) < 65532" by (rule demo_name_length)
qed (simp_all add: demo_nodes_def path_node_def maxDepth_def demo_machine_def demo_fs_def bufferSize_def apart_def)

end
