(* ===== verification/Boot_Path.thy ===== *)
theory Boot_Path
  imports Image
begin

text \<open>
  The boot path over a firmware that does what the UEFI specification documents: finding the
  volume the program was loaded from (\<^verbatim>\<open>Services.Root\<close>), loading an image from memory
  (\<^verbatim>\<open>LoadImageMem\<close>) and finding its protocol (\<^verbatim>\<open>LoadImageHandle\<close>).

  A platform is what the firmware offers: its services, the protocols with the addresses they lie at, the
  device path of the boot volume. The firmware may use memory of its own besides the results it
  stores; the Go objects and the structures of the platform are outside of it.
\<close>

section \<open>Definitions\<close>

record boot_platform =
  pf_boot :: boot_services
  pf_handle :: u64 \<comment> \<open>code of \<open>HandleProtocol\<close>\<close>
  pf_load :: u64 \<comment> \<open>code of \<open>LoadImage\<close>\<close>
  pf_image :: loaded_image
  pf_image_at :: u64
  pf_path :: "device_path list"
  pf_path_tail :: "u8 list"
  pf_path_at :: u64
  pf_sfs :: simple_file_system
  pf_sfs_at :: u64
  pf_volume :: file_protocol
  pf_volume_at :: u64
  pf_kernel :: u64 \<comment> \<open>the handle of the image that is loaded\<close>
  pf_kernel_image :: loaded_image
  pf_kernel_at :: u64

text \<open>The protocols a lookup finds: handle, GUID, address.\<close>

definition platform_protocols :: "boot_platform \<Rightarrow> (u64 \<times> gostring \<times> u64) list" where
  "platform_protocols P =
     [(bs_imageHandle (pf_boot P), EFI_LOADED_IMAGE_PROTOCOL_GUID, pf_image_at P),
      (DeviceHandle (pf_image P), EFI_LOADED_IMAGE_DEVICE_PATH_PROTOCOL_GUID, pf_path_at P),
      (DeviceHandle (pf_image P), EFI_SIMPLE_FILE_SYSTEM_PROTOCOL_GUID, pf_sfs_at P),
      (pf_kernel P, EFI_LOADED_IMAGE_PROTOCOL_GUID, pf_kernel_at P)]"

definition platform_regions :: "boot_platform \<Rightarrow> (u64 \<times> nat) list" where
  "platform_regions P =
     [(bs_base (pf_boot P) + handleProtocol, 8), (bs_base (pf_boot P) + loadImage, 8), (pf_image_at P, 104),
      (pf_path_at P, bufferSize), (pf_sfs_at P, 16), (pf_volume_at P, 88), (pf_kernel_at P, 104)]"

definition platform_in :: "boot_platform \<Rightarrow> memory \<Rightarrow> bool" where
  "platform_in P f \<longleftrightarrow>
     load64 f (bs_base (pf_boot P) + handleProtocol) = pf_handle P
     \<and> load64 f (bs_base (pf_boot P) + loadImage) = pf_load P
     \<and> load_bytes f (pf_image_at P) 104 = loaded_image_enc (pf_image P)
     \<and> load_bytes f (pf_path_at P) bufferSize = path_bytes (pf_path P) @ end_node @ pf_path_tail P
     \<and> load_bytes f (pf_sfs_at P) 16 = simple_file_system_enc (pf_sfs P)
     \<and> load_bytes f (pf_volume_at P) 88 = file_protocol_enc (pf_volume P)
     \<and> load_bytes f (pf_kernel_at P) 104 = loaded_image_enc (pf_kernel_image P)"

text \<open>Revisions the program accepts, addresses it can map.\<close>

definition platform_ok :: "dma_pkg \<Rightarrow> boot_platform \<Rightarrow> bool" where
  "platform_ok dma P \<longleftrightarrow> dma_maps dma
     \<and> list_all (\<lambda>(a, n). a \<noteq> 0 \<and> NewRegion dma a n = None)
         [(pf_image_at P, 104), (pf_sfs_at P, 16), (pf_volume_at P, 88), (pf_kernel_at P, 104), (pf_path_at P, int bufferSize)]
     \<and> li_Revision (pf_image P) = EFI_LOADED_IMAGE_PROTOCOL_REVISION
     \<and> li_Revision (pf_kernel_image P) = EFI_LOADED_IMAGE_PROTOCOL_REVISION
     \<and> sfs_Revision (pf_sfs P) = EFI_SIMPLE_FILE_SYSTEM_PROTOCOL_REVISION
     \<and> fp_Revision (pf_volume P) \<in> {EFI_FILE_PROTOCOL_REVISION, EFI_FILE_PROTOCOL_REVISION2}
     \<and> list_all path_node (pf_path P) \<and> length (pf_path P) < maxDepth"

text \<open>A call that stores a result in a cell and otherwise writes only the firmware's own memory.\<close>

definition stores_result :: "u64 set \<Rightarrow> u64 \<Rightarrow> u64 \<Rightarrow> memory \<Rightarrow> memory \<Rightarrow> bool" where
  "stores_result own cell v f f' \<longleftrightarrow> load64 f' cell = v \<and> (\<forall>x. x \<notin> own \<longrightarrow> 8 \<le> unat (x - cell) \<longrightarrow> f' x = f x)"

text \<open>
  The firmware: lookups find the protocols, the volume opens, the image \<open>k\<close> can be loaded. \<open>loaded w\<close> is the
  image the firmware holds in world \<open>w\<close>.
\<close>

definition platform_firmware :: "'w firmware \<Rightarrow> boot_platform \<Rightarrow> u64 set \<Rightarrow> u8 list \<Rightarrow> ('w \<Rightarrow> u8 list option) \<Rightarrow> bool" where
  "platform_firmware fw P own k loaded \<longleftrightarrow>
     (\<forall>(h, g, a) \<in> set (platform_protocols P). \<forall>gp cell f w. Bytes g = Some (load_bytes f gp 16) \<longrightarrow>
        (\<exists>f' w'. fw (pf_handle P) [h, gp, cell] f w = (EFI_SUCCESS, f', w')
           \<and> stores_result own cell a f f' \<and> loaded w' = loaded w))
     \<and> (\<forall>cell f w. \<exists>f' w'. fw (sfs_OpenVolume (pf_sfs P)) [pf_sfs_at P, cell] f w = (EFI_SUCCESS, f', w')
           \<and> stores_result own cell (pf_volume_at P) f f' \<and> loaded w' = loaded w)
     \<and> (\<forall>policy path buf n cell f w. load_bytes f buf (unat n) = k \<longrightarrow>
        (\<exists>f' w'. fw (pf_load P) [policy, bs_imageHandle (pf_boot P), path, buf, n, cell] f w = (EFI_SUCCESS, f', w')
           \<and> stores_result own cell (pf_kernel P) f f' \<and> loaded w' = Some k))"

definition outside :: "u64 set \<Rightarrow> u64 \<Rightarrow> nat \<Rightarrow> bool" where
  "outside own a n \<longleftrightarrow> (\<forall>i<n. a + of_nat i \<notin> own)"

text \<open>
  The state of a machine on the boot path: the platform and further regions \<open>R\<close> are as in the memory \<open>f0\<close>,
  and the first \<open>L\<close> objects have room for \<open>N\<close> bytes, apart from these, each other and the firmware.
\<close>

definition boot_state :: "boot_platform \<Rightarrow> u64 set \<Rightarrow> (u64 \<times> nat) list \<Rightarrow> nat \<Rightarrow> nat \<Rightarrow> memory \<Rightarrow> 'w machine \<Rightarrow> bool" where
  "boot_state P own R L N f0 m \<longleftrightarrow> platform_in P f0
     \<and> same_regions (platform_regions P @ R) f0 (mem m) \<and> layout (place m) L N (platform_regions P @ R)
     \<and> (\<forall>(a, n) \<in> set (platform_regions P @ R). outside own a n) \<and> (\<forall>i<L. outside own (place m i) N)
     \<and> objs m \<le> L \<and> 104 \<le> N \<and> N < 2 ^ 63"

definition call_code :: "efi_call \<Rightarrow> u64" where
  "call_code c = (case c of Indirect e code args \<Rightarrow> code | Direct code args \<Rightarrow> code)"

text \<open>
  A stretch of the boot path from \<open>m\<close> to \<open>m'\<close>: it makes \<open>k\<close> objects and calls the code at \<open>cs\<close>, in this order,
  and leaves older objects alone.
\<close>

definition boot_step :: "boot_platform \<Rightarrow> u64 set \<Rightarrow> (u64 \<times> nat) list \<Rightarrow> nat \<Rightarrow> nat \<Rightarrow> memory \<Rightarrow> nat \<Rightarrow> u64 list
    \<Rightarrow> 'w machine \<Rightarrow> 'w machine \<Rightarrow> bool" where
  "boot_step P own R L N f0 k cs m m' \<longleftrightarrow> boot_state P own R L N f0 m'
     \<and> place m' = place m \<and> objs m' = objs m + k \<and> map call_code (calls m') = map call_code (calls m) @ cs
     \<and> (\<forall>i<objs m. \<forall>n\<le>N. load_bytes (mem m') (place m i) n = load_bytes (mem m) (place m i) n)"

section \<open>Lemmas\<close>

subsection \<open>Frames\<close>

lemma result_frame:
  assumes "stores_result own cell v f f'" "outside own a n" "apart a n cell 8" "n \<le> 2 ^ 64"
  shows "load_bytes f' a n = load_bytes f a n"
proof (rule load_bytes_cong)
  fix i assume i: "i < n"
  have "8 \<le> unat (a + of_nat i - cell)"
    by (rule apart_byte [OF assms(3) i assms(4)])
  then show "f' (a + of_nat i) = f (a + of_nat i)"
    using assms(1,2) i by (simp add: stores_result_def outside_def)
qed

lemma outside_prefix: "outside own a n \<Longrightarrow> k \<le> n \<Longrightarrow> outside own a k"
  by (simp add: outside_def)

lemma boot_store:
  assumes "boot_state P own R L N f0 m" "j < L" "length bs \<le> N"
    and "mem m' = store_bytes (place m j) bs (mem m)" "place m' = place m" "objs m' \<le> L"
  shows "boot_state P own R L N f0 m'"
  using assms by (auto simp: boot_state_def intro: same_regions_store)

text \<open>The parts of the state.\<close>

lemma boot_stateD:
  assumes "boot_state P own R L N f0 m"
  shows "layout (place m) L N (platform_regions P @ R)" "same_regions (platform_regions P @ R) f0 (mem m)"
    "i < L \<Longrightarrow> outside own (place m i) N" "objs m \<le> L" "104 \<le> N" "N < 2 ^ 63"
    "(a, n) \<in> set (platform_regions P @ R) \<Longrightarrow> outside own a n"
    "(a, n) \<in> set (platform_regions P @ R) \<Longrightarrow> n \<le> 2 ^ 64"
    "(a, n) \<in> set (platform_regions P @ R) \<Longrightarrow> i < L \<Longrightarrow> apart (place m i) N a n"
proof -
  note b = assms [unfolded boot_state_def]
  from b show "layout (place m) L N (platform_regions P @ R)" "same_regions (platform_regions P @ R) f0 (mem m)"
    "i < L \<Longrightarrow> outside own (place m i) N" "objs m \<le> L" "104 \<le> N" "N < 2 ^ 63" by blast+
  assume r: "(a, n) \<in> set (platform_regions P @ R)"
  from b r show "outside own a n" by blast
  have "list_all (\<lambda>(a, n). n \<le> 2 ^ 64 \<and> load_bytes (mem m) a n = load_bytes f0 a n) (platform_regions P @ R)"
    using b unfolding same_regions_def by blast
  then show "n \<le> 2 ^ 64" using r unfolding list_all_iff by blast
  have "\<forall>i<L. \<forall>r \<in> set (platform_regions P @ R). apart (place m i) N (fst r) (snd r)"
    using b unfolding layout_def by blast
  then show "apart (place m i) N a n" if "i < L" using r that by fastforce
qed

lemma boot_result:
  assumes "boot_state P own R L N f0 m" "j < L" "stores_result own (place m j) v (mem m) (mem m')"
    and "place m' = place m" "objs m' \<le> L"
  shows "boot_state P own R L N f0 m'"
proof -
  note b = boot_stateD [OF assms(1)]
  have "load_bytes (mem m') a n = load_bytes (mem m) a n" if r: "(a, n) \<in> set (platform_regions P @ R)" for a n
  proof (rule result_frame [OF assms(3) b(7) [OF r] _ b(8) [OF r]])
    show "apart a n (place m j) 8" using b(9) [OF r assms(2)] b(5) by (simp add: apart_def)
  qed
  then have "same_regions (platform_regions P @ R) f0 (mem m')"
    using b(2) by (simp add: same_regions_def list_all_iff case_prod_beta)
  then show ?thesis using assms(1,4,5) by (simp add: boot_state_def)
qed

lemma boot_result_other:
  assumes "boot_state P own R L N f0 m" "j < L" "i < L" "i \<noteq> j" "n \<le> N" "stores_result own (place m j) v (mem m) f'"
  shows "load_bytes f' (place m i) n = load_bytes (mem m) (place m i) n"
proof (rule result_frame [OF assms(6)])
  note b = boot_stateD [OF assms(1)]
  show "outside own (place m i) n" using b(3) [OF assms(3)] assms(5) by (rule outside_prefix)
  show "apart (place m i) n (place m j) 8" using b(5) by (intro layout_apart [OF b(1) assms(3,2,4,5)]) simp
  show "n \<le> 2 ^ 64" using b(6) assms(5) by simp
qed

lemma boot_step_refl: "boot_state P own R L N f0 m \<Longrightarrow> boot_step P own R L N f0 0 [] m m"
  by (simp add: boot_step_def)

lemma boot_step_trans:
  assumes "boot_step P own R L N f0 k cs m m1" "boot_step P own R L N f0 l ds m1 m2"
  shows "boot_step P own R L N f0 (k + l) (cs @ ds) m m2"
  using assms by (auto simp: boot_step_def)

text \<open>New objects.\<close>

lemma boot_new_slice:
  assumes "boot_state P own R L N f0 m" "objs m < L" "length bs \<le> N"
  shows "boot_step P own R L N f0 1 [] m (snd (new_slice bs m))"
proof -
  have "boot_state P own R L N f0 (snd (new_slice bs m))"
    by (rule boot_store [OF assms(1,2,3)]) (use assms in \<open>auto simp: new_slice_def\<close>)
  moreover have "load_bytes (mem (snd (new_slice bs m))) (place m i) n = load_bytes (mem m) (place m i) n"
    if "i < objs m" "n \<le> N" for i n
    using store_other_object [of "place m" L N "platform_regions P @ R" i "objs m" n bs] that assms
    by (simp add: boot_state_def new_slice_def)
  ultimately show ?thesis by (simp add: boot_step_def) (simp add: new_slice_def)
qed

lemma new_obj_slice: "new_obj n m = new_slice (replicate n 0) m"
  by (simp add: new_obj_def new_slice_def zero_fill_store)

lemma boot_new_obj:
  "boot_state P own R L N f0 m \<Longrightarrow> objs m < L \<Longrightarrow> n \<le> N \<Longrightarrow> boot_step P own R L N f0 1 [] m (snd (new_obj n m))"
  unfolding new_obj_slice by (rule boot_new_slice) simp_all

text \<open>A call whose result goes to a cell that is not older than \<open>m\<close>.\<close>

lemma boot_call:
  assumes "boot_step P own R L N f0 k [] m m1" "objs m \<le> j" "j < objs m1" "args \<noteq> []"
    and "load64 (mem m1) e = code" "fw code args (mem m1) (world m1) = (0, f', w')" "stores_result own (place m j) v (mem m1) f'"
  shows "\<exists>m2. CallService fw e args m1 = (0, m2) \<and> boot_step P own R L N f0 k [code] m m2
    \<and> load64 (mem m2) (place m j) = v \<and> world m2 = w' \<and> mem m2 = f'"
proof -
  let ?m2 = "m1\<lparr>mem := f', world := w', calls := calls m1 @ [Indirect e code args]\<rparr>"
  note s = assms(1) [unfolded boot_step_def]
  have L: "j < L" "objs m1 \<le> L" using s assms(3) by (auto simp: boot_state_def)
  have r: "stores_result own (place m1 j) v (mem m1) f'" using assms(7) s by simp
  have "boot_state P own R L N f0 ?m2"
    by (rule boot_result [where j = j and v = v and m = m1]) (use s L r in auto)
  moreover have "load_bytes f' (place m i) n = load_bytes (mem m) (place m i) n" if "i < objs m" "n \<le> N" for i n
    using boot_result_other [of P own R L N f0 m1 j i n v f'] s r that L assms(2) by simp
  ultimately have "boot_step P own R L N f0 k [code] m ?m2"
    using s by (simp add: boot_step_def call_code_def)
  moreover have "CallService fw e args m1 = (0, ?m2)" using assms(4-6) by (simp add: CallService_nonempty)
  moreover have "load64 f' (place m j) = v" using assms(7) by (simp add: stores_result_def)
  ultimately show ?thesis by (intro exI [of _ ?m2]) simp
qed

text \<open>What is in memory along the path.\<close>

lemma boot_platform_in:
  assumes "boot_state P own R L N f0 m"
  shows "platform_in P (mem m)"
proof -
  have same: "load_bytes (mem m) a n = load_bytes f0 a n" if "(a, n) \<in> set (platform_regions P)" for a n
    using assms that by (auto simp: boot_state_def same_regions_def list_all_iff)
  have "load_bytes (mem m) a n = load_bytes f0 a n" if "list_ex ((=) (a, n)) (platform_regions P)" for a n
    using same that by (auto simp: list_ex_iff)
  then show ?thesis using assms
    by (simp add: boot_state_def platform_in_def platform_regions_def load64_def)
qed

lemma boot_step_state: "boot_step P own R L N f0 k cs m m' \<Longrightarrow> boot_state P own R L N f0 m'"
  by (simp add: boot_step_def)

lemma boot_step_objs: "boot_step P own R L N f0 k cs m m' \<Longrightarrow> objs m' = objs m + k" "boot_step P own R L N f0 k cs m m' \<Longrightarrow> place m' = place m"
  by (simp_all add: boot_step_def)

lemma platform_protocolsI:
  "(bs_imageHandle (pf_boot P), EFI_LOADED_IMAGE_PROTOCOL_GUID, pf_image_at P) \<in> set (platform_protocols P)"
  "(DeviceHandle (pf_image P), EFI_LOADED_IMAGE_DEVICE_PATH_PROTOCOL_GUID, pf_path_at P) \<in> set (platform_protocols P)"
  "(DeviceHandle (pf_image P), EFI_SIMPLE_FILE_SYSTEM_PROTOCOL_GUID, pf_sfs_at P) \<in> set (platform_protocols P)"
  "(pf_kernel P, EFI_LOADED_IMAGE_PROTOCOL_GUID, pf_kernel_at P) \<in> set (platform_protocols P)"
  by (simp_all add: platform_protocols_def)

lemma boot_step_in: "boot_step P own R L N f0 k cs m m' \<Longrightarrow> platform_in P (mem m')"
  by (rule boot_platform_in [OF boot_step_state])

lemma boot_region: "boot_state P own R L N f0 m \<Longrightarrow> (a, n) \<in> set R \<Longrightarrow> load_bytes (mem m) a n = load_bytes f0 a n"
  by (auto simp: boot_state_def same_regions_def list_all_iff)

subsection \<open>The operations of the path\<close>

lemma firmware_lookup:
  assumes "platform_firmware fw P own k loaded" "(h, g, a) \<in> set (platform_protocols P)" "Bytes g = Some (load_bytes f gp 16)"
  shows "\<exists>f' w'. fw (pf_handle P) [h, gp, cell] f w = (0, f', w') \<and> stores_result own cell a f f' \<and> loaded w' = loaded w"
proof -
  note all = assms(1) [unfolded platform_firmware_def EFI_SUCCESS_def, THEN conjunct1]
  from bspec [OF all assms(2)] assms(3) show ?thesis by simp
qed

lemma firmware_open:
  assumes "platform_firmware fw P own k loaded"
  shows "\<exists>f' w'. fw (sfs_OpenVolume (pf_sfs P)) [pf_sfs_at P, cell] f w = (0, f', w')
    \<and> stores_result own cell (pf_volume_at P) f f' \<and> loaded w' = loaded w"
  by (rule assms [unfolded platform_firmware_def EFI_SUCCESS_def, THEN conjunct2, THEN conjunct1, rule_format])

lemma firmware_load:
  assumes "platform_firmware fw P own k loaded" "load_bytes f buf (unat n) = k"
  shows "\<exists>f' w'. fw (pf_load P) [policy, bs_imageHandle (pf_boot P), path, buf, n, cell] f w = (0, f', w')
    \<and> stores_result own cell (pf_kernel P) f f' \<and> loaded w' = Some k"
  by (rule assms(1) [unfolded platform_firmware_def EFI_SUCCESS_def, THEN conjunct2, THEN conjunct2, rule_format, OF assms(2)])

lemma boot_HandleProtocol:
  assumes "boot_state P own R L N f0 m" "platform_firmware fw P own k loaded" "objs m + 2 \<le> L"
    and "(h, guid, a) \<in> set (platform_protocols P)"
  shows "\<exists>m'. HandleProtocol fw (pf_boot P) h guid m = Some (a, None, m')
    \<and> boot_step P own R L N f0 2 [pf_handle P] m m' \<and> loaded (world m') = loaded (world m)"
proof -
  obtain bs where bs: "Bytes guid = Some bs" "length bs = 16" using Bytes_total by blast
  let ?m1 = "lookup_machine bs m"
  have N: "16 \<le> N" using boot_stateD(5) [OF assms(1)] by simp
  note o = boot_new_obj [OF assms(1), of 8]
  then have o1: "boot_step P own R L N f0 1 [] m (snd (new_obj 8 m))" using assms(3) N by simp
  have "boot_step P own R L N f0 1 [] (snd (new_obj 8 m)) ?m1"
    unfolding lookup_machine_def by (rule boot_new_slice) (use o1 assms(3) N bs in \<open>auto simp: boot_step_def\<close>)
  from boot_step_trans [OF o1 this] have st: "boot_step P own R L N f0 2 [] m ?m1" by (simp add: numeral_2_eq_2)
  then have code: "load64 (mem ?m1) (bs_base (pf_boot P) + handleProtocol) = pf_handle P"
    using boot_step_in [OF st] by (simp add: platform_in_def)
  have "Bytes guid = Some (load_bytes (mem ?m1) (place m (Suc (objs m))) 16)" using bs lookup_machine_guid by metis
  then obtain f' w' where call: "fw (pf_handle P) [h, place m (Suc (objs m)), place m (objs m)] (mem ?m1) (world ?m1) = (0, f', w')"
    "stores_result own (place m (objs m)) a (mem ?m1) f'" "loaded w' = loaded (world ?m1)"
    using firmware_lookup [OF assms(2,4), where f = "mem ?m1"] by blast
  from boot_call [where fw = fw and j = "objs m", OF st _ _ _ code call(1,2)]
  obtain m2 where "CallService fw (bs_base (pf_boot P) + handleProtocol) [h, place m (Suc (objs m)), place m (objs m)] ?m1 = (0, m2)"
    "boot_step P own R L N f0 2 [pf_handle P] m m2" "load64 (mem m2) (place m (objs m)) = a" "world m2 = w'" by auto
  then show ?thesis using call(3) by (simp add: HandleProtocol_call [OF bs(1)])
qed

lemma boot_LoadImageHandle:
  assumes "boot_state P own R L N f0 m" "platform_firmware fw P own k loaded" "objs m + 2 \<le> L" "dma_maps dma"
    and "(h, EFI_LOADED_IMAGE_PROTOCOL_GUID, a) \<in> set (platform_protocols P)" "a \<noteq> 0" "NewRegion dma a 104 = None"
    and "\<And>f. platform_in P f \<Longrightarrow> load_bytes f a 104 = loaded_image_enc img" "li_Revision img = EFI_LOADED_IMAGE_PROTOCOL_REVISION"
  shows "\<exists>m'. LoadImageHandle dma fw (pf_boot P) h m = Some (Some img, a, None, m')
    \<and> boot_step P own R L N f0 2 [pf_handle P] m m' \<and> loaded (world m') = loaded (world m)"
proof -
  obtain m1 where m1: "HandleProtocol fw (pf_boot P) h EFI_LOADED_IMAGE_PROTOCOL_GUID m = Some (a, None, m1)"
    "boot_step P own R L N f0 2 [pf_handle P] m m1" "loaded (world m1) = loaded (world m)"
    using boot_HandleProtocol [OF assms(1-3,5)] by blast
  have "load_bytes (mem m1) a 104 = loaded_image_enc img"
    by (rule assms(8) [OF boot_step_in [OF m1(2)]])
  then have "decode dma 104 loaded_image_dec a (mem m1) = Some (Inr img)"
    using assms(4,6,7) by (intro loaded_image.decode_stored) (simp_all add: align_def)
  then show ?thesis using m1 assms(9) by (simp add: LoadImageHandle_def)
qed

text \<open>Decoding a struct into an object of the program.\<close>

lemma boot_decode_object:
  assumes "boot_step P own R L N f0 n cs m m1" "objs m \<le> j" "j < objs m1" "length (enc x) \<le> N"
    and "decode dma sz dec a (mem m1) = Some (Inr x)"
  shows "\<exists>m2. decode_object dma sz dec enc (place m j) a m1 = Some (None, m2) \<and> boot_step P own R L N f0 n cs m m2
    \<and> mem m2 = store_bytes (place m j) (enc x) (mem m1) \<and> world m2 = world m1"
proof -
  let ?m2 = "m1\<lparr>mem := store_bytes (place m j) (enc x) (mem m1)\<rparr>"
  note s = assms(1) [unfolded boot_step_def]
  note b = boot_stateD [OF conjunct1 [OF s]]
  have L: "j < L" using b(4) assms(3) by simp
  have "boot_state P own R L N f0 ?m2"
    by (rule boot_store [where m = m1 and j = j and bs = "enc x"]) (use s b(4) L assms(4) in auto)
  moreover have "load_bytes (mem ?m2) (place m i) l = load_bytes (mem m) (place m i) l" if "i < objs m" "l \<le> N" for i l
    using store_other_object [OF b(1), of i j l "enc x" "mem m1"] s that L assms(2,4) b(6) by simp
  ultimately have "boot_step P own R L N f0 n cs m ?m2" using s by (simp add: boot_step_def)
  then show ?thesis using assms(5) by (simp add: decode_object_def)
qed

lemma first_field:
  assumes "length bs = 8 + n" "length bs \<le> 2 ^ 64"
  shows "load64 (store_bytes a bs f) a = of_nat (le_nat (take 8 bs))"
  using load_store_sub [of 0 8 bs a f] assms by (simp add: load64_def)

lemma boot_new_file_protocol:
  assumes "boot_state P own R L N f0 m" "objs m < L" "dma_maps dma" "a \<noteq> 0" "NewRegion dma a 88 = None"
    and "load_bytes (mem (snd (new_obj 88 m))) a 88 = file_protocol_enc v"
    and "fp_Revision v \<in> {EFI_FILE_PROTOCOL_REVISION, EFI_FILE_PROTOCOL_REVISION2}"
  shows "\<exists>m'. new_file_protocol dma a m = Some (place m (objs m), a, None, m') \<and> boot_step P own R L N f0 1 [] m m'
    \<and> load_bytes (mem m') (place m (objs m)) 88 = file_protocol_enc v \<and> world m' = world m"
proof -
  let ?o = "place m (objs m)" and ?m = "snd (new_obj 88 m)"
  have N: "88 \<le> N" using boot_stateD(5) [OF assms(1)] by simp
  have l: "length (file_protocol_enc v) = 88" by (simp add: file_protocol_enc_def)
  have "decode dma 88 file_protocol_dec a (mem ?m) = Some (Inr v)"
    using assms(3-6) by (intro file_protocol.decode_stored) (simp_all add: align_def)
  from boot_decode_object [OF boot_new_obj [OF assms(1,2) N] _ _ _ this, of "objs m" file_protocol_enc] l N
  obtain m2 where m2: "decode_object dma 88 file_protocol_dec file_protocol_enc ?o a ?m = Some (None, m2)"
    "boot_step P own R L N f0 1 [] m m2" "mem m2 = store_bytes ?o (file_protocol_enc v) (mem ?m)" "world m2 = world m"
    by (auto simp: new_obj_def)
  have "load64 (mem m2) ?o = fp_Revision v"
    using first_field [of "file_protocol_enc v" 80] l unat_less_width [of "fp_Revision v"]
    by (simp add: m2(3) file_protocol_enc_def le_simps)
  moreover have "load_bytes (mem m2) ?o 88 = file_protocol_enc v"
    using load_store_same [of "file_protocol_enc v" ?o] l by (simp add: m2(3))
  ultimately show ?thesis using m2 assms(7) by (auto simp: new_file_protocol_def new_obj_def)
qed

lemma boot_openVolume:
  assumes "boot_state P own R L N f0 m" "platform_firmware fw P own k loaded" "platform_ok dma P" "objs m + 2 \<le> L"
    and "i < objs m" "load64 (mem m) (place m i + off_OpenVolume) = sfs_OpenVolume (pf_sfs P)"
  shows "\<exists>m'. openVolume dma fw (place m i) (pf_sfs_at P) m = Some (place m (Suc (objs m)), pf_volume_at P, None, m')
    \<and> boot_step P own R L N f0 2 [sfs_OpenVolume (pf_sfs P)] m m' \<and> loaded (world m') = loaded (world m)
    \<and> load_bytes (mem m') (place m (Suc (objs m))) 88 = file_protocol_enc (pf_volume P)"
proof -
  let ?m1 = "snd (new_obj 8 m)" and ?e = "place m i + off_OpenVolume" and ?c = "place m (objs m)"
  have N: "88 \<le> N" "16 \<le> N" using boot_stateD(5) [OF assms(1)] by simp_all
  have st: "boot_step P own R L N f0 1 [] m ?m1" using boot_new_obj [OF assms(1)] assms(4) N by simp
  have "load_bytes (mem ?m1) (place m i) 16 = load_bytes (mem m) (place m i) 16"
    using st assms(5) N(2) by (simp add: boot_step_def)
  from arg_cong [OF this, of "\<lambda>bs. take 8 (drop 8 bs)"]
  have code: "load64 (mem ?m1) ?e = sfs_OpenVolume (pf_sfs P)"
    using assms(6) by (simp add: load64_def off_OpenVolume_def drop_load_bytes)
  obtain f' w' where call: "fw (sfs_OpenVolume (pf_sfs P)) [pf_sfs_at P, ?c] (mem ?m1) (world ?m1) = (0, f', w')"
    "stores_result own ?c (pf_volume_at P) (mem ?m1) f'" "loaded w' = loaded (world ?m1)"
    using firmware_open [OF assms(2)] by blast
  from boot_call [where fw = fw and j = "objs m", OF st _ _ _ code call(1,2)]
  obtain m2 where m2: "CallService fw ?e [pf_sfs_at P, ?c] ?m1 = (0, m2)" "boot_step P own R L N f0 1 [sfs_OpenVolume (pf_sfs P)] m m2"
    "load64 (mem m2) ?c = pf_volume_at P" "world m2 = w'" by (auto simp: new_obj_def)
  have o: "objs m2 = Suc (objs m)" "place m2 = place m" using m2(2) by (simp_all add: boot_step_def)
  have "objs m2 < L" using o(1) assms(4) by simp
  note st3 = boot_new_obj [OF boot_step_state [OF m2(2)] this N(1)]
  have "load_bytes (mem (snd (new_obj 88 m2))) (pf_volume_at P) 88 = file_protocol_enc (pf_volume P)"
    using boot_step_in [OF st3] by (simp add: platform_in_def)
  then obtain m3 where m3: "new_file_protocol dma (pf_volume_at P) m2 = Some (place m (Suc (objs m)), pf_volume_at P, None, m3)"
    "boot_step P own R L N f0 1 [] m2 m3" "load_bytes (mem m3) (place m (Suc (objs m))) 88 = file_protocol_enc (pf_volume P)"
    "world m3 = world m2"
    using boot_new_file_protocol [OF boot_step_state [OF m2(2)] \<open>objs m2 < L\<close>, of dma "pf_volume_at P" "pf_volume P"] assms(3) o
    by (auto simp: platform_ok_def)
  have "boot_step P own R L N f0 2 [sfs_OpenVolume (pf_sfs P)] m m3"
    using boot_step_trans [OF m2(2) m3(2)] by (simp add: numeral_2_eq_2)
  moreover have "openVolume dma fw (place m i) (pf_sfs_at P) m = Some (place m (Suc (objs m)), pf_volume_at P, None, m3)"
    using m2(1,3) m3(1) by (simp add: openVolume_def case_prod_beta)
  ultimately show ?thesis using m3(3,4) m2(4) call(3) by simp
qed

text \<open>The boot volume: three lookups, then \<^verbatim>\<open>OpenVolume\<close>.\<close>

lemma boot_Root:
  assumes "boot_state P own R L N f0 m" "platform_firmware fw P own k loaded" "platform_ok dma P" "objs m + 9 \<le> L"
    and "sv_Boot svc = Some (pf_boot P)" "sv_imageHandle svc = bs_imageHandle (pf_boot P)"
  shows "\<exists>r m'. Root dma fw svc m = Some (Some r, None, m') \<and> fs_device r = pf_path_at P
    \<and> fs_volume r = Some \<lparr>fl_file = place m (objs m + 8), fl_addr = pf_volume_at P, fl_name = []\<rparr>
    \<and> boot_step P own R L N f0 9 [pf_handle P, pf_handle P, pf_handle P, sfs_OpenVolume (pf_sfs P)] m m'
    \<and> loaded (world m') = loaded (world m)
    \<and> load_bytes (mem m') (place m (objs m + 8)) 88 = file_protocol_enc (pf_volume P)"
proof -
  let ?o = "place m (objs m)"
  have N: "16 \<le> N" using boot_stateD(5) [OF assms(1)] by simp
  note ok = assms(3) [unfolded platform_ok_def]
  define m0 where "m0 = snd (new_obj 16 m)"
  have m0: "new_obj 16 m = (?o, m0)" "boot_step P own R L N f0 1 [] m m0" "world m0 = world m"
    using boot_new_obj [OF assms(1) _ N] assms(4) by (auto simp: m0_def new_obj_def)
  have room: "objs m0 + 8 \<le> L" "place m0 = place m" "objs m0 = Suc (objs m)" using m0(2) assms(4) by (simp_all add: boot_step_def)
  obtain m1 where m1: "LoadImageHandle dma fw (pf_boot P) (bs_imageHandle (pf_boot P)) m0 = Some (Some (pf_image P), pf_image_at P, None, m1)"
      "boot_step P own R L N f0 2 [pf_handle P] m0 m1" "loaded (world m1) = loaded (world m0)"
    using boot_LoadImageHandle [OF boot_step_state [OF m0(2)] assms(2) _ _ platform_protocolsI(1), of dma "pf_image P"]
      ok room by (auto simp: platform_in_def)
  note s1 = boot_step_trans [OF m0(2) m1(2)]
  obtain m2 where m2: "HandleProtocol fw (pf_boot P) (DeviceHandle (pf_image P)) EFI_LOADED_IMAGE_DEVICE_PATH_PROTOCOL_GUID m1 = Some (pf_path_at P, None, m2)"
      "boot_step P own R L N f0 2 [pf_handle P] m1 m2" "loaded (world m2) = loaded (world m1)"
    using boot_HandleProtocol [OF boot_step_state [OF s1] assms(2) _ platform_protocolsI(2)] boot_step_objs(1) [OF s1] assms(4) by auto
  note s2 = boot_step_trans [OF s1 m2(2)]
  obtain m3 where m3: "HandleProtocol fw (pf_boot P) (DeviceHandle (pf_image P)) EFI_SIMPLE_FILE_SYSTEM_PROTOCOL_GUID m2 = Some (pf_sfs_at P, None, m3)"
      "boot_step P own R L N f0 2 [pf_handle P] m2 m3" "loaded (world m3) = loaded (world m2)"
    using boot_HandleProtocol [OF boot_step_state [OF s2] assms(2) _ platform_protocolsI(3)] boot_step_objs(1) [OF s2] assms(4) by auto
  note s3 = boot_step_trans [OF s2 m3(2)]
  have d: "decode dma 16 simple_file_system_dec (pf_sfs_at P) (mem m3) = Some (Inr (pf_sfs P))"
    using ok boot_step_in [OF s3] by (intro simple_file_system.decode_stored) (auto simp: align_def platform_in_def)
  have l: "length (simple_file_system_enc (pf_sfs P)) = 16" by (simp add: simple_file_system_enc_def)
  obtain m4 where m4: "decode_object dma 16 simple_file_system_dec simple_file_system_enc ?o (pf_sfs_at P) m3 = Some (None, m4)"
      "boot_step P own R L N f0 (1 + 2 + 2 + 2) ([] @ [pf_handle P] @ [pf_handle P] @ [pf_handle P]) m m4"
      "mem m4 = store_bytes ?o (simple_file_system_enc (pf_sfs P)) (mem m3)" "world m4 = world m3"
    using boot_decode_object [OF s3 _ _ _ d, of "objs m" simple_file_system_enc] l N boot_step_objs(1) [OF s3] by auto
  have rev: "load64 (mem m4) ?o = sfs_Revision (pf_sfs P)"
    using first_field [of "simple_file_system_enc (pf_sfs P)" 8] l by (simp add: m4(3) simple_file_system_enc_def le_simps)
  have "load_bytes (mem m4) (?o + of_nat 8) 8 = take 8 (drop 8 (simple_file_system_enc (pf_sfs P)))"
    using load_store_sub [of 8 8 "simple_file_system_enc (pf_sfs P)"] l by (simp add: m4(3))
  then have ov: "load64 (mem m4) (?o + off_OpenVolume) = sfs_OpenVolume (pf_sfs P)"
    by (simp add: load64_def off_OpenVolume_def simple_file_system_enc_def le_simps)
  have o4: "objs m4 = objs m + 7" "place m4 = place m" using m4(2) by (simp_all add: boot_step_def)
  obtain m5 where m5: "openVolume dma fw ?o (pf_sfs_at P) m4 = Some (place m (objs m + 8), pf_volume_at P, None, m5)"
      "boot_step P own R L N f0 2 [sfs_OpenVolume (pf_sfs P)] m4 m5" "loaded (world m5) = loaded (world m4)"
      "load_bytes (mem m5) (place m (objs m + 8)) 88 = file_protocol_enc (pf_volume P)"
    using boot_openVolume [OF boot_step_state [OF m4(2)] assms(2,3), of "objs m"] ov o4 assms(4) by (auto simp: add.commute)
  let ?r = "\<lparr>fs_image = Some (pf_image P), fs_device = pf_path_at P, fs_rootaddr = pf_sfs_at P, fs_fs = ?o,
      fs_volume = Some \<lparr>fl_file = place m (objs m + 8), fl_addr = pf_volume_at P, fl_name = []\<rparr>\<rparr>"
  have "boot_step P own R L N f0 9 [pf_handle P, pf_handle P, pf_handle P, sfs_OpenVolume (pf_sfs P)] m m5"
    using boot_step_trans [OF m4(2) m5(2)] by (simp add: eval_nat_numeral)
  moreover have "Root dma fw svc m = Some (Some ?r, None, m5)"
    using m0(1) m1(1) m2(1) m3(1) m4(1) m5(1) assms(5,6) rev ok by (simp add: Root_def)
  ultimately show ?thesis using m5(3,4) m4(4) m3(3) m2(3) m1(3) m0(3) by (intro exI [of _ ?r] exI [of _ m5]) simp
qed

text \<open>Loading the image \<open>k\<close> that lies in memory at \<open>p\<close>.\<close>

lemma boot_LoadImageMem:
  assumes "boot_state P own R L N f0 m" "platform_firmware fw P own k loaded" "platform_ok dma P" "objs m + 2 \<le> L"
    and "fs_device r = pf_path_at P" "length (toUTF16 name) < 65532" "4096 + length (toUTF16 name) \<le> N"
    and "k \<noteq> []" "length k < 2 ^ 64"
    and "\<And>m'. boot_step P own R L N f0 2 [] m m' \<Longrightarrow> load_bytes (mem m') p (length k) = k"
  shows "\<exists>m'. LoadImageMem dma fw (pf_boot P) pol r name (p, length k) m = Some (pf_kernel P, None, m')
    \<and> boot_step P own R L N f0 2 [pf_load P] m m' \<and> loaded (world m') = Some k"
proof -
  let ?m = "snd (new_obj 8 m)" and ?c = "place m (objs m)"
  note ok = assms(3) [unfolded platform_ok_def]
  have st: "boot_step P own R L N f0 1 [] m ?m"
    using boot_new_obj [OF assms(1)] assms(4) boot_stateD(5) [OF assms(1)] by simp
  have "load_bytes (mem ?m) (fs_device r) bufferSize = path_bytes (pf_path P) @ end_node @ pf_path_tail P"
    using boot_step_in [OF st] assms(5) by (simp add: platform_in_def)
  with FilePath_desc [of dma r "pf_path P" "mem ?m" "pf_path_tail P" name] ok assms(5,6)
  obtain fp n where fp: "FilePath dma r name (mem ?m) = Some (pf_path P, fp, path_bytes (pf_path P @ [n]) @ end_node, None)"
    and n: "dp_Data n = toUTF16 name" by auto
  let ?path = "path_bytes (pf_path P @ [n]) @ end_node"
  let ?m1 = "snd (new_slice ?path ?m)"
  have "length (path_bytes (pf_path P)) \<le> 255 * length (pf_path P)" using ok length_path_bytes by blast
  then have "length ?path \<le> N"
    using ok assms(7) by (simp add: path_bytes_append path_bytes_Cons n end_node_def maxDepth_def)
  then have "boot_step P own R L N f0 1 [] ?m ?m1"
    using boot_new_slice [OF boot_step_state [OF st], of ?path] boot_step_objs(1) [OF st] assms(4) by simp
  from boot_step_trans [OF st this] have st1: "boot_step P own R L N f0 2 [] m ?m1" by (simp add: numeral_2_eq_2)
  have code: "load64 (mem ?m1) (bs_base (pf_boot P) + loadImage) = pf_load P"
    using boot_step_in [OF st1] by (simp add: platform_in_def)
  have len: "unat (of_nat (length k) :: u64) = length k" using assms(9) by (rule unat_of_nat_small_u64)
  let ?args = "[word_of_int pol, bs_imageHandle (pf_boot P), place m (Suc (objs m)), p, of_nat (length k), ?c]"
  have "load_bytes (mem ?m1) p (unat (of_nat (length k) :: u64)) = k" unfolding len by (rule assms(10) [OF st1])
  from firmware_load [OF assms(2) this, of "word_of_int pol" "place m (Suc (objs m))" ?c "world ?m1"]
  obtain f' w' where call: "fw (pf_load P) ?args (mem ?m1) (world ?m1) = (0, f', w')"
    "stores_result own ?c (pf_kernel P) (mem ?m1) f'" "loaded w' = Some k" by blast
  obtain m2 where m2: "CallService fw (bs_base (pf_boot P) + loadImage) ?args ?m1 = (0, m2)"
      "boot_step P own R L N f0 2 [pf_load P] m m2" "load64 (mem m2) ?c = pf_kernel P" "world m2 = w'"
    using boot_call [where fw = fw and j = "objs m", OF st1 _ _ _ code call(1,2)] by (auto simp: new_obj_def new_slice_def)
  have "LoadImageMem dma fw (pf_boot P) pol r name (p, length k) m = Some (pf_kernel P, None, m2)"
    using LoadImageMem_call [OF fp, of "(p, length k)" fw "pf_boot P" pol] m2(1,3) assms(8) by (simp add: end_node_def)
  then show ?thesis using m2(2,4) call(3) by blast
qed

text \<open>The whole path: the volume, the image, its protocol.\<close>

lemma boot_kernel:
  assumes "boot_state P own R L N f0 m" "platform_firmware fw P own k loaded" "platform_ok dma P" "objs m + 13 \<le> L"
    and "sv_Boot svc = Some (pf_boot P)" "sv_imageHandle svc = bs_imageHandle (pf_boot P)"
    and "length (toUTF16 name) < 65532" "4096 + length (toUTF16 name) \<le> N" "k \<noteq> []" "length k < 2 ^ 64"
    and "(p, length k) \<in> set R" "load_bytes f0 p (length k) = k"
  shows "\<exists>r m1 m2 m3. Root dma fw svc m = Some (Some r, None, m1)
    \<and> LoadImageMem dma fw (pf_boot P) pol r name (p, length k) m1 = Some (pf_kernel P, None, m2)
    \<and> LoadImageHandle dma fw (pf_boot P) (pf_kernel P) m2 = Some (Some (pf_kernel_image P), pf_kernel_at P, None, m3)
    \<and> boot_step P own R L N f0 13 [pf_handle P, pf_handle P, pf_handle P, sfs_OpenVolume (pf_sfs P), pf_load P, pf_handle P] m m3
    \<and> loaded (world m3) = Some k"
proof -
  note ok = assms(3) [unfolded platform_ok_def]
  obtain r m1 where m1: "Root dma fw svc m = Some (Some r, None, m1)" "fs_device r = pf_path_at P"
      "boot_step P own R L N f0 9 [pf_handle P, pf_handle P, pf_handle P, sfs_OpenVolume (pf_sfs P)] m m1"
    using boot_Root [OF assms(1-3) _ assms(5,6)] assms(4) by auto
  have k: "load_bytes (mem m') p (length k) = k" if "boot_step P own R L N f0 2 [] m1 m'" for m'
    using boot_region [OF boot_step_state [OF that] assms(11)] assms(12) by simp
  obtain m2 where m2: "LoadImageMem dma fw (pf_boot P) pol r name (p, length k) m1 = Some (pf_kernel P, None, m2)"
      "boot_step P own R L N f0 2 [pf_load P] m1 m2" "loaded (world m2) = Some k"
    using boot_LoadImageMem [OF boot_step_state [OF m1(3)] assms(2,3) _ m1(2) assms(7-10) k, where pol = pol] boot_step_objs(1) [OF m1(3)] assms(4)
    by auto
  note s2 = boot_step_trans [OF m1(3) m2(2)]
  obtain m3 where m3: "LoadImageHandle dma fw (pf_boot P) (pf_kernel P) m2 = Some (Some (pf_kernel_image P), pf_kernel_at P, None, m3)"
      "boot_step P own R L N f0 2 [pf_handle P] m2 m3" "loaded (world m3) = loaded (world m2)"
    using boot_LoadImageHandle [OF boot_step_state [OF s2] assms(2) _ _ platform_protocolsI(4), of dma "pf_kernel_image P"]
      ok boot_step_objs(1) [OF s2] assms(4) by (auto simp: platform_in_def)
  from boot_step_trans [OF s2 m3(2)] show ?thesis using m1(1) m2(1,3) m3(1,3) by auto
qed

end
