(* ===== verification/Boot_File.thy ===== *)
theory Boot_File
  imports Boot_Path
begin

text \<open>
  Reading a file of the boot volume over a firmware that does what the UEFI specification documents: opening it
  (\<^verbatim>\<open>FS.Open\<close>) and reading it to its end (\<^verbatim>\<open>io.ReadAll\<close>), with the platform of \<open>Boot_Path\<close> left as it is.
\<close>

section \<open>Definitions\<close>

record boot_file =
  bf_name :: gostring
  bf_file :: file_protocol
  bf_at :: u64 \<comment> \<open>the address of its protocol, once it is open\<close>
  bf_data :: "u8 list"

definition boot_file_ok :: "dma_pkg \<Rightarrow> boot_file \<Rightarrow> bool" where
  "boot_file_ok dma b \<longleftrightarrow> bf_at b \<noteq> 0 \<and> NewRegion dma (bf_at b) 88 = None
     \<and> fp_Revision (bf_file b) \<in> {EFI_FILE_PROTOCOL_REVISION, EFI_FILE_PROTOCOL_REVISION2}"

text \<open>
  \<^verbatim>\<open>Open\<close> of the boot volume finds the file and sets its position to the start; \<^verbatim>\<open>Read\<close> of the file reads on from there.
\<close>

definition file_firmware :: "'w firmware \<Rightarrow> boot_platform \<Rightarrow> u64 set \<Rightarrow> boot_file \<Rightarrow> ('w \<Rightarrow> u8 list) \<Rightarrow> bool" where
  "file_firmware fw P own b rest \<longleftrightarrow>
     (\<forall>cell np f w. load_bytes f np (length (toUTF16 (bf_name b))) = toUTF16 (bf_name b) \<longrightarrow>
        (\<exists>f' w'. fw (fp_Open (pf_volume P)) [pf_volume_at P, cell, np, EFI_FILE_MODE_READ, 0] f w = (EFI_SUCCESS, f', w')
           \<and> stores_result own cell (bf_at b) f f' \<and> rest w' = bf_data b))
     \<and> efi_file_reads fw (fp_Read (bf_file b)) (bf_at b) rest"

section \<open>Lemmas\<close>

lemma firmware_file:
  assumes "file_firmware fw P own b rest" "load_bytes f np (length (toUTF16 (bf_name b))) = toUTF16 (bf_name b)"
  shows "\<exists>f' w'. fw (fp_Open (pf_volume P)) [pf_volume_at P, cell, np, EFI_FILE_MODE_READ, 0] f w = (0, f', w')
    \<and> stores_result own cell (bf_at b) f f' \<and> rest w' = bf_data b"
  by (rule assms(1) [unfolded file_firmware_def EFI_SUCCESS_def, THEN conjunct1, rule_format, OF assms(2)])

text \<open>The entries of a file protocol the program has copied into an object.\<close>

lemma file_entries:
  assumes "load_bytes f a 88 = file_protocol_enc v"
  shows "load64 f (a + off_Open) = fp_Open v" "load64 f (a + off_Read) = fp_Read v"
proof -
  have sub: "load_bytes f (a + of_nat k) 8 = take 8 (drop k (file_protocol_enc v))" if "k \<le> 80" for k
    using that unfolding assms [symmetric] by (simp add: drop_load_bytes take_load_bytes)
  show "load64 f (a + off_Open) = fp_Open v" "load64 f (a + off_Read) = fp_Read v"
    using sub [of 8] sub [of 32] by (simp_all add: load64_def off_Open_def off_Read_def file_protocol_enc_def le_simps)
qed

lemma boot_file_open:
  assumes "boot_state P own R L N f0 m" "file_firmware fw P own b rest" "boot_file_ok dma b" "dma_maps dma" "objs m + 3 \<le> L"
    and "(bf_at b, 88) \<in> set R" "load_bytes f0 (bf_at b) 88 = file_protocol_enc (bf_file b)"
    and "v < objs m" "load_bytes (mem m) (place m v) 88 = file_protocol_enc (pf_volume P)" "length (toUTF16 (bf_name b)) \<le> N"
  shows "\<exists>m'. file_open dma fw (place m v) (pf_volume_at P) (bf_name b) EFI_FILE_MODE_READ m
      = Some (place m (objs m + 2), bf_at b, None, m')
    \<and> boot_step P own R L N f0 3 [fp_Open (pf_volume P)] m m' \<and> rest (world m') = bf_data b
    \<and> load_bytes (mem m') (place m (objs m + 2)) 88 = file_protocol_enc (bf_file b)"
proof -
  let ?name = "toUTF16 (bf_name b)" and ?c = "place m (objs m)" and ?np = "place m (Suc (objs m))" and ?e = "place m v + off_Open"
  define m0 where "m0 = snd (new_obj 8 m)"
  define m1 where "m1 = snd (new_slice ?name m0)"
  have no: "new_obj 8 m = (?c, m0)" "new_slice ?name m0 = (?np, m1)"
    by (simp_all add: m0_def m1_def new_slice_def new_obj_def)
  have N: "88 \<le> N" using boot_stateD(5) [OF assms(1)] by simp
  have o1: "boot_step P own R L N f0 1 [] m m0" using boot_new_obj [OF assms(1)] assms(5) N by (simp add: m0_def)
  have "boot_step P own R L N f0 1 [] m0 m1"
    unfolding m1_def by (rule boot_new_slice [OF boot_step_state [OF o1]]) (use boot_step_objs(1) [OF o1] assms(5,10) in auto)
  from boot_step_trans [OF o1 this] have st: "boot_step P own R L N f0 2 [] m m1" by (simp add: numeral_2_eq_2)
  have "load_bytes (mem m1) (place m v) 88 = file_protocol_enc (pf_volume P)"
    using st assms(8,9) N by (simp add: boot_step_def)
  then have code: "load64 (mem m1) ?e = fp_Open (pf_volume P)" by (rule file_entries)
  have "length ?name \<le> 2 ^ 64" using assms(10) boot_stateD(6) [OF assms(1)] by simp
  then have "load_bytes (mem m1) ?np (length ?name) = ?name"
    using load_store_same [of ?name] by (simp add: m0_def m1_def new_slice_def new_obj_def)
  from firmware_file [OF assms(2) this]
  obtain f' w' where call: "fw (fp_Open (pf_volume P)) [pf_volume_at P, ?c, ?np, EFI_FILE_MODE_READ, 0] (mem m1) (world m1) = (0, f', w')"
    "stores_result own ?c (bf_at b) (mem m1) f'" "rest w' = bf_data b" by blast
  from boot_call [where fw = fw and j = "objs m", OF st _ _ _ code call(1,2)]
  obtain m2 where m2: "CallService fw ?e [pf_volume_at P, ?c, ?np, EFI_FILE_MODE_READ, 0] m1 = (0, m2)"
    "boot_step P own R L N f0 2 [fp_Open (pf_volume P)] m m2" "load64 (mem m2) ?c = bf_at b" "world m2 = w'"
    using boot_step_objs(1) [OF st] by auto
  have o2: "objs m2 = objs m + 2" "place m2 = place m" "objs m2 < L" using boot_step_objs [OF m2(2)] assms(5) by simp_all
  note st3 = boot_new_obj [OF boot_step_state [OF m2(2)] o2(3) N]
  have "load_bytes (mem (snd (new_obj 88 m2))) (bf_at b) 88 = file_protocol_enc (bf_file b)"
    using boot_region [OF boot_step_state [OF st3] assms(6)] assms(7) by simp
  then obtain m3 where m3: "new_file_protocol dma (bf_at b) m2 = Some (place m (objs m + 2), bf_at b, None, m3)"
    "boot_step P own R L N f0 1 [] m2 m3" "load_bytes (mem m3) (place m (objs m + 2)) 88 = file_protocol_enc (bf_file b)"
    "world m3 = world m2"
    using boot_new_file_protocol [OF boot_step_state [OF m2(2)] o2(3) assms(4), of "bf_at b" "bf_file b"] assms(3) o2
    unfolding boot_file_ok_def by (metis (no_types))
  have "boot_step P own R L N f0 3 [fp_Open (pf_volume P)] m m3"
    using boot_step_trans [OF m2(2) m3(2)] by (simp add: eval_nat_numeral)
  moreover have "file_open dma fw (place m v) (pf_volume_at P) (bf_name b) EFI_FILE_MODE_READ m
      = Some (place m (objs m + 2), bf_at b, None, m3)"
    using no m2(1,3) m3(1) by (simp add: file_open_def first_elem_def Let_def)
  ultimately show ?thesis using m3(3,4) m2(4) call(3) by simp
qed

text \<open>Reading leaves the boot path as it is; the content is in an object.\<close>

lemma boot_ReadAll:
  assumes "boot_state P own R L N f0 m" "efi_file_reads fw (fp_Read v) h rest" "h \<noteq> 0"
    and "k < objs m" "load_bytes (mem m) (place m k) 88 = file_protocol_enc v"
    and "objs m + 2 * length (rest (world m)) + 2 \<le> L" "512 \<le> N" "length (rest (world m)) < fuel"
    and "\<And>c. 512 \<le> c \<Longrightarrow> c \<le> length (rest (world m)) \<Longrightarrow> c < grow c \<and> grow c \<le> N"
  shows "\<exists>b m'. ReadAll fuel grow (File_Read fw \<lparr>fl_file = place m k, fl_addr = h, fl_name = name\<rparr>) m
      = Some ((place m b, length (rest (world m))), None, m')
    \<and> load_bytes (mem m') (place m b) (length (rest (world m))) = rest (world m)
    \<and> boot_state P own R L N f0 m' \<and> place m' = place m
    \<and> b < objs m' \<and> objs m' \<le> objs m + 2 * length (rest (world m)) + 2 \<and> length (rest (world m)) \<le> N"
proof -
  let ?fl = "\<lparr>fl_file = place m k, fl_addr = h, fl_name = name\<rparr>"
  let ?R = "platform_regions P @ R"
  let ?x = "(?fl, ?R, f0)"
  note b = boot_stateD [OF assms(1)]
  have ok: "kept_ok fw ?x rest (mem m)"
    using assms(2,3) b(2) file_entries(2) [OF assms(5)] by (simp add: kept_ok_def file_ok_def)
  have "apart (place m i) N (place m k + off_Read) 8" if i: "objs m \<le> i" "i < L" for i
  proof -
    have "apart (place m k) N (place m i) N" using layout_objs [OF b(1)] i assms(4) b(4) by simp
    then have "apart (place m k + of_nat 32) 8 (place m i) N" by (rule apart_sub) (use b(5) in auto)
    then show ?thesis by (simp add: apart_sym off_Read_def)
  qed
  moreover have "fresh_layout (place m) (objs m) L N ?R" by (rule layout_fresh [OF b(1)])
  ultimately have "fresh_layout (place m) (objs m) L N (kept_regions ?x)"
    by (auto simp: fresh_layout_def kept_regions_def file_regions_def)
  from file_reader.ReadAll_content [OF ok this assms(6,7) b(6) assms(8,9)]
  obtain b m' where r: "ReadAll fuel grow (File_Read fw ?fl) m = Some ((place m b, length (rest (world m))), None, m')"
      "load_bytes (mem m') (place m b) (length (rest (world m))) = rest (world m)"
    and m': "kept_ok fw ?x rest (mem m')" "place m' = place m"
      "b < objs m'" "objs m' \<le> objs m + 2 * length (rest (world m)) + 2" "length (rest (world m)) \<le> N" by auto
  have "boot_state P own R L N f0 m'"
    using assms(1,6) m' by (simp add: boot_state_def kept_ok_def)
  with r m' show ?thesis by blast
qed

text \<open>The volume, the file and its content.\<close>

lemma boot_open_read:
  assumes "boot_state P own R L N f0 m" "platform_firmware fw P own k loaded" "platform_ok dma P"
    and "file_firmware fw P own b rest" "boot_file_ok dma b" "(bf_at b, 88) \<in> set R" "load_bytes f0 (bf_at b) 88 = file_protocol_enc (bf_file b)"
    and "sv_Boot svc = Some (pf_boot P)" "sv_imageHandle svc = bs_imageHandle (pf_boot P)" "\<And>i. i < L \<Longrightarrow> place m i \<noteq> 0"
    and "objs m + 14 + 2 * length (bf_data b) \<le> L" "512 \<le> N" "length (toUTF16 (bf_name b)) \<le> N" "length (bf_data b) < fuel"
    and "\<And>c. 512 \<le> c \<Longrightarrow> c \<le> length (bf_data b) \<Longrightarrow> c < grow c \<and> grow c \<le> N"
  shows "\<exists>r m1 file m2 i m3. Root dma fw svc m = Some (Some r, None, m1) \<and> FS_Open dma fw r (bf_name b) m1 = Some (Inr file, m2)
    \<and> ReadAll fuel grow (File_Read fw file) m2 = Some ((place m i, length (bf_data b)), None, m3)
    \<and> load_bytes (mem m3) (place m i) (length (bf_data b)) = bf_data b \<and> boot_state P own R L N f0 m3 \<and> place m3 = place m
    \<and> i < objs m3 \<and> objs m3 \<le> objs m + 14 + 2 * length (bf_data b) \<and> length (bf_data b) \<le> N"
proof -
  note ok = assms(3) [unfolded platform_ok_def]
  obtain r m1 where m1: "Root dma fw svc m = Some (Some r, None, m1)"
      "fs_volume r = Some \<lparr>fl_file = place m (objs m + 8), fl_addr = pf_volume_at P, fl_name = []\<rparr>"
      "boot_step P own R L N f0 9 [pf_handle P, pf_handle P, pf_handle P, sfs_OpenVolume (pf_sfs P)] m m1"
      "load_bytes (mem m1) (place m (objs m + 8)) 88 = file_protocol_enc (pf_volume P)"
    using boot_Root [OF assms(1-3) _ assms(8,9)] assms(11) by auto
  have o1: "objs m1 = objs m + 9" "place m1 = place m" using boot_step_objs [OF m1(3)] by simp_all
  obtain m2 where m2: "file_open dma fw (place m (objs m + 8)) (pf_volume_at P) (bf_name b) EFI_FILE_MODE_READ m1
        = Some (place m (objs m + 11), bf_at b, None, m2)"
      "boot_step P own R L N f0 3 [fp_Open (pf_volume P)] m1 m2" "rest (world m2) = bf_data b"
      "load_bytes (mem m2) (place m (objs m + 11)) 88 = file_protocol_enc (bf_file b)"
    using boot_file_open [OF boot_step_state [OF m1(3)] assms(4,5) _ _ assms(6,7), of "objs m + 8"] m1(4) o1 ok assms(11,13)
    by (auto simp: add.commute)
  have o2: "objs m2 = objs m + 12" "place m2 = place m" using boot_step_objs [OF m2(2)] o1 by simp_all
  let ?fl = "\<lparr>fl_file = place m (objs m + 11), fl_addr = bf_at b, fl_name = bf_name b\<rparr>"
  have "place m (objs m + 8) \<noteq> 0" "pf_volume_at P \<noteq> 0" using assms(10,11) ok by simp_all
  then have op: "FS_Open dma fw r (bf_name b) m1 = Some (Inr ?fl, m2)" using m1(2) m2(1) by (simp add: FS_Open_def)
  have rd: "efi_file_reads fw (fp_Read (bf_file b)) (bf_at b) rest" "bf_at b \<noteq> 0"
    using assms(4,5) by (simp_all add: file_firmware_def boot_file_ok_def)
  obtain i m3 where "ReadAll fuel grow (File_Read fw ?fl) m2 = Some ((place m i, length (bf_data b)), None, m3)"
    "load_bytes (mem m3) (place m i) (length (bf_data b)) = bf_data b" "boot_state P own R L N f0 m3" "place m3 = place m"
    "i < objs m3" "objs m3 \<le> objs m2 + 2 * length (bf_data b) + 2" "length (bf_data b) \<le> N"
    using boot_ReadAll [OF boot_step_state [OF m2(2)] rd, of "objs m + 11" fuel grow "bf_name b"] m2(3,4) o2 assms(11,12,14,15) by auto
  with m1(1) op o2(1) show ?thesis by (intro exI [of _ r] exI [of _ m1] exI [of _ ?fl] exI [of _ m2] exI [of _ i] exI [of _ m3]) simp
qed

end
