(* ===== verification/Boot_Example.thy ===== *)
theory Boot_Example
  imports Boot_File
begin

text \<open>
  A concrete platform on which the boot path runs: the boot services table, the loaded
  image protocols, a device path, a file system protocol and a volume are in low memory, with a
  configuration text, a kernel and a file; Go objects are above 4 GiB. It satisfies the contracts of
  \<open>Boot_Path\<close> and \<open>Boot_File\<close> and instantiates the hypotheses of the properties about the boot path.
\<close>

section \<open>Definitions\<close>

definition ex_boot :: boot_services where
  "ex_boot = \<lparr>bs_base = 16384, bs_imageHandle = 77\<rparr>"

definition ex_image :: loaded_image where
  "ex_image = \<lparr>li_Revision = 0x1000, ParentHandle = 1, li_SystemTable = 4096, DeviceHandle = 55, li_FilePath = 0,
     LoadOptionsSize = 0, LoadOptions = 0, ImageBase = 0, ImageSize = 0, ImageCodeType = 1, ImageDataType = 2,
     Unload = 0\<rparr>"

definition ex_sfs :: simple_file_system where
  "ex_sfs = \<lparr>sfs_Revision = 0x10000, sfs_OpenVolume = 4\<rparr>"

definition ex_volume :: file_protocol where
  "ex_volume = \<lparr>fp_Revision = 0x20000, fp_Open = 5, fp_Close = 6, fp_Delete = 0, fp_Read = 7, fp_Write = 0,
     fp_GetPosition = 0, fp_SetPosition = 0, fp_GetInfo = 8, fp_SetInfo = 0, fp_Flush = 0\<rparr>"

definition ex_platform :: boot_platform where
  "ex_platform = \<lparr>pf_boot = ex_boot, pf_handle = 1, pf_load = 2, pf_image = ex_image, pf_image_at = 0x300000,
     pf_path = demo_nodes, pf_path_tail = replicate (bufferSize - length (path_bytes demo_nodes @ end_node)) 0,
     pf_path_at = 0x200000, pf_sfs = ex_sfs, pf_sfs_at = 0x310000, pf_volume = ex_volume, pf_volume_at = 0x320000,
     pf_kernel = 99, pf_kernel_image = ex_image\<lparr>ParentHandle := 77\<rparr>, pf_kernel_at = 0x330000\<rparr>"

text \<open>A configuration text for a kernel of four bytes.\<close>

definition ex_kernel :: "u8 list" where
  "ex_kernel = [0x4d, 0x5a, 0x90, 0]"

definition ex_config :: "u8 list" where
  "ex_config = [52] @ [10] @ lit ''quiet'' @ [10] @ replicate 10232 0"

definition ex_system_table :: system_table where
  "ex_system_table = demo_system_table\<lparr>st_RuntimeServices := 32768\<rparr>"

definition ex_memory :: memory where
  "ex_memory =
     store64 (16384 + handleProtocol) 1 (store64 (16384 + loadImage) 2 (store64 (16384 + startImage) 3
       (store_bytes 0x300000 (loaded_image_enc ex_image) (store_bytes 0x310000 (simple_file_system_enc ex_sfs)
         (store_bytes 0x320000 (file_protocol_enc ex_volume)
           (store_bytes 0x330000 (loaded_image_enc (pf_kernel_image ex_platform))
             (store_bytes 0x340000 (file_protocol_enc ex_volume)
               (store_bytes 0x20000000 ex_config (store_bytes 0x30000000 ex_kernel
                 (store_bytes 4096 (system_table_enc ex_system_table) demo_path_mem))))))))))"

text \<open>What the runs leave alone besides the platform.\<close>

definition ex_regions :: "(u64 \<times> nat) list" where
  "ex_regions = [(0x20000000, 10240), (0x30000000, 4), (0x340000, 88), (4096, 120), (16384 + getMemoryMap, 8), (16384 + allocatePages, 8)]"

text \<open>A file with this kernel.\<close>

definition ex_file :: boot_file where
  "ex_file = \<lparr>bf_name = lit ''kernel'', bf_file = ex_volume, bf_at = 0x340000, bf_data = ex_kernel\<rparr>"

text \<open>
  The firmware: a protocol lookup by the handle and the first byte of the GUID, loading an image, opening
  the volume and the file, reading; the results go to the cell the program passes. Its state is the image it has
  loaded and what is left of the file. Everything else succeeds without effect.
\<close>

definition ex_firmware :: "(u8 list option \<times> u8 list) firmware" where
  "ex_firmware code args f w =
     (if code = 1 then
        let g = f (args ! 1);
            a = (if g = 0xa1 then (if args ! 0 = 99 then 0x330000 else 0x300000) else if g = 0x91 then 0x200000 else 0x310000)
        in (0, store64 (args ! 2) a f, w)
      else if code = 2 then (0, store64 (args ! 5) 99 f, Some (load_bytes f (args ! 3) (unat (args ! 4))), snd w)
      else if code = 4 then (0, store64 (args ! 1) 0x320000 f, w)
      else if code = 5 then (0, store64 (args ! 1) 0x340000 f, fst w, ex_kernel)
      else if code = 7 then let (st, f', left) = demo_file_firmware code args f (snd w) in (st, f', fst w, left)
      else (0, f, w))"

definition ex_machine :: "(u8 list option \<times> u8 list) machine" where
  "ex_machine = \<lparr>mem = ex_memory, place = (\<lambda>k. of_nat (0x100000 * Suc (k + 4096))), objs = 0, stale = 0,
     calls = [], world = (None, [])\<rparr>"

definition ex_services :: services where
  "ex_services = \<lparr>sv_SystemTable = None, sv_Console = None, sv_Boot = Some ex_boot,
     sv_Runtime = Some \<lparr>rs_base = 32768\<rparr>, sv_imageHandle = 77, sv_systemTable = 4096\<rparr>"

section \<open>Lemmas\<close>

lemma ex_GUIDs:
  "Bytes EFI_LOADED_IMAGE_PROTOCOL_GUID
     = Some [0xa1, 0x31, 0x1b, 0x5b, 0x62, 0x95, 0xd2, 0x11, 0x8e, 0x3f, 0x00, 0xa0, 0xc9, 0x69, 0x72, 0x3b]"
  "Bytes EFI_LOADED_IMAGE_DEVICE_PATH_PROTOCOL_GUID
     = Some [0x91, 0x6e, 0x57, 0x09, 0x3f, 0x6d, 0xd2, 0x11, 0x8e, 0x39, 0x00, 0xa0, 0xc9, 0x69, 0x72, 0x3b]"
  "Bytes EFI_SIMPLE_FILE_SYSTEM_PROTOCOL_GUID
     = Some [0x22, 0x5b, 0x4e, 0x96, 0x59, 0x64, 0xd2, 0x11, 0x8e, 0x39, 0x00, 0xa0, 0xc9, 0x69, 0x72, 0x3b]"
  by code_simp+

lemma store64_result: "stores_result own cell v f (store64 cell v f)"
  by (simp add: stores_result_def load64_store64) (simp add: store64_def store_bytes_def Let_def)

lemma first_byte: "Some (b # bs) = Some (load_bytes f p 16) \<Longrightarrow> f p = b"
  by (simp add: load_bytes_def upt_rec)

lemma ex_firmware_ok: "platform_firmware ex_firmware ex_platform own k fst"
proof -
  note defs = ex_firmware_def ex_platform_def ex_boot_def ex_image_def ex_sfs_def EFI_SUCCESS_def store64_result
  have "\<exists>f' w'. ex_firmware (pf_handle ex_platform) [h, gp, cell] f w = (EFI_SUCCESS, f', w')
      \<and> stores_result own cell a f f' \<and> fst w' = fst w"
    if "(h, g, a) \<in> set (platform_protocols ex_platform)" "Bytes g = Some (load_bytes f gp 16)" for h g a gp cell f w
  proof -
    have "(h, g, a) = (77, EFI_LOADED_IMAGE_PROTOCOL_GUID, 0x300000) \<or> (h, g, a) = (55, EFI_LOADED_IMAGE_DEVICE_PATH_PROTOCOL_GUID, 0x200000)
      \<or> (h, g, a) = (55, EFI_SIMPLE_FILE_SYSTEM_PROTOCOL_GUID, 0x310000) \<or> (h, g, a) = (99, EFI_LOADED_IMAGE_PROTOCOL_GUID, 0x330000)"
      using that(1) by (simp add: platform_protocols_def ex_platform_def ex_boot_def ex_image_def)
    then show ?thesis
      using that(2) by (elim disjE) (simp_all add: ex_GUIDs first_byte defs del: option.inject)
  qed
  moreover have "\<exists>f' w'. ex_firmware (sfs_OpenVolume (pf_sfs ex_platform)) [pf_sfs_at ex_platform, cell] f w = (EFI_SUCCESS, f', w')
      \<and> stores_result own cell (pf_volume_at ex_platform) f f' \<and> fst w' = fst w" for cell f w
    by (simp add: defs)
  moreover have "\<exists>f' w'. ex_firmware (pf_load ex_platform) [policy, h, path, buf, n, cell] f w = (EFI_SUCCESS, f', w')
      \<and> stores_result own cell (pf_kernel ex_platform) f f' \<and> fst w' = Some (load_bytes f buf (unat n))"
    for policy h path buf n cell f w by (simp add: defs)
  ultimately show ?thesis unfolding platform_firmware_def by (intro conjI) blast+
qed

lemma ex_file_firmware_ok: "file_firmware ex_firmware ex_platform own ex_file snd"
proof -
  have open_ok: "\<exists>f' w'. ex_firmware (fp_Open (pf_volume ex_platform)) [h, cell, np, mode, attr] f w = (EFI_SUCCESS, f', w')
      \<and> stores_result own cell (bf_at ex_file) f f' \<and> snd w' = bf_data ex_file" for h cell np mode attr f w
    by (simp add: ex_firmware_def ex_platform_def ex_volume_def ex_file_def EFI_SUCCESS_def store64_result)
  have code: "fp_Read (bf_file ex_file) = 7" by (simp add: ex_file_def ex_volume_def)
  have "efi_file_reads ex_firmware 7 h snd" for h
    unfolding efi_file_reads_def
  proof (intro allI impI)
    fix f :: memory and w :: "u8 list option \<times> u8 list" and sp bp :: u64
    assume "apart sp 8 bp (unat (load64 f sp))"
    from demo_file_reads [of 7 h, unfolded efi_file_reads_def, rule_format, OF this, of "snd w"]
    show "let j = min (unat (load64 f sp)) (length (snd w)) in
      \<exists>f' w'. ex_firmware 7 [h, sp, bp] f w = (EFI_SUCCESS, f', w') \<and> snd w' = drop j (snd w) \<and> load64 f' sp = of_nat j
        \<and> load_bytes f' bp j = take j (snd w) \<and> (\<forall>x. 8 \<le> unat (x - sp) \<and> unat (load64 f sp) \<le> unat (x - bp) \<longrightarrow> f' x = f x)"
      by (auto simp: Let_def ex_firmware_def)
  qed
  with open_ok code show ?thesis unfolding file_firmware_def by auto
qed

lemma ex_layout:
  assumes "list_all (\<lambda>(a, n). unat a + n \<le> 2 ^ 32 \<and> 0 < n) R"
  shows "layout (place ex_machine) 60 65536 R"
proof -
  have pl: "place ex_machine i = of_nat (0x100000 * Suc (i + 4096))" for i by (simp add: ex_machine_def)
  have un: "unat (place ex_machine i) = 0x100000 * Suc (i + 4096)" if "i < 60" for i
    unfolding pl using that by (intro unat_of_nat_small_u64) simp
  have ap: "apart (place ex_machine i) 65536 (place ex_machine j) 65536" if "i < j" "j < 60" for i j
    unfolding pl by (rule apart_multiples) (use that in auto)
  have "apart (place ex_machine i) 65536 (fst r) (snd r)" if i: "i < 60" and r: "r \<in> set R" for i r
  proof -
    have "unat (fst r) + snd r \<le> 2 ^ 32 \<and> 0 < snd r" using assms r by (auto simp: list_all_iff)
    then show ?thesis using un [OF i] i by (intro apart_above) simp_all
  qed
  moreover have "\<forall>i<60. \<forall>j<60. i \<noteq> j \<longrightarrow> apart (place ex_machine i) 65536 (place ex_machine j) 65536"
    using ap apart_sym by (metis linorder_neqE_nat)
  ultimately show ?thesis by (simp add: layout_def)
qed

lemma ex_lengths:
  "length (loaded_image_enc i) = 104" "length (simple_file_system_enc s) = 16" "length (file_protocol_enc v) = 88"
  "length ex_config = 10240" "length ex_kernel = 4" "length (system_table_enc st) = 120"
  by (simp_all add: system_table_enc_def loaded_image_enc_def simple_file_system_enc_def file_protocol_enc_def ex_config_def ex_kernel_def lit_def)

lemma load_store64_apart: "apart a n b 8 \<Longrightarrow> n \<le> 2 ^ 64 \<Longrightarrow> load_bytes (store64 b v f) a n = load_bytes f a n"
  by (simp add: store64_def load_store_apart)

lemma load_stored: "length bs = n \<Longrightarrow> n \<le> 2 ^ 64 \<Longrightarrow> load_bytes (store_bytes a bs f) a n = bs"
  using load_store_same by blast

lemmas ex_memory_simps = ex_memory_def load_store64_apart load_store_apart load_stored apart_def ex_lengths
  handleProtocol_def loadImage_def startImage_def

lemma ex_memory_texts: "load_bytes ex_memory 0x20000000 10240 = ex_config" "load_bytes ex_memory 0x30000000 4 = ex_kernel"
  "load_bytes ex_memory 0x340000 88 = file_protocol_enc ex_volume"
  "load_bytes ex_memory 4096 120 = system_table_enc ex_system_table"
  by (simp_all add: ex_memory_simps)

lemma ex_memory_in: "platform_in ex_platform ex_memory"
  unfolding platform_in_def
proof (intro conjI)
  note P = ex_platform_def ex_boot_def
  show "load64 ex_memory (bs_base (pf_boot ex_platform) + handleProtocol) = pf_handle ex_platform"
    "load64 ex_memory (bs_base (pf_boot ex_platform) + loadImage) = pf_load ex_platform"
    by (simp_all add: P ex_memory_def load64_store64 load64_store64_apart apart_def handleProtocol_def loadImage_def)
  show "load_bytes ex_memory (pf_image_at ex_platform) 104 = loaded_image_enc (pf_image ex_platform)"
    by (simp add: P ex_memory_simps)
  show "load_bytes ex_memory (pf_sfs_at ex_platform) 16 = simple_file_system_enc (pf_sfs ex_platform)"
    by (simp add: P ex_memory_simps)
  show "load_bytes ex_memory (pf_volume_at ex_platform) 88 = file_protocol_enc (pf_volume ex_platform)"
    by (simp add: P ex_memory_simps)
  show "load_bytes ex_memory (pf_kernel_at ex_platform) 104 = loaded_image_enc (pf_kernel_image ex_platform)"
    by (simp add: P ex_memory_simps)
  have "load_bytes ex_memory 0x200000 bufferSize = load_bytes demo_path_mem 0x200000 bufferSize"
    by (simp add: ex_memory_simps bufferSize_def)
  then show "load_bytes ex_memory (pf_path_at ex_platform) bufferSize
      = path_bytes (pf_path ex_platform) @ end_node @ pf_path_tail ex_platform"
    using demo_path_memory by (simp add: demo_fs_def P)
qed

lemma ex_platform_ok: "platform_ok demo_dma ex_platform"
  by (simp add: platform_ok_def demo_dma_maps demo_dma_region ex_platform_def ex_image_def ex_sfs_def ex_volume_def
      demo_nodes_def path_node_def maxDepth_def EFI_LOADED_IMAGE_PROTOCOL_REVISION_def
      EFI_SIMPLE_FILE_SYSTEM_PROTOCOL_REVISION_def EFI_FILE_PROTOCOL_REVISION_def EFI_FILE_PROTOCOL_REVISION2_def)

lemma ex_file_ok: "boot_file_ok demo_dma ex_file"
  by (simp add: boot_file_ok_def ex_file_def ex_volume_def demo_dma_region EFI_FILE_PROTOCOL_REVISION_def EFI_FILE_PROTOCOL_REVISION2_def)

lemma ex_boot_state: "boot_state ex_platform {} ex_regions 60 65536 ex_memory ex_machine"
proof -
  let ?R = "platform_regions ex_platform @ ex_regions"
  have low: "list_all (\<lambda>(a, n). unat a + n \<le> 2 ^ 32 \<and> 0 < n) ?R"
    by (simp add: platform_regions_def ex_regions_def ex_platform_def ex_boot_def handleProtocol_def loadImage_def bufferSize_def
        getMemoryMap_def allocatePages_def)
  then have "same_regions ?R ex_memory ex_memory"
    unfolding same_regions_def by (rule list.pred_mono_strong) auto
  then show ?thesis using ex_memory_in ex_layout [OF low]
    by (simp add: boot_state_def outside_def ex_machine_def)
qed

end
