(* ===== verification/Verify_Stub.thy ===== *)
theory Verify_Stub
  imports Boot_Example
begin

text \<open>
  \<^verbatim>\<open>cmd/efi-verify/main.go\<close>: the stub that starts the kernel placed in memory with it. It reads
  the kernel length and the command line from a configuration text at a fixed address, hands the
  kernel at another fixed address to the firmware, writes the command line into the loaded image
  protocol of the new image and starts it. \<open>svc\<close> is the global \<^verbatim>\<open>x64.UEFI\<close>.
\<close>

section \<open>Definitions\<close>

text \<open>The address of a NUL-terminated UTF-16 copy of a string.\<close>

definition utf16_units_bytes :: "u16 list \<Rightarrow> u8 list" where
  "utf16_units_bytes us = concat (map (\<lambda>u. le_bytes 2 (unat u)) us)"

definition stringToUTF16Ptr :: "gostring \<Rightarrow> 'w machine \<Rightarrow> u64 \<times> 'w machine" where
  "stringToUTF16Ptr s m = new_slice (utf16_units_bytes (utf16_encode (runes s) @ [0])) m"

text \<open>\<^verbatim>\<open>load\<close>: the error of a failed read wraps the cause; the path the source prints into its text is left out.\<close>

definition load :: "dma_pkg \<Rightarrow> 'w firmware \<Rightarrow> nat \<Rightarrow> (nat \<Rightarrow> nat) \<Rightarrow> services \<Rightarrow> gostring \<Rightarrow> 'w machine
    \<Rightarrow> ((gerr + gslice) \<times> 'w machine) option" where
  "load dma fw fuel grow svc path m = do {
     (root, err, m) \<leftarrow> Root dma fw svc m;
     case err of
       Some e \<Rightarrow> Some (Inl (ErrWrap ''could not open root volume '' e), m)
     | None \<Rightarrow> do {
         r \<leftarrow> root;
         (bf, m) \<leftarrow> FS_Open dma fw r path m;
         case bf of
           Inl e \<Rightarrow> Some (Inl (ErrWrap ''could not open kernel '' e), m)
         | Inr f \<Rightarrow> do {
             (data, err, m) \<leftarrow> ReadAll fuel grow (File_Read fw f) m;
             case err of
               Some e \<Rightarrow> Some (Inl (ErrWrap ''Error reading '' e), m)
             | None \<Rightarrow> Some (Inr data, m) } } }"

text \<open>The size written for the command line: two bytes for each byte of the Go string.\<close>

definition cmdline_size :: "gostring \<Rightarrow> u32" where
  "cmdline_size cmdline = of_nat (length cmdline * 2)"

text \<open>
  \<^verbatim>\<open>executeKernel\<close>; its first result is always the empty string. The error of
  \<^verbatim>\<open>LoadImageHandle\<close> is dropped. \<open>None\<close> for \<open>data\<close> is a nil slice.
\<close>

definition executeKernel :: "dma_pkg \<Rightarrow> 'w firmware \<Rightarrow> nat \<Rightarrow> (nat \<Rightarrow> nat) \<Rightarrow> services \<Rightarrow> gostring
    \<Rightarrow> gslice option \<Rightarrow> gostring \<Rightarrow> 'w machine \<Rightarrow> (gerr option \<times> 'w machine) option" where
  "executeKernel dma fw fuel grow svc path data cmdline m = do {
     (root, err, m) \<leftarrow> Root dma fw svc m;
     case err of
       Some e \<Rightarrow> Some (Some (ErrWrap ''could not open root volume '' e), m)
     | None \<Rightarrow> do {
     (d, m) \<leftarrow> (case data of Some b \<Rightarrow> Some (Inr b, m) | None \<Rightarrow> load dma fw fuel grow svc path m);
     case d of
       Inl e \<Rightarrow> Some (Some e, m)
     | Inr buf \<Rightarrow> do {
     boot \<leftarrow> sv_Boot svc;
     r \<leftarrow> root;
     (h, err, m) \<leftarrow> LoadImageMem dma fw boot 0 r path buf m;
     case err of
       Some e \<Rightarrow> Some (Some (ErrWrap ''could not load image '' e), m)
     | None \<Rightarrow> do {
     (_, addr, _, m) \<leftarrow> LoadImageHandle dma fw boot h m;
     let (ptr, m) = stringToUTF16Ptr cmdline m;
     let m = m\<lparr>mem := store32 (addr + 48) (cmdline_size cmdline) (mem m)\<rparr>;
     p \<leftarrow> Ptrval (PtrUint16 ptr);
     let m = m\<lparr>mem := store64 (addr + 56) p (mem m)\<rparr>;
     Some (StartImage fw boot h m) } } } }"

definition kernelPath :: gostring where
  "kernelPath = lit [CHR 0x5c, CHR ''E'', CHR ''F'', CHR ''I'', CHR 0x5c, CHR ''l'', CHR ''i'', CHR ''n'', CHR ''u'',
     CHR ''x'', CHR 0x5c, CHR ''k'', CHR ''e'', CHR ''r'', CHR ''n'', CHR ''e'', CHR ''l'', CHR ''.'', CHR ''e'',
     CHR ''f'', CHR ''i'']"

definition kerOff :: u64 where "kerOff = 0x30000000"
definition cfgOff :: u64 where "cfgOff = 0x20000000"

text \<open>
  \<^verbatim>\<open>main\<close>: \<open>Some code\<close> is \<^verbatim>\<open>os.Exit(code)\<close>, \<open>None\<close> a return. \<^verbatim>\<open>unsafe.Slice\<close> panics on a
  negative length, \<^verbatim>\<open>parts[1]\<close> when the configuration has no line feed; the error of
  \<^verbatim>\<open>Atoi\<close> is dropped.
\<close>

definition verify_main :: "dma_pkg \<Rightarrow> 'w firmware \<Rightarrow> nat \<Rightarrow> (nat \<Rightarrow> nat) \<Rightarrow> services \<Rightarrow> 'w machine
    \<Rightarrow> (int option \<times> 'w machine) option" where
  "verify_main dma fw fuel grow svc m =
     (let cfg = load_bytes (mem m) cfgOff 10240;
          parts = SplitN cfg 10 3;
          kerLen = Atoi (parts ! 0)
      in if kerLen < 0 \<or> length parts < 2 then None
         else do {
           (err, m) \<leftarrow> executeKernel dma fw fuel grow svc kernelPath (Some (kerOff, nat kerLen)) (parts ! 1) m;
           case err of
             Some _ \<Rightarrow> Some (Some 1, m)
           | None \<Rightarrow> do {
               boot \<leftarrow> sv_Boot svc;
               let (err, m) = Exit fw boot 0 m;
               case err of
                 None \<Rightarrow> Some (None, m)
               | Some _ \<Rightarrow> do {
                   rt \<leftarrow> sv_Runtime svc;
                   let (_, m) = ResetSystem fw rt EfiResetShutdown m;
                   Some (None, m) } } })"

text \<open>The machine a kernel is started on, after the last lookup.\<close>

definition with_options :: "u64 \<Rightarrow> gostring \<Rightarrow> 'w machine \<Rightarrow> 'w machine" where
  "with_options addr cmdline m = (snd (stringToUTF16Ptr cmdline m))
     \<lparr>mem := store64 (addr + 56) (place m (objs m)) (store32 (addr + 48) (cmdline_size cmdline) (mem (snd (stringToUTF16Ptr cmdline m))))\<rparr>"

text \<open>Decimal numerals, for describing configuration texts.\<close>

fun decimal :: "nat \<Rightarrow> gostring" where
  "decimal n = (if n < 10 then [of_nat (48 + n)] else decimal (n div 10) @ [of_nat (48 + n mod 10)])"

declare decimal.simps [simp del]

section \<open>Lemmas\<close>

subsection \<open>The configuration text\<close>

lemma parse_digits_append:
  "parse_digits a (xs @ ys) = (case parse_digits a xs of Inr n \<Rightarrow> parse_digits n ys | Inl e \<Rightarrow> Inl e)"
  by (induction a xs rule: parse_digits.induct) auto

lemma digit_range:
  assumes "d < 10"
  shows "in_range 48 57 (of_nat (48 + d)) \<and> unat (of_nat (48 + d) :: u8) = 48 + d
    \<and> of_nat (48 + d) \<noteq> (10 :: u8) \<and> of_nat (48 + d) \<noteq> (45 :: u8) \<and> of_nat (48 + d) \<noteq> (43 :: u8)"
proof -
  have "list_all (\<lambda>d. in_range 48 57 (of_nat (48 + d)) \<and> unat (of_nat (48 + d) :: u8) = 48 + d
    \<and> of_nat (48 + d) \<noteq> (10 :: u8) \<and> of_nat (48 + d) \<noteq> (45 :: u8) \<and> of_nat (48 + d) \<noteq> (43 :: u8)) [0..<10]"
    by code_simp
  moreover have "d \<in> set [0..<10]" using assms by simp
  ultimately show ?thesis unfolding list_all_iff by blast
qed

lemma parse_digit: "d < 10 \<Longrightarrow> 10 * n + d < 2 ^ 64 \<Longrightarrow> parse_digits n [of_nat (48 + d)] = Inr (10 * n + d)"
  using digit_range [of d] by (simp del: of_nat_add)

lemma parse_decimal: "n < 2 ^ 64 \<Longrightarrow> parse_digits 0 (decimal n) = Inr n"
proof (induction n rule: decimal.induct)
  case (1 n)
  show ?case
  proof (cases "n < 10")
    case True
    then show ?thesis using parse_digit [of n 0] by (subst decimal.simps) simp
  next
    case False
    with 1 have "parse_digits 0 (decimal (n div 10)) = Inr (n div 10)" by simp
    moreover have "parse_digits (n div 10) [of_nat (48 + n mod 10)] = Inr n"
      using parse_digit [of "n mod 10" "n div 10"] "1.prems" by simp
    ultimately show ?thesis using False by (subst decimal.simps) (simp add: parse_digits_append del: of_nat_add)
  qed
qed

lemma decimal_chars: "b \<in> set (decimal n) \<Longrightarrow> b \<noteq> 10 \<and> b \<noteq> 45 \<and> b \<noteq> 43"
proof (induction n rule: decimal.induct)
  case (1 n)
  show ?case
  proof (cases "n < 10")
    case True
    with "1.prems" have "b = of_nat (48 + n)" by (subst (asm) decimal.simps) simp
    then show ?thesis using digit_range [OF True] by (simp del: of_nat_add)
  next
    case False
    with "1.prems" have "b \<in> set (decimal (n div 10)) \<or> b = of_nat (48 + n mod 10)"
      by (subst (asm) decimal.simps) auto
    then show ?thesis using "1.IH" [OF False] digit_range [of "n mod 10"] by (auto simp del: of_nat_add)
  qed
qed

lemma decimal_nonempty [simp]: "decimal n \<noteq> []"
  by (subst decimal.simps) simp

lemma Atoi_decimal:
  assumes "n < 2 ^ 63"
  shows "Atoi (decimal n) = int n"
proof -
  have "hd (decimal n) \<noteq> 45" "hd (decimal n) \<noteq> 43"
    using decimal_chars [of "hd (decimal n)" n] by simp_all
  moreover have "parse_digits 0 (decimal n) = Inr n" using assms by (intro parse_decimal) simp
  ultimately show ?thesis using assms by (simp add: Atoi_def)
qed

lemma SplitN_line:
  assumes "10 \<notin> set a"
  shows "SplitN (a @ [10] @ rest) 10 (Suc (Suc n)) = a # SplitN rest 10 (Suc n)"
proof -
  have a: "\<And>x. x \<in> set a \<Longrightarrow> x \<noteq> 10" using assms by auto
  have "takeWhile (\<lambda>b. b \<noteq> 10) (a @ 10 # rest) = a" by (subst takeWhile_append2) (simp_all add: a)
  moreover have "dropWhile (\<lambda>b. b \<noteq> 10) (a @ 10 # rest) = 10 # rest"
    by (subst dropWhile_append2) (simp_all add: a)
  ultimately show ?thesis by simp
qed

lemma SplitN_config:
  assumes "10 \<notin> set a" "10 \<notin> set b"
  shows "SplitN (a @ [10] @ b @ [10] @ rest) 10 3 = [a, b, rest]"
  using SplitN_line [OF assms(1), of "b @ [10] @ rest" 1] SplitN_line [OF assms(2), of rest 0]
  by (simp add: numeral_3_eq_3 numeral_2_eq_2)

lemma config_parts:
  assumes "load_bytes f cfgOff 10240 = decimal n @ [10] @ cmdline @ [10] @ rest" "10 \<notin> set cmdline"
  shows "SplitN (load_bytes f cfgOff 10240) 10 3 = [decimal n, cmdline, rest]"
proof -
  have "10 \<notin> set (decimal n)" using decimal_chars by blast
  then show ?thesis unfolding assms(1) by (rule SplitN_config [OF _ assms(2)])
qed

subsection \<open>The command line\<close>

lemma length_utf16_units_bytes [simp]: "length (utf16_units_bytes us) = 2 * length us"
  by (induction us) (simp_all add: utf16_units_bytes_def)

lemma le_units_units_bytes: "le_units (utf16_units_bytes us) = us"
proof (induction us)
  case (Cons u us)
  have "le_nat (le_bytes 2 (unat u)) = unat u" using unat_less_width [of u] by (simp add: le_nat_le_bytes)
  then have "(of_nat (le_nat [of_nat (unat u), of_nat (unat u div 256)]) :: u16) = u"
    by (simp only: le_bytes_two) simp
  with Cons show ?case by (simp add: utf16_units_bytes_def le_bytes_two del: le_nat.simps)
qed (simp add: utf16_units_bytes_def)

lemma rune_lengths:
  assumes "scalar r"
  shows "length (utf16_units r) \<le> length (utf8_encode r)"
    and "length (utf16_units r) = length (utf8_encode r) \<longleftrightarrow> r < 128"
  using assms by (auto simp: utf16_units_def utf8_encode_def scalar_def)

lemma text_lengths:
  "list_all scalar rs \<Longrightarrow> length (utf16_encode rs) \<le> length (concat (map utf8_encode rs))
     \<and> (length (utf16_encode rs) = length (concat (map utf8_encode rs)) \<longleftrightarrow> list_all (\<lambda>r. r < 128) rs)"
proof (induction rs)
  case (Cons r rs)
  then show ?case using rune_lengths [of r] by (auto simp: utf16_encode_Cons)
qed simp

text \<open>Writing the command line: the two stores leave each other and the text alone.\<close>

lemma cmdline_stores:
  fixes f :: memory and n :: u32
  assumes room: "apart (addr + 48) 16 p (length bs)" and len: "length bs \<le> 2 ^ 64" "0 < length bs"
  defines "g \<equiv> store64 (addr + 56) p (store32 (addr + 48) n (store_bytes p bs f))"
  shows "load32 g (addr + 48) = n" "load64 g (addr + 56) = p" "load_bytes g p (length bs) = bs"
proof -
  have "apart (addr + 48) 4 (addr + 56) 8" by (simp add: apart_def)
  then show "load32 g (addr + 48) = n" by (simp add: g_def load32_store64_apart load32_store32)
  show "load64 g (addr + 56) = p" by (simp add: g_def load64_store64)
  have "apart (addr + 48 + of_nat 8) 8 p (length bs)" "apart (addr + 48 + of_nat 0) 4 p (length bs)"
    by (rule apart_sub [OF room]; simp)+
  then have a: "apart p (length bs) (addr + 56) 8" "apart p (length bs) (addr + 48) 4"
    by (simp_all add: apart_sym add.assoc)
  have "load_bytes g p (length bs) = load_bytes (store_bytes p bs f) p (length bs)"
    using a len(1) by (simp add: g_def store64_def store32_def load_store_apart)
  then show "load_bytes g p (length bs) = bs" using load_store_same [OF len(1)] by simp
qed

text \<open>A store inside a region.\<close>

lemma load_store_within:
  assumes "k + length bs \<le> n" "n < 2 ^ 63"
  shows "load_bytes (store_bytes (a + of_nat k) bs f) a n = take k (load_bytes f a n) @ bs @ drop (k + length bs) (load_bytes f a n)"
proof (rule nth_equalityI)
  fix i assume "i < length (load_bytes (store_bytes (a + of_nat k) bs f) a n)"
  then have i: "i < n" by simp
  have u: "unat (of_nat i :: u64) = i" "unat (of_nat k :: u64) = k"
    using i assms by (simp_all add: unat_of_nat_small_u64)
  then have d: "unat (of_nat i - of_nat k :: u64) = (if k \<le> i then i - k else i + 2 ^ 64 - k)"
    by (simp only: unat_sub_if') simp
  show "load_bytes (store_bytes (a + of_nat k) bs f) a n ! i
      = (take k (load_bytes f a n) @ bs @ drop (k + length bs) (load_bytes f a n)) ! i"
    using i assms by (auto simp: nth_append store_bytes_def d Let_def)
qed (use assms in simp)

lemma load_options_stored:
  assumes "load_bytes f a 104 = loaded_image_enc i"
  shows "load_bytes (store64 (a + 56) p (store32 (a + 48) n f)) a 104
    = loaded_image_enc (i\<lparr>LoadOptionsSize := n, LoadOptions := p\<rparr>)"
proof -
  note w = load_store_within [where k = 48 and n = 104 and a = a] load_store_within [where k = 56 and n = 104 and a = a]
  show ?thesis using assms
    by (simp add: store64_def store32_def w [simplified] loaded_image_enc_def)
qed

lemma executeKernel_eq:
  assumes "Root dma fw svc m = Some (Some r, None, m1)" "sv_Boot svc = Some boot"
    and "LoadImageMem dma fw boot 0 r path buf m1 = Some (h, None, m2)"
    and "LoadImageHandle dma fw boot h m2 = Some (img, addr, err, m3)"
  shows "executeKernel dma fw fuel grow svc path (Some buf) cmdline m = Some (StartImage fw boot h (with_options addr cmdline m3))"
  using assms by (simp add: executeKernel_def with_options_def stringToUTF16Ptr_def new_slice_def Ptrval_def)

text \<open>The load options over a documented firmware.\<close>

lemma boot_with_options:
  assumes "boot_state P own R L N f0 m" "objs m < L" "2 * Suc (length (utf16_encode (runes cmdline))) \<le> N"
  defines "m' \<equiv> with_options (pf_kernel_at P) cmdline m" and "p \<equiv> place m (objs m)"
  shows "load_bytes (mem m') (pf_kernel_at P) 104
      = loaded_image_enc ((pf_kernel_image P)\<lparr>LoadOptionsSize := cmdline_size cmdline, LoadOptions := p\<rparr>)"
    and "le_units (load_bytes (mem m') p (2 * Suc (length (utf16_encode (runes cmdline))))) = utf16_encode (runes cmdline) @ [0]"
    and "calls m' = calls m" "world m' = world m"
proof -
  let ?us = "utf16_encode (runes cmdline) @ [0]" and ?a = "pf_kernel_at P"
  let ?bs = "utf16_units_bytes ?us"
  have l: "length ?bs = 2 * Suc (length (utf16_encode (runes cmdline)))" by simp
  have m': "mem m' = store64 (?a + 56) p (store32 (?a + 48) (cmdline_size cmdline) (store_bytes p ?bs (mem m)))"
    by (simp add: m'_def p_def with_options_def stringToUTF16Ptr_def new_slice_def)
  have "platform_in P (mem (snd (new_slice ?bs m)))"
    by (rule boot_step_in [OF boot_new_slice [OF assms(1,2)]]) (use assms(3) l in simp)
  then have "load_bytes (store_bytes p ?bs (mem m)) ?a 104 = loaded_image_enc (pf_kernel_image P)"
    by (simp add: platform_in_def new_slice_def p_def)
  then show "load_bytes (mem m') ?a 104 = loaded_image_enc ((pf_kernel_image P)\<lparr>LoadOptionsSize := cmdline_size cmdline, LoadOptions := p\<rparr>)"
    unfolding m' by (rule load_options_stored)
  have "(?a, 104) \<in> set (platform_regions P @ R)" by (simp add: platform_regions_def)
  from boot_stateD(9) [OF assms(1) this assms(2)]
  have "apart ?a 104 p (length ?bs)" using assms(3) l by (simp add: apart_def p_def)
  from apart_sub [OF this, of 48 16] have "apart (?a + 48) 16 p (length ?bs)" by simp
  moreover have "length ?bs \<le> 2 ^ 64" "0 < length ?bs" using assms(3) boot_stateD(6) [OF assms(1)] by simp_all
  ultimately show "le_units (load_bytes (mem m') p (2 * Suc (length (utf16_encode (runes cmdline))))) = ?us"
    using cmdline_stores(3) [of ?a p ?bs "cmdline_size cmdline" "mem m"] le_units_units_bytes [of ?us] l
    by (simp only: m')
  show "calls m' = calls m" "world m' = world m"
    by (simp_all add: m'_def with_options_def stringToUTF16Ptr_def)
qed

lemma kernelPath_length: "length (toUTF16 kernelPath) = 44"
proof -
  have "list_all (\<lambda>b. unat b < 128) kernelPath" "length kernelPath = 21" by code_simp+
  then show ?thesis using utf16_encode_ascii [of "map unat kernelPath"] runes_ascii [of kernelPath]
    by (simp add: length_toUTF16 list_all_iff)
qed

text \<open>
  From the configuration to the kernel over a documented firmware: six calls, and the image is loaded and has its load options
  when it is started.
\<close>

lemma verify_main_starts_kernel:
  assumes "boot_state P own R L N (mem m) m" "platform_firmware fw P own k loaded" "platform_ok dma P" "objs m + 14 \<le> L"
    and "sv_Boot svc = Some (pf_boot P)" "sv_imageHandle svc = bs_imageHandle (pf_boot P)" "sv_Runtime svc = Some rt"
    and "load_bytes (mem m) cfgOff 10240 = decimal (length k) @ [10] @ cmdline @ [10] @ rest" "10 \<notin> set cmdline"
    and "(kerOff, length k) \<in> set R" "load_bytes (mem m) kerOff (length k) = k" "k \<noteq> []" "length k < 2 ^ 63"
    and "4140 \<le> N" "2 * Suc (length (utf16_encode (runes cmdline))) \<le> N"
  defines "p \<equiv> place m (objs m + 13)"
  shows "\<exists>m4. map call_code (calls m4) = map call_code (calls m)
        @ [pf_handle P, pf_handle P, pf_handle P, sfs_OpenVolume (pf_sfs P), pf_load P, pf_handle P]
    \<and> loaded (world m4) = Some k
    \<and> load_bytes (mem m4) (pf_kernel_at P) 104
      = loaded_image_enc ((pf_kernel_image P)\<lparr>LoadOptionsSize := cmdline_size cmdline, LoadOptions := p\<rparr>)
    \<and> le_units (load_bytes (mem m4) p (2 * Suc (length (utf16_encode (runes cmdline))))) = utf16_encode (runes cmdline) @ [0]
    \<and> verify_main dma fw fuel grow svc m =
      (case StartImage fw (pf_boot P) (pf_kernel P) m4 of
         (Some e, m5) \<Rightarrow> Some (Some 1, m5)
       | (None, m5) \<Rightarrow>
           let (err, m6) = Exit fw (pf_boot P) 0 m5
           in Some (None, if err = None then m6 else snd (ResetSystem fw rt EfiResetShutdown m6)))"
proof -
  have len: "length (toUTF16 kernelPath) < 65532" "4096 + length (toUTF16 kernelPath) \<le> N" "length k < 2 ^ 64" "objs m + 13 \<le> L"
    using assms(4,13,14) by (simp_all add: kernelPath_length)
  obtain r m1 m2 m3 where run: "Root dma fw svc m = Some (Some r, None, m1)"
      "LoadImageMem dma fw (pf_boot P) 0 r kernelPath (kerOff, length k) m1 = Some (pf_kernel P, None, m2)"
      "LoadImageHandle dma fw (pf_boot P) (pf_kernel P) m2 = Some (Some (pf_kernel_image P), pf_kernel_at P, None, m3)"
    and st: "boot_step P own R L N (mem m) 13
      [pf_handle P, pf_handle P, pf_handle P, sfs_OpenVolume (pf_sfs P), pf_load P, pf_handle P] m m3"
    and ld: "loaded (world m3) = Some k"
    using boot_kernel [OF assms(1-3) len(4) assms(5,6) len(1,2) assms(12) len(3) assms(10,11), of 0] by blast
  have p: "place m3 (objs m3) = p" "objs m3 < L" using boot_step_objs [OF st] assms(4) by (simp_all add: p_def)
  let ?m4 = "with_options (pf_kernel_at P) cmdline m3"
  note opt = boot_with_options [OF boot_step_state [OF st] p(2) assms(15), unfolded p(1)]
  have "verify_main dma fw fuel grow svc m =
      (case StartImage fw (pf_boot P) (pf_kernel P) ?m4 of
         (Some e, m5) \<Rightarrow> Some (Some 1, m5)
       | (None, m5) \<Rightarrow>
           let (err, m6) = Exit fw (pf_boot P) 0 m5
           in Some (None, if err = None then m6 else snd (ResetSystem fw rt EfiResetShutdown m6)))"
    using Atoi_decimal [OF assms(13)] config_parts [OF assms(8,9)] executeKernel_eq [OF run(1) assms(5) run(2,3)] assms(5,7)
    by (auto simp: verify_main_def Let_def split: option.split prod.split)
  then show ?thesis using opt ld st by (intro exI [of _ ?m4]) (simp add: boot_step_def)
qed

subsection \<open>The example platform\<close>

lemma quiet_length: "length (utf16_encode (runes (lit ''quiet''))) = 5"
  using utf16_encode_ascii [of "map unat (lit ''quiet'')"] runes_ascii [of "lit ''quiet''"] by (simp add: lit_def)

lemma ex_kernel_boots:
  "\<exists>r m1 m2 m3. Root demo_dma ex_firmware ex_services ex_machine = Some (Some r, None, m1)
    \<and> LoadImageMem demo_dma ex_firmware ex_boot 0 r kernelPath (kerOff, 4) m1 = Some (99, None, m2)
    \<and> LoadImageHandle demo_dma ex_firmware ex_boot 99 m2 = Some (Some (pf_kernel_image ex_platform), 0x330000, None, m3)
    \<and> objs m3 = 13 \<and> place m3 = place ex_machine"
proof -
  have P: "sv_Boot ex_services = Some (pf_boot ex_platform)" "sv_imageHandle ex_services = bs_imageHandle (pf_boot ex_platform)"
    "objs ex_machine + 13 \<le> 60" "pf_kernel ex_platform = 99" "pf_kernel_at ex_platform = 0x330000" "pf_boot ex_platform = ex_boot"
    by (simp_all add: ex_services_def ex_platform_def ex_boot_def ex_machine_def)
  have k: "(kerOff, length ex_kernel) \<in> set ex_regions" "load_bytes ex_memory kerOff (length ex_kernel) = ex_kernel"
    "ex_kernel \<noteq> []" "length ex_kernel < 2 ^ 64" "length ex_kernel = 4"
    using ex_memory_texts(2) by (simp_all add: ex_lengths kerOff_def ex_regions_def) (simp add: ex_kernel_def)
  have l: "length (toUTF16 kernelPath) < 65532" "4096 + length (toUTF16 kernelPath) \<le> 65536" by (simp_all add: kernelPath_length)
  from boot_kernel [OF ex_boot_state ex_firmware_ok ex_platform_ok P(3,1,2) l k(3,4,1,2), of 0]
  obtain r m1 m2 m3 where *: "Root demo_dma ex_firmware ex_services ex_machine = Some (Some r, None, m1)"
    "LoadImageMem demo_dma ex_firmware ex_boot 0 r kernelPath (kerOff, 4) m1 = Some (99, None, m2)"
    "LoadImageHandle demo_dma ex_firmware ex_boot 99 m2 = Some (Some (pf_kernel_image ex_platform), 0x330000, None, m3)"
    and st: "boot_step ex_platform {} ex_regions 60 65536 ex_memory 13
      [pf_handle ex_platform, pf_handle ex_platform, pf_handle ex_platform, sfs_OpenVolume (pf_sfs ex_platform), pf_load ex_platform,
       pf_handle ex_platform] ex_machine m3"
    unfolding P k(5) by blast
  have "objs m3 = 13" "place m3 = place ex_machine" using boot_step_objs [OF st] by (simp_all add: ex_machine_def)
  with * show ?thesis by blast
qed

section \<open>Properties\<close>

text \<open>
  Claim C2: starting the kernel. Once the root volume is open and the firmware has loaded the
  image, \<^verbatim>\<open>executeKernel\<close> makes one more lookup and then starts the handle the firmware
  returned for it. At that call the load options size of the protocol (offset 48 from the address
  looked up) is twice the byte length of the command line, the load options pointer (offset 56)
  points to a fresh buffer, and the buffer holds the command line in UTF-16 with a terminating
  NUL. The result is the status of \<^verbatim>\<open>StartImage\<close>. This holds whatever error the lookup
  reported: the program does not look at it.
\<close>

theorem executeKernel_starts:
  assumes "Root dma fw svc m = Some (Some r, None, m1)" "sv_Boot svc = Some boot"
    and "LoadImageMem dma fw boot 0 r path buf m1 = Some (h, None, m2)"
    and "LoadImageHandle dma fw boot h m2 = Some (img, addr, err, m3)"
    and "apart (addr + 48) 16 (place m3 (objs m3)) (2 * Suc (length (utf16_encode (runes cmdline))))"
    and "length (utf16_encode (runes cmdline)) < 2 ^ 30"
  shows "\<exists>m4. executeKernel dma fw fuel grow svc path (Some buf) cmdline m = Some (StartImage fw boot h m4)
    \<and> calls m4 = calls m3 \<and> world m4 = world m3
    \<and> load32 (mem m4) (addr + 48) = cmdline_size cmdline
    \<and> load64 (mem m4) (addr + 56) = place m3 (objs m3)
    \<and> le_units (load_bytes (mem m4) (place m3 (objs m3)) (2 * Suc (length (utf16_encode (runes cmdline)))))
      = utf16_encode (runes cmdline) @ [0]"
proof -
  let ?us = "utf16_encode (runes cmdline) @ [0]" and ?p = "place m3 (objs m3)"
  let ?m4 = "with_options addr cmdline m3"
  have l: "length (utf16_units_bytes ?us) = 2 * Suc (length (utf16_encode (runes cmdline)))" by simp
  have "apart (addr + 48) 16 ?p (length (utf16_units_bytes ?us))" "length (utf16_units_bytes ?us) \<le> 2 ^ 64"
    "0 < length (utf16_units_bytes ?us)" using assms(5,6) by simp_all
  note st = cmdline_stores [OF this, of "cmdline_size cmdline" "mem m3"]
  have "mem ?m4 = store64 (addr + 56) ?p (store32 (addr + 48) (cmdline_size cmdline) (store_bytes ?p (utf16_units_bytes ?us) (mem m3)))"
    "calls ?m4 = calls m3" "world ?m4 = world m3"
    by (simp_all add: with_options_def stringToUTF16Ptr_def new_slice_def)
  then show ?thesis using st le_units_units_bytes [of ?us] l executeKernel_eq [OF assms(1-4)]
    by (intro exI [of _ ?m4]) simp
qed

text \<open>
  Claim C31: the size of the command line. For Unicode text the size written for the command line
  is the number of bytes of its UTF-16 encoding exactly when the text is ASCII; for any other
  text it is larger, so the kernel is told that the text goes on after its terminator.
\<close>

theorem cmdline_size_ascii:
  assumes "list_all scalar rs" "length (concat (map utf8_encode rs)) < 2 ^ 31"
  defines "s \<equiv> concat (map utf8_encode rs)"
  shows "(unat (cmdline_size s) = 2 * length (utf16_encode (runes s)) \<longleftrightarrow> list_all (\<lambda>r. r < 128) rs)
    \<and> 2 * length (utf16_encode (runes s)) \<le> unat (cmdline_size s)"
proof -
  have "unat (cmdline_size s) = 2 * length s"
    using assms(2) by (simp add: s_def cmdline_size_def unat_of_nat del: length_concat of_nat_mult)
  moreover have "runes s = rs" unfolding s_def by (rule runes_utf8 [OF assms(1)])
  ultimately show ?thesis using text_lengths [OF assms(1)] by (auto simp: s_def simp del: length_concat)
qed

theorem cmdline_size_ascii_witness:
  "(unat (cmdline_size (concat (map utf8_encode [97, 228]))) =
       2 * length (utf16_encode (runes (concat (map utf8_encode [97, 228]))))
      \<longleftrightarrow> list_all (\<lambda>r. r < 128) [97, 228 :: nat])
    \<and> 2 * length (utf16_encode (runes (concat (map utf8_encode [97, 228]))))
      \<le> unat (cmdline_size (concat (map utf8_encode [97, 228])))"
  by (rule cmdline_size_ascii) (simp_all add: scalar_def utf8_encode_def)

theorem executeKernel_starts_witness:
  "\<exists>h addr (m3 :: (u8 list option \<times> u8 list) machine) m4. executeKernel demo_dma ex_firmware 9 (\<lambda>c. 2 * c) ex_services kernelPath (Some (kerOff, 4)) (lit ''quiet'') ex_machine
        = Some (StartImage ex_firmware ex_boot h m4)
     \<and> calls m4 = calls m3 \<and> world m4 = world m3
     \<and> load32 (mem m4) (addr + 48) = cmdline_size (lit ''quiet'')
     \<and> load64 (mem m4) (addr + 56) = place m3 (objs m3)
     \<and> le_units (load_bytes (mem m4) (place m3 (objs m3)) (2 * Suc (length (utf16_encode (runes (lit ''quiet''))))))
        = utf16_encode (runes (lit ''quiet'')) @ [0]"
proof -
  obtain r m1 m2 m3 where m: "Root demo_dma ex_firmware ex_services ex_machine = Some (Some r, None, m1)"
      "LoadImageMem demo_dma ex_firmware ex_boot 0 r kernelPath (kerOff, 4) m1 = Some (99, None, m2)"
      "LoadImageHandle demo_dma ex_firmware ex_boot 99 m2 = Some (Some (pf_kernel_image ex_platform), 0x330000, None, m3)"
      "objs m3 = 13" "place m3 = place ex_machine"
    using ex_kernel_boots by blast
  then have "place m3 (objs m3) = 0x100E00000" by (simp add: ex_machine_def)
  then have ap: "apart (0x330000 + 48) 16 (place m3 (objs m3)) (2 * Suc (length (utf16_encode (runes (lit ''quiet'')))))"
    by (simp add: apart_def quiet_length)
  have b: "sv_Boot ex_services = Some ex_boot" by (simp add: ex_services_def)
  have len: "length (utf16_encode (runes (lit ''quiet''))) < 2 ^ 30" using quiet_length by simp
  show ?thesis
    by (rule exI [of _ "99 :: u64"], rule exI [of _ "0x330000 :: u64"], rule exI [of _ m3],
        rule executeKernel_starts [OF m(1) b m(2,3) ap len])
qed

text \<open>
  Claim C3: from the configuration to the boot. When the configuration text is a decimal kernel
  length, a line feed, the command line and another line feed, \<^verbatim>\<open>main\<close> hands the kernel of
  that length at its fixed address and that command line to \<^verbatim>\<open>executeKernel\<close>. If that fails
  the program exits with code 1 and makes no further call; if the kernel returns, the program
  asks the firmware to exit with status 0, and to shut down only if that fails.
\<close>

theorem verify_main_boots:
  assumes "load_bytes (mem m) cfgOff 10240 = decimal n @ [10] @ cmdline @ [10] @ rest"
    and "10 \<notin> set cmdline" "n < 2 ^ 63" "sv_Boot svc = Some boot" "sv_Runtime svc = Some rt"
  shows "verify_main dma fw fuel grow svc m =
    (case executeKernel dma fw fuel grow svc kernelPath (Some (kerOff, n)) cmdline m of
       None \<Rightarrow> None
     | Some (Some e, m1) \<Rightarrow> Some (Some 1, m1)
     | Some (None, m1) \<Rightarrow>
         let (err, m2) = Exit fw boot 0 m1
         in Some (None, if err = None then m2 else snd (ResetSystem fw rt EfiResetShutdown m2)))"
  using assms(4,5) Atoi_decimal [OF assms(3)] config_parts [OF assms(1,2)]
  by (auto simp: verify_main_def Let_def split: option.split prod.split)

theorem verify_main_boots_witness:
  "verify_main demo_dma ex_firmware 9 (\<lambda>c. 2 * c) ex_services
     (ex_machine\<lparr>mem := store_bytes cfgOff (decimal 4096 @ [10] @ lit ''quiet'' @ [10] @ replicate 10229 0) ex_memory\<rparr>) =
    (case executeKernel demo_dma ex_firmware 9 (\<lambda>c. 2 * c) ex_services kernelPath (Some (kerOff, 4096)) (lit ''quiet'')
       (ex_machine\<lparr>mem := store_bytes cfgOff (decimal 4096 @ [10] @ lit ''quiet'' @ [10] @ replicate 10229 0) ex_memory\<rparr>) of
       None \<Rightarrow> None
     | Some (Some e, m1) \<Rightarrow> Some (Some 1, m1)
     | Some (None, m1) \<Rightarrow>
         let (err, m2) = Exit ex_firmware ex_boot 0 m1
         in Some (None, if err = None then m2 else snd (ResetSystem ex_firmware \<lparr>rs_base = 32768\<rparr> EfiResetShutdown m2)))"
proof (rule verify_main_boots)
  let ?cfg = "decimal 4096 @ [10] @ lit ''quiet'' @ [10] @ replicate 10229 0"
  have "length (decimal 4096) = 4" by (simp add: decimal.simps [of 4096] decimal.simps [of 409] decimal.simps [of 40] decimal.simps [of 4])
  then have "length ?cfg = 10240" by (simp add: lit_def)
  with load_store_same [of ?cfg cfgOff ex_memory]
  show "load_bytes (mem (ex_machine\<lparr>mem := store_bytes cfgOff ?cfg ex_memory\<rparr>)) cfgOff 10240 = ?cfg"
    by (simp only: machine.select_convs machine.update_convs machine.surjective) simp
qed (simp_all add: lit_def ex_services_def)

end
