(* ===== verification/Heap_Init.thy ===== *)
theory Heap_Init
  imports Boot_Services
begin

text \<open>
  \<^verbatim>\<open>pkg/ueficore/x64\<close>: the initialisation that runs before \<^verbatim>\<open>main\<close>. \<^verbatim>\<open>x64.go\<close> sets
  the clock and initialises the EFI services; \<^verbatim>\<open>mem.go\<close> looks for the Go runtime's memory in
  the firmware's memory map and claims the pages behind the program's code as its heap.

  The memory region of the Go runtime, the real-time clock and the CPU's clock belong to the
  \<^verbatim>\<open>tamago\<close> runtime; they are parameters. The messages of the code are values here: the list
  of warnings is a result.
\<close>

section \<open>Definitions\<close>

subsection \<open>mem.go\<close>

definition initial_RamSize :: u64 where "initial_RamSize = 0x2c000000"

text \<open>
  The loop over the descriptors; its state is \<^verbatim>\<open>heapStart\<close>, \<^verbatim>\<open>ramEnd\<close> and the global
  \<^verbatim>\<open>RamSize\<close>. The descriptor after the one of the program's code ends it.
\<close>

fun heap_scan :: "u64 \<Rightarrow> memory_descriptor list \<Rightarrow> u64 \<times> u64 \<times> u64 \<Rightarrow> u64 \<times> u64 \<times> u64" where
  "heap_scan ramStart [] st = st"
| "heap_scan ramStart (desc # ds) (heapStart, ramEnd, ramSize) =
     (if heapStart > 0
      then let ramEnd = heapStart + word_of_int (descriptor_Size desc)
           in (heapStart, ramEnd, ramEnd - ramStart)
      else if md_Type desc = EfiLoaderCode \<and> PhysicalStart desc = ramStart
      then heap_scan ramStart ds (PhysicalEnd desc, ramEnd, ramSize)
      else heap_scan ramStart ds (heapStart, ramEnd, ramSize))"

datatype warning = NoMemoryMap gerr | NoHeapOffset | NoHeapAllocated u64

text \<open>
  \<^verbatim>\<open>allocateHeap\<close>: the warnings, the new \<^verbatim>\<open>RamSize\<close> and the machine. Without boot
  services the receiver of \<^verbatim>\<open>GetMemoryMap\<close> is nil and the call panics.
\<close>

definition allocateHeap :: "'w firmware \<Rightarrow> services \<Rightarrow> u64 \<times> u64 \<Rightarrow> u64 \<Rightarrow> 'w machine
    \<Rightarrow> (warning list \<times> u64 \<times> 'w machine) option" where
  "allocateHeap fw svc memRegion ramSize m = do {
     boot \<leftarrow> sv_Boot svc;
     (memoryMap, err, m) \<leftarrow> GetMemoryMap fw boot m;
     case err of
       Some e \<Rightarrow> Some ([NoMemoryMap e], ramSize, m)
     | None \<Rightarrow>
         let (ramStart, ramEnd) = memRegion;
             (heapStart, ramEnd, ramSize) =
               heap_scan ramStart (Descriptors memoryMap) (0, ramEnd, ramSize)
         in do {
           (err, m) \<leftarrow> AllocatePages fw boot AllocateAddress (uint EfiLoaderData)
             (sint (ramEnd - heapStart)) heapStart m;
           Some ((if heapStart = 0 then [NoHeapOffset] else [])
                 @ (if err \<noteq> None then [NoHeapAllocated heapStart] else []), ramSize, m) } }"

subsection \<open>x64.go\<close>

text \<open>
  \<^verbatim>\<open>init\<close>: \<open>rtc_now\<close> is the time of the real-time clock in nanoseconds, \<open>set_time\<close> sets the
  CPU's clock. An error of \<^verbatim>\<open>UEFI.Init\<close> is printed (the first result) and the heap is
  allocated all the same.
\<close>

definition x64_init :: "dma_pkg \<Rightarrow> 'w firmware \<Rightarrow> gerr + int \<Rightarrow> (int \<Rightarrow> 'w \<Rightarrow> 'w) \<Rightarrow> u64 \<Rightarrow> u64
    \<Rightarrow> u64 \<times> u64 \<Rightarrow> services \<Rightarrow> u64 \<Rightarrow> 'w machine
    \<Rightarrow> (gerr option \<times> warning list \<times> services \<times> u64 \<times> 'w machine) option" where
  "x64_init dma fw rtc_now set_time imageHandle systemTable memRegion svc ramSize m =
     (let m = (case rtc_now of Inr t \<Rightarrow> m\<lparr>world := set_time t (world m)\<rparr> | Inl _ \<Rightarrow> m) in do {
        (err, svc) \<leftarrow> Services_Init dma svc imageHandle systemTable (mem m);
        (warnings, ramSize, m) \<leftarrow> allocateHeap fw svc memRegion ramSize m;
        Some (err, warnings, svc, ramSize, m) })"

text \<open>A memory map with the program's code at 1 MiB and free memory behind it.\<close>

definition demo_heap_map :: "memory_descriptor list" where
  "demo_heap_map =
     [\<lparr>md_Type = 4, PhysicalStart = 4096, VirtualStart = 0, NumberOfPages = 15, md_Attribute = 15\<rparr>,
      \<lparr>md_Type = 1, PhysicalStart = 0x100000, VirtualStart = 0, NumberOfPages = 256, md_Attribute = 15\<rparr>,
      \<lparr>md_Type = 7, PhysicalStart = 0x200000, VirtualStart = 0, NumberOfPages = 8192, md_Attribute = 15\<rparr>]"

section \<open>Lemmas\<close>

definition is_code :: "u64 \<Rightarrow> memory_descriptor \<Rightarrow> bool" where
  "is_code ramStart d \<longleftrightarrow> md_Type d = EfiLoaderCode \<and> PhysicalStart d = ramStart"

lemma heap_scan_skip:
  "list_all (\<lambda>d. \<not> is_code ramStart d) pre
     \<Longrightarrow> heap_scan ramStart (pre @ ds) (0, e, r) = heap_scan ramStart ds (0, e, r)"
  by (induction pre) (auto simp: is_code_def)

lemma heap_scan_found:
  assumes "list_all (\<lambda>d. \<not> is_code ramStart d) pre" "is_code ramStart d" "PhysicalEnd d \<noteq> 0"
  shows "heap_scan ramStart (pre @ d # d' # ds) (0, e, r)
    = (PhysicalEnd d, PhysicalEnd d + NumberOfPages d' * PageSize,
       PhysicalEnd d + NumberOfPages d' * PageSize - ramStart)"
  using assms by (simp add: heap_scan_skip is_code_def descriptor_Size_def Let_def word_greater_zero_iff)

lemma heap_scan_none:
  "list_all (\<lambda>d. \<not> is_code ramStart d) ds \<Longrightarrow> heap_scan ramStart ds (0, e, r) = (0, e, r)"
  using heap_scan_skip [of ramStart ds "[]"] by simp

text \<open>The allocation is one call with the address of a cell that holds the start of the heap.\<close>

lemma AllocatePages_call:
  "AllocatePages fw s t mt sz a m = (let m1 = snd (new_uint64 a m) in
     case CallService fw (bs_base s + allocatePages)
        [word_of_int t, word_of_int mt, word_of_int sz div PageSize, place m (objs m)] m1 of
       (status, m') \<Rightarrow> Some (parseStatus status, m'))"
  by (simp add: AllocatePages_def new_uint64_def new_slice_def Let_def split: prod.splits)

lemma new_uint64_cell: "load64 (mem (snd (new_uint64 v m))) (place m (objs m)) = v"
  by (simp add: new_uint64_def new_slice_def load64_store64 [unfolded store64_def])

lemma new_uint64_calls [simp]: "calls (snd (new_uint64 v m)) = calls m"
  by (simp add: new_uint64_def)

lemma pages_of_size:
  assumes "unat (n::u64) * 4096 < 2 ^ 64"
  shows "n * PageSize div PageSize = n"
proof -
  have "unat (n * 4096) = unat n * 4096"
    using assms by (simp add: unat_mult_lem [THEN iffD1])
  then have "unat (n * 4096 div 4096) = unat n" by (simp add: unat_div)
  then show ?thesis by (simp add: PageSize_def word_unat_eq_iff)
qed

section \<open>Properties\<close>

text \<open>
  The heap. If the memory map has a descriptor for the program's code, which starts at the
  start of the Go runtime's memory, and another descriptor after it, \<^verbatim>\<open>allocateHeap\<close> asks
  the firmware, in its last call, for loader data pages at a fixed address: the end of the code, and as
  many pages as the next descriptor has. The size of the runtime's memory becomes the distance from its
  start to the end of that heap. There is no warning exactly when the firmware grants the pages.
\<close>

theorem allocateHeap_behind_code:
  assumes "sv_Boot svc = Some boot" "GetMemoryMap fw boot m = Some (mm, None, m1)"
    and "Descriptors mm = pre @ d # d' # ds" "list_all (\<lambda>d. \<not> is_code ramStart d) pre"
    and "is_code ramStart d" "PhysicalEnd d \<noteq> 0" "unat (NumberOfPages d') * 4096 < 2 ^ 64"
  shows "\<exists>warnings m' code cell. allocateHeap fw svc (ramStart, ramEnd) ramSize m
      = Some (warnings, PhysicalEnd d + NumberOfPages d' * PageSize - ramStart, m')
    \<and> calls m' = calls m1 @ [Indirect (bs_base boot + allocatePages) code [2, 2, NumberOfPages d', cell]]
    \<and> load64 (mem (snd (new_uint64 (PhysicalEnd d) m1))) cell = PhysicalEnd d
    \<and> (warnings = [] \<longleftrightarrow> fst (fw code [2, 2, NumberOfPages d', cell]
          (mem (snd (new_uint64 (PhysicalEnd d) m1))) (world m1)) = EFI_SUCCESS)"
proof -
  define a where "a = PhysicalEnd d"
  define m2 where "m2 = snd (new_uint64 a m1)"
  have w: "world m2 = world m1" by (simp add: m2_def new_uint64_def)
  have ty: "(word_of_int AllocateAddress :: u64) = 2" "(ucast EfiLoaderData :: u64) = 2"
    by (simp_all add: AllocateAddress_def EfiLoaderData_def)
  obtain st f w' where fw: "fw (load64 (mem m2) (bs_base boot + allocatePages))
      [2, 2, NumberOfPages d', place m1 (objs m1)] (mem m2) (world m1) = (st, f, w')" by (metis prod_cases3)
  have "AllocatePages fw boot AllocateAddress (uint EfiLoaderData) (sint (NumberOfPages d' * PageSize)) a m1
    = Some (parseStatus st, m2\<lparr>mem := f, world := w', calls := calls m1 @
        [Indirect (bs_base boot + allocatePages) (load64 (mem m2) (bs_base boot + allocatePages))
          [2, 2, NumberOfPages d', place m1 (objs m1)]]\<rparr>)"
    using fw by (simp add: AllocatePages_call CallService_nonempty ty pages_of_size [OF assms(7)]
        m2_def [symmetric] w Let_def) (simp add: m2_def)
  then show ?thesis
    using assms(1,2,6) heap_scan_found [OF assms(4-6), of d' ds ramEnd ramSize] fw
      new_uint64_cell [of a m1]
    by (auto simp: allocateHeap_def assms(3) a_def [symmetric] m2_def [symmetric] EFI_SUCCESS_def)
qed

theorem allocateHeap_behind_code_witness:
  "\<exists>mm m1 warnings m' code cell.
      GetMemoryMap (demo_map_firmware demo_heap_map) demo_boot demo_machine = Some (mm, None, m1)
    \<and> allocateHeap (demo_map_firmware demo_heap_map) (demo_services\<lparr>sv_Boot := Some demo_boot\<rparr>)
        (0x100000, 0x2c100000) initial_RamSize demo_machine = Some (warnings, 0x2100000, m')
    \<and> calls m' = calls m1 @ [Indirect (bs_base demo_boot + allocatePages) code [2, 2, 8192, cell]]
    \<and> load64 (mem (snd (new_uint64 0x200000 m1))) cell = 0x200000"
proof -
  let ?fw = "demo_map_firmware demo_heap_map" and ?svc = "demo_services\<lparr>sv_Boot := Some demo_boot\<rparr>"
  let ?pre = "[hd demo_heap_map]" and ?d = "demo_heap_map ! 1" and ?d' = "demo_heap_map ! 2"
  obtain mm m1 where mm: "GetMemoryMap ?fw demo_boot demo_machine = Some (mm, None, m1)" "Descriptors mm = demo_heap_map"
    using demo_map_firmware_run [of demo_heap_map] by (auto simp: demo_heap_map_def maxEntries_def)
  have h: "demo_heap_map = ?pre @ ?d # ?d' # []" by (simp add: demo_heap_map_def)
  have e: "PhysicalEnd ?d = 0x200000" "NumberOfPages ?d' = 8192"
    by (simp_all add: demo_heap_map_def PhysicalEnd_def PageSize_def)
  have "list_all (\<lambda>d. \<not> is_code 0x100000 d) ?pre" "is_code 0x100000 ?d"
    by (simp_all add: demo_heap_map_def is_code_def EfiLoaderCode_def)
  with allocateHeap_behind_code [of ?svc demo_boot ?fw demo_machine mm m1 ?pre ?d ?d' "[]" "0x100000" "0x2c100000"
      initial_RamSize] mm h e
  show ?thesis by (simp add: PageSize_def) blast
qed

text \<open>
  Without a descriptor for the program's code \<^verbatim>\<open>allocateHeap\<close> warns that it found no
  heap offset but still asks the firmware for pages: at address 0, for the whole end address of
  the runtime's memory.
\<close>

theorem allocateHeap_no_code:
  assumes "sv_Boot svc = Some boot" "GetMemoryMap fw boot m = Some (mm, None, m1)"
    and "list_all (\<lambda>d. \<not> is_code ramStart d) (Descriptors mm)"
  shows "\<exists>warnings m' code cell. allocateHeap fw svc (ramStart, ramEnd) ramSize m
      = Some (NoHeapOffset # warnings, ramSize, m')
    \<and> calls m' = calls m1 @ [Indirect (bs_base boot + allocatePages) code [2, 2, ramEnd div PageSize, cell]]
    \<and> load64 (mem (snd (new_uint64 0 m1))) cell = 0"
  using assms(1,2) new_uint64_cell [of 0 m1]
  by (auto simp: allocateHeap_def heap_scan_none [OF assms(3)] AllocatePages_call CallService_nonempty
      AllocateAddress_def EfiLoaderData_def Let_def split: prod.splits)

theorem allocateHeap_no_code_witness:
  "\<exists>mm m1 warnings m' code cell.
      GetMemoryMap (demo_map_firmware []) demo_boot demo_machine = Some (mm, None, m1)
    \<and> allocateHeap (demo_map_firmware []) (demo_services\<lparr>sv_Boot := Some demo_boot\<rparr>)
        (0x100000, 0x2c100000) initial_RamSize demo_machine = Some (NoHeapOffset # warnings, initial_RamSize, m')
    \<and> calls m' = calls m1 @ [Indirect (bs_base demo_boot + allocatePages) code [2, 2, 0x2c100, cell]]
    \<and> load64 (mem (snd (new_uint64 0 m1))) cell = 0"
proof -
  let ?fw = "demo_map_firmware []" and ?svc = "demo_services\<lparr>sv_Boot := Some demo_boot\<rparr>"
  obtain mm m1 where mm: "GetMemoryMap ?fw demo_boot demo_machine = Some (mm, None, m1)" "Descriptors mm = []"
    using demo_map_firmware_run [of "[]"] by auto
  with allocateHeap_no_code [of ?svc demo_boot ?fw demo_machine mm m1 "0x100000" "0x2c100000" initial_RamSize]
  show ?thesis by (simp add: PageSize_def)
qed

text \<open>
  Failed initialisation. If the system table has a wrong signature, the start-up code reports
  the error and goes on to allocate the heap with boot services that were never set: it panics.
\<close>

theorem x64_init_bad_signature:
  assumes "dma_maps dma" "a \<noteq> 0" "NewRegion dma a 120 = None" "sv_Boot svc = None"
    and "load_bytes (mem m) a 120 = system_table_enc t" "Signature (st_Header t) \<noteq> signature"
  shows "x64_init dma fw now set_time h a region svc ramSize m = None"
proof -
  have "decode dma 120 system_table_dec a (mem m) = Some (Inr t)"
    using system_table.decode_stored [OF assms(1,2)] assms(3,5) by (simp add: align_def)
  then show ?thesis using assms(4,6)
    by (simp add: x64_init_def Services_Init_def allocateHeap_def Let_def split: sum.split)
qed

theorem x64_init_bad_signature_witness:
  "x64_init demo_dma (demo_map_firmware []) (Inr 0) (\<lambda>_ w. w) 77 4096 (0, 0) demo_services initial_RamSize
     (demo_machine\<lparr>mem := store_bytes 4096 (system_table_enc zero_system_table) (\<lambda>_. 0)\<rparr>) = None"
proof (rule x64_init_bad_signature)
  show "load_bytes (mem (demo_machine\<lparr>mem := store_bytes 4096 (system_table_enc zero_system_table) (\<lambda>_. 0)\<rparr>)) 4096 120
      = system_table_enc zero_system_table"
    using load_store_same [of "system_table_enc zero_system_table"]
    by (simp add: system_table.length_enc [simplified])
qed (simp_all add: zero_system_table_def zero_header_def signature_def demo_services_def)

end
