(* ===== verification/Start_Up.thy ===== *)
theory Start_Up
  imports Heap_Init Console
begin

text \<open>
  \<^verbatim>\<open>pkg/ueficore/x64\<close> from the entry point on: the firmware enters the program at \<^verbatim>\<open>cpuinit\<close>
  (\<^verbatim>\<open>x64.s\<close>), which keeps the handles it is given, finds the console protocols in the system table and
  sets up the memory and the stack of the Go runtime. The runtime then calls \<^verbatim>\<open>Init\<close> (\<^verbatim>\<open>x64.go\<close>),
  initialises the package variables and calls \<^verbatim>\<open>init\<close>.

  CPU, real-time clock and serial port are devices of \<^verbatim>\<open>tamago\<close>: the record \<open>tamago\<close> is what the package
  calls of them. The package variables are values of their own; in memory they lie in the
  program's data, apart from the firmware's tables.
\<close>

section \<open>Definitions\<close>

subsection \<open>x64.s\<close>

record entry_regs =
  r_AX :: u64
  r_BX :: u64
  r_CX :: u64
  r_DX :: u64
  r_SP :: u64

record x64_vars =
  v_imageHandle :: u64
  v_systemTable :: u64
  v_conIn :: u64
  v_conOut :: u64

record go_runtime =
  ramStart :: u64
  ramSize :: u64
  ramStackOffset :: u64

text \<open>
  \<^verbatim>\<open>cpuinit\<close>, one binding per instruction. \<open>rtext\<close> is the address of \<^verbatim>\<open>runtime.text\<close>; \<^verbatim>\<open>sse_enable\<close> of \<^verbatim>\<open>tamago\<close>
  changes registers only.
\<close>

definition cpuinit :: "(entry_regs \<Rightarrow> entry_regs) \<Rightarrow> u64 \<Rightarrow> memory \<Rightarrow> entry_regs \<Rightarrow> x64_vars \<Rightarrow> go_runtime
    \<Rightarrow> entry_regs \<times> x64_vars \<times> go_runtime" where
  "cpuinit sse_enable rtext f r v rt =
     (let v = v\<lparr>v_imageHandle := r_CX r\<rparr>;
          v = v\<lparr>v_systemTable := r_DX r\<rparr>;
          r = r\<lparr>r_AX := load64 f (r_DX r + 48)\<rparr>;
          v = v\<lparr>v_conIn := r_AX r\<rparr>;
          r = r\<lparr>r_AX := load64 f (r_DX r + 64)\<rparr>;
          v = v\<lparr>v_conOut := r_AX r\<rparr>;
          r = sse_enable r;
          r = r\<lparr>r_AX := rtext\<rparr>;
          r = r\<lparr>r_AX := r_AX r - 64 * 1024\<rparr>;
          rt = rt\<lparr>ramStart := r_AX r\<rparr>;
          r = r\<lparr>r_SP := ramStart rt\<rparr>;
          r = r\<lparr>r_AX := ramSize rt\<rparr>;
          r = r\<lparr>r_BX := ramStackOffset rt\<rparr>;
          r = r\<lparr>r_SP := r_SP r + r_AX r\<rparr>;
          r = r\<lparr>r_SP := r_SP r - r_BX r\<rparr>
      in (r, v, rt))"

subsection \<open>x64.go and console.go\<close>

definition COM1 :: u16 where "COM1 = 0x3f8"

record uart =
  uart_Index :: int
  uart_Base :: u16

definition UART0 :: uart where
  "UART0 = \<lparr>uart_Index = 1, uart_Base = COM1\<rparr>"

record 'w tamago =
  AMD64_Init :: "'w \<Rightarrow> 'w"
  AMD64_GetTime :: "'w \<Rightarrow> int"
  AMD64_SetTime :: "int \<Rightarrow> 'w \<Rightarrow> 'w"
  RTC_Now :: "'w \<Rightarrow> gerr + int" \<comment> \<open>the time in nanoseconds\<close>
  UART_Init :: "uart \<Rightarrow> 'w \<Rightarrow> 'w"
  MemRegion :: "go_runtime \<Rightarrow> u64 \<times> u64"

definition nanotime1 :: "'w tamago \<Rightarrow> 'w \<Rightarrow> int" where
  "nanotime1 tg w = AMD64_GetTime tg w"

definition x64_hwinit1 :: "'w tamago \<Rightarrow> 'w machine \<Rightarrow> 'w machine" where
  "x64_hwinit1 tg m =
     (let m = m\<lparr>world := AMD64_Init tg (world m)\<rparr>
      in m\<lparr>world := UART_Init tg UART0 (world m)\<rparr>)"

text \<open>The variable \<^verbatim>\<open>Console\<close>; fields the literal does not name are zero.\<close>

definition x64_Console :: "x64_vars \<Rightarrow> console" where
  "x64_Console v = \<lparr>ForceLine = True, ReplaceTabs = 0, ConsoleIn = v_conIn v, ConsoleOut = v_conOut v\<rparr>"

text \<open>
  The start of the program up to \<^verbatim>\<open>main\<close>, in the order of the Go runtime. The new \<^verbatim>\<open>RamSize\<close> is the runtime's
  \<^verbatim>\<open>ramSize\<close>.
\<close>

definition start_up :: "'w tamago \<Rightarrow> dma_pkg \<Rightarrow> 'w firmware \<Rightarrow> (entry_regs \<Rightarrow> entry_regs) \<Rightarrow> u64 \<Rightarrow> entry_regs \<Rightarrow> x64_vars
    \<Rightarrow> go_runtime \<Rightarrow> services \<Rightarrow> 'w machine
    \<Rightarrow> (entry_regs \<times> console \<times> gerr option \<times> warning list \<times> services \<times> go_runtime \<times> 'w machine) option" where
  "start_up tg dma fw sse_enable rtext r v rt svc m =
     (let (r, v, rt) = cpuinit sse_enable rtext (mem m) r v rt;
          m = x64_hwinit1 tg m;
          con = x64_Console v
      in do {
        (err, warnings, svc, size, m) \<leftarrow> x64_init dma fw (RTC_Now tg (world m)) (AMD64_SetTime tg)
          (v_imageHandle v) (v_systemTable v) (MemRegion tg rt) svc (ramSize rt) m;
        Some (r, con, err, warnings, svc, rt\<lparr>ramSize := size\<rparr>, m) })"

text \<open>The machine at the first call of the firmware: the devices are set up and the clock is set.\<close>

definition clock_set :: "'w tamago \<Rightarrow> 'w machine \<Rightarrow> 'w machine" where
  "clock_set tg m = (let m = x64_hwinit1 tg m in
     case RTC_Now tg (world m) of Inr t \<Rightarrow> m\<lparr>world := AMD64_SetTime tg t (world m)\<rparr> | Inl _ \<Rightarrow> m)"

text \<open>The services after \<^verbatim>\<open>UEFI.Init\<close>, for an image handle and a system table \<open>t\<close> at \<open>a\<close>.\<close>

definition started_services :: "u64 \<Rightarrow> u64 \<Rightarrow> system_table \<Rightarrow> services \<Rightarrow> services" where
  "started_services h a t svc = svc\<lparr>sv_imageHandle := h, sv_systemTable := a, sv_SystemTable := Some t,
     sv_Console := Some \<lparr>ForceLine = True, ReplaceTabs = 8, ConsoleIn = ConIn t, ConsoleOut = ConOut t\<rparr>,
     sv_Boot := Some \<lparr>bs_base = st_BootServices t, bs_imageHandle = h\<rparr>,
     sv_Runtime := Some \<lparr>rs_base = st_RuntimeServices t\<rparr>\<rparr>"

text \<open>Devices for the example.\<close>

definition demo_tamago :: "unit tamago" where
  "demo_tamago = \<lparr>AMD64_Init = id, AMD64_GetTime = (\<lambda>_. 0), AMD64_SetTime = (\<lambda>_. id), RTC_Now = (\<lambda>_. Inr 0),
     UART_Init = (\<lambda>_. id), MemRegion = (\<lambda>rt. (ramStart rt, ramStart rt + ramSize rt))\<rparr>"

section \<open>Lemmas\<close>

lemma cpuinit_result:
  "cpuinit sse_enable rtext f r v rt =
    (let r' = sse_enable (r\<lparr>r_AX := load64 f (r_DX r + 64)\<rparr>); start = rtext - 0x10000 in
     (r'\<lparr>r_AX := ramSize rt, r_BX := ramStackOffset rt, r_SP := start + ramSize rt - ramStackOffset rt\<rparr>,
      \<lparr>v_imageHandle = r_CX r, v_systemTable = r_DX r, v_conIn = load64 f (r_DX r + 48), v_conOut = load64 f (r_DX r + 64)\<rparr>,
      rt\<lparr>ramStart := start\<rparr>))"
  by (simp add: cpuinit_def Let_def)

text \<open>The two fields of the system table that \<^verbatim>\<open>x64.s\<close> reads at fixed offsets.\<close>

lemma console_fields:
  assumes "load_bytes f a 120 = system_table_enc t"
  shows "load64 f (a + 48) = ConIn t" "load64 f (a + 64) = ConOut t"
proof -
  have sub: "load_bytes f (a + of_nat k) 8 = take 8 (drop k (system_table_enc t))" if "k \<le> 112" for k
    using that unfolding assms [symmetric] by (simp add: drop_load_bytes take_load_bytes)
  show "load64 f (a + 48) = ConIn t" "load64 f (a + 64) = ConOut t"
    using sub [of 48] sub [of 64] by (simp_all add: load64_def system_table_enc_def le_simps)
qed

lemma mem_clock_set [simp]: "mem (clock_set tg m) = mem m"
  by (simp add: clock_set_def x64_hwinit1_def Let_def split: sum.split)

lemma clock_set_frame [simp]:
  "place (clock_set tg m) = place m" "objs (clock_set tg m) = objs m" "calls (clock_set tg m) = calls m"
  by (simp_all add: clock_set_def x64_hwinit1_def Let_def split: sum.split)

text \<open>A start with a valid system table is the allocation of the heap.\<close>

lemma start_up_run:
  assumes "dma_maps dma" "r_DX r \<noteq> 0" "NewRegion dma (r_DX r) 120 = None"
    and "load_bytes (mem m) (r_DX r) 120 = system_table_enc t" "Signature (st_Header t) = signature"
    and "allocateHeap fw (started_services (r_CX r) (r_DX r) t svc) (MemRegion tg (rt\<lparr>ramStart := rtext - 0x10000\<rparr>)) (ramSize rt) (clock_set tg m)
      = Some (warnings, sz, m')"
  shows "\<exists>r'. start_up tg dma fw sse_enable rtext r v rt svc m
      = Some (r', x64_Console \<lparr>v_imageHandle = r_CX r, v_systemTable = r_DX r, v_conIn = ConIn t, v_conOut = ConOut t\<rparr>, None, warnings,
          started_services (r_CX r) (r_DX r) t svc, rt\<lparr>ramStart := rtext - 0x10000, ramSize := sz\<rparr>, m')
    \<and> r_SP r' = rtext - 0x10000 + ramSize rt - ramStackOffset rt"
proof -
  have "decode dma 120 system_table_dec (r_DX r) (mem m) = Some (Inr t)"
    using system_table.decode_stored [OF assms(1,2)] assms(3,4) by (simp add: align_def)
  then have "Services_Init dma svc (r_CX r) (r_DX r) (mem (x64_hwinit1 tg m)) = Some (None, started_services (r_CX r) (r_DX r) t svc)"
    using assms(5) by (simp add: Services_Init_def started_services_def x64_hwinit1_def Let_def)
  then have "x64_init dma fw (RTC_Now tg (world (x64_hwinit1 tg m))) (AMD64_SetTime tg) (r_CX r) (r_DX r)
      (MemRegion tg (rt\<lparr>ramStart := rtext - 0x10000\<rparr>)) svc (ramSize rt) (x64_hwinit1 tg m)
      = Some (None, warnings, started_services (r_CX r) (r_DX r) t svc, sz, m')"
    using assms(6) by (simp add: x64_init_def clock_set_def Let_def split: sum.split_asm)
  then show ?thesis using console_fields [OF assms(4)]
    by (simp add: start_up_def cpuinit_result Let_def)
qed

section \<open>Properties\<close>



end
