(* ===== verification/Stub_Program.thy ===== *)
theory Stub_Program
  imports Verify_Stub Start_Up
begin

text \<open>
  The program \<^verbatim>\<open>cmd/efi-verify\<close> as a whole: the firmware enters it at \<^verbatim>\<open>cpuinit\<close>, the Go runtime starts
  (\<open>Start_Up\<close>) and \<^verbatim>\<open>main\<close> boots the kernel (\<open>Verify_Stub\<close>). The contract of \<open>Boot_Path\<close> is extended by the two memory
  services the start-up calls, of which only what they write matters.
\<close>

section \<open>Definitions\<close>

definition efi_verify :: "'w tamago \<Rightarrow> dma_pkg \<Rightarrow> 'w firmware \<Rightarrow> (entry_regs \<Rightarrow> entry_regs) \<Rightarrow> u64 \<Rightarrow> nat \<Rightarrow> (nat \<Rightarrow> nat)
    \<Rightarrow> entry_regs \<Rightarrow> x64_vars \<Rightarrow> go_runtime \<Rightarrow> services \<Rightarrow> 'w machine \<Rightarrow> (int option \<times> 'w machine) option" where
  "efi_verify tg dma fw sse_enable rtext fuel grow r v rt svc m = do {
     (r, con, err, warnings, svc, rt, m) \<leftarrow> start_up tg dma fw sse_enable rtext r v rt svc m;
     verify_main dma fw fuel grow svc m }"

text \<open>Writing only in given ranges, besides the firmware's own memory.\<close>

definition writes_within :: "u64 set \<Rightarrow> (u64 \<times> nat) list \<Rightarrow> memory \<Rightarrow> memory \<Rightarrow> bool" where
  "writes_within own rs f f' \<longleftrightarrow> (\<forall>x. x \<notin> own \<longrightarrow> list_all (\<lambda>(a, n). n \<le> unat (x - a)) rs \<longrightarrow> f' x = f x)"

text \<open>
  \<^verbatim>\<open>GetMemoryMap\<close> (code \<open>cg\<close>) and \<^verbatim>\<open>AllocatePages\<close> (code \<open>ca\<close>), with any status: the first writes to the object of
  the results and to the buffer, the second to the cell of the address.
\<close>

definition memory_services :: "'w firmware \<Rightarrow> u64 \<Rightarrow> u64 \<Rightarrow> u64 set \<Rightarrow> bool" where
  "memory_services fw cg ca own \<longleftrightarrow>
     (\<forall>o1 b f w st f' w'. fw cg [o1, b, o1 + 32, o1 + 40, o1 + 48] f w = (st, f', w') \<longrightarrow> writes_within own [(o1, 80), (b, 48000)] f f')
     \<and> (\<forall>t mt n cell f w st f' w'. fw ca [t, mt, n, cell] f w = (st, f', w') \<longrightarrow> writes_within own [(cell, 8)] f f')"

text \<open>Devices for the example.\<close>

definition ex_tamago :: "(u8 list option \<times> u8 list) tamago" where
  "ex_tamago = \<lparr>AMD64_Init = id, AMD64_GetTime = (\<lambda>_. 0), AMD64_SetTime = (\<lambda>_. id), RTC_Now = (\<lambda>_. Inr 0),
     UART_Init = (\<lambda>_. id), MemRegion = (\<lambda>rt. (ramStart rt, ramStart rt + ramSize rt))\<rparr>"

section \<open>Lemmas\<close>

lemma within_frame:
  assumes "writes_within own rs f f'" "outside own a n" "\<And>b l. (b, l) \<in> set rs \<Longrightarrow> apart a n b l" "n \<le> 2 ^ 64"
  shows "load_bytes f' a n = load_bytes f a n"
proof (rule load_bytes_cong)
  fix i assume i: "i < n"
  have "l \<le> unat (a + of_nat i - b)" if "(b, l) \<in> set rs" for b l
    by (rule apart_byte [OF assms(3) [OF that] i assms(4)])
  then have "list_all (\<lambda>(b, l). l \<le> unat (a + of_nat i - b)) rs" by (auto simp: list_all_iff)
  moreover have "a + of_nat i \<notin> own" using assms(2) i by (simp add: outside_def)
  ultimately show "f' (a + of_nat i) = f (a + of_nat i)" using assms(1) by (simp add: writes_within_def)
qed

lemma within_store:
  assumes "k + length bs \<le> n" "n < 2 ^ 63"
  shows "writes_within own [(a, n)] f (store_bytes (a + of_nat k) bs f)"
proof -
  have "length bs \<le> unat (x - (a + of_nat k))" if "n \<le> unat (x - a)" for x
  proof (rule ccontr)
    assume "\<not> length bs \<le> unat (x - (a + of_nat k))"
    then have l: "unat (x - (a + of_nat k)) + k < n" using assms(1) by simp
    have k: "unat (of_nat k :: u64) = k" using assms by (intro unat_of_nat_small_u64) simp
    have "x - a = (x - (a + of_nat k)) + of_nat k" by simp
    then have "unat (x - a) = (unat (x - (a + of_nat k)) + k) mod 2 ^ 64"
      using unat_word_ariths(1) [of "x - (a + of_nat k)" "of_nat k"] k by simp
    with l that assms(2) show False by simp
  qed
  then show ?thesis by (auto simp: writes_within_def store_bytes_def Let_def not_less [symmetric])
qed

lemma within_trans: "writes_within own rs f g \<Longrightarrow> writes_within own rs g h \<Longrightarrow> writes_within own rs f h"
  by (simp add: writes_within_def)

text \<open>A write in objects that are not older than \<open>m\<close> keeps the state of the boot path.\<close>

lemma boot_within:
  assumes "boot_step P own R L N f0 k cs m m1" "writes_within own (map (\<lambda>(j, l). (place m j, l)) js) (mem m1) (mem m2)"
    and "list_all (\<lambda>(j, l). objs m \<le> j \<and> j < L \<and> l \<le> N) js"
    and "place m2 = place m1" "objs m2 = objs m1" "map call_code (calls m2) = map call_code (calls m1) @ ds"
  shows "boot_step P own R L N f0 k (cs @ ds) m m2"
proof -
  note s = assms(1) [unfolded boot_step_def]
  note b = boot_stateD [OF conjunct1 [OF s]]
  have pl: "place m1 = place m" using s by blast
  let ?rs = "map (\<lambda>(j, l). (place m j, l)) js"
  have js: "\<exists>j. objs m \<le> j \<and> j < L \<and> c = place m j \<and> l \<le> N" if "(c, l) \<in> set ?rs" for c l
    using assms(3) that by (auto simp: list_all_iff)
  have reg: "load_bytes (mem m2) a n = load_bytes (mem m1) a n" if r: "(a, n) \<in> set (platform_regions P @ R)" for a n
  proof (rule within_frame [OF assms(2) b(7) [OF r] _ b(8) [OF r]])
    fix c l assume "(c, l) \<in> set ?rs"
    then obtain j where "j < L" "c = place m j" "l \<le> N" using js by blast
    then show "apart a n c l" using b(9) [OF r, of j] by (simp add: apart_def pl)
  qed
  have obj: "load_bytes (mem m2) (place m i) n = load_bytes (mem m1) (place m i) n" if i: "i < objs m" "n \<le> N" for i n
  proof (rule within_frame [OF assms(2)])
    have iL: "i < L" using i(1) b(4) s by simp
    show "outside own (place m i) n" using b(3) [OF iL] i(2) pl by (simp add: outside_def)
    fix c l assume "(c, l) \<in> set ?rs"
    then obtain j where j: "objs m \<le> j" "j < L" "c = place m j" "l \<le> N" using js by blast
    then have "i \<noteq> j" using i(1) by simp
    from layout_apart [OF b(1) iL j(2) this i(2) j(4)] show "apart (place m i) n c l" by (simp add: j(3) pl)
  qed (use i(2) b(6) in simp)
  have "same_regions (platform_regions P @ R) f0 (mem m2)"
    using b(2) reg by (simp add: same_regions_def list_all_iff case_prod_beta)
  moreover have "boot_state P own R L N f0 m1" using s by blast
  ultimately have "boot_state P own R L N f0 m2" using assms(4,5) by (simp add: boot_state_def)
  then show ?thesis using s obj assms(4-6) by (simp add: boot_step_def)
qed

lemma boot_state_self: "boot_state P own R L N f0 m \<Longrightarrow> boot_state P own R L N (mem m) m"
proof -
  assume b: "boot_state P own R L N f0 m"
  then have "same_regions (platform_regions P @ R) f0 (mem m)" by (simp add: boot_state_def)
  then have "same_regions (platform_regions P @ R) (mem m) (mem m)" unfolding same_regions_def
    by (rule list.pred_mono_strong) auto
  with b boot_platform_in [OF b] show ?thesis by (simp add: boot_state_def)
qed

lemma boot_state_cong: "mem m' = mem m \<Longrightarrow> place m' = place m \<Longrightarrow> objs m' = objs m
  \<Longrightarrow> boot_state P own R L N f0 m' = boot_state P own R L N f0 m"
  by (simp add: boot_state_def)

lemma boot_region64: "boot_state P own R L N f0 m \<Longrightarrow> (a, 8) \<in> set R \<Longrightarrow> load64 (mem m) a = load64 f0 a"
  by (simp add: load64_def boot_region)

lemma memory_writes:
  assumes "memory_services fw cg ca own"
  shows "fw cg [o1, b, o1 + 32, o1 + 40, o1 + 48] f w = (st, f', w') \<Longrightarrow> writes_within own [(o1, 80), (b, 48000)] f f'"
    and "fw ca [t, mt, n, cell] f w = (st, f', w') \<Longrightarrow> writes_within own [(cell, 8)] f f'"
  using assms unfolding memory_services_def by blast+

lemma boot_GetMemoryMap:
  assumes "boot_state P own R L N f0 m" "memory_services fw cg ca own" "objs m + 2 \<le> L" "48000 \<le> N"
    and "(bs_base s + getMemoryMap, 8) \<in> set R" "load64 f0 (bs_base s + getMemoryMap) = cg"
  shows "\<exists>r err m'. GetMemoryMap fw s m = Some (r, err, m') \<and> boot_step P own R L N f0 2 [cg] m m'"
proof -
  let ?o = "place m (objs m)" and ?b = "place m (Suc (objs m))"
  define m0 where "m0 = snd (new_obj 80 m)"
  define ma where "ma = m0\<lparr>mem := store64 (?o + 40) 48 (store64 ?o 48000 (mem m0))\<rparr>"
  define m1 where "m1 = snd (new_slice (replicate 48000 0) ma)"
  have o0: "boot_step P own R L N f0 1 [] m m0" unfolding m0_def by (rule boot_new_obj [OF assms(1)]) (use assms(3,4) in auto)
  have st: "writes_within own [(?o, 80)] f (store64 ?o v f)" "writes_within own [(?o, 80)] f (store64 (?o + 40) v f)" for v f
    using within_store [of 0 "le_bytes 8 (unat v)" 80 own ?o f] within_store [of 40 "le_bytes 8 (unat v)" 80 own ?o f]
    by (simp_all add: store64_def del: le_bytes.simps)
  have "boot_step P own R L N f0 1 ([] @ []) m ma"
  proof (rule boot_within [OF o0, where js = "[(objs m, 80)]"])
    show "writes_within own (map (\<lambda>(j, l). (place m j, l)) [(objs m, 80)]) (mem m0) (mem ma)"
      unfolding ma_def by (simp add: within_trans [OF st(1,2)])
  qed (use assms(3,4) in \<open>auto simp: ma_def\<close>)
  then have oa: "boot_step P own R L N f0 1 [] m ma" by simp
  have "boot_step P own R L N f0 1 [] ma m1" unfolding m1_def
    by (rule boot_new_slice [OF boot_step_state [OF oa]]) (use boot_step_objs(1) [OF oa] assms(3,4) in auto)
  from boot_step_trans [OF oa this] have o1: "boot_step P own R L N f0 2 [] m m1" by (simp add: numeral_2_eq_2)
  let ?args = "[?o, ?b, ?o + 32, ?o + 40, ?o + 48]" and ?e = "bs_base s + getMemoryMap"
  have code: "load64 (mem m1) ?e = cg" using boot_region64 [OF boot_step_state [OF o1] assms(5)] assms(6) by simp
  obtain st f' w' where call: "fw cg ?args (mem m1) (world m1) = (st, f', w')" by (metis prod_cases3)
  define m2 where "m2 = m1\<lparr>mem := f', world := w', calls := calls m1 @ [Indirect ?e cg ?args]\<rparr>"
  have "boot_step P own R L N f0 2 ([] @ [cg]) m m2"
  proof (rule boot_within [OF o1, where js = "[(objs m, 80), (Suc (objs m), 48000)]"])
    show "writes_within own (map (\<lambda>(j, l). (place m j, l)) [(objs m, 80), (Suc (objs m), 48000)]) (mem m1) (mem m2)"
      using memory_writes(1) [OF assms(2) call] by (simp add: m2_def)
  qed (use assms(3,4) in \<open>auto simp: m2_def call_code_def\<close>)
  moreover have "CallService fw ?e ?args m1 = (st, m2)" using call code by (simp add: CallService_nonempty m2_def)
  moreover have "m1 = snd (new_slice (replicate 48000 0)
      ((snd (new_obj 80 m))\<lparr>mem := store64 (?o + 40) 48 (store64 ?o 48000 (mem (snd (new_obj 80 m))))\<rparr>))"
    by (simp add: m1_def ma_def m0_def)
  ultimately show ?thesis
    using GetMemoryMap_call [of fw s m st m2] GetMemoryMap_total [of fw s m]
    by (auto simp: Let_def split: option.splits Option.bind_splits)
qed

lemma boot_allocateHeap:
  assumes "boot_state P own R L N f0 m" "memory_services fw cg ca own" "objs m + 3 \<le> L" "48000 \<le> N" "sv_Boot svc = Some s"
    and "(bs_base s + getMemoryMap, 8) \<in> set R" "load64 f0 (bs_base s + getMemoryMap) = cg"
    and "(bs_base s + allocatePages, 8) \<in> set R" "load64 f0 (bs_base s + allocatePages) = ca"
  shows "\<exists>warnings sz m' n cs. allocateHeap fw svc region ramsz m = Some (warnings, sz, m')
    \<and> boot_step P own R L N f0 n cs m m' \<and> n \<le> 3 \<and> set cs \<subseteq> {cg, ca}"
proof -
  have "objs m + 2 \<le> L" using assms(3) by simp
  from boot_GetMemoryMap [OF assms(1,2) this assms(4,6,7)]
  obtain r err m1 where m1: "GetMemoryMap fw s m = Some (r, err, m1)" "boot_step P own R L N f0 2 [cg] m m1" by blast
  show ?thesis
  proof (cases err)
    case (Some e)
    then show ?thesis using m1 assms(5) by (intro exI [of _ "[NoMemoryMap e]"] exI [of _ ramsz] exI [of _ m1] exI [of _ 2] exI [of _ "[cg]"])
        (simp add: allocateHeap_def)
  next
    case None
    obtain start stop where region: "region = (start, stop)" by (cases region)
    obtain heap top sz where scan: "heap_scan start (Descriptors r) (0, stop, ramsz) = (heap, top, sz)" by (metis prod_cases3)
    let ?c = "place m1 (objs m1)" and ?e = "bs_base s + allocatePages"
    let ?args = "[word_of_int AllocateAddress, word_of_int (uint EfiLoaderData), word_of_int (sint (top - heap)) div PageSize, ?c]"
    define m2 where "m2 = snd (new_uint64 heap m1)"
    have "boot_step P own R L N f0 1 [] m1 m2" unfolding m2_def new_uint64_def
      by (rule boot_new_slice [OF boot_step_state [OF m1(2)]]) (use boot_step_objs(1) [OF m1(2)] assms(3,4) in auto)
    from boot_step_trans [OF m1(2) this] have o2: "boot_step P own R L N f0 3 [cg] m m2" by (simp add: eval_nat_numeral)
    have code: "load64 (mem m2) ?e = ca" using boot_region64 [OF boot_step_state [OF o2] assms(8)] assms(9) by simp
    obtain st f' w' where call: "fw ca ?args (mem m2) (world m2) = (st, f', w')" by (metis prod_cases3)
    define m3 where "m3 = m2\<lparr>mem := f', world := w', calls := calls m2 @ [Indirect ?e ca ?args]\<rparr>"
    have "boot_step P own R L N f0 3 ([cg] @ [ca]) m m3"
    proof (rule boot_within [OF o2, where js = "[(objs m1, 8)]"])
      show "writes_within own (map (\<lambda>(j, l). (place m j, l)) [(objs m1, 8)]) (mem m2) (mem m3)"
        using memory_writes(2) [OF assms(2) call] boot_step_objs(2) [OF m1(2)] by (simp add: m3_def)
    qed (use assms(3,4) boot_step_objs [OF m1(2)] in \<open>auto simp: m3_def call_code_def\<close>)
    moreover
    have "AllocatePages fw s AllocateAddress (uint EfiLoaderData) (sint (top - heap)) heap m1 = Some (parseStatus st, m3)"
      unfolding AllocatePages_call Let_def m2_def [symmetric] using call code by (simp add: CallService_nonempty m3_def)
    then have "\<exists>warnings. allocateHeap fw svc region ramsz m = Some (warnings, sz, m3)"
      using m1(1) assms(5) None scan by (simp add: allocateHeap_def region)
    then obtain warnings where "allocateHeap fw svc region ramsz m = Some (warnings, sz, m3)" by blast
    ultimately show ?thesis
      by (intro exI [of _ warnings] exI [of _ sz] exI [of _ m3] exI [of _ 3] exI [of _ "[cg] @ [ca]"]) simp
  qed
qed

lemma ex_entries: "load64 ex_memory (16384 + getMemoryMap) = 0" "load64 ex_memory (16384 + allocatePages) = 0"
proof -
  have "load_bytes ex_memory (16384 + getMemoryMap) 8 = load_bytes demo_path_mem (16384 + getMemoryMap) 8"
    "load_bytes ex_memory (16384 + allocatePages) 8 = load_bytes demo_path_mem (16384 + allocatePages) 8"
    by (simp_all add: ex_memory_simps getMemoryMap_def allocatePages_def)
  moreover have "load_bytes demo_path_mem a 8 = replicate 8 0" if "apart a 8 2097152 bufferSize" for a
  proof -
    have "length ((path_bytes demo_nodes @ end_node) @ replicate (bufferSize - length (path_bytes demo_nodes @ end_node)) (0 :: u8)) = bufferSize"
      by (simp add: demo_nodes_def path_bytes_Cons end_node_def bufferSize_def)
    with that have "load_bytes demo_path_mem a 8 = load_bytes (\<lambda>_. 0) a 8"
      unfolding demo_path_mem_def by (intro load_store_apart) (simp_all only:, simp)
    then show ?thesis by (simp add: load_bytes_def map_replicate_const)
  qed
  then have "load_bytes demo_path_mem (16384 + getMemoryMap) 8 = replicate 8 0" "load_bytes demo_path_mem (16384 + allocatePages) 8 = replicate 8 0"
    by (simp_all add: apart_def getMemoryMap_def allocatePages_def bufferSize_def)
  moreover have "le_nat (replicate 8 0) = 0" by (simp add: eval_nat_numeral)
  ultimately show "load64 ex_memory (16384 + getMemoryMap) = 0" "load64 ex_memory (16384 + allocatePages) = 0"
    by (simp_all add: load64_def)
qed

section \<open>Properties\<close>



end
