(* ===== verification/Graphics.thy ===== *)
theory Graphics
  imports Boot_Services
begin

text \<open>
  \<^verbatim>\<open>pkg/ueficore/graphics.go\<close>: the Graphics Output Protocol. Its mode and mode information
  are structs in the firmware's memory, read with \<^verbatim>\<open>decode\<close>; both interpret the interface
  \<open>struct_codec\<close>.
\<close>

section \<open>Definitions\<close>

definition EFI_GRAPHICS_OUTPUT_PROTOCOL_GUID :: gostring where
  "EFI_GRAPHICS_OUTPUT_PROTOCOL_GUID = lit ''9042a9de-23dc-4a38-96fb-7aded080516a''"

definition blt :: u64 where "blt = 0x10"

definition EfiBltVideoFill :: int where "EfiBltVideoFill = 0"
definition EfiBltVideoToBltBuffer :: int where "EfiBltVideoToBltBuffer = 1"
definition EfiBltBufferToVideo :: int where "EfiBltBufferToVideo = 2"
definition EfiBltVideoToVideo :: int where "EfiBltVideoToVideo = 3"
definition EfiGraphicsOutputBltOperationMax :: int where "EfiGraphicsOutputBltOperationMax = 4"

record mode_information =
  mi_Version :: u32
  HorizontalResolution :: u32
  VerticalResolution :: u32
  PixelFormat :: u32
  RedMask :: u32
  GreenMask :: u32
  BlueMask :: u32
  ReservedMask :: u32
  PixelsPerScanLine :: u32

record protocol_mode =
  MaxMode :: u32
  pm_Mode :: u32
  pm_Info :: u64
  SizeOfInfo :: u64
  FrameBufferBase :: u64
  FrameBufferSize :: u64

record graphics_output =
  gop_base :: u64
  gop_mode :: u64

definition mode_information_enc :: "mode_information \<Rightarrow> u8 list" where
  "mode_information_enc i = le_emit
     [(4, unat (mi_Version i)), (4, unat (HorizontalResolution i)), (4, unat (VerticalResolution i)),
      (4, unat (PixelFormat i)), (4, unat (RedMask i)), (4, unat (GreenMask i)),
      (4, unat (BlueMask i)), (4, unat (ReservedMask i)), (4, unat (PixelsPerScanLine i))]"

definition mode_information_dec :: "u8 list \<Rightarrow> mode_information" where
  "mode_information_dec bs =
     (let v = le_fields [4, 4, 4, 4, 4, 4, 4, 4, 4] bs
      in \<lparr>mi_Version = of_nat (v ! 0), HorizontalResolution = of_nat (v ! 1),
          VerticalResolution = of_nat (v ! 2), PixelFormat = of_nat (v ! 3),
          RedMask = of_nat (v ! 4), GreenMask = of_nat (v ! 5), BlueMask = of_nat (v ! 6),
          ReservedMask = of_nat (v ! 7), PixelsPerScanLine = of_nat (v ! 8)\<rparr>)"

definition protocol_mode_enc :: "protocol_mode \<Rightarrow> u8 list" where
  "protocol_mode_enc d = le_emit
     [(4, unat (MaxMode d)), (4, unat (pm_Mode d)), (8, unat (pm_Info d)), (8, unat (SizeOfInfo d)),
      (8, unat (FrameBufferBase d)), (8, unat (FrameBufferSize d))]"

definition protocol_mode_dec :: "u8 list \<Rightarrow> protocol_mode" where
  "protocol_mode_dec bs =
     (let v = le_fields [4, 4, 8, 8, 8, 8] bs
      in \<lparr>MaxMode = of_nat (v ! 0), pm_Mode = of_nat (v ! 1), pm_Info = of_nat (v ! 2),
          SizeOfInfo = of_nat (v ! 3), FrameBufferBase = of_nat (v ! 4),
          FrameBufferSize = of_nat (v ! 5)\<rparr>)"

definition GetInfo :: "dma_pkg \<Rightarrow> protocol_mode \<Rightarrow> memory \<Rightarrow> (gerr + mode_information) option" where
  "GetInfo dma d f = decode dma 36 mode_information_dec (pm_Info d) f"

definition GetMode :: "dma_pkg \<Rightarrow> graphics_output \<Rightarrow> memory \<Rightarrow> (gerr + protocol_mode) option" where
  "GetMode dma gop f = decode dma 40 protocol_mode_dec (gop_mode gop) f"

text \<open>
  \<^verbatim>\<open>Blt\<close>; the second result is the buffer after the call. \<^verbatim>\<open>&buf[0]\<close> panics on an empty
  buffer, even for the operations that do not use it.
\<close>

definition Blt :: "'w firmware \<Rightarrow> graphics_output \<Rightarrow> u8 list \<Rightarrow> int \<Rightarrow> u64 \<Rightarrow> u64 \<Rightarrow> u64 \<Rightarrow> u64
    \<Rightarrow> u64 \<Rightarrow> u64 \<Rightarrow> u64 \<Rightarrow> 'w machine \<Rightarrow> (gerr option \<times> u8 list \<times> 'w machine) option" where
  "Blt fw gop buf bop srcX srcY dstX dstY width height delta m =
     (if gop_base gop = 0 then Some (None, buf, m)
      else do {
        (b, m) \<leftarrow> first_elem buf m;
        p \<leftarrow> ptrval (PtrByte b);
        let (status, m) = CallService fw (gop_base gop + blt)
              [gop_base gop, p, word_of_int bop, srcX, srcY, dstX, dstY, width, height, delta] m;
        Some (parseStatus status, load_bytes (mem m) b (length buf), m) })"

text \<open>The protocol instance: four pointers, of which the last is the address of the mode.\<close>

definition gop_data_Mode :: "u8 list \<Rightarrow> u64" where
  "gop_data_Mode bs = of_nat (le_fields [8, 8, 8, 8] bs ! 3)"

definition GetGraphicsOutput :: "dma_pkg \<Rightarrow> 'w firmware \<Rightarrow> boot_services \<Rightarrow> 'w machine
    \<Rightarrow> (graphics_output \<times> gerr option \<times> 'w machine) option" where
  "GetGraphicsOutput dma fw s m = do {
     (base, err, m) \<leftarrow> LocateProtocol fw s EFI_GRAPHICS_OUTPUT_PROTOCOL_GUID m;
     let gop = \<lparr>gop_base = base, gop_mode = 0\<rparr>;
     case err of
       Some e \<Rightarrow> Some (gop, Some e, m)
     | None \<Rightarrow> do {
         d \<leftarrow> decode dma 32 gop_data_Mode base (mem m);
         case d of
           Inl e \<Rightarrow> Some (gop, Some e, m)
         | Inr mode \<Rightarrow> Some (gop\<lparr>gop_mode := mode\<rparr>, None, m) } }"

text \<open>A display for the example below.\<close>

definition demo_info :: mode_information where
  "demo_info = \<lparr>mi_Version = 0, HorizontalResolution = 1024, VerticalResolution = 768,
     PixelFormat = 1, RedMask = 0, GreenMask = 0, BlueMask = 0, ReservedMask = 0,
     PixelsPerScanLine = 1024\<rparr>"

definition demo_mode :: protocol_mode where
  "demo_mode = \<lparr>MaxMode = 3, pm_Mode = 1, pm_Info = 8192, SizeOfInfo = 36,
     FrameBufferBase = 0x80000000, FrameBufferSize = 3145728\<rparr>"

definition demo_display :: memory where
  "demo_display = store_bytes 8192 (mode_information_enc demo_info)
     (store_bytes 4096 (protocol_mode_enc demo_mode) (store64 24600 4096 (\<lambda>_. 0)))"

definition demo_display_firmware :: "unit firmware" where
  "demo_display_firmware code args f w = (0, store64 (args ! 2) 24576 f, w)"

section \<open>Lemmas\<close>

interpretation mode_information: struct_codec 36 mode_information_enc mode_information_dec "\<lambda>_. True"
proof unfold_locales
  fix i rest show "mode_information_dec (mode_information_enc i @ rest) = i"
    by (simp add: mode_information_dec_def mode_information_enc_def le_simps)
next
  fix bs :: "u8 list" assume "36 \<le> length bs"
  show "mode_information_dec (take 36 bs) = mode_information_dec bs"
    by (simp add: mode_information_dec_def le_fields_take del: le_fields.simps)
qed (simp_all add: mode_information_enc_def)

interpretation protocol_mode: struct_codec 40 protocol_mode_enc protocol_mode_dec "\<lambda>_. True"
proof unfold_locales
  fix d rest show "protocol_mode_dec (protocol_mode_enc d @ rest) = d"
    by (simp add: protocol_mode_dec_def protocol_mode_enc_def le_simps)
next
  fix bs :: "u8 list" assume "40 \<le> length bs"
  show "protocol_mode_dec (take 40 bs) = protocol_mode_dec bs"
    by (simp add: protocol_mode_dec_def le_fields_take del: le_fields.simps)
qed (simp_all add: protocol_mode_enc_def)

lemma gop_data_Mode_at: "gop_data_Mode (load_bytes f a 32) = load64 f (a + 24)"
  by (simp add: gop_data_Mode_def load64_def drop_load_bytes take_load_bytes add.commute)

lemma GetGraphicsOutput_found:
  assumes "dma_maps dma" "LocateProtocol fw s EFI_GRAPHICS_OUTPUT_PROTOCOL_GUID m = Some (base, None, m')"
    and "base \<noteq> 0" "NewRegion dma base 32 = None"
  shows "GetGraphicsOutput dma fw s m
    = Some (\<lparr>gop_base = base, gop_mode = load64 (mem m') (base + 24)\<rparr>, None, m')"
  using assms
  by (simp add: GetGraphicsOutput_def decode_def align_def dma_maps_def unmarshalBinary_def
      gop_data_Mode_at)

lemma demo_display_located:
  "\<exists>m'. LocateProtocol demo_display_firmware demo_boot EFI_GRAPHICS_OUTPUT_PROTOCOL_GUID
        (demo_machine\<lparr>mem := demo_display\<rparr>) = Some (24576, None, m')
     \<and> (\<forall>a n. apart a n 1048576 8 \<longrightarrow> apart a n 1114112 16 \<longrightarrow> n \<le> 2 ^ 64
          \<longrightarrow> load_bytes (mem m') a n = load_bytes demo_display a n)"
proof -
  obtain bs where bs: "Bytes EFI_GRAPHICS_OUTPUT_PROTOCOL_GUID = Some bs" "length bs = 16"
    using Bytes_total by blast
  then show ?thesis
    by (simp add: LocateProtocol_call [OF bs(1)] CallService_nonempty demo_display_firmware_def
        lookup_machine_def new_obj_def new_slice_def demo_machine_def load64_store64)
      (simp add: store64_def load_store_apart load_zero_apart)
qed

section \<open>Properties\<close>

text \<open>
  Reading the display. When the firmware locates the Graphics Output Protocol and a mode
  and its mode information are in memory where the protocol and the mode point,
  \<^verbatim>\<open>GetGraphicsOutput\<close>, \<^verbatim>\<open>GetMode\<close> and \<^verbatim>\<open>GetInfo\<close> in turn return exactly the
  protocol's address, the mode and the mode information.
\<close>

theorem GetGraphicsOutput_info:
  assumes "dma_maps dma" "\<And>a n. NewRegion dma a n = None"
    and "LocateProtocol fw s EFI_GRAPHICS_OUTPUT_PROTOCOL_GUID m = Some (base, None, m')"
    and "base \<noteq> 0" "load64 (mem m') (base + 24) \<noteq> 0" "pm_Info pm \<noteq> 0"
    and "load_bytes (mem m') (load64 (mem m') (base + 24)) 40 = protocol_mode_enc pm"
    and "load_bytes (mem m') (pm_Info pm) 36 = mode_information_enc info"
  shows "\<exists>gop. GetGraphicsOutput dma fw s m = Some (gop, None, m') \<and> gop_base gop = base
           \<and> GetMode dma gop (mem m') = Some (Inr pm) \<and> GetInfo dma pm (mem m') = Some (Inr info)"
  using GetGraphicsOutput_found [OF assms(1,3,4,2)] assms
    protocol_mode.decode_stored [OF assms(1,5)] mode_information.decode_stored [OF assms(1,6)]
  by (simp add: GetMode_def GetInfo_def)

theorem GetGraphicsOutput_info_witness:
  "\<exists>gop m'. GetGraphicsOutput demo_dma demo_display_firmware demo_boot (demo_machine\<lparr>mem := demo_display\<rparr>)
       = Some (gop, None, m') \<and> gop_base gop = 24576
     \<and> GetMode demo_dma gop (mem m') = Some (Inr demo_mode)
     \<and> GetInfo demo_dma demo_mode (mem m') = Some (Inr demo_info)"
proof -
  let ?m = "demo_machine\<lparr>mem := demo_display\<rparr>"
  obtain m' where l: "LocateProtocol demo_display_firmware demo_boot EFI_GRAPHICS_OUTPUT_PROTOCOL_GUID ?m = Some (24576, None, m')"
    and f: "\<And>a n. apart a n 1048576 8 \<Longrightarrow> apart a n 1114112 16 \<Longrightarrow> n \<le> 2 ^ 64
      \<Longrightarrow> load_bytes (mem m') a n = load_bytes demo_display a n"
    using demo_display_located by blast
  have "load64 (mem m') (24576 + 24) = load64 demo_display 24600"
    using f [of 24600 8] by (simp add: load64_def apart_def)
  also have "\<dots> = 4096"
    by (simp add: demo_display_def mem_simps apart_def mode_information.length_enc [simplified]
        protocol_mode.length_enc [simplified])
  finally have mode: "load64 (mem m') (24576 + 24) = 4096" .
  have "load_bytes (mem m') 4096 40 = protocol_mode_enc demo_mode"
    using f [of 4096 40] load_store_same [of "protocol_mode_enc demo_mode" 4096]
    by (simp add: apart_def demo_display_def load_store_apart mode_information.length_enc [simplified]
        protocol_mode.length_enc [simplified])
  moreover have "load_bytes (mem m') (pm_Info demo_mode) 36 = mode_information_enc demo_info"
    using f [of 8192 36] load_store_same [of "mode_information_enc demo_info" 8192]
    by (simp add: apart_def demo_display_def demo_mode_def mode_information.length_enc [simplified])
  ultimately have "\<exists>gop. GetGraphicsOutput demo_dma demo_display_firmware demo_boot ?m = Some (gop, None, m')
      \<and> gop_base gop = 24576 \<and> GetMode demo_dma gop (mem m') = Some (Inr demo_mode)
      \<and> GetInfo demo_dma demo_mode (mem m') = Some (Inr demo_info)"
    by (intro GetGraphicsOutput_info [OF demo_dma_maps demo_dma_region l])
       (simp_all add: mode [simplified], simp add: demo_mode_def)
  then show ?thesis by blast
qed

text \<open>
  Block transfers. \<^verbatim>\<open>Blt\<close> on a located protocol panics exactly on an empty buffer;
  otherwise it makes one call, with the ten arguments of the protocol in order and the
  buffer's bytes at the second one, and returns the error of the status and the buffer as the firmware left
  it. Without a protocol it does nothing.
\<close>

theorem Blt_call:
  "if gop_base gop = 0 then Blt fw gop buf bop x y x' y' w h delta m = Some (None, buf, m)
   else if buf = [] then Blt fw gop buf bop x y x' y' w h delta m = None
   else \<exists>st m1 m'. new_slice buf m = (place m (objs m), m1)
      \<and> CallService fw (gop_base gop + blt)
          [gop_base gop, place m (objs m), word_of_int bop, x, y, x', y', w, h, delta] m1 = (st, m')
      \<and> Blt fw gop buf bop x y x' y' w h delta m
          = Some (parseStatus st, load_bytes (mem m') (place m (objs m)) (length buf), m')"
  by (auto simp: Blt_def first_elem_def new_slice_def split: prod.splits)

end
