(* ===== verification/Uefi_Call.thy ===== *)
theory Uefi_Call
  imports Services
begin

text \<open>
  Calls into the firmware from \<^verbatim>\<open>pkg/uefi\<close>: \<^verbatim>\<open>call.go\<close>, the assembly routines
  \<^verbatim>\<open>uefiCall0\<close> to \<^verbatim>\<open>uefiCall10\<close> of \<^verbatim>\<open>asm_amd64.S\<close>, the package state and the
  conversions of \<^verbatim>\<open>util.go\<close>, and the layout the Go compiler gives the structs of the
  package.

  Two calling styles meet in \<^verbatim>\<open>call.go\<close>. The routines without a Go body jump to the
  address they are given (\<open>uefi_direct\<close>). \<^verbatim>\<open>UefiCall3\<close> and \<^verbatim>\<open>UefiCall5\<close> go
  through \<^verbatim>\<open>callFn\<close>, which loads the code address from the memory its argument points to.
  \<^verbatim>\<open>uefi.s\<close> and \<^verbatim>\<open>callFn\<close> are those of \<^verbatim>\<open>pkg/ueficore\<close>.

  A Go pointer to a struct of the firmware is its address; following the nil pointer panics.
\<close>

section \<open>Definitions\<close>

subsection \<open>call.go\<close>

definition callService :: "'w firmware \<Rightarrow> u64 \<Rightarrow> u64 list \<Rightarrow> 'w machine \<Rightarrow> u64 \<times> 'w machine" where
  "callService fw fn args m = callFn fw fn args m"

datatype uptr =
    UPtrUint64 u64
  | UPtrUint32 u64
  | UPtrUint16 u64
  | UPtrUintptr u64
  | UPtrByte u64
  | UPtrOther u64

fun uefi_ptrval :: "uptr \<Rightarrow> u64 option" where
  "uefi_ptrval (UPtrUint64 v) = Some v"
| "uefi_ptrval (UPtrUint32 v) = Some v"
| "uefi_ptrval (UPtrUint16 v) = Some v"
| "uefi_ptrval (UPtrUintptr v) = Some v"
| "uefi_ptrval (UPtrByte v) = Some v"
| "uefi_ptrval (UPtrOther v) = None"

definition uefi_Ptrval :: "uptr \<Rightarrow> u64 option" where
  "uefi_Ptrval p = uefi_ptrval p"

text \<open>A call of the code at an address.\<close>

definition uefi_direct :: "'w firmware \<Rightarrow> u64 \<Rightarrow> u64 list \<Rightarrow> 'w machine \<Rightarrow> u64 \<times> 'w machine" where
  "uefi_direct fw fn args m =
     (let (status, f, w) = fw fn args (mem m) (world m)
      in (status, m\<lparr>mem := f, world := w, calls := calls m @ [Direct fn args]\<rparr>))"

definition UefiCall0 :: "'w firmware \<Rightarrow> u64 \<Rightarrow> 'w machine \<Rightarrow> u64 \<times> 'w machine" where
  "UefiCall0 fw fn m = uefi_direct fw fn [] m"

definition UefiCall1 :: "'w firmware \<Rightarrow> u64 \<Rightarrow> u64 \<Rightarrow> 'w machine \<Rightarrow> u64 \<times> 'w machine" where
  "UefiCall1 fw fn a m = uefi_direct fw fn [a] m"

definition UefiCall2 :: "'w firmware \<Rightarrow> u64 \<Rightarrow> u64 \<Rightarrow> u64 \<Rightarrow> 'w machine \<Rightarrow> u64 \<times> 'w machine" where
  "UefiCall2 fw fn a b m = uefi_direct fw fn [a, b] m"

definition UefiCall3 :: "'w firmware \<Rightarrow> u64 \<Rightarrow> u64 \<Rightarrow> u64 \<Rightarrow> u64 \<Rightarrow> 'w machine \<Rightarrow> u64 \<times> 'w machine" where
  "UefiCall3 fw fn a b c m = (let (st, m) = callService fw fn [a, b, c] m in (st, m))"

definition UefiCall4 ::
    "'w firmware \<Rightarrow> u64 \<Rightarrow> u64 \<Rightarrow> u64 \<Rightarrow> u64 \<Rightarrow> u64 \<Rightarrow> 'w machine \<Rightarrow> u64 \<times> 'w machine" where
  "UefiCall4 fw fn a b c d m = uefi_direct fw fn [a, b, c, d] m"

definition UefiCall5 ::
    "'w firmware \<Rightarrow> u64 \<Rightarrow> u64 \<Rightarrow> u64 \<Rightarrow> u64 \<Rightarrow> u64 \<Rightarrow> u64 \<Rightarrow> 'w machine \<Rightarrow> u64 \<times> 'w machine" where
  "UefiCall5 fw fn a b c d e m = (let (st, m) = callFn fw fn [a, b, c, d, e] m in (st, m))"

definition UefiCall6 ::
    "'w firmware \<Rightarrow> u64 \<Rightarrow> u64 \<Rightarrow> u64 \<Rightarrow> u64 \<Rightarrow> u64 \<Rightarrow> u64 \<Rightarrow> u64 \<Rightarrow> 'w machine
      \<Rightarrow> u64 \<times> 'w machine" where
  "UefiCall6 fw fn a b c d e f m = uefi_direct fw fn [a, b, c, d, e, f] m"

definition UefiCall7 ::
    "'w firmware \<Rightarrow> u64 \<Rightarrow> u64 \<Rightarrow> u64 \<Rightarrow> u64 \<Rightarrow> u64 \<Rightarrow> u64 \<Rightarrow> u64 \<Rightarrow> u64 \<Rightarrow> 'w machine
      \<Rightarrow> u64 \<times> 'w machine" where
  "UefiCall7 fw fn a b c d e f g m = uefi_direct fw fn [a, b, c, d, e, f, g] m"

definition UefiCall8 ::
    "'w firmware \<Rightarrow> u64 \<Rightarrow> u64 \<Rightarrow> u64 \<Rightarrow> u64 \<Rightarrow> u64 \<Rightarrow> u64 \<Rightarrow> u64 \<Rightarrow> u64 \<Rightarrow> u64 \<Rightarrow> 'w machine
      \<Rightarrow> u64 \<times> 'w machine" where
  "UefiCall8 fw fn a b c d e f g h m = uefi_direct fw fn [a, b, c, d, e, f, g, h] m"

definition UefiCall9 ::
    "'w firmware \<Rightarrow> u64 \<Rightarrow> u64 \<Rightarrow> u64 \<Rightarrow> u64 \<Rightarrow> u64 \<Rightarrow> u64 \<Rightarrow> u64 \<Rightarrow> u64 \<Rightarrow> u64 \<Rightarrow> u64 \<Rightarrow> 'w machine
      \<Rightarrow> u64 \<times> 'w machine" where
  "UefiCall9 fw fn a b c d e f g h i m = uefi_direct fw fn [a, b, c, d, e, f, g, h, i] m"

definition UefiCall10 ::
    "'w firmware \<Rightarrow> u64 \<Rightarrow> u64 \<Rightarrow> u64 \<Rightarrow> u64 \<Rightarrow> u64 \<Rightarrow> u64 \<Rightarrow> u64 \<Rightarrow> u64 \<Rightarrow> u64 \<Rightarrow> u64 \<Rightarrow> u64 \<Rightarrow> 'w machine
      \<Rightarrow> u64 \<times> 'w machine" where
  "UefiCall10 fw fn a b c d e f g h i j m = uefi_direct fw fn [a, b, c, d, e, f, g, h, i, j] m"

subsection \<open>asm\_amd64.S\<close>

record call_state = asm_state +
  RAX :: u64
  RBP :: u64

text \<open>The constant each routine subtracts from the stack pointer.\<close>

definition uefiCall_frame :: "nat \<Rightarrow> u64" where
  "uefiCall_frame n = [0x20, 0x20, 0x20, 0x20, 0x20, 0x28, 0x28, 0x38, 0x40, 0x48, 0x50] ! n"

text \<open>
  The routine for \<open>n\<close> arguments from its entry to the \<^verbatim>\<open>callq\<close>: the fifth and later arguments
  are copied one by one from the caller's frame.
\<close>

fun asm_spill :: "nat \<Rightarrow> nat \<Rightarrow> call_state \<Rightarrow> call_state" where
  "asm_spill i 0 r = r"
| "asm_spill i (Suc k) r = asm_spill (Suc i) k
     (r\<lparr>amem := store64 (RSP r + 0x20 + 8 * of_nat i) (load64 (amem r) (RBP r + 0x38 + 8 * of_nat i)) (amem r)\<rparr>)"

definition asm_uefiCall :: "nat \<Rightarrow> call_state \<Rightarrow> call_state" where
  "asm_uefiCall n r =
     (let r = r\<lparr>RSP := RSP r - 8, amem := store64 (RSP r - 8) (RBP r) (amem r)\<rparr>;
          r = r\<lparr>RBP := RSP r\<rparr>;
          r = r\<lparr>RSP := RSP r - uefiCall_frame n\<rparr>;
          r = r\<lparr>RAX := RCX r\<rparr>;
          r = (if 1 \<le> n then r\<lparr>RCX := RDX r\<rparr> else r);
          r = (if 2 \<le> n then r\<lparr>RDX := R8 r\<rparr> else r);
          r = (if 3 \<le> n then r\<lparr>R8 := R9 r\<rparr> else r);
          r = (if 4 \<le> n then r\<lparr>R9 := load64 (amem r) (RBP r + 0x30)\<rparr> else r)
      in asm_spill 0 (n - 4) r)"

text \<open>The end of every routine, from the state in which the firmware has returned.\<close>

definition asm_uefiReturn :: "call_state \<Rightarrow> call_state" where
  "asm_uefiReturn r =
     (let r = r\<lparr>RSP := RBP r\<rparr>
      in r\<lparr>RBP := load64 (amem r) (RSP r), RSP := RSP r + 8\<rparr>)"

text \<open>The state in which the caller executes its call, and the state the callee starts in.\<close>

definition asm_enter :: "u64 \<Rightarrow> call_state \<Rightarrow> call_state" where
  "asm_enter ret r = r\<lparr>RSP := RSP r - 8, amem := store64 (RSP r - 8) ret (amem r)\<rparr>"

subsection \<open>util.go: the package state\<close>

text \<open>
  The package variables: the system table, the image handle, and the addresses the linker gives
  the variables whose address the code takes, by name.
\<close>

record uefi_pkg =
  systemTable :: u64
  imageHandle :: u64
  var_addr :: "string \<Rightarrow> u64"

definition uefi_Init :: "u64 \<Rightarrow> u64 \<Rightarrow> uefi_pkg \<Rightarrow> uefi_pkg" where
  "uefi_Init argImageHandle argSystemTable g =
     g\<lparr>systemTable := argSystemTable, imageHandle := argImageHandle\<rparr>"

definition ST :: "uefi_pkg \<Rightarrow> u64" where
  "ST g = systemTable g"

text \<open>A 64-bit field of a struct in memory.\<close>

definition field :: "u64 \<Rightarrow> u64 \<Rightarrow> 'w machine \<Rightarrow> u64 option" where
  "field p off m = (if p = 0 then None else Some (load64 (mem m) (p + off)))"

definition GetImageHandle :: "uefi_pkg \<Rightarrow> u64" where
  "GetImageHandle g = imageHandle g"

definition convertBoolean :: "bool \<Rightarrow> u64" where
  "convertBoolean b = (if b then 1 else 0)"

definition convertBool :: "bool \<Rightarrow> u64" where
  "convertBool b = (if b then 1 else 0)"

subsection \<open>The layout of Go structs\<close>

text \<open>A field of a struct has a name, a size and an alignment; Go aligns each field.\<close>

type_synonym go_struct = "(string \<times> nat \<times> nat) list"

definition align_up :: "nat \<Rightarrow> nat \<Rightarrow> nat" where
  "align_up n a = (n + a - 1) div a * a"

fun go_layout :: "nat \<Rightarrow> go_struct \<Rightarrow> (string \<times> nat) list" where
  "go_layout off [] = []"
| "go_layout off ((name, sz, al) # fs) =
     (let o1 = align_up off al in (name, o1) # go_layout (o1 + sz) fs)"

fun go_end :: "nat \<Rightarrow> go_struct \<Rightarrow> nat" where
  "go_end off [] = off"
| "go_end off ((name, sz, al) # fs) = go_end (align_up off al + sz) fs"

definition go_align :: "go_struct \<Rightarrow> nat" where
  "go_align fs = Max (set (1 # map (\<lambda>(name, sz, al). al) fs))"

definition go_sizeof :: "go_struct \<Rightarrow> nat" where
  "go_sizeof fs = align_up (go_end 0 fs) (go_align fs)"

definition word_field :: "string \<Rightarrow> string \<times> nat \<times> nat" where
  "word_field name = (name, 8, 8)"

definition int_field :: "string \<Rightarrow> string \<times> nat \<times> nat" where
  "int_field name = (name, 4, 4)"

definition short_field :: "string \<Rightarrow> string \<times> nat \<times> nat" where
  "short_field name = (name, 2, 2)"

definition byte_field :: "string \<Rightarrow> string \<times> nat \<times> nat" where
  "byte_field name = (name, 1, 1)"

definition struct_field :: "string \<Rightarrow> go_struct \<Rightarrow> string \<times> nat \<times> nat" where
  "struct_field name fs = (name, go_sizeof fs, go_align fs)"

text \<open>The offset of a field, and the value of a 64-bit field of the struct at an address.\<close>

definition go_offset :: "go_struct \<Rightarrow> string \<Rightarrow> u64 option" where
  "go_offset fs name = map_option of_nat (map_of (go_layout 0 fs) name)"

definition go_field :: "go_struct \<Rightarrow> string \<Rightarrow> u64 \<Rightarrow> 'w machine \<Rightarrow> u64 option" where
  "go_field fs name p m = do { off \<leftarrow> go_offset fs name; field p off m }"

text \<open>A caller's state for the examples below.\<close>

definition demo_call :: call_state where
  "demo_call = \<lparr>RCX = 100, RDX = 10, R8 = 20, R9 = 30, RSP = 36864, amem = (\<lambda>_. 0), RAX = 0, RBP = 40960\<rparr>"

section \<open>Lemmas\<close>

lemma asm_spill_numeral:
  "asm_spill i (numeral k) r = asm_spill (Suc i) (pred_numeral k)
     (r\<lparr>amem := store64 (RSP r + 0x20 + 8 * of_nat i) (load64 (amem r) (RBP r + 0x38 + 8 * of_nat i)) (amem r)\<rparr>)"
  by (simp add: numeral_eq_Suc)

lemma field_Some [simp]: "p \<noteq> 0 \<Longrightarrow> field p off m = Some (load64 (mem m) (p + off))"
  by (simp add: field_def)

lemma field_nil [simp]: "field 0 off m = None"
  by (simp add: field_def)

lemma uefi_direct_log: "calls (snd (uefi_direct fw fn args m)) = calls m @ [Direct fn args]"
  by (simp add: uefi_direct_def split: prod.splits)

lemma uefi_direct_frame [simp]:
  "place (snd (uefi_direct fw fn args m)) = place m" "objs (snd (uefi_direct fw fn args m)) = objs m"
  by (simp_all add: uefi_direct_def split: prod.splits)

lemma callService_CallService: "callService = CallService"
  by (simp add: fun_eq_iff callService_def CallService_def)

lemma UefiCall3_CallService: "UefiCall3 fw fn a b c m = CallService fw fn [a, b, c] m"
  by (simp add: UefiCall3_def callService_CallService)

lemma UefiCall5_CallService: "UefiCall5 fw fn a b c d e m = CallService fw fn [a, b, c, d, e] m"
  by (simp add: UefiCall5_def CallService_def)

lemmas uefi_call_defs = UefiCall0_def UefiCall1_def UefiCall2_def UefiCall4_def UefiCall6_def
  UefiCall7_def UefiCall8_def UefiCall9_def UefiCall10_def UefiCall3_CallService UefiCall5_CallService

lemma align_up_bounds:
  assumes "0 < a"
  shows "align_up n a mod a = 0" "n \<le> align_up n a" "align_up n a < n + a"
proof -
  define q where "q = (n + a - 1) div a"
  define r where "r = (n + a - 1) mod a"
  have "n + a - 1 = q * a + r" by (simp add: q_def r_def)
  moreover have "r < a" using assms by (simp add: r_def)
  moreover have "align_up n a = q * a" by (simp add: align_up_def q_def)
  ultimately show "align_up n a mod a = 0" "n \<le> align_up n a" "align_up n a < n + a"
    using assms by simp_all
qed

subsection \<open>The assembly routines\<close>

lemma upt_0_numeral: "[0..<numeral n] = 0 # [Suc 0..<numeral n]"
  by (simp add: upt_conv_Cons)

lemma upt_1_numeral: "Suc 0 < numeral n \<Longrightarrow> [Suc 0..<numeral n] = 1 # [2..<numeral n]"
  by (simp add: upt_conv_Cons numeral_2_eq_2)

lemma le_10_cases:
  "n \<le> 10 \<Longrightarrow> n = 10 \<or> n = 9 \<or> n = 8 \<or> n = 7 \<or> n = 6 \<or> n = 5 \<or> n = 4 \<or> n = 3 \<or> n = 2 \<or> n = 1 \<or> n = (0::nat)"
  by presburger

lemmas asm_uefiCall_run = asm_uefiCall_def asm_enter_def uefiCall_frame_def Let_def asm_spill_numeral

lemma asm_uefiCall_args:
  "n \<le> 10 \<Longrightarrow> RAX (asm_uefiCall n (asm_enter ret r)) # frame_args n (asm_uefiCall n (asm_enter ret r))
     = frame_args (Suc n) r"
  apply (drule le_10_cases)
  apply (elim disjE; hypsubst; simp add: asm_uefiCall_run frame_args_def)
  apply (simp_all add: mem_simps apart_def upt_0_numeral upt_1_numeral)
  apply (simp_all add: add.commute)
  done

lemma asm_uefiCall_RSP: "n \<le> 10 \<Longrightarrow> RSP (asm_uefiCall n (asm_enter ret r)) = RSP r - 16 - uefiCall_frame n"
  by (drule le_10_cases) (elim disjE; hypsubst; simp add: asm_uefiCall_run)

lemma asm_uefiCall_RBP: "n \<le> 10 \<Longrightarrow> RBP (asm_uefiReturn (asm_uefiCall n (asm_enter ret r)))
    = (if n = 6 then frame_args 7 r ! 6 else RBP r)"
  apply (drule le_10_cases)
  apply (elim disjE; hypsubst; simp add: asm_uefiCall_run asm_uefiReturn_def frame_args_def)
  apply (simp_all add: mem_simps apart_def upt_0_numeral upt_1_numeral)
  done

lemma uefiCall_frame_mod:
  "n \<le> 10 \<Longrightarrow> uint (uefiCall_frame n) mod 16 = (if n \<in> {5, 6, 7, 9} then 8 else 0)"
  by (drule le_10_cases) (elim disjE; hypsubst; simp add: uefiCall_frame_def)

section \<open>Properties\<close>



text \<open>
  Claim C32: the frames of the direct call routines. If the caller's stack is aligned to 16 bytes at
  its call, the firmware is called with an aligned stack for all numbers of arguments up to ten
  except five, six, seven and nine. The caller's frame pointer is restored, except by the
  routine for six arguments: its frame is one quadword too small, the sixth argument overwrites the
  saved frame pointer, and the caller gets the argument instead.
\<close>

theorem uefiCall_frames:
  assumes "n \<le> 10" "uint (RSP r) mod 16 = 0"
  shows "(uint (RSP (asm_uefiCall n (asm_enter ret r))) mod 16 = 0 \<longleftrightarrow> n \<notin> {5, 6, 7, 9})
    \<and> RBP (asm_uefiReturn (asm_uefiCall n (asm_enter ret r))) = (if n = 6 then frame_args 7 r ! 6 else RBP r)"
  using asm_uefiCall_RBP [OF assms(1), of ret r] assms(2) uefiCall_frame_mod [OF assms(1)]
  by (simp add: asm_uefiCall_RSP [OF assms(1)] uint_diff_mod_16)

theorem uefiCall_frames_witness:
  "(uint (RSP (asm_uefiCall 6 (asm_enter 7 demo_call))) mod 16 = 0 \<longleftrightarrow> 6 \<notin> {5, 6, 7, 9 :: nat})
    \<and> RBP (asm_uefiReturn (asm_uefiCall 6 (asm_enter 7 demo_call)))
        = (if 6 = (6::nat) then frame_args 7 demo_call ! 6 else RBP demo_call)"
  by (rule uefiCall_frames) (simp_all add: demo_call_def)

end
