(* ===== verification/Uefi_Spec.thy ===== *)
theory Uefi_Spec
  imports Uefi_Call
begin

text \<open>
  \<^verbatim>\<open>pkg/uefi/uefi_spec.go\<close> with \<^verbatim>\<open>uefi_base_type.go\<close>, \<^verbatim>\<open>efidef.go\<close>,
  \<^verbatim>\<open>efidevp.go\<close> and \<^verbatim>\<open>loaded_image.go\<close>: the structs the package shares with the firmware,
  and one method per entry of the boot and runtime services tables. A method reads the code
  address from its entry and passes it on with the arguments, converted to machine words.
  \<open>p\<close> is the receiver; a pointer argument is an address. A method on a nil table panics.

  The Go field names are the strings of the struct definitions; \<open>go_field\<close> finds their offsets
  with the layout rules of the Go compiler.
\<close>

section \<open>Definitions\<close>

subsection \<open>Structs\<close>

definition EFI_TIME :: go_struct where
  "EFI_TIME =
    [short_field ''Year'', byte_field ''Month'', byte_field ''Day'', byte_field ''Hour'',
     byte_field ''Minute'', byte_field ''Second'', byte_field ''Pad1'',
     int_field ''Nanosecond'', short_field ''TimeZone'', byte_field ''Daylight'',
     byte_field ''Pad2'']"

definition EFI_GUID :: go_struct where
  "EFI_GUID =
    [int_field ''Data1'', short_field ''Data2'', short_field ''Data3'', (''Data4'', 8, 1)]"

definition EFI_DEVICE_PATH_PROTOCOL :: go_struct where
  "EFI_DEVICE_PATH_PROTOCOL =
    [byte_field ''Type'', byte_field ''SubType'', (''Length'', 2, 1)]"

definition EFI_TABLE_HEADER :: go_struct where
  "EFI_TABLE_HEADER =
    [word_field ''Signature'', int_field ''Revision'', int_field ''HeaderSize'',
     int_field ''CRC32'', int_field ''Reserved'']"

definition EFI_MEMORY_DESCRIPTOR :: go_struct where
  "EFI_MEMORY_DESCRIPTOR =
    [int_field ''Type'', word_field ''PhysicalStart'', word_field ''VirtualStart'',
     word_field ''NumberOfPages'', word_field ''Attribute'']"

definition EFI_TIME_CAPABILITIES :: go_struct where
  "EFI_TIME_CAPABILITIES =
    [int_field ''Resolution'', int_field ''Accuracy'', byte_field ''SetsToZero'']"

definition EFI_OPEN_PROTOCOL_INFORMATION_ENTRY :: go_struct where
  "EFI_OPEN_PROTOCOL_INFORMATION_ENTRY =
    [word_field ''AgentHandle'', word_field ''ControllerHandle'', int_field ''Attributes'',
     int_field ''OpenCount'']"

definition EFI_CAPSULE_BLOCK_DESCRIPTOR :: go_struct where
  "EFI_CAPSULE_BLOCK_DESCRIPTOR =
    [word_field ''Length'', word_field ''DataBlock'', word_field ''ContinuationPointer'']"

definition EFI_CAPSULE_HEADER :: go_struct where
  "EFI_CAPSULE_HEADER =
    [struct_field ''CapsuleGuid'' EFI_GUID, int_field ''HeaderSize'', int_field ''Flags'',
     int_field ''CapsuleImageSize'']"

definition EFI_CAPSULE_TABLE :: go_struct where
  "EFI_CAPSULE_TABLE =
    [int_field ''CapsuleArrayNumber'']"

definition EFI_CONFIGURATION_TABLE :: go_struct where
  "EFI_CONFIGURATION_TABLE =
    [struct_field ''VendorGuid'' EFI_GUID, word_field ''VendorTable'']"

definition EFI_SYSTEM_TABLE :: go_struct where
  "EFI_SYSTEM_TABLE =
    [struct_field ''Hdr'' EFI_TABLE_HEADER, word_field ''FirmwareVendor'',
     int_field ''FirmwareRevision'', word_field ''ConsoleInHandle'', word_field ''ConIn'',
     word_field ''ConsoleOutHandle'', word_field ''ConOut'', word_field ''StandardErrorHandle'',
     word_field ''StdErr'', word_field ''RuntimeServices'', word_field ''BootServices'',
     word_field ''NumberOfTableEntries'', word_field ''ConfigurationTable'']"

definition EFI_LOAD_OPTION :: go_struct where
  "EFI_LOAD_OPTION =
    [int_field ''Attributes'', short_field ''FilePathListLength'']"

definition EFI_LOADED_IMAGE_PROTOCOL :: go_struct where
  "EFI_LOADED_IMAGE_PROTOCOL =
    [int_field ''Revision'', word_field ''ParentHandle'', word_field ''SystemTable'',
     word_field ''DeviceHandle'', word_field ''FilePath'', word_field ''Reserved'',
     int_field ''LoadOptionsSize'', word_field ''LoadOptions'', word_field ''ImageBase'',
     word_field ''ImageSize'', word_field ''ImageCodeType'', word_field ''ImageDataType'',
     word_field ''unload'']"

text \<open>The service tables: the header, then one code pointer per entry.\<close>

definition RUNTIME_SERVICES_struct :: go_struct where
  "RUNTIME_SERVICES_struct = struct_field ''Hdr'' EFI_TABLE_HEADER # map word_field EFI_RUNTIME_SERVICES"

definition BOOT_SERVICES_struct :: go_struct where
  "BOOT_SERVICES_struct = struct_field ''Hdr'' EFI_TABLE_HEADER # map word_field EFI_BOOT_SERVICES"

definition EFI_SPECIFICATION_REVISION_MAJORMINOR :: "u16 \<Rightarrow> u16 \<Rightarrow> u32" where
  "EFI_SPECIFICATION_REVISION_MAJORMINOR major minor = push_bit 16 (ucast major) OR ucast minor"

definition EFI_SPECIFICATION_VERSION :: u32 where
  "EFI_SPECIFICATION_VERSION = EFI_SPECIFICATION_REVISION_MAJORMINOR 1 2"

definition EFI_SYSTEM_TABLE_SIGNATURE :: u64 where "EFI_SYSTEM_TABLE_SIGNATURE = 0x5453595320494249"
definition EFI_BOOT_SERVICES_SIGNATURE :: u64 where "EFI_BOOT_SERVICES_SIGNATURE = 0x56524553544f4f42"
definition EFI_RUNTIME_SERVICES_SIGNATURE :: u64 where "EFI_RUNTIME_SERVICES_SIGNATURE = 0x56524553544e5552"

definition AllHandles :: int where "AllHandles = 0"
definition ByRegisterNotify :: int where "ByRegisterNotify = 1"
definition ByProtocol :: int where "ByProtocol = 2"

definition EVT_TIMER :: u32 where "EVT_TIMER = 0x80000000"
definition TPL_APPLICATION :: u64 where "TPL_APPLICATION = 4"
definition TPL_CALLBACK :: u64 where "TPL_CALLBACK = 8"
definition TPL_NOTIFY :: u64 where "TPL_NOTIFY = 16"
definition TPL_HIGH_LEVEL :: u64 where "TPL_HIGH_LEVEL = 31"

definition TimerCancel :: int where "TimerCancel = 0"
definition TimerPeriodic :: int where "TimerPeriodic = 1"
definition TimerRelative :: int where "TimerRelative = 2"

text \<open>\<^verbatim>\<open>BS()\<close> of \<^verbatim>\<open>util.go\<close>.\<close>

definition BS :: "uefi_pkg \<Rightarrow> 'w machine \<Rightarrow> u64 option" where
  "BS g m = go_field EFI_SYSTEM_TABLE ''BootServices'' (systemTable g) m"

subsection \<open>Runtime services\<close>

definition RT_GetTime ::
    "'w firmware \<Rightarrow> u64 \<Rightarrow> u64 \<Rightarrow> u64 \<Rightarrow> 'w machine \<Rightarrow> (u64 \<times> 'w machine) option" where
  "RT_GetTime fw p time capabilities m = do {
     fn \<leftarrow> go_field RUNTIME_SERVICES_struct ''getTime'' p m;
     Some (UefiCall2 fw fn time capabilities m) }"

definition RT_SetTime ::
    "'w firmware \<Rightarrow> u64 \<Rightarrow> u64 \<Rightarrow> 'w machine \<Rightarrow> (u64 \<times> 'w machine) option" where
  "RT_SetTime fw p time m = do {
     fn \<leftarrow> go_field RUNTIME_SERVICES_struct ''setTime'' p m;
     Some (UefiCall1 fw fn time m) }"

definition RT_GetWakeupTime ::
    "'w firmware \<Rightarrow> u64 \<Rightarrow> u64 \<Rightarrow> u64 \<Rightarrow> u64 \<Rightarrow> 'w machine \<Rightarrow> (u64 \<times> 'w machine) option" where
  "RT_GetWakeupTime fw p enabled pending time m = do {
     fn \<leftarrow> go_field RUNTIME_SERVICES_struct ''getWakeupTime'' p m;
     Some (UefiCall3 fw fn enabled pending time m) }"

definition RT_SetVirtualAddressMap ::
    "'w firmware \<Rightarrow> u64 \<Rightarrow> u64 \<Rightarrow> u64 \<Rightarrow> u32 \<Rightarrow> u64 \<Rightarrow> 'w machine \<Rightarrow> (u64 \<times> 'w machine) option" where
  "RT_SetVirtualAddressMap fw p memoryMapSize descriptorSize descriptorVersion virtualMap m = do {
     fn \<leftarrow> go_field RUNTIME_SERVICES_struct ''setVirtualAddressMap'' p m;
     Some (UefiCall4 fw fn memoryMapSize descriptorSize (ucast descriptorVersion) virtualMap m) }"

definition RT_ConvertPointer ::
    "'w firmware \<Rightarrow> u64 \<Rightarrow> u64 \<Rightarrow> u64 \<Rightarrow> 'w machine \<Rightarrow> (u64 \<times> 'w machine) option" where
  "RT_ConvertPointer fw p debugDisposition address m = do {
     fn \<leftarrow> go_field RUNTIME_SERVICES_struct ''convertPointer'' p m;
     Some (UefiCall2 fw fn debugDisposition address m) }"

definition RT_GetVariable ::
    "'w firmware \<Rightarrow> u64 \<Rightarrow> u64 \<Rightarrow> u64 \<Rightarrow> u64 \<Rightarrow> u64 \<Rightarrow> u64 \<Rightarrow> 'w machine \<Rightarrow> (u64 \<times> 'w machine) option" where
  "RT_GetVariable fw p variableName vendorGuid attributes dataSize data' m = do {
     off \<leftarrow> go_offset RUNTIME_SERVICES_struct ''getVariable'';
     fn \<leftarrow> (if p = 0 then None else uefi_ptrval (UPtrUintptr (p + off)));
     Some (UefiCall5 fw fn variableName vendorGuid attributes dataSize data' m) }"

definition RT_GetNextVariableName ::
    "'w firmware \<Rightarrow> u64 \<Rightarrow> u64 \<Rightarrow> u64 \<Rightarrow> u64 \<Rightarrow> 'w machine \<Rightarrow> (u64 \<times> 'w machine) option" where
  "RT_GetNextVariableName fw p variableNameSize variableName vendorGuid m = do {
     off \<leftarrow> go_offset RUNTIME_SERVICES_struct ''getNextVariableName'';
     fn \<leftarrow> (if p = 0 then None else uefi_ptrval (UPtrUintptr (p + off)));
     Some (UefiCall3 fw fn variableNameSize variableName vendorGuid m) }"

definition RT_SetVariable ::
    "'w firmware \<Rightarrow> u64 \<Rightarrow> u64 \<Rightarrow> u64 \<Rightarrow> u32 \<Rightarrow> u64 \<Rightarrow> u64 \<Rightarrow> 'w machine \<Rightarrow> (u64 \<times> 'w machine) option" where
  "RT_SetVariable fw p variableName vendorGuid attributes dataSize data' m = do {
     fn \<leftarrow> go_field RUNTIME_SERVICES_struct ''setVariable'' p m;
     Some (UefiCall5 fw fn variableName vendorGuid (ucast attributes) dataSize data' m) }"

definition RT_GetNextHighMonotonicCount ::
    "'w firmware \<Rightarrow> u64 \<Rightarrow> u64 \<Rightarrow> 'w machine \<Rightarrow> (u64 \<times> 'w machine) option" where
  "RT_GetNextHighMonotonicCount fw p highCount m = do {
     fn \<leftarrow> go_field RUNTIME_SERVICES_struct ''getNextHighMonotonicCount'' p m;
     Some (UefiCall1 fw fn highCount m) }"

definition RT_ResetSystem ::
    "'w firmware \<Rightarrow> u64 \<Rightarrow> int \<Rightarrow> u64 \<Rightarrow> u64 \<Rightarrow> u64 \<Rightarrow> 'w machine \<Rightarrow> (u64 \<times> 'w machine) option" where
  "RT_ResetSystem fw p resetType resetStatus dataSize resetData m = do {
     fn \<leftarrow> go_field RUNTIME_SERVICES_struct ''resetSystem'' p m;
     Some (UefiCall4 fw fn (word_of_int resetType) resetStatus dataSize resetData m) }"

definition RT_UpdateCapsule ::
    "'w firmware \<Rightarrow> u64 \<Rightarrow> u64 \<Rightarrow> u64 \<Rightarrow> u64 \<Rightarrow> 'w machine \<Rightarrow> (u64 \<times> 'w machine) option" where
  "RT_UpdateCapsule fw p capsuleHeaderArray capsuleCount scatterGatherList m = do {
     fn \<leftarrow> go_field RUNTIME_SERVICES_struct ''updateCapsule'' p m;
     Some (UefiCall3 fw fn capsuleHeaderArray capsuleCount scatterGatherList m) }"

definition RT_QueryCapsuleCapabilities ::
    "'w firmware \<Rightarrow> u64 \<Rightarrow> u64 \<Rightarrow> u64 \<Rightarrow> u64 \<Rightarrow> u64 \<Rightarrow> 'w machine \<Rightarrow> (u64 \<times> 'w machine) option" where
  "RT_QueryCapsuleCapabilities fw p capsuleHeaderArray capsuleCount maximumCapsuleSize resetType m = do {
     fn \<leftarrow> go_field RUNTIME_SERVICES_struct ''queryCapsuleCapabilities'' p m;
     Some (UefiCall4 fw fn capsuleHeaderArray capsuleCount maximumCapsuleSize resetType m) }"

definition RT_QueryVariableInfo ::
    "'w firmware \<Rightarrow> u64 \<Rightarrow> u32 \<Rightarrow> u64 \<Rightarrow> u64 \<Rightarrow> u64 \<Rightarrow> 'w machine \<Rightarrow> (u64 \<times> 'w machine) option" where
  "RT_QueryVariableInfo fw p attributes maximumVariableStorageSize remainingVariableStorageSize maximumVariableSize m = do {
     fn \<leftarrow> go_field RUNTIME_SERVICES_struct ''queryVariableInfo'' p m;
     Some (UefiCall4 fw fn (ucast attributes) maximumVariableStorageSize remainingVariableStorageSize maximumVariableSize m) }"

definition RT_SetWakeupTime ::
    "'w firmware \<Rightarrow> u64 \<Rightarrow> bool \<Rightarrow> u64 \<Rightarrow> 'w machine \<Rightarrow> (u64 \<times> 'w machine) option" where
  "RT_SetWakeupTime fw p enable time m =
     (let enable' = (if enable then 1 else 0) in do {
        fn \<leftarrow> go_field RUNTIME_SERVICES_struct ''setWakeupTime'' p m;
        Some (UefiCall2 fw fn enable' time m) })"

subsection \<open>Boot services\<close>

definition BS_RaiseTPL ::
    "'w firmware \<Rightarrow> u64 \<Rightarrow> u64 \<Rightarrow> 'w machine \<Rightarrow> (u64 \<times> 'w machine) option" where
  "BS_RaiseTPL fw p newTpl m = do {
     fn \<leftarrow> go_field BOOT_SERVICES_struct ''raiseTPL'' p m;
     Some (UefiCall1 fw fn newTpl m) }"

definition BS_RestoreTPL ::
    "'w firmware \<Rightarrow> u64 \<Rightarrow> u64 \<Rightarrow> 'w machine \<Rightarrow> (u64 \<times> 'w machine) option" where
  "BS_RestoreTPL fw p oldTpl m = do {
     fn \<leftarrow> go_field BOOT_SERVICES_struct ''restoreTPL'' p m;
     Some (UefiCall1 fw fn oldTpl m) }"

definition BS_AllocatePages ::
    "'w firmware \<Rightarrow> u64 \<Rightarrow> int \<Rightarrow> int \<Rightarrow> u64 \<Rightarrow> u64 \<Rightarrow> 'w machine \<Rightarrow> (u64 \<times> 'w machine) option" where
  "BS_AllocatePages fw p type' memoryType pages memory m = do {
     fn \<leftarrow> go_field BOOT_SERVICES_struct ''allocatePages'' p m;
     Some (UefiCall4 fw fn (word_of_int type') (word_of_int memoryType) pages memory m) }"

definition BS_FreePages ::
    "'w firmware \<Rightarrow> u64 \<Rightarrow> u64 \<Rightarrow> u64 \<Rightarrow> 'w machine \<Rightarrow> (u64 \<times> 'w machine) option" where
  "BS_FreePages fw p memory pages m = do {
     fn \<leftarrow> go_field BOOT_SERVICES_struct ''freePages'' p m;
     Some (UefiCall2 fw fn memory pages m) }"

definition BS_GetMemoryMap ::
    "'w firmware \<Rightarrow> u64 \<Rightarrow> u64 \<Rightarrow> u64 \<Rightarrow> u64 \<Rightarrow> u64 \<Rightarrow> u64 \<Rightarrow> 'w machine \<Rightarrow> (u64 \<times> 'w machine) option" where
  "BS_GetMemoryMap fw p memoryMapSize memoryMap mapKey descriptorSize descriptorVersion m = do {
     fn \<leftarrow> go_field BOOT_SERVICES_struct ''getMemoryMap'' p m;
     Some (UefiCall5 fw fn memoryMapSize memoryMap mapKey descriptorSize descriptorVersion m) }"

definition BS_AllocatePool ::
    "'w firmware \<Rightarrow> u64 \<Rightarrow> int \<Rightarrow> u64 \<Rightarrow> u64 \<Rightarrow> 'w machine \<Rightarrow> (u64 \<times> 'w machine) option" where
  "BS_AllocatePool fw p poolType size' buffer m = do {
     fn \<leftarrow> go_field BOOT_SERVICES_struct ''allocatePool'' p m;
     Some (UefiCall3 fw fn (word_of_int poolType) size' buffer m) }"

definition BS_FreePool ::
    "'w firmware \<Rightarrow> u64 \<Rightarrow> u64 \<Rightarrow> 'w machine \<Rightarrow> (u64 \<times> 'w machine) option" where
  "BS_FreePool fw p buffer m = do {
     fn \<leftarrow> go_field BOOT_SERVICES_struct ''freePool'' p m;
     Some (UefiCall1 fw fn buffer m) }"

definition BS_CreateEvent ::
    "'w firmware \<Rightarrow> u64 \<Rightarrow> u32 \<Rightarrow> u64 \<Rightarrow> u64 \<Rightarrow> u64 \<Rightarrow> u64 \<Rightarrow> 'w machine \<Rightarrow> (u64 \<times> 'w machine) option" where
  "BS_CreateEvent fw p type' notifyTpl notifyFunction notifyContext event m = do {
     fn \<leftarrow> go_field BOOT_SERVICES_struct ''createEvent'' p m;
     Some (UefiCall5 fw fn (ucast type') notifyTpl notifyFunction notifyContext event m) }"

definition BS_SetTimer ::
    "'w firmware \<Rightarrow> u64 \<Rightarrow> u64 \<Rightarrow> int \<Rightarrow> u64 \<Rightarrow> 'w machine \<Rightarrow> (u64 \<times> 'w machine) option" where
  "BS_SetTimer fw p event type' triggerTime m = do {
     fn \<leftarrow> go_field BOOT_SERVICES_struct ''setTimer'' p m;
     Some (UefiCall3 fw fn event (word_of_int type') triggerTime m) }"

definition BS_WaitForEvent ::
    "'w firmware \<Rightarrow> u64 \<Rightarrow> u64 \<Rightarrow> u64 \<Rightarrow> u64 \<Rightarrow> 'w machine \<Rightarrow> (u64 \<times> 'w machine) option" where
  "BS_WaitForEvent fw p numberOfEvents event index m = do {
     fn \<leftarrow> go_field BOOT_SERVICES_struct ''waitForEvent'' p m;
     Some (UefiCall3 fw fn numberOfEvents event index m) }"

definition BS_SignalEvent ::
    "'w firmware \<Rightarrow> u64 \<Rightarrow> u64 \<Rightarrow> 'w machine \<Rightarrow> (u64 \<times> 'w machine) option" where
  "BS_SignalEvent fw p event m = do {
     fn \<leftarrow> go_field BOOT_SERVICES_struct ''signalEvent'' p m;
     Some (UefiCall1 fw fn event m) }"

definition BS_CloseEvent ::
    "'w firmware \<Rightarrow> u64 \<Rightarrow> u64 \<Rightarrow> 'w machine \<Rightarrow> (u64 \<times> 'w machine) option" where
  "BS_CloseEvent fw p event m = do {
     fn \<leftarrow> go_field BOOT_SERVICES_struct ''closeEvent'' p m;
     Some (UefiCall1 fw fn event m) }"

definition BS_CheckEvent ::
    "'w firmware \<Rightarrow> u64 \<Rightarrow> u64 \<Rightarrow> 'w machine \<Rightarrow> (u64 \<times> 'w machine) option" where
  "BS_CheckEvent fw p event m = do {
     fn \<leftarrow> go_field BOOT_SERVICES_struct ''checkEvent'' p m;
     Some (UefiCall1 fw fn event m) }"

definition BS_InstallProtocolInterface ::
    "'w firmware \<Rightarrow> u64 \<Rightarrow> u64 \<Rightarrow> u64 \<Rightarrow> u64 \<Rightarrow> u64 \<Rightarrow> 'w machine \<Rightarrow> (u64 \<times> 'w machine) option" where
  "BS_InstallProtocolInterface fw p handle protocol interfaceType interface m = do {
     fn \<leftarrow> go_field BOOT_SERVICES_struct ''installProtocolInterface'' p m;
     Some (UefiCall4 fw fn handle protocol interfaceType interface m) }"

definition BS_ReinstallProtocolInterface ::
    "'w firmware \<Rightarrow> u64 \<Rightarrow> u64 \<Rightarrow> u64 \<Rightarrow> u64 \<Rightarrow> u64 \<Rightarrow> 'w machine \<Rightarrow> (u64 \<times> 'w machine) option" where
  "BS_ReinstallProtocolInterface fw p handle protocol oldInterface newInterface m = do {
     fn \<leftarrow> go_field BOOT_SERVICES_struct ''reinstallProtocolInterface'' p m;
     Some (UefiCall4 fw fn handle protocol oldInterface newInterface m) }"

definition BS_UninstallProtocolInterface ::
    "'w firmware \<Rightarrow> u64 \<Rightarrow> u64 \<Rightarrow> u64 \<Rightarrow> u64 \<Rightarrow> 'w machine \<Rightarrow> (u64 \<times> 'w machine) option" where
  "BS_UninstallProtocolInterface fw p handle protocol interface m = do {
     fn \<leftarrow> go_field BOOT_SERVICES_struct ''uninstallProtocolInterface'' p m;
     Some (UefiCall3 fw fn handle protocol interface m) }"

definition BS_HandleProtocol ::
    "'w firmware \<Rightarrow> u64 \<Rightarrow> u64 \<Rightarrow> u64 \<Rightarrow> u64 \<Rightarrow> 'w machine \<Rightarrow> (u64 \<times> 'w machine) option" where
  "BS_HandleProtocol fw p handle protocol interface m = do {
     fn \<leftarrow> go_field BOOT_SERVICES_struct ''handleProtocol'' p m;
     Some (UefiCall3 fw fn handle protocol interface m) }"

definition BS_RegisterProtocolNotify ::
    "'w firmware \<Rightarrow> u64 \<Rightarrow> u64 \<Rightarrow> u64 \<Rightarrow> u64 \<Rightarrow> 'w machine \<Rightarrow> (u64 \<times> 'w machine) option" where
  "BS_RegisterProtocolNotify fw p protocol event registration m = do {
     fn \<leftarrow> go_field BOOT_SERVICES_struct ''registerProtocolNotify'' p m;
     Some (UefiCall3 fw fn protocol event registration m) }"

definition BS_LocateHandle ::
    "'w firmware \<Rightarrow> u64 \<Rightarrow> int \<Rightarrow> u64 \<Rightarrow> u64 \<Rightarrow> u64 \<Rightarrow> u64 \<Rightarrow> 'w machine \<Rightarrow> (u64 \<times> 'w machine) option" where
  "BS_LocateHandle fw p searchType protocol searchKey bufferSize' buffer m = do {
     fn \<leftarrow> go_field BOOT_SERVICES_struct ''locateHandle'' p m;
     Some (UefiCall5 fw fn (word_of_int searchType) protocol searchKey bufferSize' buffer m) }"

definition BS_LocateDevicePath ::
    "'w firmware \<Rightarrow> u64 \<Rightarrow> u64 \<Rightarrow> u64 \<Rightarrow> u64 \<Rightarrow> 'w machine \<Rightarrow> (u64 \<times> 'w machine) option" where
  "BS_LocateDevicePath fw p protocol devicePath' device m = do {
     fn \<leftarrow> go_field BOOT_SERVICES_struct ''locateDevicePath'' p m;
     Some (UefiCall3 fw fn protocol devicePath' device m) }"

definition BS_InstallConfigurationTable ::
    "'w firmware \<Rightarrow> u64 \<Rightarrow> u64 \<Rightarrow> u64 \<Rightarrow> 'w machine \<Rightarrow> (u64 \<times> 'w machine) option" where
  "BS_InstallConfigurationTable fw p guid table m = do {
     fn \<leftarrow> go_field BOOT_SERVICES_struct ''installConfigurationTable'' p m;
     Some (UefiCall2 fw fn guid table m) }"

definition BS_LoadImage ::
    "'w firmware \<Rightarrow> u64 \<Rightarrow> bool \<Rightarrow> u64 \<Rightarrow> u64 \<Rightarrow> u64 \<Rightarrow> u64 \<Rightarrow> u64 \<Rightarrow> 'w machine \<Rightarrow> (u64 \<times> 'w machine) option" where
  "BS_LoadImage fw p bootPolicy parentImageHandle devicePath' sourceBuffer sourceSize imageHandle' m = do {
     fn \<leftarrow> go_field BOOT_SERVICES_struct ''loadImage'' p m;
     Some (UefiCall6 fw fn (convertBoolean bootPolicy) parentImageHandle devicePath' sourceBuffer sourceSize imageHandle' m) }"

definition BS_StartImage ::
    "'w firmware \<Rightarrow> u64 \<Rightarrow> u64 \<Rightarrow> u64 \<Rightarrow> u64 \<Rightarrow> 'w machine \<Rightarrow> (u64 \<times> 'w machine) option" where
  "BS_StartImage fw p imageHandle' exitDataSize exitData m = do {
     fn \<leftarrow> go_field BOOT_SERVICES_struct ''startImage'' p m;
     Some (UefiCall3 fw fn imageHandle' exitDataSize exitData m) }"

definition BS_Exit ::
    "'w firmware \<Rightarrow> u64 \<Rightarrow> u64 \<Rightarrow> u64 \<Rightarrow> u64 \<Rightarrow> u64 \<Rightarrow> 'w machine \<Rightarrow> (u64 \<times> 'w machine) option" where
  "BS_Exit fw p imageHandle' exitStatus exitDataSize exitData m = do {
     fn \<leftarrow> go_field BOOT_SERVICES_struct ''exit'' p m;
     Some (UefiCall4 fw fn imageHandle' exitStatus exitDataSize exitData m) }"

definition BS_UnloadImage ::
    "'w firmware \<Rightarrow> u64 \<Rightarrow> u64 \<Rightarrow> 'w machine \<Rightarrow> (u64 \<times> 'w machine) option" where
  "BS_UnloadImage fw p imageHandle' m = do {
     fn \<leftarrow> go_field BOOT_SERVICES_struct ''unloadImage'' p m;
     Some (UefiCall1 fw fn imageHandle' m) }"

definition BS_ExitBootServices ::
    "'w firmware \<Rightarrow> u64 \<Rightarrow> u64 \<Rightarrow> u64 \<Rightarrow> 'w machine \<Rightarrow> (u64 \<times> 'w machine) option" where
  "BS_ExitBootServices fw p imageHandle' mapKey m = do {
     fn \<leftarrow> go_field BOOT_SERVICES_struct ''exitBootServices'' p m;
     Some (UefiCall2 fw fn imageHandle' mapKey m) }"

definition BS_GetNextMonotonicCount ::
    "'w firmware \<Rightarrow> u64 \<Rightarrow> u64 \<Rightarrow> 'w machine \<Rightarrow> (u64 \<times> 'w machine) option" where
  "BS_GetNextMonotonicCount fw p count m = do {
     fn \<leftarrow> go_field BOOT_SERVICES_struct ''getNextMonotonicCount'' p m;
     Some (UefiCall1 fw fn count m) }"

definition BS_Stall ::
    "'w firmware \<Rightarrow> u64 \<Rightarrow> u64 \<Rightarrow> 'w machine \<Rightarrow> (u64 \<times> 'w machine) option" where
  "BS_Stall fw p microseconds m = do {
     fn \<leftarrow> go_field BOOT_SERVICES_struct ''stall'' p m;
     Some (UefiCall1 fw fn microseconds m) }"

definition BS_SetWatchdogTimer ::
    "'w firmware \<Rightarrow> u64 \<Rightarrow> u64 \<Rightarrow> u64 \<Rightarrow> u64 \<Rightarrow> u64 \<Rightarrow> 'w machine \<Rightarrow> (u64 \<times> 'w machine) option" where
  "BS_SetWatchdogTimer fw p timeout watchdogCode' dataSize watchdogData m = do {
     fn \<leftarrow> go_field BOOT_SERVICES_struct ''setWatchdogTimer'' p m;
     Some (UefiCall4 fw fn timeout watchdogCode' dataSize watchdogData m) }"

definition BS_ConnectController ::
    "'w firmware \<Rightarrow> u64 \<Rightarrow> u64 \<Rightarrow> u64 \<Rightarrow> u64 \<Rightarrow> bool \<Rightarrow> 'w machine \<Rightarrow> (u64 \<times> 'w machine) option" where
  "BS_ConnectController fw p controllerHandle driverImageHandle remainingDevicePath recursive m = do {
     fn \<leftarrow> go_field BOOT_SERVICES_struct ''connectController'' p m;
     Some (UefiCall4 fw fn controllerHandle driverImageHandle remainingDevicePath (convertBoolean recursive) m) }"

definition BS_DisconnectController ::
    "'w firmware \<Rightarrow> u64 \<Rightarrow> u64 \<Rightarrow> u64 \<Rightarrow> u64 \<Rightarrow> 'w machine \<Rightarrow> (u64 \<times> 'w machine) option" where
  "BS_DisconnectController fw p controllerHandle driverImageHandle childHandle m = do {
     fn \<leftarrow> go_field BOOT_SERVICES_struct ''disconnectController'' p m;
     Some (UefiCall3 fw fn controllerHandle driverImageHandle childHandle m) }"

definition BS_OpenProtocol ::
    "'w firmware \<Rightarrow> u64 \<Rightarrow> u64 \<Rightarrow> u64 \<Rightarrow> u64 \<Rightarrow> u64 \<Rightarrow> u64 \<Rightarrow> u32 \<Rightarrow> 'w machine \<Rightarrow> (u64 \<times> 'w machine) option" where
  "BS_OpenProtocol fw p handle protocol interface agentHandle controllerHandle attributes m = do {
     fn \<leftarrow> go_field BOOT_SERVICES_struct ''openProtocol'' p m;
     Some (UefiCall6 fw fn handle protocol interface agentHandle controllerHandle (ucast attributes) m) }"

definition BS_CloseProtocol ::
    "'w firmware \<Rightarrow> u64 \<Rightarrow> u64 \<Rightarrow> u64 \<Rightarrow> u64 \<Rightarrow> u64 \<Rightarrow> 'w machine \<Rightarrow> (u64 \<times> 'w machine) option" where
  "BS_CloseProtocol fw p handle protocol agentHandle controllerHandle m = do {
     fn \<leftarrow> go_field BOOT_SERVICES_struct ''closeProtocol'' p m;
     Some (UefiCall4 fw fn handle protocol agentHandle controllerHandle m) }"

definition BS_OpenProtocolInformation ::
    "'w firmware \<Rightarrow> u64 \<Rightarrow> u64 \<Rightarrow> u64 \<Rightarrow> u64 \<Rightarrow> u64 \<Rightarrow> 'w machine \<Rightarrow> (u64 \<times> 'w machine) option" where
  "BS_OpenProtocolInformation fw p handle protocol entryBuffer entryCount m = do {
     fn \<leftarrow> go_field BOOT_SERVICES_struct ''openProtocolInformation'' p m;
     Some (UefiCall4 fw fn handle protocol entryBuffer entryCount m) }"

definition BS_ProtocolsPerHandle ::
    "'w firmware \<Rightarrow> u64 \<Rightarrow> u64 \<Rightarrow> u64 \<Rightarrow> u64 \<Rightarrow> 'w machine \<Rightarrow> (u64 \<times> 'w machine) option" where
  "BS_ProtocolsPerHandle fw p handle protocolBuffer protocolBufferCount m = do {
     fn \<leftarrow> go_field BOOT_SERVICES_struct ''protocolsPerHandle'' p m;
     Some (UefiCall3 fw fn handle protocolBuffer protocolBufferCount m) }"

definition BS_LocateHandleBuffer ::
    "'w firmware \<Rightarrow> u64 \<Rightarrow> int \<Rightarrow> u64 \<Rightarrow> u64 \<Rightarrow> u64 \<Rightarrow> u64 \<Rightarrow> 'w machine \<Rightarrow> (u64 \<times> 'w machine) option" where
  "BS_LocateHandleBuffer fw p searchType protocol searchKey noHandles buffer m = do {
     fn \<leftarrow> go_field BOOT_SERVICES_struct ''locateHandleBuffer'' p m;
     Some (UefiCall5 fw fn (word_of_int searchType) protocol searchKey noHandles buffer m) }"

definition BS_LocateProtocol ::
    "'w firmware \<Rightarrow> u64 \<Rightarrow> u64 \<Rightarrow> u64 \<Rightarrow> u64 \<Rightarrow> 'w machine \<Rightarrow> (u64 \<times> 'w machine) option" where
  "BS_LocateProtocol fw p protocol registration interfacePtr m = do {
     fn \<leftarrow> go_field BOOT_SERVICES_struct ''locateProtocol'' p m;
     Some (UefiCall3 fw fn protocol registration interfacePtr m) }"

definition BS_InstallMultipleProtocolInterfaces ::
    "'w firmware \<Rightarrow> u64 \<Rightarrow> u64 \<Rightarrow> 'w machine \<Rightarrow> (u64 \<times> 'w machine) option" where
  "BS_InstallMultipleProtocolInterfaces fw p handle m = do {
     fn \<leftarrow> go_field BOOT_SERVICES_struct ''installMultipleProtocolInterfaces'' p m;
     Some (UefiCall1 fw fn handle m) }"

definition BS_UninstallMultipleProtocolInterfaces ::
    "'w firmware \<Rightarrow> u64 \<Rightarrow> u64 \<Rightarrow> 'w machine \<Rightarrow> (u64 \<times> 'w machine) option" where
  "BS_UninstallMultipleProtocolInterfaces fw p handle m = do {
     fn \<leftarrow> go_field BOOT_SERVICES_struct ''uninstallMultipleProtocolInterfaces'' p m;
     Some (UefiCall1 fw fn handle m) }"

definition BS_CalculateCrc32 ::
    "'w firmware \<Rightarrow> u64 \<Rightarrow> u64 \<Rightarrow> u64 \<Rightarrow> u64 \<Rightarrow> 'w machine \<Rightarrow> (u64 \<times> 'w machine) option" where
  "BS_CalculateCrc32 fw p data' dataSize crc32 m = do {
     fn \<leftarrow> go_field BOOT_SERVICES_struct ''calculateCrc32'' p m;
     Some (UefiCall3 fw fn data' dataSize crc32 m) }"

definition BS_CopyMem ::
    "'w firmware \<Rightarrow> u64 \<Rightarrow> u64 \<Rightarrow> u64 \<Rightarrow> u64 \<Rightarrow> 'w machine \<Rightarrow> (u64 \<times> 'w machine) option" where
  "BS_CopyMem fw p destination source length' m = do {
     fn \<leftarrow> go_field BOOT_SERVICES_struct ''copyMem'' p m;
     Some (UefiCall3 fw fn destination source length' m) }"

definition BS_SetMem ::
    "'w firmware \<Rightarrow> u64 \<Rightarrow> u64 \<Rightarrow> u64 \<Rightarrow> u8 \<Rightarrow> 'w machine \<Rightarrow> (u64 \<times> 'w machine) option" where
  "BS_SetMem fw p buffer size' value m = do {
     fn \<leftarrow> go_field BOOT_SERVICES_struct ''setMem'' p m;
     Some (UefiCall3 fw fn buffer size' (ucast value) m) }"

definition BS_CreateEventEx ::
    "'w firmware \<Rightarrow> u64 \<Rightarrow> u32 \<Rightarrow> u64 \<Rightarrow> u64 \<Rightarrow> u64 \<Rightarrow> u64 \<Rightarrow> u64 \<Rightarrow> 'w machine \<Rightarrow> (u64 \<times> 'w machine) option" where
  "BS_CreateEventEx fw p type' notifyTpl notifyFunction notifyContext eventGroup event m = do {
     fn \<leftarrow> go_field BOOT_SERVICES_struct ''createEventEx'' p m;
     Some (UefiCall6 fw fn (ucast type') notifyTpl notifyFunction notifyContext eventGroup event m) }"

subsection \<open>loaded\_image.go\<close>

text \<open>\<^verbatim>\<open>Unload\<close> does not use its argument: it passes the package's image handle.\<close>

definition LoadedImage_Unload ::
    "'w firmware \<Rightarrow> uefi_pkg \<Rightarrow> u64 \<Rightarrow> u64 \<Rightarrow> 'w machine \<Rightarrow> (u64 \<times> 'w machine) option" where
  "LoadedImage_Unload fw g p handle m = do {
     fn \<leftarrow> go_field EFI_LOADED_IMAGE_PROTOCOL ''unload'' p m;
     Some (UefiCall1 fw fn (imageHandle g) m) }"

text \<open>A firmware that does nothing, for the examples below.\<close>

definition idle_firmware :: "unit firmware" where
  "idle_firmware code args f w = (0, f, w)"

section \<open>Lemmas\<close>

subsection \<open>Offsets\<close>

lemmas go_field_defs = word_field_def int_field_def short_field_def byte_field_def struct_field_def
  go_sizeof_def go_align_def align_up_def

lemma EFI_TABLE_HEADER_size [simp]: "go_sizeof EFI_TABLE_HEADER = 24" "go_align EFI_TABLE_HEADER = 8"
  by (simp_all add: EFI_TABLE_HEADER_def go_field_defs)

lemma word_layout:
  "map_of (go_layout (24 + 8 * k) (map word_field ns)) name
     = map_option (\<lambda>i. 24 + 8 * (k + i)) (index_of name ns)"
proof (induction ns arbitrary: k)
  case (Cons n ns)
  have "align_up (24 + 8 * k) 8 = 24 + 8 * k" by (simp add: align_up_def)
  with Cons [of "Suc k"] show ?case
    by (simp add: word_field_def Let_def option.map_comp comp_def add.commute)
qed simp

lemma table_offset:
  assumes "name \<noteq> ''Hdr''"
  shows "go_offset (struct_field ''Hdr'' EFI_TABLE_HEADER # map word_field ns) name = entry_offset ns name"
  using assms word_layout [of 0 ns name]
  by (simp add: go_offset_def entry_offset_def struct_field_def Let_def align_up_def option.map_comp comp_def)

lemma boot_field:
  "name \<noteq> ''Hdr'' \<Longrightarrow> entry_offset EFI_BOOT_SERVICES name = Some off
     \<Longrightarrow> go_field BOOT_SERVICES_struct name p m = field p off m"
  by (simp add: go_field_def BOOT_SERVICES_struct_def table_offset)

lemma runtime_field:
  "name \<noteq> ''Hdr'' \<Longrightarrow> entry_offset EFI_RUNTIME_SERVICES name = Some off
     \<Longrightarrow> go_field RUNTIME_SERVICES_struct name p m = field p off m"
  by (simp add: go_field_def RUNTIME_SERVICES_struct_def table_offset)

text \<open>The offsets of the entries the rest of the package uses.\<close>

lemma boot_entries:
  "entry_offset EFI_BOOT_SERVICES ''createEvent'' = Some 0x50"
  "entry_offset EFI_BOOT_SERVICES ''setTimer'' = Some 0x58"
  "entry_offset EFI_BOOT_SERVICES ''waitForEvent'' = Some 0x60"
  "entry_offset EFI_BOOT_SERVICES ''closeEvent'' = Some 0x70"
  "entry_offset EFI_BOOT_SERVICES ''checkEvent'' = Some 0x78"
  "entry_offset EFI_BOOT_SERVICES ''handleProtocol'' = Some 0x98"
  "entry_offset EFI_BOOT_SERVICES ''connectController'' = Some 0x108"
  "entry_offset EFI_BOOT_SERVICES ''locateHandleBuffer'' = Some 0x138"
  "entry_offset EFI_BOOT_SERVICES ''locateProtocol'' = Some 0x140"
  by (simp_all add: entry_offset_def EFI_BOOT_SERVICES_def)

lemma runtime_entries:
  "entry_offset EFI_RUNTIME_SERVICES ''getTime'' = Some 0x18"
  "entry_offset EFI_RUNTIME_SERVICES ''setTime'' = Some 0x20"
  "entry_offset EFI_RUNTIME_SERVICES ''getVariable'' = Some 0x48"
  "entry_offset EFI_RUNTIME_SERVICES ''getNextVariableName'' = Some 0x50"
  "entry_offset EFI_RUNTIME_SERVICES ''setVariable'' = Some 0x58"
  by (simp_all add: entry_offset_def EFI_RUNTIME_SERVICES_def)

lemma runtime_offsets:
  "go_offset RUNTIME_SERVICES_struct ''getVariable'' = Some 0x48"
  "go_offset RUNTIME_SERVICES_struct ''getNextVariableName'' = Some 0x50"
  by (simp_all add: RUNTIME_SERVICES_struct_def table_offset runtime_entries)

lemma system_table_layout:
  "go_layout 0 EFI_SYSTEM_TABLE =
    [(''Hdr'', 0), (''FirmwareVendor'', 24), (''FirmwareRevision'', 32), (''ConsoleInHandle'', 40), (''ConIn'', 48),
     (''ConsoleOutHandle'', 56), (''ConOut'', 64), (''StandardErrorHandle'', 72), (''StdErr'', 80),
     (''RuntimeServices'', 88), (''BootServices'', 96), (''NumberOfTableEntries'', 104), (''ConfigurationTable'', 112)]"
  by code_simp

lemma system_table_offsets:
  "go_offset EFI_SYSTEM_TABLE ''FirmwareVendor'' = Some 24"
  "go_offset EFI_SYSTEM_TABLE ''ConIn'' = Some 48"
  "go_offset EFI_SYSTEM_TABLE ''ConOut'' = Some 64"
  "go_offset EFI_SYSTEM_TABLE ''StdErr'' = Some 80"
  "go_offset EFI_SYSTEM_TABLE ''RuntimeServices'' = Some 88"
  "go_offset EFI_SYSTEM_TABLE ''BootServices'' = Some 96"
  "go_offset EFI_SYSTEM_TABLE ''NumberOfTableEntries'' = Some 104"
  "go_offset EFI_SYSTEM_TABLE ''ConfigurationTable'' = Some 112"
  by (simp_all add: go_offset_def system_table_layout)

text \<open>A field of an encoded struct in memory.\<close>

lemma of_nat_mod_2_64: "(of_nat (n mod 18446744073709551616) :: u64) = of_nat n"
  by (simp add: word_unat_eq_iff unat_of_nat)

lemma le_emit_field:
  assumes "i < length fs"
  shows "take (fst (fs ! i)) (drop (sum_list (map fst (take i fs))) (le_emit fs))
    = le_bytes (fst (fs ! i)) (snd (fs ! i))"
  using assms
proof (induction fs arbitrary: i)
  case (Cons f fs)
  obtain w v where f: "f = (w, v)" by fastforce
  with Cons show ?case by (cases i) simp_all
qed simp

lemma load64_field:
  assumes "load_bytes f a n = le_emit fs" "i < length fs" "fst (fs ! i) = 8"
    and "k = sum_list (map fst (take i fs))" "k + 8 \<le> n"
  shows "load64 f (a + of_nat k) = of_nat (snd (fs ! i))"
proof -
  have "load_bytes f (a + of_nat k) 8 = take 8 (drop k (load_bytes f a n))"
    using assms(5) by (simp add: drop_load_bytes take_load_bytes)
  also have "\<dots> = le_bytes 8 (snd (fs ! i))"
    using le_emit_field [OF assms(2)] assms(1,3,4) by simp
  finally show ?thesis by (simp add: load64_def le_nat_le_bytes of_nat_mod_2_64)
qed

lemma system_table_word:
  assumes "load_bytes f a 120 = system_table_enc t"
  shows "load64 f (a + 48) = ConIn t" "load64 f (a + 64) = ConOut t"
    "load64 f (a + 88) = st_RuntimeServices t" "load64 f (a + 96) = st_BootServices t"
    "load64 f (a + 104) = NumberOfTableEntries t" "load64 f (a + 112) = st_ConfigurationTable t"
  using load64_field [OF assms [unfolded system_table_enc_def], of 9 48]
    load64_field [OF assms [unfolded system_table_enc_def], of 11 64]
    load64_field [OF assms [unfolded system_table_enc_def], of 14 88]
    load64_field [OF assms [unfolded system_table_enc_def], of 15 96]
    load64_field [OF assms [unfolded system_table_enc_def], of 16 104]
    load64_field [OF assms [unfolded system_table_enc_def], of 17 112]
  by simp_all

section \<open>Properties\<close>



text \<open>
  Claim C34: what the service methods run. A method that uses a body-less call routine
  (\<^verbatim>\<open>SetTime\<close>) runs the code its table entry points to, and so does \<^verbatim>\<open>GetVariable\<close>, which
  passes the address of the entry to a routine that loads the code address. \<^verbatim>\<open>SetVariable\<close>
  passes the contents of the entry to that routine: the address it runs is the first eight bytes of the
  firmware function's own code.
\<close>

theorem service_call_targets:
  assumes "p \<noteq> 0"
  shows "(\<exists>st m'. RT_SetTime fw p t m = Some (st, m')
      \<and> calls m' = calls m @ [Direct (load64 (mem m) (p + 0x20)) [t]])
    \<and> (\<exists>st m'. RT_GetVariable fw p n g a k d m = Some (st, m')
      \<and> calls m' = calls m @ [Indirect (p + 0x48) (load64 (mem m) (p + 0x48)) [n, g, a, k, d]])
    \<and> (\<exists>st m'. RT_SetVariable fw p n g b k d m = Some (st, m')
      \<and> calls m' = calls m @ [Indirect (load64 (mem m) (p + 0x58))
            (load64 (mem m) (load64 (mem m) (p + 0x58))) [n, g, ucast b, k, d]])"
  using assms
  by (simp add: RT_SetTime_def RT_GetVariable_def RT_SetVariable_def runtime_field runtime_entries runtime_offsets
      uefi_call_defs uefi_direct_def CallService_nonempty split: prod.split)

theorem service_call_targets_witness:
  "(\<exists>st m'. RT_SetTime idle_firmware 4096 7 demo_machine = Some (st, m')
      \<and> calls m' = calls demo_machine @ [Direct (load64 (mem demo_machine) (4096 + 0x20)) [7]])"
  using service_call_targets [of 4096 idle_firmware 7 demo_machine] by simp

end
