(* ===== verification/Uefi_Protocols.thy ===== *)
theory Uefi_Protocols
  imports Uefi_Spec
begin

text \<open>
  The protocols of \<^verbatim>\<open>pkg/uefi\<close>: for each, the GUIDs, the structs shared with the firmware and
  one definition per method. As in \<open>Uefi_Spec\<close>, a method reads the code address from a field of
  the protocol and passes it on with the protocol itself and the arguments.

  The interface between the methods and the code that uses them are the locales \<open>direct_method\<close>
  (a method that runs the code its field points to) and \<open>loaded_method\<close> (a method whose call
  routine loads the code address from where its field points to). The methods the other theories
  use are interpretations.
\<close>

section \<open>Definitions\<close>

subsection \<open>GUIDs\<close>

record efi_guid =
  Data1 :: u32
  Data2 :: u16
  Data3 :: u16
  Data4 :: "u8 list"

text \<open>The bytes of a GUID in memory.\<close>

definition guid_value_bytes :: "efi_guid \<Rightarrow> u8 list" where
  "guid_value_bytes g = le_emit [(4, unat (Data1 g)), (2, unat (Data2 g)), (2, unat (Data3 g))] @ Data4 g"

definition EFI_DEVICE_PATH_PROTOCOL_GUID_value :: efi_guid where
  "EFI_DEVICE_PATH_PROTOCOL_GUID_value =
     \<lparr>Data1 = 0x9576e91, Data2 = 0x6d3f, Data3 = 0x11d2, Data4 = [0x8e, 0x39, 0x0, 0xa0, 0xc9, 0x69, 0x72, 0x3b]\<rparr>"

definition EFI_LOADED_IMAGE_GUID_value :: efi_guid where
  "EFI_LOADED_IMAGE_GUID_value =
     \<lparr>Data1 = 0x5b1b31a1, Data2 = 0x9562, Data3 = 0x11d2, Data4 = [0x8e, 0x3f, 0x0, 0xa0, 0xc9, 0x69, 0x72, 0x3b]\<rparr>"

definition EFI_LOADED_IMAGE_PROTOCOL_GUID_value :: efi_guid where
  "EFI_LOADED_IMAGE_PROTOCOL_GUID_value =
     \<lparr>Data1 = 0x5b1b31a1, Data2 = 0x9562, Data3 = 0x11d2, Data4 = [0x8e, 0x3f, 0x0, 0xa0, 0xc9, 0x69, 0x72, 0x3b]\<rparr>"

definition SimpleTextInputExProtocolGUID_value :: efi_guid where
  "SimpleTextInputExProtocolGUID_value =
     \<lparr>Data1 = 0xdd9e7534, Data2 = 0x7762, Data3 = 0x4698, Data4 = [0x8c, 0x14, 0xf5, 0x85, 0x17, 0xa6, 0x25, 0xaa]\<rparr>"

definition GraphicsOutputProtocolGUID_value :: efi_guid where
  "GraphicsOutputProtocolGUID_value =
     \<lparr>Data1 = 0x9042a9de, Data2 = 0x23dc, Data3 = 0x4a38, Data4 = [0x96, 0xfb, 0x7a, 0xde, 0xd0, 0x80, 0x51, 0x6a]\<rparr>"

definition EFI_SERIAL_IO_PROTOCOL_GUID_value :: efi_guid where
  "EFI_SERIAL_IO_PROTOCOL_GUID_value =
     \<lparr>Data1 = 0xbb25cf6f, Data2 = 0xf1d4, Data3 = 0x11d2, Data4 = [0x9a, 0xc, 0x0, 0x90, 0x27, 0x3f, 0xc1, 0xfd]\<rparr>"

definition EFI_DISK_IO_PROTOCOL_GUID_value :: efi_guid where
  "EFI_DISK_IO_PROTOCOL_GUID_value =
     \<lparr>Data1 = 0xce345171, Data2 = 0xba0b, Data3 = 0x11d2, Data4 = [0x8e, 0x4f, 0x0, 0xa0, 0xc9, 0x69, 0x72, 0x3b]\<rparr>"

definition EFI_BLOCK_IO_PROTOCOL_GUID_value :: efi_guid where
  "EFI_BLOCK_IO_PROTOCOL_GUID_value =
     \<lparr>Data1 = 0x964e5b21, Data2 = 0x6459, Data3 = 0x11d2, Data4 = [0x8e, 0x39, 0x0, 0xa0, 0xc9, 0x69, 0x72, 0x3b]\<rparr>"

definition EFI_SIMPLE_FILE_SYSTEM_PROTOCOL_GUID_value :: efi_guid where
  "EFI_SIMPLE_FILE_SYSTEM_PROTOCOL_GUID_value =
     \<lparr>Data1 = 0x964e5b22, Data2 = 0x6459, Data3 = 0x11d2, Data4 = [0x8e, 0x39, 0x0, 0xa0, 0xc9, 0x69, 0x72, 0x3b]\<rparr>"

definition EFI_FILE_INFO_ID_value :: efi_guid where
  "EFI_FILE_INFO_ID_value =
     \<lparr>Data1 = 0x9576e92, Data2 = 0x6d3f, Data3 = 0x11d2, Data4 = [0x8e, 0x39, 0x0, 0xa0, 0xc9, 0x69, 0x72, 0x3b]\<rparr>"

definition EFI_FILE_SYSTEM_INFO_ID_value :: efi_guid where
  "EFI_FILE_SYSTEM_INFO_ID_value =
     \<lparr>Data1 = 0x9576e93, Data2 = 0x6d3f, Data3 = 0x11d2, Data4 = [0x8e, 0x39, 0x0, 0xa0, 0xc9, 0x69, 0x72, 0x3b]\<rparr>"

definition EFI_FILE_SYSTEM_VOLUME_LABEL_ID_value :: efi_guid where
  "EFI_FILE_SYSTEM_VOLUME_LABEL_ID_value =
     \<lparr>Data1 = 0xdb47d7d3, Data2 = 0xfe81, Data3 = 0x11d3, Data4 = [0x9a, 0x35, 0x0, 0x90, 0x27, 0x3f, 0xc1, 0x4d]\<rparr>"

definition EFI_DHCP4_SERVICE_BINDING_PROTOCOL_GUID_value :: efi_guid where
  "EFI_DHCP4_SERVICE_BINDING_PROTOCOL_GUID_value =
     \<lparr>Data1 = 0x9d9a39d8, Data2 = 0xbd42, Data3 = 0x4a73, Data4 = [0xa4, 0xd5, 0x8e, 0xe9, 0x4b, 0xe1, 0x13, 0x80]\<rparr>"

definition EFI_DHCP4_PROTOCOL_GUID_value :: efi_guid where
  "EFI_DHCP4_PROTOCOL_GUID_value =
     \<lparr>Data1 = 0x8a219718, Data2 = 0x4ef5, Data3 = 0x4761, Data4 = [0x91, 0xc8, 0xc0, 0xf0, 0x4b, 0xda, 0x9e, 0x56]\<rparr>"

definition EFI_SIMPLE_NETWORK_PROTOCOL_GUID_value :: efi_guid where
  "EFI_SIMPLE_NETWORK_PROTOCOL_GUID_value =
     \<lparr>Data1 = 0xa19832b9, Data2 = 0xac25, Data3 = 0x11d3, Data4 = [0x9a, 0x2d, 0x0, 0x90, 0x27, 0x3f, 0xc1, 0x4d]\<rparr>"

definition MPS_TABLE_GUID_value :: efi_guid where
  "MPS_TABLE_GUID_value =
     \<lparr>Data1 = 0xeb9d2d2f, Data2 = 0x2d88, Data3 = 0x11d3, Data4 = [0x9a, 0x16, 0x0, 0x90, 0x27, 0x3f, 0xc1, 0x4d]\<rparr>"

definition ACPI_TABLE_GUID_value :: efi_guid where
  "ACPI_TABLE_GUID_value =
     \<lparr>Data1 = 0xeb9d2d30, Data2 = 0x2d88, Data3 = 0x11d3, Data4 = [0x9a, 0x16, 0x0, 0x90, 0x27, 0x3f, 0xc1, 0x4d]\<rparr>"

definition ACPI_20_TABLE_GUID_value :: efi_guid where
  "ACPI_20_TABLE_GUID_value =
     \<lparr>Data1 = 0x8868e871, Data2 = 0xe4f1, Data3 = 0x11d3, Data4 = [0xbc, 0x22, 0x0, 0x80, 0xc7, 0x3c, 0x88, 0x81]\<rparr>"

definition SMBIOS_TABLE_GUID_value :: efi_guid where
  "SMBIOS_TABLE_GUID_value =
     \<lparr>Data1 = 0xeb9d2d31, Data2 = 0x2d88, Data3 = 0x11d3, Data4 = [0x9a, 0x16, 0x0, 0x90, 0x27, 0x3f, 0xc1, 0x4d]\<rparr>"

definition SMBIOS3_TABLE_GUID_value :: efi_guid where
  "SMBIOS3_TABLE_GUID_value =
     \<lparr>Data1 = 0xf2fd1544, Data2 = 0x9794, Data3 = 0x4a2c, Data4 = [0x99, 0x2e, 0xe5, 0xbb, 0xcf, 0x20, 0xe3, 0x94]\<rparr>"

definition SAL_SYSTEM_TABLE_GUID_value :: efi_guid where
  "SAL_SYSTEM_TABLE_GUID_value =
     \<lparr>Data1 = 0xeb9d2d32, Data2 = 0x2d88, Data3 = 0x11d3, Data4 = [0x9a, 0x16, 0x0, 0x90, 0x27, 0x3f, 0xc1, 0x4d]\<rparr>"

definition EFI_DTB_TABLE_GUID_value :: efi_guid where
  "EFI_DTB_TABLE_GUID_value =
     \<lparr>Data1 = 0xb1b621d5, Data2 = 0xf19c, Data3 = 0x41a5, Data4 = [0x83, 0xb, 0xd9, 0x15, 0x2c, 0x69, 0xaa, 0xe0]\<rparr>"

subsection \<open>simple\_text\_out.go\<close>

definition EFI_SIMPLE_TEXT_OUTPUT_MODE :: go_struct where
  "EFI_SIMPLE_TEXT_OUTPUT_MODE =
    [int_field ''MaxMode'', int_field ''Mode'', int_field ''Attribute'',
     int_field ''CursorColumn'', int_field ''CursorRow'', byte_field ''CursorVisible'']"

definition EFI_SIMPLE_TEXT_OUTPUT_PROTOCOL :: go_struct where
  "EFI_SIMPLE_TEXT_OUTPUT_PROTOCOL =
    [word_field ''reset'', word_field ''outputString'', word_field ''testString'',
     word_field ''queryMode'', word_field ''setMode'', word_field ''setAttribute'',
     word_field ''clearScreen'', word_field ''setCursorPosition'', word_field ''enableCursor'',
     word_field ''Mode'']"

definition TextOut_Reset ::
    "'w firmware \<Rightarrow> u64 \<Rightarrow> bool \<Rightarrow> 'w machine \<Rightarrow> (u64 \<times> 'w machine) option" where
  "TextOut_Reset fw p extendedVerification m = do {
     fn \<leftarrow> go_field EFI_SIMPLE_TEXT_OUTPUT_PROTOCOL ''reset'' p m;
     Some (UefiCall2 fw fn p (convertBoolean extendedVerification) m) }"

definition TextOut_OutputString ::
    "'w firmware \<Rightarrow> u64 \<Rightarrow> u64 \<Rightarrow> 'w machine \<Rightarrow> (u64 \<times> 'w machine) option" where
  "TextOut_OutputString fw p string m = do {
     fn \<leftarrow> go_field EFI_SIMPLE_TEXT_OUTPUT_PROTOCOL ''outputString'' p m;
     Some (UefiCall2 fw fn p string m) }"

definition TextOut_TestString ::
    "'w firmware \<Rightarrow> u64 \<Rightarrow> u64 \<Rightarrow> 'w machine \<Rightarrow> (u64 \<times> 'w machine) option" where
  "TextOut_TestString fw p string m = do {
     fn \<leftarrow> go_field EFI_SIMPLE_TEXT_OUTPUT_PROTOCOL ''testString'' p m;
     Some (UefiCall2 fw fn p string m) }"

definition TextOut_QueryMode ::
    "'w firmware \<Rightarrow> u64 \<Rightarrow> u64 \<Rightarrow> u64 \<Rightarrow> u64 \<Rightarrow> 'w machine \<Rightarrow> (u64 \<times> 'w machine) option" where
  "TextOut_QueryMode fw p modeNumber columns rows m = do {
     fn \<leftarrow> go_field EFI_SIMPLE_TEXT_OUTPUT_PROTOCOL ''queryMode'' p m;
     Some (UefiCall4 fw fn p modeNumber columns rows m) }"

definition TextOut_SetMode ::
    "'w firmware \<Rightarrow> u64 \<Rightarrow> u64 \<Rightarrow> 'w machine \<Rightarrow> (u64 \<times> 'w machine) option" where
  "TextOut_SetMode fw p modeNumber m = do {
     fn \<leftarrow> go_field EFI_SIMPLE_TEXT_OUTPUT_PROTOCOL ''setMode'' p m;
     Some (UefiCall2 fw fn p modeNumber m) }"

definition TextOut_SetAttribute ::
    "'w firmware \<Rightarrow> u64 \<Rightarrow> u64 \<Rightarrow> 'w machine \<Rightarrow> (u64 \<times> 'w machine) option" where
  "TextOut_SetAttribute fw p attribute m = do {
     fn \<leftarrow> go_field EFI_SIMPLE_TEXT_OUTPUT_PROTOCOL ''setAttribute'' p m;
     Some (UefiCall2 fw fn p attribute m) }"

definition TextOut_ClearScreen ::
    "'w firmware \<Rightarrow> u64 \<Rightarrow> 'w machine \<Rightarrow> (u64 \<times> 'w machine) option" where
  "TextOut_ClearScreen fw p m = do {
     fn \<leftarrow> go_field EFI_SIMPLE_TEXT_OUTPUT_PROTOCOL ''clearScreen'' p m;
     Some (UefiCall1 fw fn p m) }"

definition TextOut_SetCursorPosition ::
    "'w firmware \<Rightarrow> u64 \<Rightarrow> u64 \<Rightarrow> u64 \<Rightarrow> 'w machine \<Rightarrow> (u64 \<times> 'w machine) option" where
  "TextOut_SetCursorPosition fw p column row m = do {
     fn \<leftarrow> go_field EFI_SIMPLE_TEXT_OUTPUT_PROTOCOL ''setCursorPosition'' p m;
     Some (UefiCall3 fw fn p column row m) }"

definition TextOut_EnableCursor ::
    "'w firmware \<Rightarrow> u64 \<Rightarrow> bool \<Rightarrow> 'w machine \<Rightarrow> (u64 \<times> 'w machine) option" where
  "TextOut_EnableCursor fw p visible m = do {
     fn \<leftarrow> go_field EFI_SIMPLE_TEXT_OUTPUT_PROTOCOL ''enableCursor'' p m;
     Some (UefiCall2 fw fn p (convertBoolean visible) m) }"

subsection \<open>simple\_text\_in.go\<close>

definition EFI_INPUT_KEY :: go_struct where
  "EFI_INPUT_KEY =
    [short_field ''ScanCode'', short_field ''UnicodeChar'']"

definition EFI_SIMPLE_TEXT_INPUT_PROTOCOL :: go_struct where
  "EFI_SIMPLE_TEXT_INPUT_PROTOCOL =
    [word_field ''reset'', word_field ''readKeyStroke'', word_field ''WaitForKey'']"

definition EFI_KEY_STATE :: go_struct where
  "EFI_KEY_STATE =
    [int_field ''KeyShiftState'', byte_field ''KeyToggleState'']"

definition EFI_KEY_DATA :: go_struct where
  "EFI_KEY_DATA =
    [struct_field ''Key'' EFI_INPUT_KEY, struct_field ''KeyState'' EFI_KEY_STATE]"

definition EFI_SIMPLE_TEXT_INPUT_EX_PROTOCOL :: go_struct where
  "EFI_SIMPLE_TEXT_INPUT_EX_PROTOCOL =
    [word_field ''resetEx'', word_field ''readKeyStrokeEx'', word_field ''WaitForKeyEx'',
     word_field ''setState'', word_field ''registerKeystrokeNotify'',
     word_field ''unregisterKeystrokeNotify'']"

definition TextIn_Reset ::
    "'w firmware \<Rightarrow> u64 \<Rightarrow> bool \<Rightarrow> 'w machine \<Rightarrow> (u64 \<times> 'w machine) option" where
  "TextIn_Reset fw p extendedVerification m = do {
     fn \<leftarrow> go_field EFI_SIMPLE_TEXT_INPUT_PROTOCOL ''reset'' p m;
     Some (UefiCall2 fw fn p (convertBoolean extendedVerification) m) }"

definition TextIn_ReadKeyStroke ::
    "'w firmware \<Rightarrow> u64 \<Rightarrow> u64 \<Rightarrow> 'w machine \<Rightarrow> (u64 \<times> 'w machine) option" where
  "TextIn_ReadKeyStroke fw p key m = do {
     fn \<leftarrow> go_field EFI_SIMPLE_TEXT_INPUT_PROTOCOL ''readKeyStroke'' p m;
     Some (UefiCall2 fw fn p key m) }"

definition TextInEx_Reset ::
    "'w firmware \<Rightarrow> u64 \<Rightarrow> bool \<Rightarrow> 'w machine \<Rightarrow> (u64 \<times> 'w machine) option" where
  "TextInEx_Reset fw p extendedVerification m = do {
     fn \<leftarrow> go_field EFI_SIMPLE_TEXT_INPUT_EX_PROTOCOL ''resetEx'' p m;
     Some (UefiCall2 fw fn p (convertBoolean extendedVerification) m) }"

definition TextInEx_ReadKeyStroke ::
    "'w firmware \<Rightarrow> u64 \<Rightarrow> u64 \<Rightarrow> 'w machine \<Rightarrow> (u64 \<times> 'w machine) option" where
  "TextInEx_ReadKeyStroke fw p key m = do {
     fn \<leftarrow> go_field EFI_SIMPLE_TEXT_INPUT_EX_PROTOCOL ''readKeyStrokeEx'' p m;
     Some (UefiCall2 fw fn p key m) }"

subsection \<open>graphics\_output\_protocol.go\<close>

definition EFI_PIXEL_BITMASK :: go_struct where
  "EFI_PIXEL_BITMASK =
    [int_field ''RedMask'', int_field ''GreenMask'', int_field ''BlueMask'',
     int_field ''ReservedMask'']"

definition EFI_GRAPHICS_OUTPUT_MODE_INFORMATION :: go_struct where
  "EFI_GRAPHICS_OUTPUT_MODE_INFORMATION =
    [int_field ''Version'', int_field ''HorizontalResolution'',
     int_field ''VerticalResolution'', int_field ''PixelFormat'',
     struct_field ''PixelInformation'' EFI_PIXEL_BITMASK, int_field ''PixelsPerScanLine'']"

definition EFI_GRAPHICS_OUTPUT_BLT_PIXEL :: go_struct where
  "EFI_GRAPHICS_OUTPUT_BLT_PIXEL =
    [byte_field ''Blue'', byte_field ''Green'', byte_field ''Red'', byte_field ''Reserved'']"

definition EFI_GRAPHICS_OUTPUT_PROTOCOL_MODE :: go_struct where
  "EFI_GRAPHICS_OUTPUT_PROTOCOL_MODE =
    [int_field ''MaxMode'', int_field ''Mode'', word_field ''Info'', word_field ''SizeOfInfo'',
     word_field ''FrameBufferBase'', word_field ''FrameBufferSize'']"

definition EFI_GRAPHICS_OUTPUT_PROTOCOL :: go_struct where
  "EFI_GRAPHICS_OUTPUT_PROTOCOL =
    [word_field ''queryMode'', word_field ''setMode'', word_field ''blt'', word_field ''Mode'']"

definition GOP_QueryMode ::
    "'w firmware \<Rightarrow> u64 \<Rightarrow> u32 \<Rightarrow> u64 \<Rightarrow> u64 \<Rightarrow> 'w machine \<Rightarrow> (u64 \<times> 'w machine) option" where
  "GOP_QueryMode fw p modeNumber sizeOfInfo info m = do {
     fn \<leftarrow> go_field EFI_GRAPHICS_OUTPUT_PROTOCOL ''queryMode'' p m;
     Some (UefiCall4 fw fn p (ucast modeNumber) sizeOfInfo info m) }"

definition GOP_SetMode ::
    "'w firmware \<Rightarrow> u64 \<Rightarrow> u32 \<Rightarrow> 'w machine \<Rightarrow> (u64 \<times> 'w machine) option" where
  "GOP_SetMode fw p modeNumber m = do {
     fn \<leftarrow> go_field EFI_GRAPHICS_OUTPUT_PROTOCOL ''setMode'' p m;
     Some (UefiCall2 fw fn p (ucast modeNumber) m) }"

definition GOP_Blt ::
    "'w firmware \<Rightarrow> u64 \<Rightarrow> u64 \<Rightarrow> u32 \<Rightarrow> u64 \<Rightarrow> u64 \<Rightarrow> u64 \<Rightarrow> u64 \<Rightarrow> u64 \<Rightarrow> u64 \<Rightarrow> u64 \<Rightarrow> 'w machine \<Rightarrow> (u64 \<times> 'w machine) option" where
  "GOP_Blt fw p bltBuffer bltOperation sourceX sourceY destinationX destinationY width height delta m = do {
     fn \<leftarrow> go_field EFI_GRAPHICS_OUTPUT_PROTOCOL ''blt'' p m;
     Some (UefiCall10 fw fn p bltBuffer (ucast bltOperation) sourceX sourceY destinationX destinationY width height delta m) }"

subsection \<open>serial\_io\_protocol.go\<close>

definition EFI_SERIAL_IO_MODE :: go_struct where
  "EFI_SERIAL_IO_MODE =
    [int_field ''ControlMask'', int_field ''Timeout'', word_field ''BaudRate'',
     int_field ''ReceiveFifoDepth'', int_field ''DataBits'', int_field ''Parity'',
     int_field ''StopBits'']"

definition EFI_SERIAL_IO_PROTOCOL :: go_struct where
  "EFI_SERIAL_IO_PROTOCOL =
    [int_field ''Revision'', word_field ''reset'', word_field ''setAttributes'',
     word_field ''setControl'', word_field ''getControl'', word_field ''write'',
     word_field ''read'', word_field ''Mode'', word_field ''deviceTypeGuid'']"

definition SerialIO_Reset ::
    "'w firmware \<Rightarrow> u64 \<Rightarrow> 'w machine \<Rightarrow> (u64 \<times> 'w machine) option" where
  "SerialIO_Reset fw p m = do {
     fn \<leftarrow> go_field EFI_SERIAL_IO_PROTOCOL ''reset'' p m;
     Some (UefiCall1 fw fn p m) }"

definition SerialIO_SetAttributes ::
    "'w firmware \<Rightarrow> u64 \<Rightarrow> u64 \<Rightarrow> u32 \<Rightarrow> u32 \<Rightarrow> u32 \<Rightarrow> u8 \<Rightarrow> u32 \<Rightarrow> 'w machine \<Rightarrow> (u64 \<times> 'w machine) option" where
  "SerialIO_SetAttributes fw p baudRate receiveFifoDepth timeout parity' dataBits stopBits m = do {
     fn \<leftarrow> go_field EFI_SERIAL_IO_PROTOCOL ''setAttributes'' p m;
     Some (UefiCall7 fw fn p baudRate (ucast receiveFifoDepth) (ucast timeout) (ucast parity') (scast dataBits) (ucast stopBits) m) }"

definition SerialIO_SetControl ::
    "'w firmware \<Rightarrow> u64 \<Rightarrow> u32 \<Rightarrow> 'w machine \<Rightarrow> (u64 \<times> 'w machine) option" where
  "SerialIO_SetControl fw p control m = do {
     fn \<leftarrow> go_field EFI_SERIAL_IO_PROTOCOL ''setControl'' p m;
     Some (UefiCall2 fw fn p (ucast control) m) }"

definition SerialIO_GetControl ::
    "'w firmware \<Rightarrow> u64 \<Rightarrow> u64 \<Rightarrow> 'w machine \<Rightarrow> (u64 \<times> 'w machine) option" where
  "SerialIO_GetControl fw p control m = do {
     fn \<leftarrow> go_field EFI_SERIAL_IO_PROTOCOL ''getControl'' p m;
     Some (UefiCall2 fw fn p control m) }"

definition SerialIO_Write ::
    "'w firmware \<Rightarrow> u64 \<Rightarrow> u64 \<Rightarrow> u64 \<Rightarrow> 'w machine \<Rightarrow> (u64 \<times> 'w machine) option" where
  "SerialIO_Write fw p bufSize buffer m = do {
     fn \<leftarrow> go_field EFI_SERIAL_IO_PROTOCOL ''write'' p m;
     Some (UefiCall3 fw fn p bufSize buffer m) }"

definition SerialIO_Read ::
    "'w firmware \<Rightarrow> u64 \<Rightarrow> u64 \<Rightarrow> u64 \<Rightarrow> 'w machine \<Rightarrow> (u64 \<times> 'w machine) option" where
  "SerialIO_Read fw p bufSize buffer m = do {
     fn \<leftarrow> go_field EFI_SERIAL_IO_PROTOCOL ''read'' p m;
     Some (UefiCall3 fw fn p bufSize buffer m) }"

subsection \<open>media\_io\_protocol.go\<close>

definition EFI_BLOCK_IO_MEDIA :: go_struct where
  "EFI_BLOCK_IO_MEDIA =
    [int_field ''MediaId'', byte_field ''RemovableMedia'', byte_field ''MediaPresent'',
     byte_field ''LogicalPartition'', byte_field ''ReadOnly'', byte_field ''WriteCaching'',
     int_field ''BlockSize'', int_field ''IoAlign'', word_field ''LastBlock'']"

definition EFI_BLOCK_IO_PROTOCOL :: go_struct where
  "EFI_BLOCK_IO_PROTOCOL =
    [word_field ''Revision'', word_field ''Media'', word_field ''reset'',
     word_field ''readBlocks'', word_field ''writeBlocks'', word_field ''flushBlocks'']"

definition EFI_DISK_IO_PROTOCOL :: go_struct where
  "EFI_DISK_IO_PROTOCOL =
    [word_field ''Revision'', word_field ''readDisk'', word_field ''writeDisk'']"

definition BlockIO_Reset ::
    "'w firmware \<Rightarrow> u64 \<Rightarrow> bool \<Rightarrow> 'w machine \<Rightarrow> (u64 \<times> 'w machine) option" where
  "BlockIO_Reset fw p extendedVerification m = do {
     fn \<leftarrow> go_field EFI_BLOCK_IO_PROTOCOL ''reset'' p m;
     Some (UefiCall2 fw fn p (convertBool extendedVerification) m) }"

definition BlockIO_ReadBlocks ::
    "'w firmware \<Rightarrow> u64 \<Rightarrow> u32 \<Rightarrow> u64 \<Rightarrow> u64 \<Rightarrow> u64 \<Rightarrow> 'w machine \<Rightarrow> (u64 \<times> 'w machine) option" where
  "BlockIO_ReadBlocks fw p mediaId lba bufSize buffer m = do {
     fn \<leftarrow> go_field EFI_BLOCK_IO_PROTOCOL ''readBlocks'' p m;
     Some (UefiCall5 fw fn p (ucast mediaId) lba bufSize buffer m) }"

definition BlockIO_WriteBlocks ::
    "'w firmware \<Rightarrow> u64 \<Rightarrow> u32 \<Rightarrow> u64 \<Rightarrow> u64 \<Rightarrow> u64 \<Rightarrow> 'w machine \<Rightarrow> (u64 \<times> 'w machine) option" where
  "BlockIO_WriteBlocks fw p mediaId lba bufSize buffer m = do {
     fn \<leftarrow> go_field EFI_BLOCK_IO_PROTOCOL ''writeBlocks'' p m;
     Some (UefiCall5 fw fn p (ucast mediaId) lba bufSize buffer m) }"

definition BlockIO_FlushBlocks ::
    "'w firmware \<Rightarrow> u64 \<Rightarrow> 'w machine \<Rightarrow> (u64 \<times> 'w machine) option" where
  "BlockIO_FlushBlocks fw p m = do {
     fn \<leftarrow> go_field EFI_BLOCK_IO_PROTOCOL ''flushBlocks'' p m;
     Some (UefiCall1 fw fn p m) }"

definition DiskIO_ReadDisk ::
    "'w firmware \<Rightarrow> u64 \<Rightarrow> u32 \<Rightarrow> u64 \<Rightarrow> u64 \<Rightarrow> u64 \<Rightarrow> 'w machine \<Rightarrow> (u64 \<times> 'w machine) option" where
  "DiskIO_ReadDisk fw p mediaId offset bufSize buffer m = do {
     fn \<leftarrow> go_field EFI_DISK_IO_PROTOCOL ''readDisk'' p m;
     Some (UefiCall5 fw fn p (ucast mediaId) offset bufSize buffer m) }"

definition DiskIO_WriteDisk ::
    "'w firmware \<Rightarrow> u64 \<Rightarrow> u32 \<Rightarrow> u64 \<Rightarrow> u64 \<Rightarrow> u64 \<Rightarrow> 'w machine \<Rightarrow> (u64 \<times> 'w machine) option" where
  "DiskIO_WriteDisk fw p mediaId offset bufSize buffer m = do {
     fn \<leftarrow> go_field EFI_DISK_IO_PROTOCOL ''writeDisk'' p m;
     Some (UefiCall5 fw fn p (ucast mediaId) offset bufSize buffer m) }"

subsection \<open>simple\_file\_system\_protocol.go\<close>

definition EFI_SIMPLE_FILE_SYSTEM_PROTOCOL :: go_struct where
  "EFI_SIMPLE_FILE_SYSTEM_PROTOCOL =
    [word_field ''Revision'', word_field ''openVolume'']"

definition EFI_FILE_PROTOCOL :: go_struct where
  "EFI_FILE_PROTOCOL =
    [word_field ''Revision'', word_field ''open'', word_field ''close'', word_field ''delete'',
     word_field ''read'', word_field ''write'', word_field ''getPosition'',
     word_field ''setPosition'', word_field ''getInfo'', word_field ''setInfo'',
     word_field ''flush'']"

definition EFI_FILE_INFO :: go_struct where
  "EFI_FILE_INFO =
    [word_field ''Size'', word_field ''FileSize'', word_field ''PhysicalSize'',
     struct_field ''CreateTime'' EFI_TIME, struct_field ''LastAccessTime'' EFI_TIME,
     struct_field ''ModificationTime'' EFI_TIME, word_field ''Attribute'']"

definition EFI_FILE_SYSTEM_INFO :: go_struct where
  "EFI_FILE_SYSTEM_INFO =
    [word_field ''Size'', byte_field ''ReadOnly'', (''_'', 7, 1), word_field ''VolumeSize'',
     word_field ''FreeSpace'', int_field ''BlockSize'', int_field ''_'']"

definition SFS_OpenVolume ::
    "'w firmware \<Rightarrow> u64 \<Rightarrow> u64 \<Rightarrow> 'w machine \<Rightarrow> (u64 \<times> 'w machine) option" where
  "SFS_OpenVolume fw p root m = do {
     fn \<leftarrow> go_field EFI_SIMPLE_FILE_SYSTEM_PROTOCOL ''openVolume'' p m;
     Some (UefiCall2 fw fn p root m) }"

definition EfiFile_Open ::
    "'w firmware \<Rightarrow> u64 \<Rightarrow> u64 \<Rightarrow> u64 \<Rightarrow> u64 \<Rightarrow> u64 \<Rightarrow> 'w machine \<Rightarrow> (u64 \<times> 'w machine) option" where
  "EfiFile_Open fw p newHandle fileName openMode attributes m = do {
     fn \<leftarrow> go_field EFI_FILE_PROTOCOL ''open'' p m;
     Some (UefiCall6 fw fn p newHandle fileName openMode attributes 0 m) }"

definition EfiFile_Close ::
    "'w firmware \<Rightarrow> u64 \<Rightarrow> 'w machine \<Rightarrow> (u64 \<times> 'w machine) option" where
  "EfiFile_Close fw p m = do {
     fn \<leftarrow> go_field EFI_FILE_PROTOCOL ''close'' p m;
     Some (UefiCall1 fw fn p m) }"

definition EfiFile_Delete ::
    "'w firmware \<Rightarrow> u64 \<Rightarrow> 'w machine \<Rightarrow> (u64 \<times> 'w machine) option" where
  "EfiFile_Delete fw p m = do {
     fn \<leftarrow> go_field EFI_FILE_PROTOCOL ''delete'' p m;
     Some (UefiCall1 fw fn p m) }"

definition EfiFile_Read ::
    "'w firmware \<Rightarrow> u64 \<Rightarrow> u64 \<Rightarrow> u64 \<Rightarrow> 'w machine \<Rightarrow> (u64 \<times> 'w machine) option" where
  "EfiFile_Read fw p bufferSize' buffer m = do {
     fn \<leftarrow> go_field EFI_FILE_PROTOCOL ''read'' p m;
     Some (UefiCall3 fw fn p bufferSize' buffer m) }"

definition EfiFile_Write ::
    "'w firmware \<Rightarrow> u64 \<Rightarrow> u64 \<Rightarrow> u64 \<Rightarrow> 'w machine \<Rightarrow> (u64 \<times> 'w machine) option" where
  "EfiFile_Write fw p bufferSize' buffer m = do {
     fn \<leftarrow> go_field EFI_FILE_PROTOCOL ''write'' p m;
     Some (UefiCall3 fw fn p bufferSize' buffer m) }"

definition EfiFile_GetPosition ::
    "'w firmware \<Rightarrow> u64 \<Rightarrow> u64 \<Rightarrow> 'w machine \<Rightarrow> (u64 \<times> 'w machine) option" where
  "EfiFile_GetPosition fw p position m = do {
     fn \<leftarrow> go_field EFI_FILE_PROTOCOL ''getPosition'' p m;
     Some (UefiCall2 fw fn p position m) }"

definition EfiFile_SetPosition ::
    "'w firmware \<Rightarrow> u64 \<Rightarrow> u64 \<Rightarrow> 'w machine \<Rightarrow> (u64 \<times> 'w machine) option" where
  "EfiFile_SetPosition fw p position m = do {
     fn \<leftarrow> go_field EFI_FILE_PROTOCOL ''setPosition'' p m;
     Some (UefiCall2 fw fn p position m) }"

definition EfiFile_GetInfo ::
    "'w firmware \<Rightarrow> u64 \<Rightarrow> u64 \<Rightarrow> u64 \<Rightarrow> u64 \<Rightarrow> 'w machine \<Rightarrow> (u64 \<times> 'w machine) option" where
  "EfiFile_GetInfo fw p infoType bufferSize' buffer m = do {
     fn \<leftarrow> go_field EFI_FILE_PROTOCOL ''getInfo'' p m;
     Some (UefiCall4 fw fn p infoType bufferSize' buffer m) }"

definition EfiFile_SetInfo ::
    "'w firmware \<Rightarrow> u64 \<Rightarrow> u64 \<Rightarrow> u64 \<Rightarrow> u64 \<Rightarrow> 'w machine \<Rightarrow> (u64 \<times> 'w machine) option" where
  "EfiFile_SetInfo fw p infoType bufferSize' buffer m = do {
     fn \<leftarrow> go_field EFI_FILE_PROTOCOL ''setInfo'' p m;
     Some (UefiCall4 fw fn p infoType bufferSize' buffer m) }"

definition EfiFile_Flush ::
    "'w firmware \<Rightarrow> u64 \<Rightarrow> 'w machine \<Rightarrow> (u64 \<times> 'w machine) option" where
  "EfiFile_Flush fw p m = do {
     fn \<leftarrow> go_field EFI_FILE_PROTOCOL ''flush'' p m;
     Some (UefiCall1 fw fn p m) }"

subsection \<open>dhcpv4.go\<close>

definition EFI_DHCP4_PACKET_OPTION :: go_struct where
  "EFI_DHCP4_PACKET_OPTION =
    [byte_field ''OpCode'', byte_field ''Length'', byte_field ''Data'']"

definition EFI_DHCP4_SERVICE_BINDING_PROTOCOL :: go_struct where
  "EFI_DHCP4_SERVICE_BINDING_PROTOCOL =
    [word_field ''createChild'', word_field ''destroyChild'']"

definition EFI_DHCP4_CONFIG_DATA :: go_struct where
  "EFI_DHCP4_CONFIG_DATA =
    [int_field ''DiscoverTryCount'', word_field ''DiscoverTimeout'',
     int_field ''RequestTryCount'', word_field ''RequestTimeout'', (''ClientAddress'', 4, 1),
     word_field ''Dhcp4Callback'', word_field ''CallbackContext'', int_field ''OptionCount'',
     word_field ''OptionList'']"

definition EFI_DHCP4_MODE_DATA :: go_struct where
  "EFI_DHCP4_MODE_DATA =
    [int_field ''State'', struct_field ''ConfigData'' EFI_DHCP4_CONFIG_DATA,
     (''ClientAddress'', 4, 1), (''ClientMac'', 32, 1), (''ServerAddress'', 4, 1),
     (''RouterAddress'', 4, 1), (''SubnetMask'', 4, 1)]"

definition EFI_DHCP4_PROTOCOL :: go_struct where
  "EFI_DHCP4_PROTOCOL =
    [word_field ''getModeData'', word_field ''configure'', word_field ''start'',
     word_field ''renewRebind'', word_field ''release'', word_field ''stop'',
     word_field ''build'', word_field ''transmitReceive'', word_field ''parse'']"

definition DhcpBinding_CreateChild ::
    "'w firmware \<Rightarrow> u64 \<Rightarrow> u64 \<Rightarrow> 'w machine \<Rightarrow> (u64 \<times> 'w machine) option" where
  "DhcpBinding_CreateChild fw p childHandle m = do {
     fn \<leftarrow> go_field EFI_DHCP4_SERVICE_BINDING_PROTOCOL ''createChild'' p m;
     Some (UefiCall2 fw fn p childHandle m) }"

definition DhcpBinding_DestroyChild ::
    "'w firmware \<Rightarrow> u64 \<Rightarrow> u64 \<Rightarrow> 'w machine \<Rightarrow> (u64 \<times> 'w machine) option" where
  "DhcpBinding_DestroyChild fw p childHandle m = do {
     fn \<leftarrow> go_field EFI_DHCP4_SERVICE_BINDING_PROTOCOL ''destroyChild'' p m;
     Some (UefiCall2 fw fn p childHandle m) }"

definition Dhcp4_GetModeData ::
    "'w firmware \<Rightarrow> u64 \<Rightarrow> u64 \<Rightarrow> 'w machine \<Rightarrow> (u64 \<times> 'w machine) option" where
  "Dhcp4_GetModeData fw p modeData m = do {
     fn \<leftarrow> go_field EFI_DHCP4_PROTOCOL ''getModeData'' p m;
     Some (UefiCall2 fw fn p modeData m) }"

definition Dhcp4_Configure ::
    "'w firmware \<Rightarrow> u64 \<Rightarrow> u64 \<Rightarrow> 'w machine \<Rightarrow> (u64 \<times> 'w machine) option" where
  "Dhcp4_Configure fw p cfg m = do {
     fn \<leftarrow> go_field EFI_DHCP4_PROTOCOL ''configure'' p m;
     Some (UefiCall2 fw fn p cfg m) }"

definition Dhcp4_Start ::
    "'w firmware \<Rightarrow> u64 \<Rightarrow> u64 \<Rightarrow> 'w machine \<Rightarrow> (u64 \<times> 'w machine) option" where
  "Dhcp4_Start fw p asyncEvent m = do {
     fn \<leftarrow> go_field EFI_DHCP4_PROTOCOL ''start'' p m;
     Some (UefiCall2 fw fn p asyncEvent m) }"

definition Dhcp4_RenewRebind ::
    "'w firmware \<Rightarrow> u64 \<Rightarrow> u64 \<Rightarrow> 'w machine \<Rightarrow> (u64 \<times> 'w machine) option" where
  "Dhcp4_RenewRebind fw p asyncEvent m = do {
     fn \<leftarrow> go_field EFI_DHCP4_PROTOCOL ''renewRebind'' p m;
     Some (UefiCall2 fw fn p asyncEvent m) }"

definition Dhcp4_Release ::
    "'w firmware \<Rightarrow> u64 \<Rightarrow> u64 \<Rightarrow> 'w machine \<Rightarrow> (u64 \<times> 'w machine) option" where
  "Dhcp4_Release fw p asyncEvent m = do {
     fn \<leftarrow> go_field EFI_DHCP4_PROTOCOL ''release'' p m;
     Some (UefiCall2 fw fn p asyncEvent m) }"

definition Dhcp4_Stop ::
    "'w firmware \<Rightarrow> u64 \<Rightarrow> 'w machine \<Rightarrow> (u64 \<times> 'w machine) option" where
  "Dhcp4_Stop fw p m = do {
     fn \<leftarrow> go_field EFI_DHCP4_PROTOCOL ''stop'' p m;
     Some (UefiCall1 fw fn p m) }"

definition Dhcp4_Build ::
    "'w firmware \<Rightarrow> u64 \<Rightarrow> u64 \<Rightarrow> 'w machine \<Rightarrow> (u64 \<times> 'w machine) option" where
  "Dhcp4_Build fw p packetBuffer m = do {
     fn \<leftarrow> go_field EFI_DHCP4_PROTOCOL ''build'' p m;
     Some (UefiCall2 fw fn p packetBuffer m) }"

definition Dhcp4_TransmitReceive ::
    "'w firmware \<Rightarrow> u64 \<Rightarrow> u64 \<Rightarrow> 'w machine \<Rightarrow> (u64 \<times> 'w machine) option" where
  "Dhcp4_TransmitReceive fw p token m = do {
     fn \<leftarrow> go_field EFI_DHCP4_PROTOCOL ''transmitReceive'' p m;
     Some (UefiCall2 fw fn p token m) }"

definition Dhcp4_Parse ::
    "'w firmware \<Rightarrow> u64 \<Rightarrow> u64 \<Rightarrow> u64 \<Rightarrow> 'w machine \<Rightarrow> (u64 \<times> 'w machine) option" where
  "Dhcp4_Parse fw p packetBuffer parseResult m = do {
     fn \<leftarrow> go_field EFI_DHCP4_PROTOCOL ''parse'' p m;
     Some (UefiCall3 fw fn p packetBuffer parseResult m) }"

subsection \<open>simple\_network\_protocol.go\<close>

definition EFI_SIMPLE_NETWORK_MODE :: go_struct where
  "EFI_SIMPLE_NETWORK_MODE =
    [int_field ''State'', int_field ''HwAddressSize'', int_field ''MediaHeaderSize'',
     int_field ''MaxPacketSize'', int_field ''NvRamSize'', int_field ''NvRamAccessSize'',
     int_field ''ReceiveFilterMask'', int_field ''ReceiveFilterSetting'',
     int_field ''MaxMCastFilterCount'', int_field ''MCastFilterCount'',
     (''MCastFilter'', 1024, 1), (''CurrentAddress'', 32, 1), (''BroadcastAddress'', 32, 1),
     (''PermanentAddress'', 32, 1), byte_field ''IfType'', byte_field ''MacAddressChangeable'',
     byte_field ''MultipleTxSupported'', byte_field ''MediaPresentSupported'',
     byte_field ''MediaPresent'']"

definition EFI_SIMPLE_NETWORK_PROTOCOL :: go_struct where
  "EFI_SIMPLE_NETWORK_PROTOCOL =
    [word_field ''Revision'', word_field ''start'', word_field ''stop'',
     word_field ''initialize'', word_field ''reset'', word_field ''shutdown'',
     word_field ''receiveFilters'', word_field ''stationAddress'', word_field ''statistics'',
     word_field ''mCastIpToMac'', word_field ''nvData'', word_field ''getStatus'',
     word_field ''transmit'', word_field ''receive'', word_field ''WaitForPacket'',
     word_field ''Mode'']"

definition SNP_Start ::
    "'w firmware \<Rightarrow> u64 \<Rightarrow> 'w machine \<Rightarrow> (u64 \<times> 'w machine) option" where
  "SNP_Start fw p m = do {
     fn \<leftarrow> go_field EFI_SIMPLE_NETWORK_PROTOCOL ''start'' p m;
     Some (UefiCall1 fw fn p m) }"

definition SNP_Stop ::
    "'w firmware \<Rightarrow> u64 \<Rightarrow> 'w machine \<Rightarrow> (u64 \<times> 'w machine) option" where
  "SNP_Stop fw p m = do {
     fn \<leftarrow> go_field EFI_SIMPLE_NETWORK_PROTOCOL ''stop'' p m;
     Some (UefiCall1 fw fn p m) }"

definition SNP_Initialize ::
    "'w firmware \<Rightarrow> u64 \<Rightarrow> 'w machine \<Rightarrow> (u64 \<times> 'w machine) option" where
  "SNP_Initialize fw p m = do {
     fn \<leftarrow> go_field EFI_SIMPLE_NETWORK_PROTOCOL ''initialize'' p m;
     Some (UefiCall1 fw fn p m) }"

definition SNP_Shutdown ::
    "'w firmware \<Rightarrow> u64 \<Rightarrow> 'w machine \<Rightarrow> (u64 \<times> 'w machine) option" where
  "SNP_Shutdown fw p m = do {
     fn \<leftarrow> go_field EFI_SIMPLE_NETWORK_PROTOCOL ''shutdown'' p m;
     Some (UefiCall1 fw fn p m) }"

section \<open>The interface of a method\<close>

locale direct_method =
  fixes meth :: "'w firmware \<Rightarrow> 'a \<Rightarrow> 'w machine \<Rightarrow> (u64 \<times> 'w machine) option"
    and recv :: "'a \<Rightarrow> u64" and off :: u64 and args :: "'a \<Rightarrow> u64 list"
  assumes method_def: "meth fw x m = do { fn \<leftarrow> field (recv x) off m; Some (uefi_direct fw fn (args x) m) }"
begin

lemma method_nil: "recv x = 0 \<Longrightarrow> meth fw x m = None"
  by (simp add: method_def)

lemma method_run:
  "recv x \<noteq> 0 \<Longrightarrow> meth fw x m = Some (uefi_direct fw (load64 (mem m) (recv x + off)) (args x) m)"
  by (simp add: method_def)

lemma method_log:
  "meth fw x m = Some (st, m') \<Longrightarrow> calls m' = calls m @ [Direct (load64 (mem m) (recv x + off)) (args x)]"
  using uefi_direct_log [of fw "load64 (mem m) (recv x + off)" "args x" m]
  by (cases "recv x = 0") (auto simp: method_nil method_run)

lemma method_frame:
  "meth fw x m = Some (st, m') \<Longrightarrow> place m' = place m \<and> objs m' = objs m"
  by (cases "recv x = 0") (auto simp: method_nil method_run uefi_direct_def split: prod.splits)

end

locale loaded_method =
  fixes meth :: "'w firmware \<Rightarrow> 'a \<Rightarrow> 'w machine \<Rightarrow> (u64 \<times> 'w machine) option"
    and recv :: "'a \<Rightarrow> u64" and off :: u64 and args :: "'a \<Rightarrow> u64 list"
  assumes method_def: "meth fw x m = do { fn \<leftarrow> field (recv x) off m; Some (CallService fw fn (args x) m) }"
    and args_nonempty: "args x \<noteq> []"
begin

lemma method_nil: "recv x = 0 \<Longrightarrow> meth fw x m = None"
  by (simp add: method_def)

lemma method_run:
  "recv x \<noteq> 0 \<Longrightarrow> meth fw x m = Some (CallService fw (load64 (mem m) (recv x + off)) (args x) m)"
  by (simp add: method_def)

lemma method_log:
  assumes "meth fw x m = Some (st, m')"
  shows "\<exists>code. calls m' = calls m @ [Indirect (load64 (mem m) (recv x + off)) code (args x)]"
  using assms CallService_log [OF args_nonempty [of x], of fw "load64 (mem m) (recv x + off)" m]
  by (cases "recv x = 0") (auto simp: method_nil method_run)

lemma method_frame:
  "meth fw x m = Some (st, m') \<Longrightarrow> place m' = place m \<and> objs m' = objs m"
  using CallService_frame [of fw "load64 (mem m) (recv x + off)" "args x" m]
  by (cases "recv x = 0") (auto simp: method_nil method_run)

end

section \<open>Lemmas\<close>

lemma protocol_offsets:
  "go_offset EFI_DISK_IO_PROTOCOL ''readDisk'' = Some 8"
  "go_offset EFI_DISK_IO_PROTOCOL ''writeDisk'' = Some 16"
  "go_offset EFI_BLOCK_IO_PROTOCOL ''Media'' = Some 8"
  "go_offset EFI_BLOCK_IO_PROTOCOL ''flushBlocks'' = Some 40"
  "go_offset EFI_SERIAL_IO_PROTOCOL ''reset'' = Some 8"
  "go_offset EFI_SERIAL_IO_PROTOCOL ''setAttributes'' = Some 16"
  "go_offset EFI_SERIAL_IO_PROTOCOL ''setControl'' = Some 24"
  "go_offset EFI_SERIAL_IO_PROTOCOL ''getControl'' = Some 32"
  "go_offset EFI_SERIAL_IO_PROTOCOL ''write'' = Some 40"
  "go_offset EFI_SERIAL_IO_PROTOCOL ''read'' = Some 48"
  "go_offset EFI_SIMPLE_FILE_SYSTEM_PROTOCOL ''openVolume'' = Some 8"
  "go_offset EFI_GRAPHICS_OUTPUT_PROTOCOL ''queryMode'' = Some 0"
  "go_offset EFI_GRAPHICS_OUTPUT_PROTOCOL ''setMode'' = Some 8"
  "go_offset EFI_GRAPHICS_OUTPUT_PROTOCOL ''Mode'' = Some 24"
  "go_offset EFI_SIMPLE_TEXT_OUTPUT_PROTOCOL ''outputString'' = Some 8"
  "go_offset EFI_SIMPLE_TEXT_INPUT_EX_PROTOCOL ''readKeyStrokeEx'' = Some 8"
  "go_offset EFI_SIMPLE_TEXT_INPUT_EX_PROTOCOL ''WaitForKeyEx'' = Some 16"
  "go_offset EFI_DHCP4_SERVICE_BINDING_PROTOCOL ''createChild'' = Some 0"
  "go_offset EFI_LOADED_IMAGE_PROTOCOL ''unload'' = Some 96"
  by code_simp+

lemma media_offsets:
  "go_layout 0 EFI_BLOCK_IO_MEDIA =
    [(''MediaId'', 0), (''RemovableMedia'', 4), (''MediaPresent'', 5), (''LogicalPartition'', 6), (''ReadOnly'', 7),
     (''WriteCaching'', 8), (''BlockSize'', 12), (''IoAlign'', 16), (''LastBlock'', 24)]"
  by code_simp

lemmas method_defs = go_field_def protocol_offsets uefi_call_defs

interpretation read_disk: loaded_method "\<lambda>fw (p, i, k, n, b). DiskIO_ReadDisk fw p i k n b" fst 8
  "\<lambda>(p, i, k, n, b). [p, ucast i, k, n, b]"
  by unfold_locales (auto simp: DiskIO_ReadDisk_def method_defs)

interpretation write_disk: loaded_method "\<lambda>fw (p, i, k, n, b). DiskIO_WriteDisk fw p i k n b" fst 16
  "\<lambda>(p, i, k, n, b). [p, ucast i, k, n, b]"
  by unfold_locales (auto simp: DiskIO_WriteDisk_def method_defs)

interpretation flush_blocks: direct_method BlockIO_FlushBlocks "\<lambda>p. p" 40 "\<lambda>p. [p]"
  by unfold_locales (auto simp: BlockIO_FlushBlocks_def method_defs)

interpretation serial_reset: direct_method SerialIO_Reset "\<lambda>p. p" 8 "\<lambda>p. [p]"
  by unfold_locales (auto simp: SerialIO_Reset_def method_defs)

interpretation set_control: direct_method "\<lambda>fw (p, c). SerialIO_SetControl fw p c" fst 24 "\<lambda>(p, c). [p, ucast c]"
  by unfold_locales (auto simp: SerialIO_SetControl_def method_defs)

interpretation get_control: direct_method "\<lambda>fw (p, c). SerialIO_GetControl fw p c" fst 32 "\<lambda>(p, c). [p, c]"
  by unfold_locales (auto simp: SerialIO_GetControl_def method_defs)

interpretation serial_write: loaded_method "\<lambda>fw (p, n, b). SerialIO_Write fw p n b" fst 40 "\<lambda>(p, n, b). [p, n, b]"
  by unfold_locales (auto simp: SerialIO_Write_def method_defs)

interpretation serial_read: loaded_method "\<lambda>fw (p, n, b). SerialIO_Read fw p n b" fst 48 "\<lambda>(p, n, b). [p, n, b]"
  by unfold_locales (auto simp: SerialIO_Read_def method_defs)

interpretation open_volume: direct_method "\<lambda>fw (p, r). SFS_OpenVolume fw p r" fst 8 "\<lambda>(p, r). [p, r]"
  by unfold_locales (auto simp: SFS_OpenVolume_def method_defs)

interpretation query_mode: direct_method "\<lambda>fw (p, i, n, r). GOP_QueryMode fw p i n r" fst 0 "\<lambda>(p, i, n, r). [p, ucast i, n, r]"
  by unfold_locales (auto simp: GOP_QueryMode_def method_defs)

interpretation gop_set_mode: direct_method "\<lambda>fw (p, i). GOP_SetMode fw p i" fst 8 "\<lambda>(p, i). [p, ucast i]"
  by unfold_locales (auto simp: GOP_SetMode_def method_defs)

interpretation output_string: direct_method "\<lambda>fw (p, s). TextOut_OutputString fw p s" fst 8 "\<lambda>(p, s). [p, s]"
  by unfold_locales (auto simp: TextOut_OutputString_def method_defs)

interpretation read_key: direct_method "\<lambda>fw (p, k). TextInEx_ReadKeyStroke fw p k" fst 8 "\<lambda>(p, k). [p, k]"
  by unfold_locales (auto simp: TextInEx_ReadKeyStroke_def method_defs)

interpretation create_child: direct_method "\<lambda>fw (p, h). DhcpBinding_CreateChild fw p h" fst 0 "\<lambda>(p, h). [p, h]"
  by unfold_locales (auto simp: DhcpBinding_CreateChild_def method_defs)

text \<open>The boot services the other theories use.\<close>

interpretation check_event: direct_method "\<lambda>fw (p, e). BS_CheckEvent fw p e" fst "0x78" "\<lambda>(p, e). [e]"
  by unfold_locales (auto simp: BS_CheckEvent_def boot_field boot_entries uefi_call_defs)

interpretation handle_protocol: loaded_method "\<lambda>fw (p, h, g, r). BS_HandleProtocol fw p h g r" fst "0x98"
  "\<lambda>(p, h, g, r). [h, g, r]"
  by unfold_locales (auto simp: BS_HandleProtocol_def boot_field boot_entries uefi_call_defs)

interpretation locate_protocol: loaded_method "\<lambda>fw (p, g, k, r). BS_LocateProtocol fw p g k r" fst "0x140"
  "\<lambda>(p, g, k, r). [g, k, r]"
  by unfold_locales (auto simp: BS_LocateProtocol_def boot_field boot_entries uefi_call_defs)

interpretation locate_handles: loaded_method "\<lambda>fw (p, t, g, k, n, b). BS_LocateHandleBuffer fw p t g k n b" fst "0x138"
  "\<lambda>(p, t, g, k, n, b). [word_of_int t, g, k, n, b]"
  by unfold_locales (auto simp: BS_LocateHandleBuffer_def boot_field boot_entries uefi_call_defs)

interpretation connect: direct_method "\<lambda>fw (p, h, d, r, b). BS_ConnectController fw p h d r b" fst "0x108"
  "\<lambda>(p, h, d, r, b). [h, d, r, convertBoolean b]"
  by unfold_locales (auto simp: BS_ConnectController_def boot_field boot_entries uefi_call_defs)

end
