(* ===== verification/Uefi_Status.thy ===== *)
theory Uefi_Status
  imports Uefi_Call
begin

text \<open>
  \<^verbatim>\<open>pkg/uefi/efistatus.go\<close>: the status codes and the error objects made from them. Callers
  compare error objects by identity, so an error object here is a position in the list of all
  objects made so far and \<^verbatim>\<open>errMap\<close> maps a status to a position. Only \<^verbatim>\<open>newError\<close> changes
  the two.
\<close>

section \<open>Definitions\<close>

definition uintnSize :: nat where "uintnSize = 64"

definition errorMask :: u64 where "errorMask = push_bit (uintnSize - 1) 1"

definition uefi_EFI_SUCCESS :: u64 where "uefi_EFI_SUCCESS = 0"
definition uefi_EFI_LOAD_ERROR :: u64 where "uefi_EFI_LOAD_ERROR = errorMask OR 1"
definition uefi_EFI_INVALID_PARAMETER :: u64 where "uefi_EFI_INVALID_PARAMETER = errorMask OR 2"
definition uefi_EFI_UNSUPPORTED :: u64 where "uefi_EFI_UNSUPPORTED = errorMask OR 3"
definition uefi_EFI_BAD_BUFFER_SIZE :: u64 where "uefi_EFI_BAD_BUFFER_SIZE = errorMask OR 4"
definition uefi_EFI_BUFFER_TOO_SMALL :: u64 where "uefi_EFI_BUFFER_TOO_SMALL = errorMask OR 5"
definition uefi_EFI_NOT_READY :: u64 where "uefi_EFI_NOT_READY = errorMask OR 6"
definition uefi_EFI_DEVICE_ERROR :: u64 where "uefi_EFI_DEVICE_ERROR = errorMask OR 7"
definition uefi_EFI_WRITE_PROTECTED :: u64 where "uefi_EFI_WRITE_PROTECTED = errorMask OR 8"
definition uefi_EFI_OUT_OF_RESOURCES :: u64 where "uefi_EFI_OUT_OF_RESOURCES = errorMask OR 9"
definition uefi_EFI_VOLUME_CORRUPTED :: u64 where "uefi_EFI_VOLUME_CORRUPTED = errorMask OR 10"
definition uefi_EFI_VOLUME_FULL :: u64 where "uefi_EFI_VOLUME_FULL = errorMask OR 11"
definition uefi_EFI_NO_MEDIA :: u64 where "uefi_EFI_NO_MEDIA = errorMask OR 12"
definition uefi_EFI_MEDIA_CHANGED :: u64 where "uefi_EFI_MEDIA_CHANGED = errorMask OR 13"
definition uefi_EFI_NOT_FOUND :: u64 where "uefi_EFI_NOT_FOUND = errorMask OR 14"
definition uefi_EFI_ACCESS_DENIED :: u64 where "uefi_EFI_ACCESS_DENIED = errorMask OR 15"
definition uefi_EFI_NO_RESPONSE :: u64 where "uefi_EFI_NO_RESPONSE = errorMask OR 16"
definition uefi_EFI_NO_MAPPING :: u64 where "uefi_EFI_NO_MAPPING = errorMask OR 17"
definition uefi_EFI_TIMEOUT :: u64 where "uefi_EFI_TIMEOUT = errorMask OR 18"
definition uefi_EFI_NOT_STARTED :: u64 where "uefi_EFI_NOT_STARTED = errorMask OR 19"
definition uefi_EFI_ALREADY_STARTED :: u64 where "uefi_EFI_ALREADY_STARTED = errorMask OR 20"
definition uefi_EFI_ABORTED :: u64 where "uefi_EFI_ABORTED = errorMask OR 21"
definition uefi_EFI_ICMP_ERROR :: u64 where "uefi_EFI_ICMP_ERROR = errorMask OR 22"
definition uefi_EFI_TFTP_ERROR :: u64 where "uefi_EFI_TFTP_ERROR = errorMask OR 23"
definition uefi_EFI_PROTOCOL_ERROR :: u64 where "uefi_EFI_PROTOCOL_ERROR = errorMask OR 24"
definition uefi_EFI_INCOMPATIBLE_VERSION :: u64 where "uefi_EFI_INCOMPATIBLE_VERSION = errorMask OR 25"
definition uefi_EFI_SECURITY_VIOLATION :: u64 where "uefi_EFI_SECURITY_VIOLATION = errorMask OR 26"
definition uefi_EFI_CRC_ERROR :: u64 where "uefi_EFI_CRC_ERROR = errorMask OR 27"
definition uefi_EFI_END_OF_MEDIA :: u64 where "uefi_EFI_END_OF_MEDIA = errorMask OR 28"
definition uefi_EFI_END_OF_FILE :: u64 where "uefi_EFI_END_OF_FILE = errorMask OR 31"
definition uefi_EFI_INVALID_LANGUAGE :: u64 where "uefi_EFI_INVALID_LANGUAGE = errorMask OR 32"
definition uefi_EFI_COMPROMISED_DATA :: u64 where "uefi_EFI_COMPROMISED_DATA = errorMask OR 33"
definition uefi_EFI_IP_ADDRESS_CONFLICT :: u64 where "uefi_EFI_IP_ADDRESS_CONFLICT = errorMask OR 34"
definition uefi_EFI_HTTP_ERROR :: u64 where "uefi_EFI_HTTP_ERROR = errorMask OR 35"

record uefi_error =
  err_code :: u64
  err_msg :: string

record err_state =
  errors :: "uefi_error list"
  errMap :: "u64 \<Rightarrow> nat option"

definition newError :: "u64 \<Rightarrow> string \<Rightarrow> err_state \<Rightarrow> nat \<times> err_state" where
  "newError code msg s =
     (let p = length (errors s)
      in (p, s\<lparr>errors := errors s @ [\<lparr>err_code = code, err_msg = msg\<rparr>], errMap := (errMap s)(code \<mapsto> p)\<rparr>))"

text \<open>\<^verbatim>\<open>Error.Error\<close> on an object.\<close>

definition Error_Error :: "err_state \<Rightarrow> nat \<Rightarrow> string" where
  "Error_Error s p = err_msg (errors s ! p)"

text \<open>\<open>None\<close> is the nil pointer.\<close>

definition StatusError :: "u64 \<Rightarrow> err_state \<Rightarrow> nat option \<times> err_state" where
  "StatusError status s =
     (if status = 0 then (None, s)
      else case errMap s status of
        None \<Rightarrow> apfst Some (newError status ''unknown EFI error'' s)
      | Some err \<Rightarrow> (Some err, s))"

text \<open>The error objects made when the package is initialised, in order, and the state after it.\<close>

definition error_table :: "(u64 \<times> string) list" where
  "error_table =
    [(uefi_EFI_LOAD_ERROR, ''image failed to load''),
     (uefi_EFI_INVALID_PARAMETER, ''a parameter was incorrect''),
     (uefi_EFI_UNSUPPORTED, ''operation not supported''),
     (uefi_EFI_BAD_BUFFER_SIZE, ''buffer size incorrect for request''),
     (uefi_EFI_BUFFER_TOO_SMALL, ''buffer too small; size returned in parameter''),
     (uefi_EFI_NOT_READY, ''no data pending''),
     (uefi_EFI_DEVICE_ERROR, ''physical device reported an error''),
     (uefi_EFI_WRITE_PROTECTED, ''device is write-protected''),
     (uefi_EFI_OUT_OF_RESOURCES, ''out of resources''),
     (uefi_EFI_VOLUME_CORRUPTED, ''filesystem inconsistency detected''),
     (uefi_EFI_VOLUME_FULL, ''no more space on filesystem''),
     (uefi_EFI_NO_MEDIA, ''device contains no medium''),
     (uefi_EFI_MEDIA_CHANGED, ''medium changed since last access''),
     (uefi_EFI_NOT_FOUND, ''item not found''),
     (uefi_EFI_ACCESS_DENIED, ''access denied''),
     (uefi_EFI_NO_RESPONSE, ''server not found or no response''),
     (uefi_EFI_NO_MAPPING, ''no device mapping exists''),
     (uefi_EFI_TIMEOUT, ''timeout expired''),
     (uefi_EFI_NOT_STARTED, ''protocol not started''),
     (uefi_EFI_ALREADY_STARTED, ''protocol already started''),
     (uefi_EFI_ABORTED, ''operation aborted''),
     (uefi_EFI_ICMP_ERROR, ''ICMP error during network operation''),
     (uefi_EFI_TFTP_ERROR, ''TFTP error during network operation''),
     (uefi_EFI_PROTOCOL_ERROR, ''protocol error during network operation''),
     (uefi_EFI_INCOMPATIBLE_VERSION, ''requested version incompatible''),
     (uefi_EFI_SECURITY_VIOLATION, ''security violation''),
     (uefi_EFI_CRC_ERROR, ''CRC error detected''),
     (uefi_EFI_END_OF_MEDIA, ''beginning or end of media reached''),
     (uefi_EFI_END_OF_FILE, ''end of file reached''),
     (uefi_EFI_INVALID_LANGUAGE, ''invalid language specified''),
     (uefi_EFI_COMPROMISED_DATA, ''data security status unknown or compromised''),
     (uefi_EFI_IP_ADDRESS_CONFLICT, ''IP address conflict detected''),
     (uefi_EFI_HTTP_ERROR, ''HTTP error during network operation'')]"

definition initial_errors :: err_state where
  "initial_errors = foldl (\<lambda>s (code, msg). snd (newError code msg s)) \<lparr>errors = [], errMap = (\<lambda>_. None)\<rparr> error_table"

text \<open>The states the package reaches: \<^verbatim>\<open>StatusError\<close> is the only operation after initialisation.\<close>

inductive err_reach :: "err_state \<Rightarrow> bool" where
  init: "err_reach initial_errors"
| status: "err_reach s \<Longrightarrow> err_reach (snd (StatusError st s))"

definition err_inv :: "err_state \<Rightarrow> bool" where
  "err_inv s \<longleftrightarrow> (\<forall>st p. errMap s st = Some p \<longrightarrow> st \<noteq> 0 \<and> p < length (errors s) \<and> err_code (errors s ! p) = st)"

text \<open>The later of two states of the package: no object and no entry of the map is lost.\<close>

definition err_le :: "err_state \<Rightarrow> err_state \<Rightarrow> bool" where
  "err_le s t \<longleftrightarrow> (\<exists>es. errors t = errors s @ es) \<and> errMap s \<subseteq>\<^sub>m errMap t"

section \<open>Lemmas\<close>

inductive_cases err_reach_cases: "err_reach s"

lemma newError_inv:
  assumes "err_inv s" "code \<noteq> 0"
  shows "err_inv (snd (newError code msg s))"
  using assms by (auto simp: err_inv_def newError_def Let_def nth_append less_Suc_eq)

lemma StatusError_inv: "err_inv s \<Longrightarrow> err_inv (snd (StatusError st s))"
  using newError_inv [of s st] by (auto simp: StatusError_def split: option.split)

lemma err_le_refl [simp]: "err_le s s"
  by (simp add: err_le_def)

lemma err_le_trans: "err_le s t \<Longrightarrow> err_le t u \<Longrightarrow> err_le s u"
  by (auto simp: err_le_def intro: map_le_trans)

lemma newError_le: "errMap s code = None \<Longrightarrow> err_le s (snd (newError code msg s))"
  by (auto simp: err_le_def newError_def Let_def map_le_def dom_def)

lemma StatusError_le: "err_le s (snd (StatusError st s))"
  by (auto simp: StatusError_def newError_le split: option.split)

lemma error_table_nonzero: "list_all (\<lambda>(code, msg). code \<noteq> 0) error_table"
  by code_simp

lemma error_table_distinct: "distinct (map fst error_table)"
  by code_simp

lemma fold_newError_inv:
  "err_inv s \<Longrightarrow> list_all (\<lambda>(code, msg). code \<noteq> 0) t
     \<Longrightarrow> err_inv (foldl (\<lambda>s (code, msg). snd (newError code msg s)) s t)"
  by (induction t arbitrary: s) (auto simp: newError_inv split: prod.splits)

lemma initial_errors_inv: "err_inv initial_errors"
  using error_table_nonzero fold_newError_inv [of "\<lparr>errors = [], errMap = (\<lambda>_. None)\<rparr>" error_table]
  by (simp add: initial_errors_def err_inv_def)

lemma err_reach_inv: "err_reach s \<Longrightarrow> err_inv s"
  by (induction rule: err_reach.induct) (auto simp: initial_errors_inv StatusError_inv)

lemma err_reach_le: "err_reach s \<Longrightarrow> err_le initial_errors s"
  by (induction rule: err_reach.induct) (auto intro: err_le_trans StatusError_le)

text \<open>The object of the \<open>i\<close>-th line of the table is at position \<open>i\<close>, and its code maps to it.\<close>

lemma fold_newError_errors:
  "errors (foldl (\<lambda>s (code, msg). snd (newError code msg s)) s t)
     = errors s @ map (\<lambda>(code, msg). \<lparr>err_code = code, err_msg = msg\<rparr>) t"
  by (induction t arbitrary: s) (auto simp: newError_def Let_def)

lemma fold_newError_map:
  assumes "distinct (map fst t)" "i < length t"
  shows "errMap (foldl (\<lambda>s (code, msg). snd (newError code msg s)) s t) (fst (t ! i)) = Some (length (errors s) + i)"
  using assms
proof (induction t rule: rev_induct)
  case (snoc e t)
  obtain code msg where e: "e = (code, msg)" by fastforce
  show ?case
  proof (cases "i < length t")
    case True
    then have "t ! i \<in> set t" by simp
    with snoc.prems(1) e have "fst (t ! i) \<noteq> code" by auto
    with snoc True e show ?thesis by (auto simp: nth_append newError_def Let_def)
  next
    case False
    with snoc.prems(2) have "i = length t" by simp
    with e show ?thesis using fold_newError_errors [of s t] by (simp add: newError_def Let_def)
  qed
qed simp

lemma initial_sentinel:
  assumes "i < length error_table"
  shows "errMap initial_errors (fst (error_table ! i)) = Some i"
    and "errors initial_errors ! i = \<lparr>err_code = fst (error_table ! i), err_msg = snd (error_table ! i)\<rparr>"
  using fold_newError_map [OF error_table_distinct assms] assms
  by (simp_all add: initial_errors_def fold_newError_errors split: prod.split)

lemma err_le_sentinel:
  assumes "err_le initial_errors s" "i < length error_table"
  shows "errMap s (fst (error_table ! i)) = Some i"
    and "errors s ! i = \<lparr>err_code = fst (error_table ! i), err_msg = snd (error_table ! i)\<rparr>"
proof -
  have len: "length (errors initial_errors) = length error_table"
    by (simp add: initial_errors_def fold_newError_errors)
  from assms(1) obtain es where es: "errors s = errors initial_errors @ es"
    and le: "errMap initial_errors \<subseteq>\<^sub>m errMap s" by (auto simp: err_le_def)
  show "errMap s (fst (error_table ! i)) = Some i"
    using le initial_sentinel(1) [OF assms(2)] by (force simp: map_le_def dom_def)
  show "errors s ! i = \<lparr>err_code = fst (error_table ! i), err_msg = snd (error_table ! i)\<rparr>"
    using es len initial_sentinel(2) [OF assms(2)] assms(2) by (simp add: nth_append)
qed

lemma fst_nonzero_table: "i < length error_table \<Longrightarrow> fst (error_table ! i) \<noteq> 0"
  using error_table_nonzero by (auto simp: list_all_length case_prod_unfold)

section \<open>Properties\<close>



text \<open>
  The named errors. The thirty-three statuses of the table are different from each other
  and from success, and in every state the package can reach each of them gives the object its
  line made, with the line's message: later statuses, known or unknown, never replace a named error.
\<close>

theorem StatusError_sentinels:
  assumes "err_reach s" "i < length error_table"
  shows "StatusError (fst (error_table ! i)) s = (Some i, s) \<and> Error_Error s i = snd (error_table ! i)
    \<and> length error_table = 33 \<and> distinct (0 # map fst error_table)"
proof -
  have "length error_table = 33" by (simp add: error_table_def)
  moreover have "0 \<notin> set (map fst error_table)" using error_table_nonzero by (auto simp: list_all_iff)
  ultimately show ?thesis
    using err_le_sentinel [OF err_reach_le [OF assms(1)] assms(2)] fst_nonzero_table [OF assms(2)] error_table_distinct
    by (simp add: StatusError_def Error_Error_def)
qed

theorem StatusError_sentinels_witness:
  "StatusError (fst (error_table ! 13)) initial_errors = (Some 13, initial_errors)
    \<and> Error_Error initial_errors 13 = snd (error_table ! 13)
    \<and> length error_table = 33 \<and> distinct (0 # map fst error_table)"
  by (rule StatusError_sentinels [OF err_reach.init]) (simp add: error_table_def)

end
