(* ===== verification/Uefi_Enumerate.thy ===== *)
theory Uefi_Enumerate
  imports Uefi_Protocols Uefi_Status
begin

text \<open>
  Finding protocols in \<^verbatim>\<open>pkg/uefi\<close>: the functions that ask the firmware for the handles that
  have a protocol and turn them into protocol pointers (\<^verbatim>\<open>EnumerateDisks\<close>,
  \<^verbatim>\<open>EnumerateFileSystems\<close>, \<^verbatim>\<open>EnumerateSerialPorts\<close>, \<^verbatim>\<open>EnumerateDHCPv4\<close>,
  \<^verbatim>\<open>EnumerateSNP\<close>), and those that look for one protocol.

  The error object \<^verbatim>\<open>StatusError(st)\<close> is \<open>StatusErr st\<close>: by \<open>Uefi_Status\<close> it is determined by
  the status. A list of protocol pointers is a list of addresses.
\<close>

section \<open>Definitions\<close>

datatype uerr = StatusErr u64 | ErrDiskNotReady | ErrNoMediaPresent | ErrNegativeOffset | ErrReadOnly

subsection \<open>The steps the functions share\<close>

text \<open>A pointer variable, and \<^verbatim>\<open>BS().HandleProtocol\<close> with its address.\<close>

definition get_protocol :: "'w firmware \<Rightarrow> uefi_pkg \<Rightarrow> u64 \<Rightarrow> string \<Rightarrow> 'w machine
    \<Rightarrow> (u64 \<times> u64 \<times> 'w machine) option" where
  "get_protocol fw g h guid m =
     (let (cell, m) = new_obj 8 m in do {
        bs \<leftarrow> BS g m;
        (st, m) \<leftarrow> BS_HandleProtocol fw bs h (var_addr g guid) cell m;
        Some (st, load64 (mem m) cell, m) })"

text \<open>The same with \<^verbatim>\<open>LocateProtocol\<close>.\<close>

definition find_protocol :: "'w firmware \<Rightarrow> uefi_pkg \<Rightarrow> string \<Rightarrow> 'w machine
    \<Rightarrow> (u64 \<times> u64 \<times> 'w machine) option" where
  "find_protocol fw g guid m =
     (let (cell, m) = new_obj 8 m in do {
        bs \<leftarrow> BS g m;
        (st, m) \<leftarrow> BS_LocateProtocol fw bs (var_addr g guid) 0 cell m;
        Some (st, load64 (mem m) cell, m) })"

text \<open>
  \<^verbatim>\<open>LocateHandleBuffer\<close> with the addresses of a count and a pointer: the status, the pointer
  and the count.
\<close>

definition get_handles :: "'w firmware \<Rightarrow> uefi_pkg \<Rightarrow> string \<Rightarrow> 'w machine
    \<Rightarrow> (u64 \<times> u64 \<times> u64 \<times> 'w machine) option" where
  "get_handles fw g guid m =
     (let (handleCount, m) = new_obj 8 m; (handleBuffer, m) = new_obj 8 m in do {
        bs \<leftarrow> BS g m;
        (st, m) \<leftarrow> BS_LocateHandleBuffer fw bs ByProtocol (var_addr g guid) 0 handleCount handleBuffer m;
        Some (st, load64 (mem m) handleBuffer, load64 (mem m) handleCount, m) })"

text \<open>
  \<^verbatim>\<open>unsafe.Slice(ptr, int(n))\<close> of handles: the number of elements. It panics on a negative
  length, on a nil pointer with a positive length, and past the end of the address space.
\<close>

definition handle_slice :: "u64 \<Rightarrow> u64 \<Rightarrow> nat option" where
  "handle_slice ptr n =
     (if sint n < 0 \<or> ptr = 0 \<and> n \<noteq> 0 \<or> 2 ^ 64 < unat ptr + 8 * unat n then None else Some (unat n))"

text \<open>
  A loop over the handles of a slice: each is read from memory when its turn comes. The body
  returns what it appends to the result.
\<close>

fun for_handles :: "(u64 \<Rightarrow> 'w machine \<Rightarrow> ('r list \<times> 'w machine) option) \<Rightarrow> u64 \<Rightarrow> nat \<Rightarrow> 'w machine
    \<Rightarrow> ('r list \<times> 'w machine) option" where
  "for_handles body ptr 0 m = Some ([], m)"
| "for_handles body ptr (Suc n) m = do {
     (r, m) \<leftarrow> body (load64 (mem m) ptr) m;
     (rs, m) \<leftarrow> for_handles body (ptr + 8) n m;
     Some (r @ rs, m) }"

subsection \<open>Enumerations\<close>

record disk =
  d_DiskIO :: u64
  d_BlockIO :: u64

definition disk_visit :: "'w firmware \<Rightarrow> uefi_pkg \<Rightarrow> u64 \<Rightarrow> 'w machine \<Rightarrow> (disk list \<times> 'w machine) option" where
  "disk_visit fw g h m = do {
     (st, dio, m) \<leftarrow> get_protocol fw g h ''EFI_DISK_IO_PROTOCOL_GUID'' m;
     if st \<noteq> 0 then Some ([], m)
     else do {
       (st, bio, m) \<leftarrow> get_protocol fw g h ''EFI_BLOCK_IO_PROTOCOL_GUID'' m;
       if st \<noteq> 0 then Some ([], m)
       else Some ([\<lparr>d_DiskIO = dio, d_BlockIO = bio\<rparr>], m) } }"

definition EnumerateDisks :: "'w firmware \<Rightarrow> uefi_pkg \<Rightarrow> 'w machine \<Rightarrow> ((uerr + disk list) \<times> 'w machine) option" where
  "EnumerateDisks fw g m = do {
     (st, buf, n, m) \<leftarrow> get_handles fw g ''EFI_DISK_IO_PROTOCOL_GUID'' m;
     if st = uefi_EFI_NOT_FOUND then Some (Inr [], m)
     else if st \<noteq> 0 then Some (Inl (StatusErr st), m)
     else do {
       k \<leftarrow> handle_slice buf n;
       (disks, m) \<leftarrow> for_handles (disk_visit fw g) buf k m;
       Some (Inr disks, m) } }"

definition fs_visit :: "'w firmware \<Rightarrow> uefi_pkg \<Rightarrow> u64 \<Rightarrow> 'w machine \<Rightarrow> (u64 list \<times> 'w machine) option" where
  "fs_visit fw g h m = do {
     (st, sfs, m) \<leftarrow> get_protocol fw g h ''EFI_SIMPLE_FILE_SYSTEM_PROTOCOL_GUID'' m;
     Some (if st = 0 then [sfs] else [], m) }"

definition EnumerateFileSystems :: "'w firmware \<Rightarrow> uefi_pkg \<Rightarrow> 'w machine \<Rightarrow> ((uerr + u64 list) \<times> 'w machine) option" where
  "EnumerateFileSystems fw g m = do {
     (st, buf, n, m) \<leftarrow> get_handles fw g ''EFI_SIMPLE_FILE_SYSTEM_PROTOCOL_GUID'' m;
     if st = uefi_EFI_NOT_FOUND then Some (Inr [], m)
     else if st \<noteq> 0 then Some (Inl (StatusErr st), m)
     else do {
       k \<leftarrow> handle_slice buf n;
       (out, m) \<leftarrow> for_handles (fs_visit fw g) buf k m;
       Some (Inr out, m) } }"

definition OpenRoot :: "'w firmware \<Rightarrow> u64 \<Rightarrow> 'w machine \<Rightarrow> (u64 \<times> u64 \<times> 'w machine) option" where
  "OpenRoot fw sfs m =
     (let (root, m) = new_obj 8 m in do {
        (st, m) \<leftarrow> SFS_OpenVolume fw sfs root m;
        if st \<noteq> 0 then Some (0, st, m) else Some (load64 (mem m) root, 0, m) })"

text \<open>\<^verbatim>\<open>SerialPort\<close>: the protocol and the flow control flag.\<close>

record serial_port =
  sp_protocol :: u64
  flowControl :: bool

text \<open>\<^verbatim>\<open>EnumerateSerialPorts\<close> returns at the first handle without the protocol.\<close>

fun serial_loop :: "'w firmware \<Rightarrow> uefi_pkg \<Rightarrow> u64 \<Rightarrow> nat \<Rightarrow> 'w machine
    \<Rightarrow> ((uerr + serial_port list) \<times> 'w machine) option" where
  "serial_loop fw g ptr 0 m = Some (Inr [], m)"
| "serial_loop fw g ptr (Suc n) m = do {
     (st, serial, m) \<leftarrow> get_protocol fw g (load64 (mem m) ptr) ''EFI_SERIAL_IO_PROTOCOL_GUID'' m;
     if st \<noteq> 0 then Some (Inl (StatusErr st), m)
     else do {
       (r, m) \<leftarrow> serial_loop fw g (ptr + 8) n m;
       Some (map_sum id ((#) \<lparr>sp_protocol = serial, flowControl = False\<rparr>) r, m) } }"

definition EnumerateSerialPorts :: "'w firmware \<Rightarrow> uefi_pkg \<Rightarrow> 'w machine
    \<Rightarrow> ((uerr + serial_port list) \<times> 'w machine) option" where
  "EnumerateSerialPorts fw g m = do {
     (st, buf, n, m) \<leftarrow> get_handles fw g ''EFI_SERIAL_IO_PROTOCOL_GUID'' m;
     if st \<noteq> 0 then Some (Inl (StatusErr st), m)
     else do {
       k \<leftarrow> handle_slice buf n;
       serial_loop fw g buf k m } }"

definition dhcp_visit :: "'w firmware \<Rightarrow> uefi_pkg \<Rightarrow> u64 \<Rightarrow> 'w machine \<Rightarrow> (u64 list \<times> 'w machine) option" where
  "dhcp_visit fw g h m = do {
     (st, binding, m) \<leftarrow> get_protocol fw g h ''EFI_DHCP4_SERVICE_BINDING_PROTOCOL_GUID'' m;
     if st \<noteq> 0 then Some ([], m)
     else let (bindChild, m) = new_obj 8 m in do {
       (st, m) \<leftarrow> DhcpBinding_CreateChild fw binding bindChild m;
       if st \<noteq> 0 then Some ([], m)
       else do {
         (st, dhcpp, m) \<leftarrow> get_protocol fw g (load64 (mem m) bindChild) ''EFI_DHCP4_PROTOCOL_GUID'' m;
         if st \<noteq> 0 then Some ([], m) else Some ([dhcpp], m) } } }"

definition EnumerateDHCPv4 :: "'w firmware \<Rightarrow> uefi_pkg \<Rightarrow> 'w machine \<Rightarrow> ((uerr + u64 list) \<times> 'w machine) option" where
  "EnumerateDHCPv4 fw g m = do {
     (st, buf, n, m) \<leftarrow> get_handles fw g ''EFI_DHCP4_SERVICE_BINDING_PROTOCOL_GUID'' m;
     if st \<noteq> 0 then Some (Inl (StatusErr st), m)
     else do {
       k \<leftarrow> handle_slice buf n;
       (out, m) \<leftarrow> for_handles (dhcp_visit fw g) buf k m;
       Some (Inr out, m) } }"

text \<open>
  \<^verbatim>\<open>EnumerateSNP\<close> connects the controller of each handle, ignoring the status, and then looks
  up the DHCP binding GUID.
\<close>

definition snp_visit :: "'w firmware \<Rightarrow> uefi_pkg \<Rightarrow> u64 \<Rightarrow> 'w machine \<Rightarrow> (u64 list \<times> 'w machine) option" where
  "snp_visit fw g h m = do {
     bs \<leftarrow> BS g m;
     (_, m) \<leftarrow> BS_ConnectController fw bs h 0 0 True m;
     (st, snp, m) \<leftarrow> get_protocol fw g h ''EFI_DHCP4_SERVICE_BINDING_PROTOCOL_GUID'' m;
     if st \<noteq> 0 then Some ([], m) else Some ([snp], m) }"

definition EnumerateSNP :: "'w firmware \<Rightarrow> uefi_pkg \<Rightarrow> 'w machine \<Rightarrow> ((uerr + u64 list) \<times> 'w machine) option" where
  "EnumerateSNP fw g m = do {
     (st, buf, n, m) \<leftarrow> get_handles fw g ''EFI_SIMPLE_NETWORK_PROTOCOL_GUID'' m;
     if st \<noteq> 0 then Some (Inl (StatusErr st), m)
     else do {
       k \<leftarrow> handle_slice buf n;
       (out, m) \<leftarrow> for_handles (snp_visit fw g) buf k m;
       Some (Inr out, m) } }"

subsection \<open>Single protocols\<close>

definition GetLoadedImageProtocol :: "'w firmware \<Rightarrow> uefi_pkg \<Rightarrow> 'w machine \<Rightarrow> ((uerr + u64) \<times> 'w machine) option" where
  "GetLoadedImageProtocol fw g m = do {
     (st, lip, m) \<leftarrow> get_protocol fw g (GetImageHandle g) ''EFI_LOADED_IMAGE_PROTOCOL_GUID'' m;
     Some (if st = 0 then Inr lip else Inl (StatusErr st), m) }"

definition SimpleTextInExProtocol :: "'w firmware \<Rightarrow> uefi_pkg \<Rightarrow> 'w machine \<Rightarrow> ((uerr + u64) \<times> 'w machine) option" where
  "SimpleTextInExProtocol fw g m = do {
     (st, iFace, m) \<leftarrow> find_protocol fw g ''SimpleTextInputExProtocolGUID'' m;
     Some (if st = 0 then Inr iFace else Inl (StatusErr st), m) }"

definition GraphicsOutputProtocol :: "'w firmware \<Rightarrow> uefi_pkg \<Rightarrow> 'w machine \<Rightarrow> ((uerr + u64) \<times> 'w machine) option" where
  "GraphicsOutputProtocol fw g m = do {
     (st, iFace, m) \<leftarrow> find_protocol fw g ''GraphicsOutputProtocolGUID'' m;
     Some (if st = 0 then Inr iFace else Inl (StatusErr st), m) }"

subsection \<open>What the firmware promises\<close>

text \<open>
  \<open>db\<close> describes the firmware's protocol database: in the states \<open>ok\<close>, looking up a protocol on a
  handle succeeds with the pointer \<open>db\<close> names, or fails where it names none, and the state stays
  \<open>ok\<close>. \<open>handles_at\<close>: in the states \<open>ok\<close> the handles \<open>hs\<close> are in memory at \<open>ptr\<close>.
\<close>

definition protocol_db :: "'w firmware \<Rightarrow> uefi_pkg \<Rightarrow> ('w machine \<Rightarrow> bool) \<Rightarrow> (u64 \<Rightarrow> string \<Rightarrow> u64 option) \<Rightarrow> bool" where
  "protocol_db fw g ok db \<longleftrightarrow> (\<forall>m h guid. ok m \<longrightarrow>
     (\<exists>st q m'. get_protocol fw g h guid m = Some (st, q, m') \<and> ok m'
        \<and> (case db h guid of None \<Rightarrow> st \<noteq> 0 | Some r \<Rightarrow> st = 0 \<and> q = r)))"

definition handles_at :: "('w machine \<Rightarrow> bool) \<Rightarrow> u64 \<Rightarrow> u64 list \<Rightarrow> bool" where
  "handles_at ok ptr hs \<longleftrightarrow> (\<forall>m i. ok m \<longrightarrow> i < length hs \<longrightarrow> load64 (mem m) (ptr + 8 * of_nat i) = hs ! i)"

text \<open>A firmware with two handles, of which the first has every protocol, for the examples below.\<close>

definition demo_pkg :: uefi_pkg where
  "demo_pkg = \<lparr>systemTable = 4096, imageHandle = 77, var_addr = (\<lambda>_. 12288)\<rparr>"

definition demo_handles :: "u64 list" where
  "demo_handles = [5, 6]"

definition demo_db :: "u64 \<Rightarrow> string \<Rightarrow> u64 option" where
  "demo_db h guid = (if h = 5 then Some 65536 else None)"

definition demo_db_firmware :: "unit firmware" where
  "demo_db_firmware code args f w =
     (if length args = 5 then (0, store64 (args ! 3) 2 (store64 (args ! 4) 20480 f), w)
      else if args ! 0 = 5 then (0, store64 (args ! 2) 65536 f, w)
      else (7, f, w))"

definition demo_db_machine :: "unit machine" where
  "demo_db_machine = \<lparr>mem = store64 4192 8192 (store64 20480 5 (store64 20488 6 (\<lambda>_. 0))),
     place = (\<lambda>k. if even k then 1048576 else 1048584), objs = 0, stale = 0, calls = [], world = ()\<rparr>"

definition demo_db_ok :: "unit machine \<Rightarrow> bool" where
  "demo_db_ok m \<longleftrightarrow> place m = place demo_db_machine \<and> load64 (mem m) 4192 = 8192
     \<and> load64 (mem m) 20480 = 5 \<and> load64 (mem m) 20488 = 6"

section \<open>Lemmas\<close>

lemma BS_field: "systemTable g \<noteq> 0 \<Longrightarrow> BS g m = Some (load64 (mem m) (systemTable g + 96))"
  by (simp add: BS_def go_field_def system_table_offsets)

lemma BS_nil: "systemTable g = 0 \<Longrightarrow> BS g m = None"
  by (simp add: BS_def go_field_def system_table_offsets)

lemma protocol_db_lookup:
  assumes "protocol_db fw g ok db" "ok m"
  obtains st q m' where "get_protocol fw g h guid m = Some (st, q, m')" "ok m'"
    "case db h guid of None \<Rightarrow> st \<noteq> 0 | Some r \<Rightarrow> st = 0 \<and> q = r"
  using assms unfolding protocol_db_def by blast

lemma protocol_db_Some:
  assumes "protocol_db fw g ok db" "ok m" "db h guid = Some q"
  shows "\<exists>m'. get_protocol fw g h guid m = Some (0, q, m') \<and> ok m'"
  using protocol_db_lookup [OF assms(1,2), of h guid] assms(3) by auto

lemma protocol_db_None:
  assumes "protocol_db fw g ok db" "ok m" "db h guid = None"
  shows "\<exists>st q m'. get_protocol fw g h guid m = Some (st, q, m') \<and> st \<noteq> 0 \<and> ok m'"
  by (rule protocol_db_lookup [OF assms(1,2), of h guid]) (use assms(3) in auto)

lemma handles_at_nth:
  "handles_at ok ptr hs \<Longrightarrow> ok m \<Longrightarrow> i < length hs \<Longrightarrow> load64 (mem m) (ptr + 8 * of_nat i) = hs ! i"
  by (simp add: handles_at_def)

lemma handles_at_Cons:
  assumes "handles_at ok ptr (h # hs)"
  shows "ok m \<Longrightarrow> load64 (mem m) ptr = h" "handles_at ok (ptr + 8) hs"
proof -
  show "load64 (mem m) ptr = h" if "ok m"
    using handles_at_nth [OF assms that, of 0] by simp
  have "load64 (mem m) (ptr + 8 + 8 * of_nat i) = hs ! i" if "ok m" "i < length hs" for m i
    using handles_at_nth [OF assms that(1), of "Suc i"] that(2) by (simp add: algebra_simps)
  then show "handles_at ok (ptr + 8) hs" by (simp add: handles_at_def)
qed

text \<open>A loop over handles collects what its body returns for each of them.\<close>

lemma for_handles_collect:
  assumes "\<And>h m. ok m \<Longrightarrow> \<exists>m'. body h m = Some (f h, m') \<and> ok m'"
    and "handles_at ok ptr hs" "ok m"
  shows "\<exists>m'. for_handles body ptr (length hs) m = Some (concat (map f hs), m') \<and> ok m'"
  using assms(2,3)
proof (induction hs arbitrary: ptr m)
  case (Cons h hs)
  obtain m1 where m1: "body h m = Some (f h, m1)" "ok m1" using assms(1) [OF Cons.prems(2)] by blast
  obtain m2 where "for_handles body (ptr + 8) (length hs) m1 = Some (concat (map f hs), m2)" "ok m2"
    using Cons.IH [OF handles_at_Cons(2) [OF Cons.prems(1)] m1(2)] by blast
  with m1 handles_at_Cons(1) [OF Cons.prems] show ?case by simp
qed simp

lemma disk_visit_db:
  assumes "protocol_db fw g ok db" "ok m"
  shows "\<exists>m'. disk_visit fw g h m = Some (case (db h ''EFI_DISK_IO_PROTOCOL_GUID'', db h ''EFI_BLOCK_IO_PROTOCOL_GUID'') of
      (Some d, Some b) \<Rightarrow> [\<lparr>d_DiskIO = d, d_BlockIO = b\<rparr>] | _ \<Rightarrow> [], m') \<and> ok m'"
proof (cases "db h ''EFI_DISK_IO_PROTOCOL_GUID''")
  case None
  then show ?thesis using protocol_db_None [OF assms None] by (auto simp: disk_visit_def)
next
  case (Some d)
  obtain m1 where m1: "get_protocol fw g h ''EFI_DISK_IO_PROTOCOL_GUID'' m = Some (0, d, m1)" "ok m1"
    using protocol_db_Some [OF assms Some] by blast
  show ?thesis
  proof (cases "db h ''EFI_BLOCK_IO_PROTOCOL_GUID''")
    case None
    then show ?thesis using protocol_db_None [OF assms(1) m1(2) None] m1 Some by (auto simp: disk_visit_def)
  next
    case b: (Some b)
    then show ?thesis using protocol_db_Some [OF assms(1) m1(2) b] m1 Some by (auto simp: disk_visit_def)
  qed
qed

lemma serial_loop_db:
  assumes "protocol_db fw g ok db" "handles_at ok ptr hs" "ok m"
  shows "\<exists>r m'. serial_loop fw g ptr (length hs) m = Some (r, m') \<and> ok m'
    \<and> (if list_all (\<lambda>h. db h ''EFI_SERIAL_IO_PROTOCOL_GUID'' \<noteq> None) hs
        then r = Inr (map (\<lambda>h. \<lparr>sp_protocol = the (db h ''EFI_SERIAL_IO_PROTOCOL_GUID''), flowControl = False\<rparr>) hs)
        else \<exists>st. st \<noteq> 0 \<and> r = Inl (StatusErr st))"
  using assms(2,3)
proof (induction hs arbitrary: ptr m)
  case (Cons h hs)
  show ?case
  proof (cases "db h ''EFI_SERIAL_IO_PROTOCOL_GUID''")
    case None
    then show ?thesis
      using protocol_db_None [OF assms(1) Cons.prems(2) None] handles_at_Cons(1) [OF Cons.prems] by auto
  next
    case (Some q)
    obtain m1 where m1: "get_protocol fw g h ''EFI_SERIAL_IO_PROTOCOL_GUID'' m = Some (0, q, m1)" "ok m1"
      using protocol_db_Some [OF assms(1) Cons.prems(2) Some] by blast
    from Cons.IH [OF handles_at_Cons(2) [OF Cons.prems(1)] m1(2)] m1 handles_at_Cons(1) [OF Cons.prems] Some
    show ?thesis by (fastforce split: if_splits)
  qed
qed simp

lemma snp_visit_db:
  assumes "protocol_db fw g ok db" "ok m"
    and "\<And>m h. ok m \<Longrightarrow> \<exists>bs st m'. BS g m = Some bs \<and> BS_ConnectController fw bs h 0 0 True m = Some (st, m') \<and> ok m'"
  shows "\<exists>m'. snp_visit fw g h m = Some (case db h ''EFI_DHCP4_SERVICE_BINDING_PROTOCOL_GUID'' of
      Some q \<Rightarrow> [q] | None \<Rightarrow> [], m') \<and> ok m'"
proof -
  obtain bs st m1 where c: "BS g m = Some bs" "BS_ConnectController fw bs h 0 0 True m = Some (st, m1)" "ok m1"
    using assms(3) [OF assms(2), of h] by blast
  show ?thesis
  proof (cases "db h ''EFI_DHCP4_SERVICE_BINDING_PROTOCOL_GUID''")
    case None
    then show ?thesis using protocol_db_None [OF assms(1) c(3) None] c by (auto simp: snp_visit_def)
  next
    case (Some q)
    then show ?thesis using protocol_db_Some [OF assms(1) c(3) Some] c by (auto simp: snp_visit_def)
  qed
qed

subsection \<open>The example\<close>

lemma demo_db_ok_frame [simp]:
  "demo_db_ok (m\<lparr>calls := c\<rparr>) = demo_db_ok m" "demo_db_ok (m\<lparr>world := w\<rparr>) = demo_db_ok m"
  by (simp_all add: demo_db_ok_def)

lemma demo_db_store:
  "demo_db_ok m \<Longrightarrow> a = 0 \<or> a = 1048576 \<or> a = 1048584 \<Longrightarrow> demo_db_ok (m\<lparr>mem := store64 a v (mem m)\<rparr>)"
  by (auto simp: demo_db_ok_def mem_simps apart_def)

lemma demo_db_new_obj:
  "demo_db_ok m \<Longrightarrow> demo_db_ok (snd (new_obj 8 m)) \<and> (fst (new_obj 8 m) = 1048576 \<or> fst (new_obj 8 m) = 1048584)"
  by (auto simp: demo_db_ok_def new_obj_def load64_def load_zero_apart apart_def demo_db_machine_def)

lemma demo_db_BS: "demo_db_ok m \<Longrightarrow> BS demo_pkg m = Some 8192"
  by (simp add: BS_field demo_pkg_def demo_db_ok_def)

lemma demo_protocol_db: "protocol_db demo_db_firmware demo_pkg demo_db_ok demo_db"
  unfolding protocol_db_def
proof (intro allI impI)
  fix m h guid assume ok: "demo_db_ok m"
  obtain c m1 where c: "new_obj 8 m = (c, m1)" by fastforce
  with demo_db_new_obj [OF ok] have m1: "demo_db_ok m1" "c = 1048576 \<or> c = 1048584" by auto
  have store: "demo_db_ok (m1\<lparr>mem := store64 c v (mem m1)\<rparr>)" for v using demo_db_store [OF m1(1)] m1(2) by auto
  show "\<exists>st q m'. get_protocol demo_db_firmware demo_pkg h guid m = Some (st, q, m') \<and> demo_db_ok m'
      \<and> (case demo_db h guid of None \<Rightarrow> st \<noteq> 0 | Some r \<Rightarrow> st = 0 \<and> q = r)"
  proof (cases "h = 5")
    case True
    then show ?thesis using store c m1(1)
      by (simp add: get_protocol_def demo_db_BS handle_protocol.method_run [of "(8192, _, _, _)", simplified]
          CallService_nonempty demo_db_firmware_def demo_db_def load64_store64)
  next
    case False
    then show ?thesis using False c m1(1)
      by (simp add: get_protocol_def demo_db_BS handle_protocol.method_run [of "(8192, _, _, _)", simplified]
          CallService_nonempty demo_db_firmware_def demo_db_def)
  qed
qed

lemma demo_handles_at: "handles_at demo_db_ok 20480 demo_handles"
  unfolding handles_at_def demo_handles_def
  by (auto simp: demo_db_ok_def less_Suc_eq)

lemma demo_get_handles:
  "\<exists>m1. get_handles demo_db_firmware demo_pkg guid demo_db_machine = Some (0, 20480, 2, m1) \<and> demo_db_ok m1"
proof -
  have ok: "demo_db_ok demo_db_machine" by (simp add: demo_db_ok_def demo_db_machine_def mem_simps apart_def)
  obtain m1 where m1: "new_obj 8 demo_db_machine = (1048576, m1)" "demo_db_ok m1" "objs m1 = 1"
    using demo_db_new_obj [OF ok] by (simp add: new_obj_def demo_db_machine_def)
  have "place m1 1 = 1048584" using m1(2) by (simp add: demo_db_ok_def demo_db_machine_def)
  then obtain m2 where m2: "new_obj 8 m1 = (1048584, m2)" "demo_db_ok m2"
    using demo_db_new_obj [OF m1(2)] m1(3) by (simp add: new_obj_def)
  have "demo_db_ok (m2\<lparr>mem := store64 1048576 2 (store64 1048584 20480 (mem m2))\<rparr>)"
    using demo_db_store [OF demo_db_store [OF m2(2)], of 1048584 1048576 2 20480] by simp
  then show ?thesis
    using m1(1) m2 locate_handles.method_run [of "(8192, _, _, _, _, _)" demo_db_firmware m2, simplified]
    by (simp add: get_handles_def demo_db_BS CallService_nonempty demo_db_firmware_def mem_simps apart_def)
qed

lemma demo_connect:
  assumes "demo_db_ok m"
  shows "\<exists>bs st m'. BS demo_pkg m = Some bs \<and> BS_ConnectController demo_db_firmware bs h 0 0 True m = Some (st, m') \<and> demo_db_ok m'"
  using assms demo_db_store [OF assms, of 0]
  by (simp add: demo_db_BS connect.method_run [of "(8192, _, _, _, _)", simplified] uefi_direct_def demo_db_firmware_def)

section \<open>Properties\<close>



text \<open>
  Serial ports are all or nothing. \<^verbatim>\<open>EnumerateSerialPorts\<close> returns one port per handle,
  in order and without flow control, if every handle has the protocol; if one has not, it returns
  the error of a failed lookup and no port at all.
\<close>

theorem EnumerateSerialPorts_all_or_none:
  assumes "protocol_db fw g ok db" "handles_at ok buf hs"
    and "get_handles fw g ''EFI_SERIAL_IO_PROTOCOL_GUID'' m = Some (0, buf, of_nat (length hs), m1)" "ok m1"
    and "handle_slice buf (of_nat (length hs)) = Some (length hs)"
  shows "\<exists>r m'. EnumerateSerialPorts fw g m = Some (r, m')
    \<and> (if list_all (\<lambda>h. db h ''EFI_SERIAL_IO_PROTOCOL_GUID'' \<noteq> None) hs
        then r = Inr (map (\<lambda>h. \<lparr>sp_protocol = the (db h ''EFI_SERIAL_IO_PROTOCOL_GUID''), flowControl = False\<rparr>) hs)
        else \<exists>st. st \<noteq> 0 \<and> r = Inl (StatusErr st))"
  using serial_loop_db [OF assms(1,2,4)] assms(3,5) by (fastforce simp: EnumerateSerialPorts_def)

text \<open>
  Network interfaces. \<^verbatim>\<open>EnumerateSNP\<close> lists the handles with the simple network
  protocol, but the pointers it returns are those of the handles' DHCP service binding
  protocol, for the handles that have one.
\<close>

theorem EnumerateSNP_returns_bindings:
  assumes "protocol_db fw g ok db" "handles_at ok buf hs"
    and "\<And>m h. ok m \<Longrightarrow> \<exists>bs st m'. BS g m = Some bs \<and> BS_ConnectController fw bs h 0 0 True m = Some (st, m') \<and> ok m'"
    and "get_handles fw g ''EFI_SIMPLE_NETWORK_PROTOCOL_GUID'' m = Some (0, buf, of_nat (length hs), m1)" "ok m1"
    and "handle_slice buf (of_nat (length hs)) = Some (length hs)"
  shows "\<exists>m'. EnumerateSNP fw g m = Some (Inr (concat (map
      (\<lambda>h. case db h ''EFI_DHCP4_SERVICE_BINDING_PROTOCOL_GUID'' of Some q \<Rightarrow> [q] | None \<Rightarrow> []) hs)), m')"
proof -
  obtain m' where "for_handles (snp_visit fw g) buf (length hs) m1 = Some (concat (map
      (\<lambda>h. case db h ''EFI_DHCP4_SERVICE_BINDING_PROTOCOL_GUID'' of Some q \<Rightarrow> [q] | None \<Rightarrow> []) hs), m')"
    using for_handles_collect [of ok "snp_visit fw g", OF snp_visit_db [OF assms(1) _ assms(3)] assms(2,5)] by blast
  then show ?thesis using assms(4,6) by (simp add: EnumerateSNP_def)
qed

theorem EnumerateSNP_returns_bindings_witness:
  "\<exists>m'. EnumerateSNP demo_db_firmware demo_pkg demo_db_machine = Some (Inr [65536], m')"
proof -
  obtain m1 where m1: "get_handles demo_db_firmware demo_pkg ''EFI_SIMPLE_NETWORK_PROTOCOL_GUID'' demo_db_machine
      = Some (0, 20480, 2, m1)" "demo_db_ok m1" using demo_get_handles by blast
  have "\<exists>m'. EnumerateSNP demo_db_firmware demo_pkg demo_db_machine = Some (Inr (concat (map
      (\<lambda>h. case demo_db h ''EFI_DHCP4_SERVICE_BINDING_PROTOCOL_GUID'' of Some q \<Rightarrow> [q] | None \<Rightarrow> []) demo_handles)), m')"
    by (rule EnumerateSNP_returns_bindings [OF demo_protocol_db demo_handles_at demo_connect _ m1(2)])
       (use m1(1) in \<open>simp_all add: demo_handles_def handle_slice_def\<close>)
  then show ?thesis by (simp add: demo_handles_def demo_db_def)
qed

end
