(* ===== verification/Disk_IO.thy ===== *)
theory Disk_IO
  imports Uefi_Enumerate
begin

text \<open>
  \<^verbatim>\<open>pkg/uefi/media_io_protocol.go\<close>: a disk as a byte-addressed device. A disk is the
  addresses of its disk and block protocols; the nil disk is \<open>None\<close>. The size, the media flags and
  the media id are read from the media struct the block protocol points to.
\<close>

section \<open>Definitions\<close>

text \<open>\<^verbatim>\<open>d.BlockIO.Media\<close>; \<open>None\<close> if the disk or one of the pointers is nil.\<close>

definition disk_media :: "disk option \<Rightarrow> 'w machine \<Rightarrow> u64 option" where
  "disk_media d m = do {
     d \<leftarrow> d;
     media \<leftarrow> field (d_BlockIO d) 8 m;
     if media = 0 then None else Some media }"

definition media_MediaId :: "u64 \<Rightarrow> 'w machine \<Rightarrow> u32" where
  "media_MediaId media m = load32 (mem m) media"

definition media_MediaPresent :: "u64 \<Rightarrow> 'w machine \<Rightarrow> bool" where
  "media_MediaPresent media m \<longleftrightarrow> mem m (media + 5) \<noteq> 0"

definition media_ReadOnly :: "u64 \<Rightarrow> 'w machine \<Rightarrow> bool" where
  "media_ReadOnly media m \<longleftrightarrow> mem m (media + 7) \<noteq> 0"

definition media_BlockSize :: "u64 \<Rightarrow> 'w machine \<Rightarrow> u32" where
  "media_BlockSize media m = load32 (mem m) (media + 12)"

definition media_LastBlock :: "u64 \<Rightarrow> 'w machine \<Rightarrow> u64" where
  "media_LastBlock media m = load64 (mem m) (media + 24)"

definition disk_Size :: "disk option \<Rightarrow> 'w machine \<Rightarrow> int" where
  "disk_Size d m =
     (case disk_media d m of
        None \<Rightarrow> 0
      | Some media \<Rightarrow>
          let blk = uint (media_BlockSize media m)
          in go_int (sint (media_LastBlock media m + 1) * blk))"

definition SectorSize :: "disk option \<Rightarrow> 'w machine \<Rightarrow> int" where
  "SectorSize d m = (case disk_media d m of None \<Rightarrow> 0 | Some media \<Rightarrow> uint (media_BlockSize media m))"

text \<open>
  \<^verbatim>\<open>ReadAt\<close>: the number of bytes, the error and the buffer afterwards.
\<close>

definition ReadAt :: "'w firmware \<Rightarrow> disk option \<Rightarrow> u8 list \<Rightarrow> int \<Rightarrow> 'w machine
    \<Rightarrow> (int \<times> uerr option \<times> u8 list \<times> 'w machine) option" where
  "ReadAt fw d p off m =
     (case (d, disk_media d m) of
        (Some dsk, Some media) \<Rightarrow>
          if d_DiskIO dsk = 0 then Some (0, Some ErrDiskNotReady, p, m)
          else if \<not> media_MediaPresent media m then Some (0, Some ErrNoMediaPresent, p, m)
          else if off < 0 then Some (0, Some ErrNegativeOffset, p, m)
          else if p = [] then Some (0, None, p, m)
          else let sz = length p; (b, m) = new_slice p m in do {
            (st, m) \<leftarrow> DiskIO_ReadDisk fw (d_DiskIO dsk) (media_MediaId media m) (word_of_int off) (of_nat sz) b m;
            let p = load_bytes (mem m) b sz;
            if st = 0 then Some (int sz, None, p, m) else Some (0, Some (StatusErr st), p, m) }
      | _ \<Rightarrow> Some (0, Some ErrDiskNotReady, p, m))"

definition WriteAt :: "'w firmware \<Rightarrow> disk option \<Rightarrow> u8 list \<Rightarrow> int \<Rightarrow> 'w machine
    \<Rightarrow> (int \<times> uerr option \<times> 'w machine) option" where
  "WriteAt fw d p off m =
     (case (d, disk_media d m) of
        (Some dsk, Some media) \<Rightarrow>
          if d_DiskIO dsk = 0 then Some (0, Some ErrDiskNotReady, m)
          else if media_ReadOnly media m then Some (0, Some ErrReadOnly, m)
          else if off < 0 then Some (0, Some ErrNegativeOffset, m)
          else if p = [] then Some (0, None, m)
          else let sz = length p; (b, m) = new_slice p m in do {
            (st, m) \<leftarrow> DiskIO_WriteDisk fw (d_DiskIO dsk) (media_MediaId media m) (word_of_int off) (of_nat sz) b m;
            if st = 0 then Some (int sz, None, m) else Some (0, Some (StatusErr st), m) }
      | _ \<Rightarrow> Some (0, Some ErrDiskNotReady, m))"

definition disk_Flush :: "'w firmware \<Rightarrow> disk option \<Rightarrow> 'w machine \<Rightarrow> (uerr option \<times> 'w machine) option" where
  "disk_Flush fw d m =
     (case d of
        None \<Rightarrow> Some (Some ErrDiskNotReady, m)
      | Some dsk \<Rightarrow>
          if d_BlockIO dsk = 0 then Some (Some ErrDiskNotReady, m)
          else do {
            (st, m) \<leftarrow> BlockIO_FlushBlocks fw (d_BlockIO dsk) m;
            Some (if st = 0 then None else Some (StatusErr st), m) })"

subsection \<open>What the firmware promises\<close>

text \<open>
  \<open>content w\<close> is the byte at each offset of the disk. The code at \<open>rd\<close> copies bytes of the disk
  to a buffer, the code at \<open>wr\<close> copies a buffer to the disk.
\<close>

definition disk_firmware :: "'w firmware \<Rightarrow> u64 \<Rightarrow> u64 \<Rightarrow> ('w \<Rightarrow> u64 \<Rightarrow> u8) \<Rightarrow> bool" where
  "disk_firmware fw rd wr content \<longleftrightarrow>
     (\<forall>a i off n b f w. fw rd [a, i, off, n, b] f w
        = (0, store_bytes b (map (\<lambda>k. content w (off + of_nat k)) [0..<unat n]) f, w)) \<and>
     (\<forall>a i off n b f w. \<exists>w'. fw wr [a, i, off, n, b] f w = (0, f, w')
        \<and> content w' = (\<lambda>x. if unat (x - off) < unat n then f (b + (x - off)) else content w x))"

text \<open>
  The states in which a disk works: its protocols and a present, writable medium are in memory and
  the methods lead to the code at \<open>rd\<close> and \<open>wr\<close>; Go objects are placed elsewhere.
\<close>

definition disk_ready :: "('w machine \<Rightarrow> bool) \<Rightarrow> disk \<Rightarrow> u64 \<Rightarrow> u64 \<Rightarrow> bool" where
  "disk_ready ok d rd wr \<longleftrightarrow> d_DiskIO d \<noteq> 0 \<and> (\<forall>m. ok m \<longrightarrow>
     (\<exists>media. disk_media (Some d) m = Some media \<and> media_MediaPresent media m \<and> \<not> media_ReadOnly media m)
     \<and> load64 (mem m) (load64 (mem m) (d_DiskIO d + 8)) = rd
     \<and> load64 (mem m) (load64 (mem m) (d_DiskIO d + 16)) = wr
     \<and> (\<forall>bs. length bs < 2 ^ 63 \<longrightarrow> ok (snd (new_slice bs m))) \<and> (\<forall>c w. ok (m\<lparr>world := w, calls := c\<rparr>)))"

text \<open>A disk for the examples below; the state of its firmware is the contents of the disk.\<close>

definition demo_disk :: disk where
  "demo_disk = \<lparr>d_DiskIO = 4096, d_BlockIO = 8192\<rparr>"

definition demo_disk_firmware :: "(u64 \<Rightarrow> u8) firmware" where
  "demo_disk_firmware code args f w =
     (let off = args ! 2; n = args ! 3; b = args ! 4 in
      if code = 1 then (0, store_bytes b (map (\<lambda>k. w (off + of_nat k)) [0..<unat n]) f, w)
      else (0, f, (\<lambda>x. if unat (x - off) < unat n then f (b + (x - off)) else w x)))"

definition demo_disk_machine :: "(u64 \<Rightarrow> u8) machine" where
  "demo_disk_machine = \<lparr>mem = store64 4104 16384 (store64 4112 20480 (store64 16384 1 (store64 20480 2
       (store64 8200 12288 (store_bytes 12288 [1, 0, 0, 0, 0, 1, 0, 0] (\<lambda>_. 0)))))),
     place = (\<lambda>_. 0x100000000), objs = 0, stale = 0, calls = [], world = (\<lambda>_. 0)\<rparr>"

section \<open>Lemmas\<close>

text \<open>Both transfers, once the guards have passed.\<close>

lemma ReadAt_call:
  assumes "disk_media (Some d) m = Some media" "d_DiskIO d \<noteq> 0" "media_MediaPresent media m" "0 \<le> off" "p \<noteq> []"
  shows "ReadAt fw (Some d) p off m = (let (b, m1) = new_slice p m;
      (st, m2) = CallService fw (load64 (mem m1) (d_DiskIO d + 8))
        [d_DiskIO d, ucast (media_MediaId media m1), word_of_int off, of_nat (length p), b] m1
    in Some (if st = 0 then int (length p) else 0, if st = 0 then None else Some (StatusErr st),
         load_bytes (mem m2) b (length p), m2))"
  using assms
  by (simp add: ReadAt_def read_disk.method_run [of "(d_DiskIO d, _, _, _, _)", simplified] Let_def split: prod.splits)

lemma WriteAt_call:
  assumes "disk_media (Some d) m = Some media" "d_DiskIO d \<noteq> 0" "\<not> media_ReadOnly media m" "0 \<le> off" "p \<noteq> []"
  shows "WriteAt fw (Some d) p off m = (let (b, m1) = new_slice p m;
      (st, m2) = CallService fw (load64 (mem m1) (d_DiskIO d + 16))
        [d_DiskIO d, ucast (media_MediaId media m1), word_of_int off, of_nat (length p), b] m1
    in Some (if st = 0 then int (length p) else 0, if st = 0 then None else Some (StatusErr st), m2))"
  using assms
  by (simp add: WriteAt_def write_disk.method_run [of "(d_DiskIO d, _, _, _, _)", simplified] Let_def split: prod.splits)

lemma disk_ready_media:
  assumes "disk_ready ok d rd wr" "ok m"
  obtains media where "disk_media (Some d) m = Some media" "media_MediaPresent media m" "\<not> media_ReadOnly media m"
  using assms unfolding disk_ready_def by blast

lemma disk_ready_stable:
  assumes "disk_ready ok d rd wr" "ok m"
  shows "length bs < 2 ^ 63 \<Longrightarrow> ok (snd (new_slice bs m))" "ok (m\<lparr>world := w, calls := c\<rparr>)"
    "load64 (mem m) (load64 (mem m) (d_DiskIO d + 8)) = rd" "load64 (mem m) (load64 (mem m) (d_DiskIO d + 16)) = wr"
    "d_DiskIO d \<noteq> 0"
  using assms unfolding disk_ready_def by blast+

lemma new_slice_stored: "length bs \<le> 2 ^ 64 \<Longrightarrow> new_slice bs m = (b, m1) \<Longrightarrow> load_bytes (mem m1) b (length bs) = bs"
  using load_store_same [of bs b "mem m"] by (auto simp: new_slice_def)

lemma disk_firmware_write:
  "disk_firmware fw rd wr content \<Longrightarrow> \<exists>w'. fw wr [a, i, off, n, b] f w = (0, f, w')
     \<and> content w' = (\<lambda>x. if unat (x - off) < unat n then f (b + (x - off)) else content w x)"
  by (simp add: disk_firmware_def)

text \<open>A write puts the bytes of the buffer on the disk; a read takes them from it.\<close>

lemma WriteAt_content:
  assumes fw: "disk_firmware fw rd wr content" and ready: "disk_ready ok d rd wr" "ok m"
    and p: "p \<noteq> []" "length p < 2 ^ 63" "0 \<le> off"
  shows "\<exists>m'. WriteAt fw (Some d) p off m = Some (int (length p), None, m') \<and> ok m'
    \<and> map (\<lambda>k. content (world m') (word_of_int off + of_nat k)) [0..<length p] = p"
proof -
  obtain media where media: "disk_media (Some d) m = Some media" "\<not> media_ReadOnly media m"
    using disk_ready_media [OF ready] by blast
  obtain b m1 where s: "new_slice p m = (b, m1)" by fastforce
  have m1: "ok m1" using disk_ready_stable(1) [OF ready p(2)] s by simp
  have n: "unat (of_nat (length p) :: u64) = length p" using p(2) by (intro unat_of_nat_small_u64) simp
  obtain w' where w: "fw wr [d_DiskIO d, ucast (media_MediaId media m1), word_of_int off, of_nat (length p), b]
        (mem m1) (world m1) = (0, mem m1, w')"
    and cw: "content w' = (\<lambda>x. if unat (x - word_of_int off) < length p then mem m1 (b + (x - word_of_int off))
        else content (world m1) x)"
    using disk_firmware_write [OF fw, of "d_DiskIO d" "ucast (media_MediaId media m1)" "word_of_int off"
        "of_nat (length p)" b "mem m1" "world m1"] n by auto
  have "content w' (word_of_int off + of_nat k) = mem m1 (b + of_nat k)" if "k < length p" for k
    using that p(2) by (simp add: cw unat_of_nat_small_u64)
  then have "map (\<lambda>k. content w' (word_of_int off + of_nat k)) [0..<length p] = load_bytes (mem m1) b (length p)"
    by (simp add: load_bytes_def)
  also have "\<dots> = p" using new_slice_stored [OF _ s] p(2) by simp
  finally have c: "map (\<lambda>k. content w' (word_of_int off + of_nat k)) [0..<length p] = p" .
  show ?thesis
    using WriteAt_call [OF media(1) disk_ready_stable(5) [OF ready] media(2) p(3,1), of fw] s w c
      disk_ready_stable(2) [OF ready(1) m1] disk_ready_stable(4) [OF ready(1) m1]
    by (simp add: CallService_nonempty)
qed

lemma ReadAt_content:
  assumes fw: "disk_firmware fw rd wr content" and ready: "disk_ready ok d rd wr" "ok m"
    and p: "p \<noteq> []" "length p < 2 ^ 63" "0 \<le> off"
  shows "\<exists>m'. ReadAt fw (Some d) p off m
    = Some (int (length p), None, map (\<lambda>k. content (world m) (word_of_int off + of_nat k)) [0..<length p], m')"
proof -
  obtain media where media: "disk_media (Some d) m = Some media" "media_MediaPresent media m"
    using disk_ready_media [OF ready] by blast
  obtain b m1 where s: "new_slice p m = (b, m1)" by fastforce
  have m1: "ok m1" and w: "world m1 = world m" using disk_ready_stable(1) [OF ready p(2)] s
    by (auto simp: new_slice_def)
  have n: "unat (of_nat (length p) :: u64) = length p" using p(2) by (intro unat_of_nat_small_u64) simp
  let ?bs = "map (\<lambda>k. content (world m) (word_of_int off + of_nat k)) [0..<length p]"
  have r: "fw rd [d_DiskIO d, ucast (media_MediaId media m1), word_of_int off, of_nat (length p), b]
        (mem m1) (world m1) = (0, store_bytes b ?bs (mem m1), world m1)"
    using fw n w unfolding disk_firmware_def by simp
  have "load_bytes (store_bytes b ?bs (mem m1)) b (length p) = ?bs"
    using load_store_same [of ?bs b "mem m1"] p(2) by simp
  then show ?thesis
    using ReadAt_call [OF media(1) disk_ready_stable(5) [OF ready] media(2) p(3,1), of fw] s r
      disk_ready_stable(3) [OF ready(1) m1]
    by (simp add: CallService_nonempty)
qed

lemma disk_Size_exact:
  assumes "disk_media d m = Some media" "(unat (media_LastBlock media m) + 1) * unat (media_BlockSize media m) < 2 ^ 63"
    and "unat (media_LastBlock media m) + 1 < 2 ^ 63"
  shows "disk_Size d m = (int (unat (media_LastBlock media m)) + 1) * int (unat (media_BlockSize media m))"
proof -
  define l where "l = media_LastBlock media m"
  define k where "k = media_BlockSize media m"
  have "unat (l + 1) = unat l + 1" using assms(3) by (simp add: l_def unat_add_lem [THEN iffD1])
  then have l: "sint (l + 1) = int (unat l) + 1"
    using sint_small [of "l + 1"] assms(3) by (simp add: l_def)
  have "int ((unat l + 1) * unat k) < int (2 ^ 63)" using assms(2) unfolding l_def k_def by (simp only: of_nat_less_iff)
  then have "(int (unat l) + 1) * int (unat k) < 2 ^ 63" by (simp add: algebra_simps)
  moreover have "0 \<le> (int (unat l) + 1) * int (unat k)" by (intro mult_nonneg_nonneg) (simp_all only: of_nat_0_le_iff add_nonneg_nonneg zero_le_one)
  ultimately have "go_int ((int (unat l) + 1) * int (unat k)) = (int (unat l) + 1) * int (unat k)"
    by (intro go_int_small) linarith+
  then show ?thesis using assms(1) l
    by (simp add: disk_Size_def l_def [symmetric] k_def [symmetric] Let_def)
qed

text \<open>The example.\<close>

definition demo_disk_ok :: "(u64 \<Rightarrow> u8) machine \<Rightarrow> bool" where
  "demo_disk_ok m \<longleftrightarrow> place m = place demo_disk_machine
     \<and> (\<forall>a. unat a < 2 ^ 31 \<longrightarrow> mem m a = mem demo_disk_machine a)"

lemma demo_disk_firmware_ok: "disk_firmware demo_disk_firmware 1 2 (\<lambda>w. w)"
  by (simp add: disk_firmware_def demo_disk_firmware_def)

lemma demo_disk_low:
  assumes "demo_disk_ok m" "unat a + n < 2 ^ 31"
  shows "load_bytes (mem m) a n = load_bytes (mem demo_disk_machine) a n"
proof (rule nth_equalityI)
  fix i assume "i < length (load_bytes (mem m) a n)"
  then have i: "i < n" by simp
  with assms(2) have "unat (a + of_nat i) = unat a + i"
    by (simp add: unat_add_lem [THEN iffD1] unat_of_nat_small_u64)
  with i assms show "load_bytes (mem m) a n ! i = load_bytes (mem demo_disk_machine) a n ! i"
    by (simp add: demo_disk_ok_def)
qed simp

lemma demo_disk_memory:
  "load64 (mem demo_disk_machine) 4104 = 16384" "load64 (mem demo_disk_machine) 4112 = 20480"
  "load64 (mem demo_disk_machine) 16384 = 1" "load64 (mem demo_disk_machine) 20480 = 2"
  "load64 (mem demo_disk_machine) 8200 = 12288" "mem demo_disk_machine 12293 = 1" "mem demo_disk_machine 12295 = 0"
  by (simp_all add: demo_disk_machine_def mem_simps apart_def) (simp_all add: store64_def store_bytes_def)

lemma demo_disk_words:
  assumes "demo_disk_ok m"
  shows "load64 (mem m) 4104 = 16384" "load64 (mem m) 4112 = 20480" "load64 (mem m) 16384 = 1"
    "load64 (mem m) 20480 = 2" "load64 (mem m) 8200 = 12288" "mem m 12293 = 1" "mem m 12295 = 0"
  using demo_disk_low [OF assms, of 4104 8] demo_disk_low [OF assms, of 4112 8] demo_disk_low [OF assms, of 16384 8]
    demo_disk_low [OF assms, of 20480 8] demo_disk_low [OF assms, of 8200 8]
    demo_disk_low [OF assms, of 12293 1] demo_disk_low [OF assms, of 12295 1]
  by (simp_all add: load64_def demo_disk_memory [unfolded load64_def]) (simp_all add: load_bytes_def demo_disk_memory)

lemma demo_disk_new_slice:
  assumes "demo_disk_ok m" "length bs < 2 ^ 63"
  shows "demo_disk_ok (snd (new_slice bs m))"
proof -
  have "mem (snd (new_slice bs m)) a = mem m a" if "unat a < 2 ^ 31" for a
  proof -
    have "\<not> unat (a - 0x100000000) < length bs"
      using that assms(2) unat_sub_if' [of a "0x100000000"] by (simp split: if_splits)
    then show ?thesis using assms(1)
      by (simp add: new_slice_def store_bytes_def demo_disk_ok_def demo_disk_machine_def)
  qed
  then show ?thesis using assms(1) by (simp add: demo_disk_ok_def)
qed

lemma demo_disk_ready: "disk_ready demo_disk_ok demo_disk 1 2"
  unfolding disk_ready_def
proof (intro conjI allI impI)
  fix m assume ok: "demo_disk_ok m"
  show "\<exists>media. disk_media (Some demo_disk) m = Some media \<and> media_MediaPresent media m \<and> \<not> media_ReadOnly media m"
    using demo_disk_words [OF ok]
    by (simp add: disk_media_def demo_disk_def media_MediaPresent_def media_ReadOnly_def)
  show "load64 (mem m) (load64 (mem m) (d_DiskIO demo_disk + 8)) = 1"
    "load64 (mem m) (load64 (mem m) (d_DiskIO demo_disk + 16)) = 2"
    using demo_disk_words [OF ok] by (simp_all add: demo_disk_def)
  show "demo_disk_ok (m\<lparr>world := w, calls := c\<rparr>)" for w c using ok by (simp add: demo_disk_ok_def)
qed (simp_all add: demo_disk_def demo_disk_new_slice)

section \<open>Properties\<close>




end
