(* ===== verification/Serial_Port.thy ===== *)
theory Serial_Port
  imports Uefi_Enumerate
begin

text \<open>
  \<^verbatim>\<open>pkg/uefi/serial_io_protocol.go\<close>: a serial port as a reader and a writer. Reading retries
  until the port delivers bytes: \<open>serial_read_loop\<close> has a fuel argument, the number of attempts;
  \<open>None\<close> is a panic or that no attempt within the fuel ended the loop. \<open>serial_retries\<close> is the
  relation between the state before an attempt that is repeated and the state of the next attempt.
\<close>

section \<open>Definitions\<close>

definition ParityNone :: u32 where "ParityNone = 1"
definition StopBits1 :: u32 where "StopBits1 = 1"

definition EFI_SERIAL_DATA_TERMINAL_READY :: u32 where "EFI_SERIAL_DATA_TERMINAL_READY = 0x0001"
definition EFI_SERIAL_REQUEST_TO_SEND :: u32 where "EFI_SERIAL_REQUEST_TO_SEND = 0x0002"
definition EFI_SERIAL_CLEAR_TO_SEND :: u32 where "EFI_SERIAL_CLEAR_TO_SEND = 0x0010"

text \<open>
  \<^verbatim>\<open>Write\<close>: the number of bytes and the error. \<^verbatim>\<open>&buf[0]\<close> panics on an empty buffer.
\<close>

definition SerialPort_Write :: "'w firmware \<Rightarrow> serial_port \<Rightarrow> u8 list \<Rightarrow> 'w machine
    \<Rightarrow> (int \<times> uerr option \<times> 'w machine) option" where
  "SerialPort_Write fw sp buf m =
     (let (controlBits, m) = new_obj 4 m in do {
        (_, m) \<leftarrow> SerialIO_GetControl fw (sp_protocol sp) controlBits m;
        if flowControl sp \<and> load32 (mem m) controlBits AND EFI_SERIAL_CLEAR_TO_SEND = 0 then Some (0, None, m)
        else let (bufLen, m) = new_uint64 (of_nat (length buf)) m in do {
          (b, m) \<leftarrow> first_elem buf m;
          (st, m) \<leftarrow> SerialIO_Write fw (sp_protocol sp) bufLen b m;
          Some (sint (load64 (mem m) bufLen), if st \<noteq> 0 then Some (StatusErr st) else None, m) } })"

definition SerialPort_Init :: "'w firmware \<Rightarrow> serial_port \<Rightarrow> 'w machine \<Rightarrow> (uerr option \<times> 'w machine) option" where
  "SerialPort_Init fw sp m = do {
     (st, m) \<leftarrow> SerialIO_Reset fw (sp_protocol sp) m;
     if st \<noteq> 0 then Some (Some (StatusErr st), m)
     else do {
       (_, _, m) \<leftarrow> SerialPort_Write fw sp [0] m;
       (st, m) \<leftarrow> SerialIO_SetAttributes fw (sp_protocol sp) 115200 0 1 ParityNone 8 StopBits1 m;
       Some (if st \<noteq> 0 then Some (StatusErr st) else None, m) } }"

text \<open>
  One round of the loop of \<^verbatim>\<open>Read\<close>: \<open>ctl\<close> is the address of \<^verbatim>\<open>controlBits\<close>, \<open>b\<close> and \<open>n\<close> are
  the address and the length of the buffer. The results are the status and \<^verbatim>\<open>bufLen\<close>; a round
  without bytes has the status \<^verbatim>\<open>EFI_TIMEOUT\<close>.
\<close>

definition serial_attempt :: "'w firmware \<Rightarrow> u64 \<Rightarrow> u64 \<Rightarrow> u64 \<Rightarrow> nat \<Rightarrow> 'w machine
    \<Rightarrow> (u64 \<times> u64 \<times> 'w machine) option" where
  "serial_attempt fw p ctl b n m = do {
     (_, m) \<leftarrow> SerialIO_GetControl fw p ctl m;
     let (bufLen, m) = new_uint64 (of_nat n) m;
     (_, m) \<leftarrow> SerialIO_SetControl fw p
       (load32 (mem m) ctl OR EFI_SERIAL_REQUEST_TO_SEND OR EFI_SERIAL_DATA_TERMINAL_READY) m;
     if n = 0 then None
     else do {
       (st, m) \<leftarrow> SerialIO_Read fw p bufLen b m;
       let len = load64 (mem m) bufLen;
       Some (if len = 0 then uefi_EFI_TIMEOUT else st, len, m) } }"

fun serial_read_loop :: "nat \<Rightarrow> 'w firmware \<Rightarrow> u64 \<Rightarrow> u64 \<Rightarrow> u64 \<Rightarrow> nat \<Rightarrow> 'w machine
    \<Rightarrow> (int \<times> uerr option \<times> 'w machine) option" where
  "serial_read_loop 0 fw p ctl b n m = None"
| "serial_read_loop (Suc fuel) fw p ctl b n m = do {
     (st, len, m) \<leftarrow> serial_attempt fw p ctl b n m;
     if st = 0 then Some (sint len, None, m)
     else if st = uefi_EFI_TIMEOUT \<or> st = uefi_EFI_NO_RESPONSE then do {
       (_, m) \<leftarrow> SerialIO_SetControl fw p (load32 (mem m) ctl AND NOT EFI_SERIAL_REQUEST_TO_SEND) m;
       serial_read_loop fuel fw p ctl b n m }
     else Some (0, Some (StatusErr st), m) }"

text \<open>\<^verbatim>\<open>Read\<close>: the number of bytes, the error and the buffer afterwards.\<close>

definition SerialPort_Read :: "nat \<Rightarrow> 'w firmware \<Rightarrow> serial_port \<Rightarrow> u8 list \<Rightarrow> 'w machine
    \<Rightarrow> (int \<times> uerr option \<times> u8 list \<times> 'w machine) option" where
  "SerialPort_Read fuel fw sp buf m =
     (let (b, m) = new_slice buf m; (ctl, m) = new_obj 4 m in do {
        (k, err, m) \<leftarrow> serial_read_loop fuel fw (sp_protocol sp) ctl b (length buf) m;
        Some (k, err, load_bytes (mem m) b (length buf), m) })"

definition UseFlowControl :: "bool \<Rightarrow> serial_port \<Rightarrow> serial_port" where
  "UseFlowControl fc sp = sp\<lparr>flowControl := fc\<rparr>"

text \<open>The states after 0, 1, 2, \<dots> repeated rounds.\<close>

inductive serial_retries :: "'w firmware \<Rightarrow> u64 \<Rightarrow> u64 \<Rightarrow> u64 \<Rightarrow> nat \<Rightarrow> nat \<Rightarrow> 'w machine \<Rightarrow> 'w machine \<Rightarrow> bool"
  for fw p ctl b n where
  none: "serial_retries fw p ctl b n 0 m m"
| retry: "serial_attempt fw p ctl b n m = Some (st, len, m1) \<Longrightarrow> st = uefi_EFI_TIMEOUT \<or> st = uefi_EFI_NO_RESPONSE
    \<Longrightarrow> SerialIO_SetControl fw p (load32 (mem m1) ctl AND NOT EFI_SERIAL_REQUEST_TO_SEND) m1 = Some (st', m2)
    \<Longrightarrow> serial_retries fw p ctl b n k m2 m3 \<Longrightarrow> serial_retries fw p ctl b n (Suc k) m m3"

text \<open>A port that reports a device error and no bytes on every read.\<close>

definition dead_port_firmware :: "unit firmware" where
  "dead_port_firmware code args f w =
     (if length args = 3 then (uefi_EFI_DEVICE_ERROR, store64 (args ! 1) 0 f, w) else (0, f, w))"

text \<open>A port that delivers one byte, and a port on either.\<close>

definition live_port_firmware :: "unit firmware" where
  "live_port_firmware code args f w =
     (if length args = 3 then (0, store64 (args ! 1) 1 (store_bytes (args ! 2) [65] f), w) else (0, f, w))"

definition demo_port :: serial_port where
  "demo_port = \<lparr>sp_protocol = 4096, flowControl = False\<rparr>"

section \<open>Lemmas\<close>

lemma timeout_nonzero [simp]: "uefi_EFI_TIMEOUT \<noteq> 0" "uefi_EFI_NO_RESPONSE \<noteq> 0"
  by code_simp+

inductive_cases serial_retries_0: "serial_retries fw p ctl b n 0 m m'"
inductive_cases serial_retries_Suc: "serial_retries fw p ctl b n (Suc k) m m'"

text \<open>The loop does its retries, then what the next round does.\<close>

lemma serial_read_loop_retries:
  "serial_retries fw p ctl b n k m m'
     \<Longrightarrow> serial_read_loop (k + fuel) fw p ctl b n m = serial_read_loop fuel fw p ctl b n m'"
  by (induction rule: serial_retries.induct) (auto simp: timeout_nonzero)

lemma serial_attempt_empty:
  "serial_attempt fw p ctl b n m = Some (st, len, m') \<Longrightarrow> len = 0 \<Longrightarrow> st = uefi_EFI_TIMEOUT"
  by (auto simp: serial_attempt_def Let_def split: Option.bind_splits prod.splits if_splits)

text \<open>A port that never delivers bytes keeps the loop running.\<close>

lemma serial_read_loop_starved:
  assumes "\<And>k m'. serial_retries fw p ctl b n k m m'
      \<Longrightarrow> case serial_attempt fw p ctl b n m' of None \<Rightarrow> True | Some (st, len, _) \<Rightarrow> len = 0"
  shows "serial_read_loop fuel fw p ctl b n m = None"
  using assms
proof (induction fuel arbitrary: m)
  case (Suc fuel)
  show ?case
  proof (cases "serial_attempt fw p ctl b n m")
    case (Some r)
    obtain st len m1 where r: "r = (st, len, m1)" by (cases r) auto
    have "len = 0" using Suc.prems [OF serial_retries.none] Some r by simp
    then have st: "st = uefi_EFI_TIMEOUT" using serial_attempt_empty Some r by blast
    show ?thesis
    proof (cases "SerialIO_SetControl fw p (load32 (mem m1) ctl AND NOT EFI_SERIAL_REQUEST_TO_SEND) m1")
      case c: (Some q)
      obtain st' m2 where q: "q = (st', m2)" by fastforce
      have "serial_read_loop fuel fw p ctl b n m2 = None"
      proof (rule Suc.IH)
        fix k m' assume "serial_retries fw p ctl b n k m2 m'"
        with serial_retries.retry [OF Some [unfolded r]] st c q
        have "serial_retries fw p ctl b n (Suc k) m m'" by blast
        then show "case serial_attempt fw p ctl b n m' of None \<Rightarrow> True | Some (st, len, _) \<Rightarrow> len = 0"
          by (rule Suc.prems)
      qed
      with Some r st c q show ?thesis by simp
    qed (use Some r st in simp)
  qed simp
qed simp

lemma dead_port_attempt:
  "case serial_attempt dead_port_firmware p ctl b n m of None \<Rightarrow> True | Some (st, len, _) \<Rightarrow> len = 0"
proof (cases "p = 0 \<or> n = 0")
  case True
  then show ?thesis
    by (cases "p = 0") (auto simp: serial_attempt_def get_control.method_nil [of "(0, _)", simplified]
        split: Option.bind_splits prod.splits option.splits)
next
  case False
  then show ?thesis
    by (simp add: serial_attempt_def get_control.method_run [of "(p, _)", simplified]
        set_control.method_run [of "(p, _)", simplified] serial_read.method_run [of "(p, _, _)", simplified]
        uefi_direct_def CallService_nonempty dead_port_firmware_def Let_def load64_store64 split: prod.splits)
qed

lemma live_port_attempt: "\<exists>m'. serial_attempt live_port_firmware 4096 ctl b 2 m = Some (0, 1, m')"
  by (simp add: serial_attempt_def get_control.method_run [of "(4096, _)", simplified]
      set_control.method_run [of "(4096, _)", simplified] serial_read.method_run [of "(4096, _, _)", simplified]
      uefi_direct_def CallService_nonempty live_port_firmware_def Let_def load64_store64 split: prod.splits)

section \<open>Properties\<close>





end
