(* ===== verification/Uefi_Text.thy ===== *)
theory Uefi_Text
  imports Uefi_Protocols
begin

text \<open>
  Text in \<^verbatim>\<open>pkg/uefi/util.go\<close>: UTF-16 strings for the firmware and from it, and the debugging
  output. \<open>UTF16PtrToString\<close> looks for the terminating NUL in memory; its loop is a
  \<open>partial_function\<close>, whose value is \<open>None\<close> when there is none.
\<close>

section \<open>Definitions\<close>

text \<open>\<^verbatim>\<open>CHAR16(r)\<close> keeps the low 16 bits of a rune.\<close>

definition StringToUTF16 :: "gostring \<Rightarrow> u16 list" where
  "StringToUTF16 s = (let rs = runes s; c16 = map of_nat rs in c16 @ [0])"

definition load_units :: "memory \<Rightarrow> u64 \<Rightarrow> nat \<Rightarrow> u16 list" where
  "load_units f p n = map (\<lambda>i. load16 f (p + 2 * of_nat i)) [0..<n]"

text \<open>\<^verbatim>\<open>unsafe.Slice\<close> and \<^verbatim>\<open>make\<close> panic on a negative length.\<close>

definition UTF16PtrLenToString :: "u64 \<Rightarrow> int \<Rightarrow> memory \<Rightarrow> gostring option" where
  "UTF16PtrLenToString input len f =
     (if len < 0 \<or> input = 0 \<and> len \<noteq> 0 then None
      else Some (concat (map utf8_encode (utf16_decode (load_units f input (nat len))))))"

text \<open>The argument of \<^verbatim>\<open>UTF16ToString\<close> is a slice; \<^verbatim>\<open>&input[0]\<close> panics when it is empty.\<close>

definition UTF16ToString :: "u16 list \<Rightarrow> gostring option" where
  "UTF16ToString input =
     (if input = [] then None else Some (concat (map utf8_encode (utf16_decode input))))"

partial_function (option) utf16_length :: "memory \<Rightarrow> u64 \<Rightarrow> int \<Rightarrow> int option" where
  "utf16_length f pointer len =
     (if load16 f pointer \<noteq> 0 then utf16_length f (pointer + 2) (len + 1) else Some len)"

definition UTF16PtrToString :: "u64 \<Rightarrow> memory \<Rightarrow> gostring option" where
  "UTF16PtrToString input f = do {
     len \<leftarrow> (if input = 0 then None else utf16_length f input 0);
     UTF16PtrLenToString input len f }"

definition hexConst :: "u16 list" where
  "hexConst = [48, 49, 50, 51, 52, 53, 54, 55, 56, 57, 97, 98, 99, 100, 101, 102]"

text \<open>\<^verbatim>\<open>printBuf[i] = v\<close> in a buffer of 256 units: an index past the end panics.\<close>

definition set_printBuf :: "uefi_pkg \<Rightarrow> nat \<Rightarrow> u16 \<Rightarrow> memory \<Rightarrow> memory option" where
  "set_printBuf g i v f =
     (if 256 \<le> i then None
      else Some (store_bytes (var_addr g ''printBuf'' + 2 * of_nat i) (le_bytes 2 (unat v)) f))"

fun put_units :: "uefi_pkg \<Rightarrow> nat \<Rightarrow> u16 list \<Rightarrow> memory \<Rightarrow> memory option" where
  "put_units g i [] f = Some f"
| "put_units g i (v # vs) f = do { f \<leftarrow> set_printBuf g i v f; put_units g (Suc i) vs f }"

text \<open>The units the three parts of \<^verbatim>\<open>DebugPrint\<close> store: the text, a colon and the digits, the end.\<close>

definition hex_units :: "u64 \<Rightarrow> u16 list" where
  "hex_units val = map (\<lambda>j. hexConst ! unat (drop_bit ((15 - j) * 4) val AND 15)) [0..<16]"

definition debug_units :: "gostring \<Rightarrow> u64 \<Rightarrow> u16 list" where
  "debug_units text val = map ucast text @ [58] @ hex_units val @ [13, 10, 0]"

definition DebugPrint :: "'w firmware \<Rightarrow> uefi_pkg \<Rightarrow> gostring \<Rightarrow> u64 \<Rightarrow> 'w machine \<Rightarrow> 'w machine option" where
  "DebugPrint fw g text val m = do {
     f \<leftarrow> put_units g 0 (debug_units text val) (mem m);
     let m = m\<lparr>mem := f\<rparr>;
     conOut \<leftarrow> go_field EFI_SYSTEM_TABLE ''ConOut'' (systemTable g) m;
     (_, m) \<leftarrow> TextOut_OutputString fw conOut (var_addr g ''printBuf'') m;
     Some m }"

section \<open>Lemmas\<close>

subsection \<open>Strings from memory\<close>

lemma utf16_length_found:
  assumes "\<And>i. i < n \<Longrightarrow> load16 f (p + 2 * of_nat i) \<noteq> 0" "load16 f (p + 2 * of_nat n) = 0"
  shows "utf16_length f p k = Some (k + int n)"
  using assms
proof (induction n arbitrary: p k)
  case 0
  then show ?case by (subst utf16_length.simps) simp
next
  case (Suc n)
  have "utf16_length f (p + 2) (k + 1) = Some (k + 1 + int n)"
  proof (rule Suc.IH)
    show "load16 f (p + 2 + 2 * of_nat i) \<noteq> 0" if "i < n" for i
      using Suc.prems(1) [of "Suc i"] that by (simp add: algebra_simps)
    show "load16 f (p + 2 + 2 * of_nat n) = 0" using Suc.prems(2) by (simp add: algebra_simps)
  qed
  moreover have "load16 f p \<noteq> 0" using Suc.prems(1) [of 0] by simp
  ultimately show ?case by (subst utf16_length.simps) simp
qed

lemma length_load_units [simp]: "length (load_units f p n) = n"
  by (simp add: load_units_def)

lemma nth_load_units [simp]: "i < n \<Longrightarrow> load_units f p n ! i = load16 f (p + 2 * of_nat i)"
  by (simp add: load_units_def)

lemma terminated_string:
  assumes "p \<noteq> 0" "load_units f p (Suc (length us)) = us @ [0]" "0 \<notin> set us"
  shows "UTF16PtrToString p f = Some (concat (map utf8_encode (utf16_decode us)))"
proof -
  have unit: "load16 f (p + 2 * of_nat i) = (us @ [0]) ! i" if "i < Suc (length us)" for i
    using arg_cong [OF assms(2), of "\<lambda>xs. xs ! i"] that by simp
  have "utf16_length f p 0 = Some (0 + int (length us))"
  proof (rule utf16_length_found)
    fix i assume i: "i < length us"
    then have "us ! i \<in> set us" by simp
    with assms(3) have "us ! i \<noteq> 0" by metis
    with unit [of i] i show "load16 f (p + 2 * of_nat i) \<noteq> 0" by (simp add: nth_append)
  qed (use unit [of "length us"] in simp)
  moreover have "load_units f p (length us) = us"
    by (rule nth_equalityI) (use unit in \<open>auto simp: nth_append\<close>)
  ultimately show ?thesis using assms(1) by (simp add: UTF16PtrToString_def UTF16PtrLenToString_def)
qed

text \<open>Text of the Basic Multilingual Plane: one unit per rune, as in UTF-16.\<close>

definition bmp :: "rune \<Rightarrow> bool" where
  "bmp r \<longleftrightarrow> r < 65536 \<and> scalar r"

lemma bmp_units: "list_all bmp rs \<Longrightarrow> map of_nat rs = utf16_encode rs"
  by (induction rs) (auto simp: utf16_encode_Cons utf16_units_def bmp_def scalar_def)

lemma bmp_scalar: "list_all bmp rs \<Longrightarrow> list_all scalar rs"
  by (auto simp: list_all_iff bmp_def)

subsection \<open>The debugging output\<close>

lemma hexConst_digit: "d < 16 \<Longrightarrow> hexConst ! d = ucast (hexdigit d)"
proof -
  assume "d < 16"
  moreover have "list_all (\<lambda>d. hexConst ! d = ucast (hexdigit d)) [0..<16]" by code_simp
  ultimately show ?thesis by (auto simp: list_all_iff)
qed

lemma length_debug_units: "length (debug_units text val) = length text + 20"
  by (simp add: debug_units_def hex_units_def)

lemma put_units_overflow: "256 < i + length vs \<Longrightarrow> i \<le> 256 \<Longrightarrow> put_units g i vs f = None"
proof (induction vs arbitrary: i f)
  case (Cons v vs)
  show ?case
  proof (cases "i = 256")
    case False
    with Cons.prems have "put_units g (Suc i) vs f' = None" for f' by (intro Cons.IH) auto
    then show ?thesis by (cases "set_printBuf g i v f") simp_all
  qed (simp add: set_printBuf_def)
qed simp

lemma load16_store: "load16 (store_bytes a (le_bytes 2 (unat v)) f) a = v"
proof -
  have "load_bytes (store_bytes a (le_bytes 2 (unat v)) f) a 2 = le_bytes 2 (unat v)"
    using load_store_same [of "le_bytes 2 (unat v)" a f] by simp
  then show ?thesis by (simp add: load16_def le_nat_le_bytes)
qed

lemma load16_store_other:
  assumes "i < 256" "k < 256" "i \<noteq> k"
  shows "load16 (store_bytes (a + 2 * of_nat k) (le_bytes 2 (unat v)) f) (a + 2 * of_nat i) = load16 f (a + 2 * of_nat i)"
proof -
  have d: "unat (2 * of_nat y - 2 * of_nat x :: u64) = 2 * (y - x) \<and> 2 \<le> unat (2 * of_nat x - 2 * of_nat y :: u64)"
    if "x < y" "y < 256" for x y :: nat
  proof -
    have "(2 * of_nat y - 2 * of_nat x :: u64) = of_nat (2 * (y - x))"
      using that by (simp add: of_nat_diff algebra_simps)
    moreover have "unat (of_nat (2 * (y - x)) :: u64) = 2 * (y - x)"
      using that by (intro unat_of_nat_small_u64) simp
    ultimately have y: "unat (2 * of_nat y - 2 * of_nat x :: u64) = 2 * (y - x)" by metis
    moreover have "(2 * of_nat x :: u64) \<noteq> 2 * of_nat y"
    proof
      assume "(2 * of_nat x :: u64) = 2 * of_nat y"
      with y that show False by simp
    qed
    ultimately show ?thesis using unat_diff_swap [of "2 * of_nat x" "2 * of_nat y"] that by simp
  qed
  have "apart (a + 2 * of_nat i) 2 (a + 2 * of_nat k) 2"
    using d [of i k] d [of k i] assms by (cases "i < k") (auto simp: apart_def)
  then show ?thesis by (simp add: load16_def load_store_apart)
qed

text \<open>After storing units, the buffer holds them from the first index on, and its old units elsewhere.\<close>

lemma put_units_read:
  assumes "i + length vs \<le> 256"
  shows "\<exists>f'. put_units g i vs f = Some f' \<and> (\<forall>k<256. load16 f' (var_addr g ''printBuf'' + 2 * of_nat k)
      = (if i \<le> k \<and> k < i + length vs then vs ! (k - i) else load16 f (var_addr g ''printBuf'' + 2 * of_nat k)))
    \<and> (\<forall>a n. apart a n (var_addr g ''printBuf'') 512 \<longrightarrow> 0 < n \<longrightarrow> n \<le> 2 ^ 64 \<longrightarrow> load_bytes f' a n = load_bytes f a n)"
  using assms
proof (induction vs arbitrary: i f)
  case (Cons v vs)
  let ?b = "var_addr g ''printBuf''"
  define f1 where "f1 = store_bytes (?b + 2 * of_nat i) (le_bytes 2 (unat v)) f"
  obtain f' where f': "put_units g (Suc i) vs f1 = Some f'"
    and r: "\<And>k. k < 256 \<Longrightarrow> load16 f' (?b + 2 * of_nat k)
      = (if Suc i \<le> k \<and> k < Suc i + length vs then vs ! (k - Suc i) else load16 f1 (?b + 2 * of_nat k))"
    and o: "\<And>a n. apart a n ?b 512 \<Longrightarrow> 0 < n \<Longrightarrow> n \<le> 2 ^ 64 \<Longrightarrow> load_bytes f' a n = load_bytes f1 a n"
    using Cons.IH [of "Suc i" f1] Cons.prems by auto
  have "load16 f1 (?b + 2 * of_nat k) = (if k = i then v else load16 f (?b + 2 * of_nat k))" if "k < 256" for k
    using that Cons.prems load16_store_other [of k i ?b v f] by (simp add: f1_def load16_store)
  with r have "load16 f' (?b + 2 * of_nat k)
      = (if i \<le> k \<and> k < i + length (v # vs) then (v # vs) ! (k - i) else load16 f (?b + 2 * of_nat k))"
    if "k < 256" for k using that by (auto simp: nth_Cons' Suc_diff_Suc)
  moreover have "load_bytes f' a n = load_bytes f a n" if "apart a n ?b 512" "0 < n" "n \<le> 2 ^ 64" for a n
  proof -
    have "apart (?b + of_nat (2 * i)) 2 a n"
      by (rule apart_sub [of _ 512]) (use that Cons.prems in \<open>auto simp: apart_sym\<close>)
    then have "load_bytes f1 a n = load_bytes f a n"
      using that(3) by (simp add: f1_def load_store_apart apart_sym)
    with o [OF that] show ?thesis by simp
  qed
  ultimately show ?case using f' Cons.prems by (auto simp: set_printBuf_def f1_def)
qed auto

subsection \<open>The digits\<close>

lemma horner_16:
  assumes "(v::nat) < 16 ^ n" "k \<le> n"
  shows "foldl (\<lambda>a j. 16 * a + v div 16 ^ (n - Suc j) mod 16) 0 [0..<k] = v div 16 ^ (n - k)"
  using assms(2)
proof (induction k)
  case 0
  then show ?case using assms(1) by simp
next
  case (Suc k)
  then have "n - k = Suc (n - Suc k)" by simp
  then have "v div 16 ^ (n - k) = v div 16 ^ (n - Suc k) div 16" by (simp only: power_Suc2 div_mult2_eq)
  with Suc show ?case by simp
qed

lemma hex_units_value: "foldl (\<lambda>a u. 16 * a + hexval (ucast u)) 0 (hex_units val) = unat val"
proof -
  have dig: "hexval (ucast (hexConst ! d)) = d" if "d < 16" for d
  proof -
    have "list_all (\<lambda>d. hexval (ucast (hexConst ! d)) = d) [0..<16]" by code_simp
    with that show ?thesis by (auto simp: list_all_iff)
  qed
  have d: "unat (drop_bit k val AND 15) = unat val div 2 ^ k mod 16" for k
  proof -
    have "drop_bit k val AND 15 = take_bit 4 (drop_bit k val)" by (simp add: take_bit_eq_mask mask_eq_decr_exp)
    then have "unat (drop_bit k val AND 15) = take_bit 4 (drop_bit k (unat val))"
      by (simp only: unsigned_take_bit_eq unsigned_drop_bit_eq) (use unat_mod_width [of val] in \<open>simp add: take_bit_eq_mod drop_bit_eq_div\<close>)
    then show ?thesis by (simp add: take_bit_eq_mod drop_bit_eq_div)
  qed
  have h: "hexval (ucast (hexConst ! unat (drop_bit ((15 - j) * 4) val AND 15))) = unat val div 16 ^ (16 - Suc j) mod 16"
    if "j < 16" for j
    using that dig [of "unat (drop_bit ((15 - j) * 4) val AND 15)"] unfolding d
    by (simp add: power_mult mult.commute)
  have "foldl (\<lambda>a u. 16 * a + hexval (ucast u)) 0 (hex_units val)
      = foldl (\<lambda>a j. 16 * a + hexval (ucast (hexConst ! unat (drop_bit ((15 - j) * 4) val AND 15)))) 0 [0..<16]"
    unfolding hex_units_def foldl_map by simp
  also have "\<dots> = foldl (\<lambda>a j. 16 * a + unat val div 16 ^ (16 - Suc j) mod 16) 0 [0..<16]"
    using h by (intro foldl_cong) auto
  also have "\<dots> = unat val" using horner_16 [of "unat val" 16 16] unat_less_width [of val] by simp
  finally show ?thesis .
qed

section \<open>Properties\<close>

text \<open>
  Claim C39: text for the firmware and back. For text of the Basic Multilingual Plane without NUL
  characters, \<^verbatim>\<open>StringToUTF16\<close> is UTF-16 with a terminating NUL; if these units are in memory at a
  non-nil pointer, \<^verbatim>\<open>UTF16PtrToString\<close> terminates and returns the original string.
\<close>

theorem UTF16_string_roundtrip:
  assumes "list_all bmp rs" "list_all ((<) 0) rs" "s = concat (map utf8_encode rs)"
    and "p \<noteq> 0" "load_units f p (length (StringToUTF16 s)) = StringToUTF16 s"
  shows "StringToUTF16 s = utf16_encode rs @ [0] \<and> UTF16PtrToString p f = Some s"
proof -
  have u: "StringToUTF16 s = utf16_encode rs @ [0]"
    by (simp add: StringToUTF16_def assms(3) runes_utf8 [OF bmp_scalar [OF assms(1)]] bmp_units [OF assms(1)])
  have "0 \<notin> set (utf16_encode rs)" using utf16_encode_nonzero [OF assms(2)] .
  then have "UTF16PtrToString p f = Some (concat (map utf8_encode (utf16_decode (utf16_encode rs))))"
    using assms(4,5) u by (intro terminated_string) simp_all
  then show ?thesis using u assms(3) utf16_decode_encode [OF bmp_scalar [OF assms(1)]] by simp
qed

theorem UTF16_string_roundtrip_witness:
  "StringToUTF16 (concat (map utf8_encode [75, 228])) = utf16_encode [75, 228] @ [0]
    \<and> UTF16PtrToString 4096 (store_bytes 4096 [75, 0, 228, 0, 0, 0] (\<lambda>_. 1)) = Some (concat (map utf8_encode [75, 228]))"
proof (rule UTF16_string_roundtrip)
  have u: "StringToUTF16 (concat (map utf8_encode [75, 228])) = [75, 228, 0]"
    using runes_utf8 [of "[75, 228]"] by (simp add: StringToUTF16_def scalar_def)
  have m: "load_bytes (store_bytes 4096 [75, 0, 228, 0, 0, 0] (\<lambda>_. 1)) (4096 + of_nat k) 2
      = take 2 (drop k [75, 0, 228, 0, 0, 0])" if "k \<le> 4" for k
    by (rule load_store_sub) (use that in simp_all)
  show "load_units (store_bytes 4096 [75, 0, 228, 0, 0, 0] (\<lambda>_. 1)) 4096
      (length (StringToUTF16 (concat (map utf8_encode [75, 228])))) = StringToUTF16 (concat (map utf8_encode [75, 228]))"
    unfolding u using m [of 0] m [of 2] m [of 4] by (simp add: load_units_def load16_def)
qed (simp_all add: bmp_def scalar_def)

text \<open>
  Debugging output. \<^verbatim>\<open>DebugPrint\<close> panics exactly for texts of more than 236 bytes.
  Otherwise, when the print buffer does not overlap the system table, it makes one call to the console with
  the buffer, which holds the text, a colon, sixteen hexadecimal digits whose value is the number, a
  line end and a NUL.
\<close>

theorem DebugPrint_output:
  assumes "systemTable g \<noteq> 0" "apart (systemTable g + 64) 8 (var_addr g ''printBuf'') 512"
    and "load64 (mem m) (systemTable g + 64) = conOut" "conOut \<noteq> 0"
  shows "if 236 < length text then DebugPrint fw g text val m = None
    else \<exists>f ds. load_units f (var_addr g ''printBuf'') (length text + 20) = map ucast text @ [58] @ ds @ [13, 10, 0]
      \<and> length ds = 16 \<and> foldl (\<lambda>a u. 16 * a + hexval (ucast u)) 0 ds = unat val
      \<and> DebugPrint fw g text val m = Some (snd (uefi_direct fw (load64 f (conOut + 8))
           [conOut, var_addr g ''printBuf''] (m\<lparr>mem := f\<rparr>)))"
proof (cases "236 < length text")
  case True
  then show ?thesis using put_units_overflow [of 0 "debug_units text val" g "mem m"]
    by (simp add: DebugPrint_def length_debug_units)
next
  case False
  let ?b = "var_addr g ''printBuf''"
  obtain f where f: "put_units g 0 (debug_units text val) (mem m) = Some f"
    and r: "\<And>k. k < 256 \<Longrightarrow> k < length text + 20 \<Longrightarrow> load16 f (?b + 2 * of_nat k) = debug_units text val ! k"
    and o: "\<And>a n. apart a n ?b 512 \<Longrightarrow> 0 < n \<Longrightarrow> n \<le> 2 ^ 64 \<Longrightarrow> load_bytes f a n = load_bytes (mem m) a n"
    using put_units_read [of 0 "debug_units text val" g "mem m"] False by (auto simp: length_debug_units)
  have "load_units f ?b (length text + 20) = debug_units text val"
    by (rule nth_equalityI) (use r False in \<open>auto simp: length_debug_units\<close>)
  moreover have "load64 f (systemTable g + 64) = conOut"
    using o [OF assms(2)] assms(3) by (simp add: load64_def)
  ultimately show ?thesis
    using False f assms(1,4) hex_units_value [of val]
    by (intro if_not_P [THEN iffD2, OF False] exI [of _ f] exI [of _ "hex_units val"])
       (simp add: debug_units_def DebugPrint_def go_field_def system_table_offsets hex_units_def
         output_string.method_run [of "(conOut, _)", simplified] split: prod.splits)
qed

theorem DebugPrint_output_witness:
  "\<exists>f ds. load_units f 12288 (length [72, 105 :: u8] + 20) = map ucast [72, 105 :: u8] @ [58] @ ds @ [13, 10, 0]
      \<and> length ds = 16 \<and> foldl (\<lambda>a u. 16 * a + hexval (ucast u)) 0 ds = unat (255 :: u64)
      \<and> DebugPrint idle_firmware \<lparr>systemTable = 4096, imageHandle = 77, var_addr = (\<lambda>_. 12288)\<rparr> [72, 105] 255
          (demo_machine\<lparr>mem := store64 4160 8192 (\<lambda>_. 0)\<rparr>)
        = Some (snd (uefi_direct idle_firmware (load64 f (8192 + 8)) [8192, 12288]
            (demo_machine\<lparr>mem := store64 4160 8192 (\<lambda>_. 0), mem := f\<rparr>)))"
  using DebugPrint_output [of "\<lparr>systemTable = 4096, imageHandle = 77, var_addr = (\<lambda>_. 12288)\<rparr>"
      "demo_machine\<lparr>mem := store64 4160 8192 (\<lambda>_. 0)\<rparr>" 8192 "[72, 105]" idle_firmware 255]
  by (simp add: apart_def load64_store64 del: foldl.simps)

end
