(* ===== verification/Uefi_Clock.thy ===== *)
theory Uefi_Clock
  imports Uefi_Text
begin

text \<open>
  \<^verbatim>\<open>pkg/uefi/clock.go\<close>: the time of the firmware as seconds since 1970, and the frequency of the
  time-stamp counter; \<^verbatim>\<open>pkg/uefi/device/x86/cpu.go\<close>: the frequency a CPU reports.

  The time-stamp counter and \<^verbatim>\<open>getTscFrequency\<close>, which the sources have only in comments, are
  parameters, as is the \<^verbatim>\<open>CPUID\<close> instruction. The reference for the conversion is the
  calendar itself: the days of the years since 1970 and of the months of the year.
\<close>

section \<open>Definitions\<close>

subsection \<open>Time\<close>

record uefi_time =
  t_Year :: u16
  t_Month :: u8
  t_Day :: u8
  t_Hour :: u8
  t_Minute :: u8
  t_Second :: u8
  t_Nanosecond :: u32

definition secondsPerMinute :: int where "secondsPerMinute = 60"
definition secondsPerHour :: int where "secondsPerHour = 60 * secondsPerMinute"
definition secondsPerDay :: int where "secondsPerDay = 24 * secondsPerHour"
definition daysPer400Years :: int where "daysPer400Years = 365 * 400 + 97"
definition daysPer100Years :: int where "daysPer100Years = 365 * 100 + 24"
definition daysPer4Years :: int where "daysPer4Years = 365 * 4 + 1"
definition absoluteZeroYear :: int where "absoluteZeroYear = - 292277022399"
definition internalYear :: int where "internalYear = 1"

text \<open>An exact constant expression with the factor 365.2425.\<close>

definition absoluteToInternal :: int where
  "absoluteToInternal = (absoluteZeroYear - internalYear) * 3652425 * secondsPerDay div 10000"

definition unixToInternal :: int where
  "unixToInternal = (1969 * 365 + 1969 div 4 - 1969 div 100 + 1969 div 400) * secondsPerDay"

definition internalToUnix :: int where "internalToUnix = - unixToInternal"

definition daysBefore :: "int list" where
  "daysBefore = [0, 31, 31 + 28, 31 + 28 + 31, 31 + 28 + 31 + 30, 31 + 28 + 31 + 30 + 31,
     31 + 28 + 31 + 30 + 31 + 30, 31 + 28 + 31 + 30 + 31 + 30 + 31, 31 + 28 + 31 + 30 + 31 + 30 + 31 + 31,
     31 + 28 + 31 + 30 + 31 + 30 + 31 + 31 + 30, 31 + 28 + 31 + 30 + 31 + 30 + 31 + 31 + 30 + 31,
     31 + 28 + 31 + 30 + 31 + 30 + 31 + 31 + 30 + 31 + 30,
     31 + 28 + 31 + 30 + 31 + 30 + 31 + 31 + 30 + 31 + 30 + 31]"

definition daysSinceEpoch :: "int \<Rightarrow> u64" where
  "daysSinceEpoch year =
     (let y = word_of_int (year - absoluteZeroYear);
          n = y div 400; y = y - 400 * n; d = word_of_int daysPer400Years * n;
          n = y div 100; y = y - 100 * n; d = d + word_of_int daysPer100Years * n;
          n = y div 4; y = y - 4 * n; d = d + word_of_int daysPer4Years * n;
          n = y
      in d + 365 * n)"

definition isLeap :: "int \<Rightarrow> bool" where
  "isLeap year \<longleftrightarrow> year mod 4 = 0 \<and> (year mod 100 \<noteq> 0 \<or> year mod 400 = 0)"

text \<open>\<^verbatim>\<open>GetEpoch\<close>: seconds and nanoseconds. An index outside \<^verbatim>\<open>daysBefore\<close> panics.\<close>

definition GetEpoch :: "uefi_time \<Rightarrow> (int \<times> int) option" where
  "GetEpoch t =
     (let year = uint (t_Year t); month = uint (t_Month t) - 1; d = daysSinceEpoch year
      in if month - 1 < 0 \<or> int (length daysBefore) \<le> month - 1 then None
         else let d = d + word_of_int (daysBefore ! nat (month - 1));
                  d = (if isLeap year \<and> month \<ge> 3 then d + 1 else d);
                  d = d + ucast (t_Day t - 1);
                  abs = d * word_of_int secondsPerDay;
                  abs = abs + (ucast (t_Hour t) * word_of_int secondsPerHour
                          + ucast (t_Minute t) * word_of_int secondsPerMinute + ucast (t_Second t))
              in Some (go_int (sint abs + (absoluteToInternal + internalToUnix)), sint (t_Nanosecond t)))"

subsection \<open>The reference calendar\<close>

definition year_length :: "int \<Rightarrow> int" where
  "year_length y = (if isLeap y then 366 else 365)"

definition month_length :: "int \<Rightarrow> nat \<Rightarrow> int" where
  "month_length y m = (if m = 2 then (if isLeap y then 29 else 28) else if m \<in> {4, 6, 9, 11} then 30 else 31)"

definition civil_days :: "int \<Rightarrow> nat \<Rightarrow> int \<Rightarrow> int" where
  "civil_days y mo d = sum_list (map year_length [1970..y - 1]) + sum_list (map (month_length y) [1..<mo]) + (d - 1)"

definition civil_seconds :: "int \<Rightarrow> nat \<Rightarrow> int \<Rightarrow> int \<Rightarrow> int \<Rightarrow> int \<Rightarrow> int" where
  "civil_seconds y mo d h mi s = civil_days y mo d * 86400 + h * 3600 + mi * 60 + s"

text \<open>The days before year \<open>y\<close> of a count of years whose every fourth, not hundredth, but four hundredth is a leap year.\<close>

definition leap_count :: "int \<Rightarrow> int" where
  "leap_count y = 365 * y + y div 4 - y div 100 + y div 400"

subsection \<open>Ticks\<close>

text \<open>
  \<^verbatim>\<open>TicksFrequency\<close>: \<open>tsc\<close> is \<^verbatim>\<open>getTscFrequency\<close>, \<open>ticks\<close> reads the counter, \<open>freq\<close> is the
  global \<^verbatim>\<open>calculatedFrequency\<close>. The event is closed on every way out once it exists.
\<close>

definition TicksFrequency :: "'w firmware \<Rightarrow> uefi_pkg \<Rightarrow> u64 \<Rightarrow> ('w machine \<Rightarrow> u64) \<Rightarrow> u64 \<Rightarrow> 'w machine
    \<Rightarrow> (u64 \<times> u64 \<times> 'w machine) option" where
  "TicksFrequency fw g tsc ticks freq m =
     (if tsc > 0 then Some (tsc, freq, m)
      else let (event, m) = new_obj 8 m; (index, m) = new_obj 8 m in
      if freq > 0 then Some (freq, freq, m)
      else do {
        bs \<leftarrow> BS g m;
        (status, m) \<leftarrow> BS_CreateEvent fw bs EVT_TIMER TPL_CALLBACK 0 0 event m;
        if status \<noteq> 0 then do {
          m \<leftarrow> DebugPrint fw g (lit ''GetTscFrequency) CreateEvent Failed'') status m;
          Some (0, freq, m) }
        else let e = load64 (mem m) event; st = ticks m in do {
          (status, m) \<leftarrow> BS_SetTimer fw bs e TimerPeriodic (250 * 10000) m;
          if status \<noteq> 0 then do {
            m \<leftarrow> DebugPrint fw g (lit ''GetTscFrequency) SetTimer Failed'') status m;
            (_, m) \<leftarrow> BS_CloseEvent fw bs e m;
            Some (0, freq, m) }
          else do {
            (_, m) \<leftarrow> BS_WaitForEvent fw bs 1 event index m;
            let diff = ticks m - st;
            (_, m) \<leftarrow> BS_CloseEvent fw bs e m;
            Some (diff * 4, diff * 4, m) } } })"

definition uefi_time_dec :: "u8 list \<Rightarrow> uefi_time" where
  "uefi_time_dec bs = (let v = le_fields [2, 1, 1, 1, 1, 1, 1, 4] bs in
     \<lparr>t_Year = of_nat (v ! 0), t_Month = of_nat (v ! 1), t_Day = of_nat (v ! 2), t_Hour = of_nat (v ! 3),
      t_Minute = of_nat (v ! 4), t_Second = of_nat (v ! 5), t_Nanosecond = of_nat (v ! 7)\<rparr>)"

definition uefi_GetTime :: "'w firmware \<Rightarrow> uefi_pkg \<Rightarrow> 'w machine \<Rightarrow> (uefi_time \<times> u64 \<times> 'w machine) option" where
  "uefi_GetTime fw g m =
     (let (time, m) = new_obj 16 m in do {
        rt \<leftarrow> go_field EFI_SYSTEM_TABLE ''RuntimeServices'' (systemTable g) m;
        (status, m) \<leftarrow> RT_GetTime fw rt time 0 m;
        Some (uefi_time_dec (load_bytes (mem m) time 16), status, m) })"

subsection \<open>cpu.go\<close>

definition CPUID_TIME_STAMP_COUNTER :: u32 where "CPUID_TIME_STAMP_COUNTER = 0x15"
definition CPU_FAMILY_INTEL_CORE :: u16 where "CPU_FAMILY_INTEL_CORE = 6"

text \<open>
  What the package keeps of the first two \<^verbatim>\<open>CPUID\<close> leaves; \<open>cpuid\<close> gives the registers
  \<^verbatim>\<open>eax\<close>, \<^verbatim>\<open>ebx\<close>, \<^verbatim>\<open>ecx\<close>, \<^verbatim>\<open>edx\<close> of a leaf.
\<close>

record cpu_state =
  maxCpuidIndex :: u32
  stdVendorName0 :: u32
  stdCpuid1Eax :: u32
  stdCpuid1Ebx :: u32
  stdCpuid1Ecx :: u32
  stdCpuid1Edx :: u32

definition cpu_init :: "(u32 \<Rightarrow> u32 \<times> u32 \<times> u32 \<times> u32) \<Rightarrow> cpu_state" where
  "cpu_init cpuid = (case (cpuid 0, cpuid 1) of ((a0, b0, _, _), (a, b, c, d)) \<Rightarrow>
     \<lparr>maxCpuidIndex = a0, stdVendorName0 = b0, stdCpuid1Eax = a, stdCpuid1Ebx = b, stdCpuid1Ecx = c, stdCpuid1Edx = d\<rparr>)"

definition GetExtendedCpuFamily :: "cpu_state \<Rightarrow> u16" where
  "GetExtendedCpuFamily s = ucast (drop_bit 8 (stdCpuid1Eax s) AND 15) + ucast (drop_bit 20 (stdCpuid1Eax s) AND 255)"

definition GetMaxCpuidIndex :: "cpu_state \<Rightarrow> u32" where
  "GetMaxCpuidIndex s = maxCpuidIndex s"

definition IsIntel :: "cpu_state \<Rightarrow> bool" where
  "IsIntel s \<longleftrightarrow> stdVendorName0 s = 0x756e6547"

definition IsIntelFamilyCore :: "cpu_state \<Rightarrow> bool" where
  "IsIntelFamilyCore s \<longleftrightarrow> IsIntel s \<and> GetExtendedCpuFamily s = CPU_FAMILY_INTEL_CORE"

definition IsAmd :: "cpu_state \<Rightarrow> bool" where
  "IsAmd s \<longleftrightarrow> stdVendorName0 s = 0x68747541"

definition CpuidCoreClockCalculateTscFrequency :: "(u32 \<Rightarrow> u32 \<times> u32 \<times> u32 \<times> u32) \<Rightarrow> cpu_state \<Rightarrow> u64" where
  "CpuidCoreClockCalculateTscFrequency cpuid s = (case cpuid CPUID_TIME_STAMP_COUNTER of (eax, ebx, ecx, _) \<Rightarrow>
     if eax = 0 \<or> ebx = 0 then 0
     else if ecx = 0 \<and> \<not> IsIntelFamilyCore s then 0
     else let xtal = (if ecx = 0 then
                        (let family = GetExtendedCpuFamily s in
                         if family = 0x5F then 25000000
                         else if family = 0x5C then 19200000
                         else if family = 0x7A then 19200000
                         else 24000000)
                      else ucast ecx)
          in (xtal * ucast ebx + ucast eax div 2) div ucast eax)"

definition InternalGetPerformanceCounterFrequency :: "(u32 \<Rightarrow> u32 \<times> u32 \<times> u32 \<times> u32) \<Rightarrow> cpu_state \<Rightarrow> u64" where
  "InternalGetPerformanceCounterFrequency cpuid s =
     (if CPUID_TIME_STAMP_COUNTER \<le> maxCpuidIndex s then CpuidCoreClockCalculateTscFrequency cpuid s else 0)"

section \<open>Lemmas\<close>

subsection \<open>Days\<close>

lemma word_div_of_nat:
  "a < 2 ^ 64 \<Longrightarrow> b < 2 ^ 64 \<Longrightarrow> (of_nat a :: u64) div of_nat b = of_nat (a div b)"
  by (simp add: word_unat_eq_iff unat_div unat_of_nat_small_u64 less_imp_diff_less order.strict_trans1 [OF div_le_dividend])

lemma sub_mult_div: "(of_nat a :: u64) - of_nat b * of_nat (a div b) = of_nat (a mod b)"
proof -
  have "(of_nat a :: u64) = of_nat (b * (a div b) + a mod b)" by simp
  then show ?thesis by (simp only: of_nat_add of_nat_mult) simp
qed

lemma daysSinceEpoch_nat:
  assumes "year - absoluteZeroYear = int y" "y < 2 ^ 63"
  shows "daysSinceEpoch year = of_nat (146097 * (y div 400) + 36524 * (y mod 400 div 100)
    + 1461 * (y mod 400 mod 100 div 4) + 365 * (y mod 400 mod 100 mod 4))"
proof -
  have y: "word_of_int (year - absoluteZeroYear) = (of_nat y :: u64)" by (simp add: assms(1))
  have n1: "(of_nat y :: u64) div 400 = of_nat (y div 400)" "(of_nat y :: u64) - 400 * of_nat (y div 400) = of_nat (y mod 400)"
    using word_div_of_nat [of y 400] sub_mult_div [of y 400] assms(2) by simp_all
  have n2: "(of_nat (y mod 400) :: u64) div 100 = of_nat (y mod 400 div 100)"
    "(of_nat (y mod 400) :: u64) - 100 * of_nat (y mod 400 div 100) = of_nat (y mod 400 mod 100)"
    using word_div_of_nat [of "y mod 400" 100] sub_mult_div [of "y mod 400" 100]
      less_trans [OF mod_less_divisor, of 400 "2 ^ 64" y] by simp_all
  have n3: "(of_nat (y mod 400 mod 100) :: u64) div 4 = of_nat (y mod 400 mod 100 div 4)"
    "(of_nat (y mod 400 mod 100) :: u64) - 4 * of_nat (y mod 400 mod 100 div 4) = of_nat (y mod 400 mod 100 mod 4)"
    using word_div_of_nat [of "y mod 400 mod 100" 4] sub_mult_div [of "y mod 400 mod 100" 4]
      less_trans [OF mod_less_divisor, of 100 "2 ^ 64" "y mod 400"] by simp_all
  show ?thesis
    unfolding daysSinceEpoch_def y Let_def n1 n2 n3
    by (simp add: daysPer400Years_def daysPer100Years_def daysPer4Years_def)
qed

lemma leap_count_digits:
  "leap_count (int y) = int (146097 * (y div 400) + 36524 * (y mod 400 div 100)
     + 1461 * (y mod 400 mod 100 div 4) + 365 * (y mod 400 mod 100 mod 4))"
proof -
  define q where "q = y div 400"
  define a where "a = y mod 400 div 100"
  define b where "b = y mod 400 mod 100 div 4"
  define c where "c = y mod 400 mod 100 mod 4"
  have y: "y = 400 * q + 100 * a + 4 * b + c" by (simp add: q_def a_def b_def c_def)
  have c: "c < 4" by (simp add: c_def)
  have bc: "4 * b + c < 100" by (simp add: b_def c_def)
  have "y = 4 * (100 * q + 25 * a + b) + c" using y by simp
  then have d4: "y div 4 = 100 * q + 25 * a + b" using c by simp
  have "y = 100 * (4 * q + a) + (4 * b + c)" using y by simp
  then have "y div 100 = (4 * q + a) + (4 * b + c) div 100" by (metis div_mult_self4 zero_neq_numeral)
  then have d100: "y div 100 = 4 * q + a" using bc by simp
  have "leap_count (int y) = 365 * int y + int (y div 4) - int (y div 100) + int (y div 400)"
    unfolding leap_count_def zdiv_int of_nat_numeral ..
  also have "\<dots> = 365 * int y + int (100 * q + 25 * a + b) - int (4 * q + a) + int q"
    unfolding d4 d100 q_def [symmetric] ..
  also have "\<dots> = int (146097 * q + 36524 * a + 1461 * b + 365 * c)" by (subst y) simp
  finally show ?thesis unfolding q_def a_def b_def c_def .
qed

lemma daysSinceEpoch_int:
  assumes "0 \<le> year" "year < 2 ^ 32"
  shows "daysSinceEpoch year = word_of_int (leap_count (year - absoluteZeroYear))"
proof -
  define y where "y = nat (year - absoluteZeroYear)"
  have y: "year - absoluteZeroYear = int y" using assms(1) by (simp add: y_def absoluteZeroYear_def)
  moreover have "y < 2 ^ 63" using y assms(2) by (simp add: absoluteZeroYear_def)
  ultimately show ?thesis by (simp add: daysSinceEpoch_nat y leap_count_digits del: of_nat_add of_nat_mult)
qed

lemma div_plus1_if: "0 < k \<Longrightarrow> (x + 1) div k = x div k + (if (x + 1) mod k = 0 then 1 else (0::int))"
proof -
  assume k: "0 < k"
  define q where "q = x div k"
  define r where "r = x mod k"
  have x: "x = k * q + r" by (simp add: q_def r_def)
  have r: "0 \<le> r" "r < k" using k by (simp_all add: r_def)
  show ?thesis
  proof (cases "r + 1 = k")
    case True
    then have "x + 1 = k * (q + 1)" using x by (simp add: algebra_simps)
    then show ?thesis using k by (simp add: q_def [symmetric])
  next
    case False
    then have "(x + 1) div k = q" "(x + 1) mod k = r + 1"
      using x r by (intro int_div_pos_eq [of _ _ _ "r + 1"] int_mod_pos_eq [of _ _ q]; simp)+
    then show ?thesis using r(1) by (simp add: q_def [symmetric])
  qed
qed

lemma leap_count_step: "leap_count (year + 1 - absoluteZeroYear) = leap_count (year - absoluteZeroYear) + year_length year"
proof -
  define n where "n = year + 292277022400"
  have "n mod 4 = year mod 4" using mod_mult_self2 [of year 4 73069255600] by (simp add: n_def)
  moreover have "n mod 100 = year mod 100" using mod_mult_self2 [of year 100 2922770224] by (simp add: n_def)
  moreover have "n mod 400 = year mod 400" using mod_mult_self2 [of year 400 730692556] by (simp add: n_def)
  ultimately have l: "isLeap year \<longleftrightarrow> n mod 4 = 0 \<and> (n mod 100 \<noteq> 0 \<or> n mod 400 = 0)" by (simp add: isLeap_def)
  have d: "n div k = (n - 1) div k + (if n mod k = 0 then 1 else 0)" if "0 < k" for k :: int
    using div_plus1_if [OF that, of "n - 1"] by simp
  have m: "n mod 400 = 0 \<Longrightarrow> n mod 100 = 0" "n mod 100 = 0 \<Longrightarrow> n mod 4 = 0"
    using mod_mod_cancel [of 100 400 n] mod_mod_cancel [of 4 100 n] by simp_all
  define p4 p100 p400 where p: "p4 = (n mod 4 = 0)" "p100 = (n mod 100 = 0)" "p400 = (n mod 400 = 0)"
  have arith: "365 * n + a - b + c = 365 * (n - 1) + a' - b' + c' + (if p4 \<and> (\<not> p100 \<or> p400) then 366 else 365)"
    if "a = a' + (if p4 then 1 else 0)" "b = b' + (if p100 then 1 else 0)" "c = c' + (if p400 then 1 else 0)"
    for a b c a' b' c' :: int
    using m [folded p] unfolding that by (cases p4; cases p100; cases p400; simp)
  have "leap_count n = leap_count (n - 1) + year_length year"
    unfolding leap_count_def year_length_def l p [symmetric]
    by (rule arith) (use d [of 4] d [of 100] d [of 400] in \<open>simp_all only: p zero_less_numeral\<close>)
  then show ?thesis by (simp add: n_def absoluteZeroYear_def algebra_simps)
qed

lemma leap_count_since_1970:
  assumes "1970 \<le> year"
  shows "leap_count (year - absoluteZeroYear)
    = leap_count (1970 - absoluteZeroYear) + sum_list (map year_length [1970..year - 1])"
  using assms
proof (induction year rule: int_ge_induct)
  case (step i)
  then have "[1970..i + 1 - 1] = [1970..i - 1] @ [i]" by (simp add: upto_rec2)
  with step show ?case by (simp add: leap_count_step)
qed simp

lemma leap_count_1970: "leap_count (1970 - absoluteZeroYear) * 86400 + (absoluteToInternal + internalToUnix) = 0"
  by (simp add: leap_count_def absoluteZeroYear_def absoluteToInternal_def internalToUnix_def unixToInternal_def
      internalYear_def secondsPerDay_def secondsPerHour_def secondsPerMinute_def)

lemma daysBefore_months:
  assumes "1 \<le> mo" "mo \<le> 12"
  shows "daysBefore ! (mo - 1) + (if isLeap y \<and> 3 \<le> mo then 1 else 0) = sum_list (map (month_length y) [1..<mo])"
proof -
  have "mo = 1 \<or> mo = 2 \<or> mo = 3 \<or> mo = 4 \<or> mo = 5 \<or> mo = 6 \<or> mo = 7 \<or> mo = 8 \<or> mo = 9 \<or> mo = 10
      \<or> mo = 11 \<or> mo = 12" using assms by presburger
  then show ?thesis
    by (elim disjE) (simp_all add: daysBefore_def month_length_def upt_rec)
qed

lemma go_int_word: "go_int (sint (word_of_int a :: u64) + c) = go_int (a + c)"
  by (simp add: go_int_def)

lemma sum_year_length_bounds: "0 \<le> sum_list (map year_length xs) \<and> sum_list (map year_length xs) \<le> 366 * int (length xs)"
  by (induction xs) (auto simp: year_length_def)

lemma uint_u8: "0 \<le> uint (x::u8) \<and> uint x < 256"
  using unsigned_greater_eq [of x] unsigned_less [of x] by simp

text \<open>The words of the computation as integers.\<close>

lemma GetEpoch_int:
  assumes "2 \<le> uint (t_Month t)" "uint (t_Month t) \<le> 12" "t_Day t \<noteq> 0"
  shows "GetEpoch t = Some (go_int ((leap_count (uint (t_Year t) - absoluteZeroYear)
      + sum_list (map (month_length (uint (t_Year t))) [1..<nat (uint (t_Month t) - 1)]) + (uint (t_Day t) - 1)) * 86400
      + uint (t_Hour t) * 3600 + uint (t_Minute t) * 60 + uint (t_Second t) + (absoluteToInternal + internalToUnix)),
    sint (t_Nanosecond t))"
proof -
  define y where "y = uint (t_Year t)"
  define mo where "mo = nat (uint (t_Month t) - 1)"
  have mo: "1 \<le> mo" "mo \<le> 12" "uint (t_Month t) - 1 = int mo" using assms(1,2) by (simp_all add: mo_def)
  have y: "0 \<le> y" "y < 2 ^ 32" using uint_lt2p [of "t_Year t"] by (simp_all add: y_def)
  have day: "ucast (t_Day t - 1) = (ucast (t_Day t) - 1 :: u64)"
  proof -
    have "1 \<le> t_Day t" using assms(3) by (simp add: word_le_nat_alt unat_gt_0 Suc_le_eq)
    then have "uint (t_Day t - 1) = uint (t_Day t) - 1" by (simp add: uint_sub_lem [THEN iffD1] word_le_def)
    then have "ucast (t_Day t - 1) = (word_of_int (uint (t_Day t) - 1) :: u64)" by (simp only: ucast_eq)
    then show ?thesis by simp
  qed
  let ?A = "(leap_count (y - absoluteZeroYear) + sum_list (map (month_length y) [1..<mo]) + (uint (t_Day t) - 1)) * 86400
      + uint (t_Hour t) * 3600 + uint (t_Minute t) * 60 + uint (t_Second t)"
  have d: "(if isLeap y \<and> 3 \<le> mo then daysSinceEpoch y + word_of_int (daysBefore ! (mo - 1)) + 1
        else daysSinceEpoch y + word_of_int (daysBefore ! (mo - 1)))
      = (word_of_int (leap_count (y - absoluteZeroYear) + sum_list (map (month_length y) [1..<mo])) :: u64)"
    unfolding daysBefore_months [OF mo(1,2), of y, symmetric] daysSinceEpoch_int [OF y] by (simp add: algebra_simps)
  have n: "nat (int mo - 1) = mo - 1" "\<not> int mo - 1 < 0" "\<not> int (length daysBefore) \<le> int mo - 1"
    using mo by (simp_all add: daysBefore_def)
  have "GetEpoch t = Some (go_int (sint (word_of_int ?A :: u64) + (absoluteToInternal + internalToUnix)), sint (t_Nanosecond t))"
    using d n(2,3) unfolding GetEpoch_def Let_def y_def [symmetric] mo(3) n(1) day
    by (simp add: secondsPerDay_def secondsPerHour_def secondsPerMinute_def algebra_simps)
  then show ?thesis unfolding go_int_word y_def [symmetric] mo_def [symmetric] by simp
qed

lemma civil_days_bounds:
  assumes "1970 \<le> y" "y < 2 ^ 16" "mo \<le> 12" "0 \<le> d" "d < 256"
  shows "- 1 \<le> civil_days y mo d" "civil_days y mo d \<le> 366 * 65536 + 31 * 12 + 256"
proof -
  have l: "0 \<le> month_length y m" "month_length y m \<le> 31" for m by (auto simp: month_length_def)
  have "0 \<le> sum_list (map (month_length y) xs) \<and> sum_list (map (month_length y) xs) \<le> 31 * int (length xs)" for xs
    by (induction xs) (use l in \<open>auto intro: add_mono\<close>)
  from this [of "[1..<mo]"] have "0 \<le> sum_list (map (month_length y) [1..<mo])"
      "sum_list (map (month_length y) [1..<mo]) \<le> 31 * 12" using assms(3) by auto
  moreover have "int (length [1970..y - 1]) \<le> 65536" using assms(1,2) by simp
  ultimately show "- 1 \<le> civil_days y mo d" "civil_days y mo d \<le> 366 * 65536 + 31 * 12 + 256"
    using sum_year_length_bounds [of "[1970..y - 1]"] assms(4,5) unfolding civil_days_def by linarith+
qed

lemma GetEpoch_civil:
  assumes "1970 \<le> uint (t_Year t)" "2 \<le> uint (t_Month t)" "uint (t_Month t) \<le> 12" "t_Day t \<noteq> 0"
  shows "GetEpoch t = Some (civil_seconds (uint (t_Year t)) (nat (uint (t_Month t) - 1)) (uint (t_Day t))
      (uint (t_Hour t)) (uint (t_Minute t)) (uint (t_Second t)), sint (t_Nanosecond t))"
proof -
  define y where "y = uint (t_Year t)"
  define mo where "mo = nat (uint (t_Month t) - 1)"
  let ?S = "civil_seconds y mo (uint (t_Day t)) (uint (t_Hour t)) (uint (t_Minute t)) (uint (t_Second t))"
  have y: "1970 \<le> y" "y < 2 ^ 16" using assms(1) uint_lt2p [of "t_Year t"] by (simp_all add: y_def)
  have mo: "mo \<le> 12" using assms(3) by (simp add: mo_def)
  have "0 \<le> uint (t_Day t)" "uint (t_Day t) < 256" using uint_u8 [of "t_Day t"] by simp_all
  note b = civil_days_bounds [OF y mo this]
  have "go_int ?S = ?S"
    using b uint_u8 [of "t_Hour t"] uint_u8 [of "t_Minute t"] uint_u8 [of "t_Second t"]
    by (intro go_int_small; simp add: civil_seconds_def; linarith)
  moreover have "(leap_count (y - absoluteZeroYear) + M + (D - 1)) * 86400 + h + mi + s + (absoluteToInternal + internalToUnix)
      = (sum_list (map year_length [1970..y - 1]) + M + (D - 1)) * 86400 + h + mi + s" for M D h mi s
    using leap_count_1970 unfolding leap_count_since_1970 [OF y(1)] by (simp add: distrib_right)
  ultimately show ?thesis
    unfolding GetEpoch_int [OF assms(2-4)] y_def [symmetric] mo_def [symmetric]
    by (simp only: civil_seconds_def civil_days_def)
qed

subsection \<open>Frequencies\<close>

lemma unat_ucast_u32: "unat (ucast (x::u32) :: u64) = unat x"
proof -
  have "unat (of_nat (unat x) :: u64) = unat x"
    by (rule unat_of_nat_small_u64) (use unsigned_less [of x, where ?'a = nat] in simp)
  then show ?thesis by simp
qed

lemma scaled_no_overflow:
  "unat (ucast (x::u32) * ucast (b::u32) + ucast (a::u32) div 2 :: u64) = unat x * unat b + unat a div 2"
proof -
  have l: "unat (w::u32) \<le> 2 ^ 32 - 1" for w using unsigned_less [of w, where ?'a = nat] by simp
  have "unat x * unat b + unat a div 2 \<le> (2 ^ 32 - 1) * (2 ^ 32 - 1) + (2 ^ 32 - 1)"
    by (intro add_mono mult_mono l order.trans [OF div_le_dividend]) simp_all
  then have "unat x * unat b + unat a div 2 < 2 ^ 64" by simp
  then have "unat (of_nat (unat x * unat b + unat a div 2) :: u64) = unat x * unat b + unat a div 2"
    by (rule unat_of_nat_small_u64)
  moreover have "of_nat (unat a div 2) = (ucast a div 2 :: u64)"
    using word_div_of_nat [of "unat a" 2] l [of a] by simp
  ultimately show ?thesis by simp
qed

section \<open>Properties\<close>

text \<open>
  Claim C40: The seconds \<^verbatim>\<open>GetEpoch\<close> gives are those of the calendar, counted year by year and month
  by month from 1970, for the day with the same number in the month before the one given: the month
  is reduced by one twice, once when it is read and once as an index. No word of the computation loses a
  carry for any year a 16-bit field holds. For January the index is negative and the code panics.
\<close>

theorem GetEpoch_previous_month:
  assumes "1970 \<le> uint (t_Year t)" "1 \<le> uint (t_Month t)" "uint (t_Month t) \<le> 12" "t_Day t \<noteq> 0"
  shows "GetEpoch t = (if t_Month t = 1 then None else Some (civil_seconds (uint (t_Year t))
      (nat (uint (t_Month t) - 1)) (uint (t_Day t)) (uint (t_Hour t)) (uint (t_Minute t)) (uint (t_Second t)),
      sint (t_Nanosecond t)))"
proof (cases "t_Month t = 1")
  case True
  then show ?thesis by (simp add: GetEpoch_def)
next
  case False
  then have "uint (t_Month t) \<noteq> 1" by (metis uint_1 word_uint_eq_iff)
  then show ?thesis using False GetEpoch_civil assms by simp
qed

theorem GetEpoch_previous_month_witness:
  "GetEpoch \<lparr>t_Year = 2024, t_Month = 3, t_Day = 10, t_Hour = 1, t_Minute = 2, t_Second = 3, t_Nanosecond = 5\<rparr>
   = Some (civil_seconds 2024 2 10 1 2 3, 5)"
  using GetEpoch_previous_month
    [of "\<lparr>t_Year = 2024, t_Month = 3, t_Day = 10, t_Hour = 1, t_Minute = 2, t_Second = 3, t_Nanosecond = 5\<rparr>"]
  by simp

text \<open>
  When the CPU does not report its crystal, the frequency is always computed from 24 MHz: the guard
  admits only family 6, so the families the code then selects on are never met. The result is the
  crystal's frequency times \<^verbatim>\<open>ebx\<close> over \<^verbatim>\<open>eax\<close>, rounded to the nearest, with no word overflowing.
\<close>

theorem TscFrequency_value:
  assumes "cpuid CPUID_TIME_STAMP_COUNTER = (eax, ebx, ecx, edx)"
  shows "unat (CpuidCoreClockCalculateTscFrequency cpuid s) =
    (if eax = 0 \<or> ebx = 0 \<or> ecx = 0 \<and> \<not> IsIntelFamilyCore s then 0
     else ((if ecx = 0 then 24000000 else unat ecx) * unat ebx + unat eax div 2) div unat eax)"
proof (cases "eax = 0 \<or> ebx = 0 \<or> ecx = 0 \<and> \<not> IsIntelFamilyCore s")
  case True
  then show ?thesis using assms by (auto simp: CpuidCoreClockCalculateTscFrequency_def)
next
  case False
  define x :: u32 where "x = (if ecx = 0 then 24000000 else ecx)"
  have "CpuidCoreClockCalculateTscFrequency cpuid s = (ucast x * ucast ebx + ucast eax div 2) div ucast eax"
    using False assms by (auto simp: CpuidCoreClockCalculateTscFrequency_def x_def IsIntelFamilyCore_def CPU_FAMILY_INTEL_CORE_def)
  moreover have "unat (ucast x * ucast ebx + ucast eax div 2 :: u64) = unat x * unat ebx + unat eax div 2"
    by (rule scaled_no_overflow)
  ultimately show ?thesis using False by (simp add: unat_div unat_ucast_u32 x_def)
qed

theorem TscFrequency_value_witness:
  "unat (CpuidCoreClockCalculateTscFrequency (\<lambda>_. (2, 166, 0, 0))
      (cpu_init (\<lambda>_. (0xF00, 0x756e6547, 0, 0)))) = 0
   \<and> unat (CpuidCoreClockCalculateTscFrequency (\<lambda>_. (2, 166, 0, 0))
      (cpu_init (\<lambda>i. if i = 0 then (22, 0x756e6547, 0, 0) else (0x906EA, 0, 0, 0)))) = 1992000000"
proof -
  have "\<not> IsIntelFamilyCore (cpu_init (\<lambda>_. (0xF00, 0x756e6547, 0, 0)))"
    "IsIntelFamilyCore (cpu_init (\<lambda>i. if i = 0 then (22, 0x756e6547, 0, 0) else (0x906EA, 0, 0, 0)))"
    by code_simp+
  then show ?thesis
    using TscFrequency_value [of "\<lambda>_. (2, 166, 0, 0)" 2 166 0 0] by simp
qed

end
