(* ===== verification/Efi_Variables.thy ===== *)
theory Efi_Variables
  imports Uefi_Text Uefi_Status Read_All
begin

text \<open>
  The variable listing of \<^verbatim>\<open>cmd/efiload/main.go\<close>: \<^verbatim>\<open>getkey\<close> reads one variable through
  \<^verbatim>\<open>GetVariable\<close>, \<^verbatim>\<open>vars\<close> walks all of them through \<^verbatim>\<open>GetNextVariableName\<close> and prints name and
  value. The text that is printed is the first result of \<open>vars\<close>; \<open>None\<close> is a panic or a walk
  that never ends.

  The reference is a variable store as the firmware specification describes the two services:
  a list of variables, each with a name, a vendor and a value.
\<close>

section \<open>Definitions\<close>

text \<open>\<^verbatim>\<open>make\<close> panics when the array would be larger than the address space the runtime manages.\<close>

definition maxAlloc :: nat where "maxAlloc = 2 ^ 48"

definition runtime_table :: "uefi_pkg \<Rightarrow> 'w machine \<Rightarrow> u64 option" where
  "runtime_table g m = go_field EFI_SYSTEM_TABLE ''RuntimeServices'' (ST g) m"

text \<open>
  \<^verbatim>\<open>getkey(key, vendor)\<close> for a key slice of \<open>n\<close> units at \<open>key\<close>. The first call is made with a
  size of zero; the buffer it is given has 16 bytes.
\<close>

definition getkey :: "'w firmware \<Rightarrow> uefi_pkg \<Rightarrow> u64 \<Rightarrow> nat \<Rightarrow> u64 \<Rightarrow> 'w machine
    \<Rightarrow> (u8 list option \<times> bool \<times> 'w machine) option" where
  "getkey fw g key n vendor m =
     (let (dataSize, m) = new_obj 8 m; (data, m) = new_obj 16 m in
      if n = 0 then None
      else do {
        rt \<leftarrow> runtime_table g m;
        (status, m) \<leftarrow> RT_GetVariable fw rt key vendor 0 dataSize data m;
        let sz = unat (load64 (mem m) dataSize);
        if status = uefi_EFI_NOT_FOUND then Some (None, False, m)
        else if status = uefi_EFI_BUFFER_TOO_SMALL then
          if sz = 0 \<or> maxAlloc < sz then None
          else let (data, m) = new_obj sz m in do {
            rt \<leftarrow> runtime_table g m;
            (status, m) \<leftarrow> RT_GetVariable fw rt key vendor 0 dataSize data m;
            if status \<noteq> uefi_EFI_SUCCESS then Some (None, False, m)
            else Some (Some (load_bytes (mem m) data sz), True, m) }
        else if 16 < sz then None
        else Some (Some (load_bytes (mem m) data sz), False, m) })"

text \<open>
  The loop of \<^verbatim>\<open>vars\<close>: \<^verbatim>\<open>varKey\<close> is a slice of \<open>len\<close> units with capacity \<open>cap\<close> at \<open>key\<close>;
  \<open>sz\<close> and \<open>gd\<close> are the addresses of \<^verbatim>\<open>varKeySize\<close> and \<^verbatim>\<open>vendorGUID\<close>.
\<close>

partial_function (option) vars_loop :: "'w firmware \<Rightarrow> uefi_pkg \<Rightarrow> u64 \<Rightarrow> u64 \<Rightarrow> u64 \<Rightarrow> nat \<Rightarrow> nat
    \<Rightarrow> (gostring \<times> u8 list option) list \<Rightarrow> 'w machine
    \<Rightarrow> ((gostring \<times> u8 list option) list \<times> 'w machine) option" where
  "vars_loop fw g sz gd key len cap out m =
     (if len = 0 then None
      else do {
        rt \<leftarrow> runtime_table g m;
        (status, m) \<leftarrow> RT_GetNextVariableName fw rt sz key gd m;
        let n = load64 (mem m) sz;
        if status = uefi_EFI_BUFFER_TOO_SMALL then
          if maxAlloc < 2 * unat n then None
          else let k = 2 * min len (unat n);
                   (key', m) = new_slice (load_bytes (mem m) key k @ replicate (2 * unat n - k) 0) m
               in vars_loop fw g sz gd key' (unat n div 2) (unat n) out m
        else if status = uefi_EFI_SUCCESS then
          if cap < unat (n - 1) div 2 \<or> cap < unat n div 2 then None
          else do {
            keyString \<leftarrow> UTF16ToString (load_units (mem m) key (unat (n - 1) div 2));
            (val, _, m) \<leftarrow> getkey fw g key (unat n div 2) gd m;
            vars_loop fw g sz gd key len cap (out @ [(keyString, val)]) m }
        else if status = uefi_EFI_NOT_FOUND then Some (out, m)
        else None })"

definition vars :: "'w firmware \<Rightarrow> uefi_pkg \<Rightarrow> 'w machine
    \<Rightarrow> ((gostring \<times> u8 list option) list \<times> 'w machine) option" where
  "vars fw g m =
     (let (varKey, m) = new_obj 2 m; (varKeySize, m) = new_uint64 2 m; (vendorGUID, m) = new_obj 16 m
      in vars_loop fw g varKeySize vendorGUID varKey 1 1 [] m)"

subsection \<open>The reference store\<close>

type_synonym efi_var = "u16 list \<times> u8 list \<times> u8 list"

definition well_formed_vars :: "efi_var list \<Rightarrow> bool" where
  "well_formed_vars vs \<longleftrightarrow> list_all (\<lambda>(n, g, d). n \<noteq> [] \<and> 0 \<notin> set n \<and> length g = 16) vs
     \<and> distinct (map (\<lambda>(n, g, d). (n, g)) vs)"

definition variable_at :: "memory \<Rightarrow> u64 \<Rightarrow> u64 \<Rightarrow> efi_var \<Rightarrow> bool" where
  "variable_at f nm gd v = (case v of (n, g, d) \<Rightarrow>
     load_bytes f nm (2 * Suc (length n)) = utf16_bytes (n @ [0]) \<and> load_bytes f gd 16 = g)"

definition next_variable :: "efi_var list \<Rightarrow> u64 \<Rightarrow> u64 \<Rightarrow> u64 \<Rightarrow> memory \<Rightarrow> u64 \<times> memory" where
  "next_variable vs sz nm gd f =
     (let k = unat (load64 f sz);
          rest = (if k < 2 then None
                  else if load_bytes f nm 2 = [0, 0] then Some vs
                  else case dropWhile (\<lambda>v. \<not> (variable_at f nm gd v \<and> 2 * Suc (length (fst v)) \<le> k)) vs of
                         [] \<Rightarrow> None | _ # r \<Rightarrow> Some r)
      in case rest of
           None \<Rightarrow> (uefi_EFI_INVALID_PARAMETER, f)
         | Some [] \<Rightarrow> (uefi_EFI_NOT_FOUND, f)
         | Some ((n, g, d) # _) \<Rightarrow>
             let need = 2 * Suc (length n) in
             if k < need then (uefi_EFI_BUFFER_TOO_SMALL, store64 sz (of_nat need) f)
             else (uefi_EFI_SUCCESS,
                   store64 sz (of_nat need) (store_bytes gd g (store_bytes nm (utf16_bytes (n @ [0])) f))))"

definition get_variable :: "efi_var list \<Rightarrow> u64 \<Rightarrow> u64 \<Rightarrow> u64 \<Rightarrow> u64 \<Rightarrow> memory \<Rightarrow> u64 \<times> memory" where
  "get_variable vs nm gd ds data f =
     (case find (variable_at f nm gd) vs of
        None \<Rightarrow> (uefi_EFI_NOT_FOUND, f)
      | Some (n, g, d) \<Rightarrow>
          if unat (load64 f ds) < length d then (uefi_EFI_BUFFER_TOO_SMALL, store64 ds (of_nat (length d)) f)
          else (uefi_EFI_SUCCESS, store64 ds (of_nat (length d)) (store_bytes data d f)))"

definition printed :: "efi_var \<Rightarrow> gostring \<times> u8 list option" where
  "printed v = (case v of (n, g, d) \<Rightarrow> (concat (map utf8_encode (utf16_decode n)), Some d))"

text \<open>
  A firmware that offers the store: \<open>cn\<close> and \<open>cg\<close> are the code addresses in the runtime services
  table at \<open>rt\<close>. The table entries are as in the beginning, and so are the regions \<open>R\<close>.
\<close>

definition variable_firmware :: "'w firmware \<Rightarrow> efi_var list \<Rightarrow> u64 \<Rightarrow> u64 \<Rightarrow> bool" where
  "variable_firmware fw vs cg cn \<longleftrightarrow>
     (\<forall>nm gd ds data f w. fw cg [nm, gd, 0, ds, data] f w = (case get_variable vs nm gd ds data f of (s, f') \<Rightarrow> (s, f', w)))
     \<and> (\<forall>sz nm gd f w. fw cn [sz, nm, gd] f w = (case next_variable vs sz nm gd f of (s, f') \<Rightarrow> (s, f', w)))"

definition runtime_entries_at :: "uefi_pkg \<Rightarrow> u64 \<Rightarrow> u64 \<Rightarrow> u64 \<Rightarrow> (u64 \<times> nat) list \<Rightarrow> memory \<Rightarrow> memory \<Rightarrow> bool" where
  "runtime_entries_at g rt cg cn R f0 f \<longleftrightarrow> systemTable g \<noteq> 0 \<and> rt \<noteq> 0 \<and> load64 f (systemTable g + 88) = rt
     \<and> load64 f (rt + 0x48) = cg \<and> load64 f (rt + 0x50) = cn \<and> same_regions R f0 f"

definition runtime_cells :: "uefi_pkg \<Rightarrow> u64 \<Rightarrow> (u64 \<times> nat) list \<Rightarrow> (u64 \<times> nat) list" where
  "runtime_cells g rt R = [(systemTable g + 88, 8), (rt + 0x48, 8), (rt + 0x50, 8)] @ R"

text \<open>
  The state of the walk after the variables \<open>pre\<close>: objects \<open>a\<close>, \<open>b\<close> and \<open>k\<close> hold the size, the
  vendor and the name; the name is that of the last variable, and within the size.
\<close>

definition walk_at :: "memory \<Rightarrow> u64 \<Rightarrow> u64 \<Rightarrow> nat \<Rightarrow> efi_var list \<Rightarrow> bool" where
  "walk_at f nm gd k pre \<longleftrightarrow>
     (if pre = [] then load_bytes f nm 2 = [0, 0] \<and> 2 \<le> k
      else variable_at f nm gd (last pre) \<and> 2 * Suc (length (fst (last pre))) \<le> k)"

definition walk_state :: "uefi_pkg \<Rightarrow> u64 \<Rightarrow> u64 \<Rightarrow> u64 \<Rightarrow> (u64 \<times> nat) list \<Rightarrow> memory \<Rightarrow> nat \<Rightarrow> nat \<Rightarrow> efi_var list \<Rightarrow> nat \<Rightarrow> nat \<Rightarrow> nat
    \<Rightarrow> nat \<Rightarrow> nat \<Rightarrow> 'w machine \<Rightarrow> bool" where
  "walk_state g rt cg cn R f0 L N pre a b k len cap m \<longleftrightarrow>
     runtime_entries_at g rt cg cn R f0 (mem m) \<and> layout (place m) L N (runtime_cells g rt R) \<and> 16 \<le> N \<and> N < 2 ^ 63
     \<and> a < objs m \<and> b < objs m \<and> k < objs m \<and> objs m \<le> L \<and> distinct [a, b, k]
     \<and> 0 < len \<and> len \<le> cap \<and> 2 * cap \<le> N \<and> unat (load64 (mem m) (place m a)) \<le> 2 * len
     \<and> walk_at (mem m) (place m k) (place m b) (unat (load64 (mem m) (place m a))) pre"

text \<open>A store with two variables, and a machine whose firmware offers it, for the examples below.\<close>

definition demo_vars :: "efi_var list" where
  "demo_vars = [([66, 111, 111, 116], replicate 16 1, [7, 0, 9]), ([120], replicate 16 2, [])]"

definition demo_var_firmware :: "unit firmware" where
  "demo_var_firmware code args f w =
     (case args of
        [nm, gd, attr, ds, data] \<Rightarrow> (case get_variable demo_vars nm gd ds data f of (s, f') \<Rightarrow> (s, f', w))
      | [sz, nm, gd] \<Rightarrow> (case next_variable demo_vars sz nm gd f of (s, f') \<Rightarrow> (s, f', w))
      | _ \<Rightarrow> (uefi_EFI_UNSUPPORTED, f, w))"

definition demo_var_pkg :: uefi_pkg where
  "demo_var_pkg = \<lparr>systemTable = 4096, imageHandle = 77, var_addr = (\<lambda>_. 12288)\<rparr>"

definition demo_var_machine :: "unit machine" where
  "demo_var_machine = \<lparr>mem = store64 4184 8192 (store64 8264 1 (store64 8272 2 (\<lambda>_. 0))),
     place = (\<lambda>i. of_nat (64 * Suc (16383 + i))), objs = 0, stale = 0, calls = [], world = ()\<rparr>"

section \<open>Lemmas\<close>

subsection \<open>Objects and table entries\<close>

lemma entries_store:
  assumes "runtime_entries_at g rt cg cn R f0 f" "layout pl L N (runtime_cells g rt R)" "j < L" "length bs \<le> N"
  shows "runtime_entries_at g rt cg cn R f0 (store_bytes (pl j) bs f)"
proof -
  have lay: "layout pl L N R" by (rule layout_subset [OF assms(2)]) (auto simp: runtime_cells_def)
  have "same_regions R f0 (store_bytes (pl j) bs f)"
    using assms(1) by (auto simp: runtime_entries_at_def intro: same_regions_store [OF lay assms(3,4)])
  moreover have "load64 (store_bytes (pl j) bs f) a = load64 f a" if "(a, 8) \<in> set (runtime_cells g rt R)" for a
    using store_region [OF assms(2,3,4) that] by (simp add: load64_def)
  ultimately show ?thesis using assms(1) by (simp add: runtime_entries_at_def runtime_cells_def)
qed

lemma runtime_table_at:
  assumes "runtime_entries_at g rt cg cn R f0 (mem m)"
  shows "runtime_table g m = Some rt"
proof -
  have "go_offset EFI_SYSTEM_TABLE ''RuntimeServices'' = Some 88" by code_simp
  then show ?thesis using assms by (simp add: runtime_table_def go_field_def runtime_entries_at_def ST_def)
qed

lemma RT_GetNextVariableName_run:
  assumes "runtime_entries_at g rt cg cn R f0 (mem m)" "variable_firmware fw vs cg cn"
    and "next_variable vs sz nm gd (mem m) = (st, f)"
  shows "\<exists>m'. RT_GetNextVariableName fw rt sz nm gd m = Some (st, m') \<and> mem m' = f \<and> place m' = place m \<and> objs m' = objs m"
proof -
  have "go_offset RUNTIME_SERVICES_struct ''getNextVariableName'' = Some 0x50" by code_simp
  moreover have "fw cn [sz, nm, gd] (mem m) (world m) = (st, f, world m)"
    using assms(2,3) by (simp add: variable_firmware_def)
  ultimately show ?thesis using assms(1)
    by (simp add: RT_GetNextVariableName_def runtime_entries_at_def UefiCall3_CallService CallService_nonempty)
qed

lemma RT_GetVariable_run:
  assumes "runtime_entries_at g rt cg cn R f0 (mem m)" "variable_firmware fw vs cg cn"
    and "get_variable vs nm gd ds data (mem m) = (st, f)"
  shows "\<exists>m'. RT_GetVariable fw rt nm gd 0 ds data m = Some (st, m') \<and> mem m' = f \<and> place m' = place m \<and> objs m' = objs m"
proof -
  have "go_offset RUNTIME_SERVICES_struct ''getVariable'' = Some 0x48" by code_simp
  moreover have "fw cg [nm, gd, 0, ds, data] (mem m) (world m) = (st, f, world m)"
    using assms(2,3) by (simp add: variable_firmware_def)
  ultimately show ?thesis using assms(1)
    by (simp add: RT_GetVariable_def runtime_entries_at_def UefiCall5_CallService CallService_nonempty)
qed

subsection \<open>Names\<close>

lemma load_units_bytes: "load_units f p n = le_units (load_bytes f p (2 * n))"
proof (induction n arbitrary: p)
  case (Suc n)
  have "load_bytes f p (2 * Suc n) = [f p, f (p + 1)] @ load_bytes f (p + 2) (2 * n)"
    using load_bytes_add [of f p 2 "2 * n"] by (simp add: load_bytes_def upt_rec)
  moreover have "load_units f p (Suc n) = load16 f p # load_units f (p + 2) n"
    by (rule nth_equalityI) (auto simp: nth_load_units length_load_units nth_Cons' algebra_simps of_nat_diff)
  moreover have "load16 f p = of_nat (le_nat [f p, f (p + 1)])" by (simp add: load16_def load_bytes_def upt_rec)
  ultimately show ?case using Suc by simp
qed (simp add: load_units_def)

lemma load_units_name:
  assumes "load_bytes f p (2 * Suc (length n)) = utf16_bytes (n @ [0])"
  shows "load_units f p (length n) = n"
proof -
  have "load_bytes f p (2 * length n) = take (2 * length n) (utf16_bytes (n @ [0]))"
    using take_load_bytes [of "2 * length n" "2 * Suc (length n)" f p] assms by simp
  also have "\<dots> = utf16_bytes n" by (simp add: utf16_bytes_append)
  finally show ?thesis using le_units_bytes [of n "[]"] by (simp add: load_units_bytes)
qed

text \<open>A place in memory holds the name of one variable at most.\<close>

lemma load_units_terminated:
  assumes "load_bytes f p (2 * Suc (length n)) = utf16_bytes (n @ [0])"
  shows "load_units f p (Suc (length n)) = n @ [0]"
proof -
  have "load_units f p (Suc (length n)) = le_units (utf16_bytes (n @ [0]) @ [])"
    unfolding load_units_bytes assms by simp
  also have "\<dots> = n @ [0]" unfolding le_units_bytes by simp
  finally show ?thesis .
qed

lemma terminated_length_le:
  assumes "load_units f p (Suc (length x)) = x @ [0]" "load_units f p (Suc (length y)) = y @ [0]" "0 \<notin> set y"
  shows "length y \<le> length x"
proof (rule ccontr)
  assume "\<not> length y \<le> length x"
  then have l: "length x < length y" by simp
  have "load_units f p (Suc (length y)) ! length x = load_units f p (Suc (length x)) ! length x"
    using l nth_load_units [of "length x" "Suc (length y)" f p] nth_load_units [of "length x" "Suc (length x)" f p] by simp
  then have "y ! length x = 0" unfolding assms(1,2) using l by (simp add: nth_append)
  then show False using assms(3) nth_mem [OF l] by simp
qed

lemma name_unique:
  assumes "load_bytes f p (2 * Suc (length n)) = utf16_bytes (n @ [0])" "0 \<notin> set n"
    and "load_bytes f p (2 * Suc (length k)) = utf16_bytes (k @ [0])" "0 \<notin> set k"
  shows "n = k"
proof -
  note n = load_units_terminated [OF assms(1)] and k = load_units_terminated [OF assms(3)]
  have "length n = length k"
    using terminated_length_le [OF n k assms(4)] terminated_length_le [OF k n assms(2)] by (rule le_antisym [rotated])
  then have "n @ [0] = k @ [0]" using n k by metis
  then show ?thesis by simp
qed

lemma variable_at_unique:
  assumes "well_formed_vars vs" "v \<in> set vs" "w \<in> set vs" "variable_at f nm gd v" "variable_at f nm gd w"
  shows "v = w"
proof -
  obtain n g d n' g' d' where v: "v = (n, g, d)" "w = (n', g', d')" by (metis prod_cases3)
  have "0 \<notin> set n" "0 \<notin> set n'" using assms(1-3) v by (auto simp: well_formed_vars_def list_all_iff)
  then have "n = n'" "g = g'" using assms(4,5) v name_unique [of f nm n n'] by (auto simp: variable_at_def)
  moreover have "inj_on (\<lambda>(n, g, d). (n, g)) (set vs)" using assms(1) by (simp add: well_formed_vars_def distinct_map)
  ultimately show ?thesis using assms(2,3) v by (auto dest: inj_onD [of _ _ "(n', g', d)" "(n', g', d')"])
qed

subsection \<open>The reference store along the walk\<close>

lemma name_not_empty:
  assumes "variable_at f nm gd (n, g, d)" "n \<noteq> []" "0 \<notin> set n"
  shows "load_bytes f nm 2 \<noteq> [0, 0]"
proof
  assume "load_bytes f nm 2 = [0, 0]"
  then have "load16 f nm = 0" by (simp add: load16_def)
  moreover have "load_units f nm (Suc (length n)) ! 0 = load16 f nm" by (simp add: nth_load_units)
  moreover have "load_units f nm (Suc (length n)) = n @ [0]"
    using load_units_terminated [of f nm n] assms(1) by (simp add: variable_at_def)
  ultimately have "n ! 0 = 0" using assms(2) by (metis length_greater_0_conv nth_append)
  then show False using assms(2,3) nth_mem [of 0 n] by simp
qed

lemma next_variable_walk:
  assumes "well_formed_vars (pre @ post)" "walk_at f nm gd (unat (load64 f sz)) pre"
  shows "next_variable (pre @ post) sz nm gd f =
    (case post of [] \<Rightarrow> (uefi_EFI_NOT_FOUND, f)
     | (n, g, d) # _ \<Rightarrow> if unat (load64 f sz) < 2 * Suc (length n)
         then (uefi_EFI_BUFFER_TOO_SMALL, store64 sz (of_nat (2 * Suc (length n))) f)
         else (uefi_EFI_SUCCESS, store64 sz (of_nat (2 * Suc (length n)))
                (store_bytes gd g (store_bytes nm (utf16_bytes (n @ [0])) f))))"
proof (cases pre rule: rev_cases)
  case Nil
  then show ?thesis using assms(2)
    by (simp add: next_variable_def walk_at_def Let_def split: list.split)
next
  case (snoc pre' v)
  obtain n g d where v: "v = (n, g, d)" by (metis prod_cases3)
  let ?k = "unat (load64 f sz)"
  let ?P = "\<lambda>v. \<not> (variable_at f nm gd v \<and> 2 * Suc (length (fst v)) \<le> ?k)"
  have at: "variable_at f nm gd v" "2 * Suc (length (fst v)) \<le> ?k" using assms(2) snoc by (simp_all add: walk_at_def)
  have n: "n \<noteq> []" "0 \<notin> set n" using assms(1) snoc v by (auto simp: well_formed_vars_def)
  have "distinct (pre @ post)" using assms(1) unfolding well_formed_vars_def distinct_map by blast
  then have "v \<notin> set pre'" using snoc by simp
  then have "?P w" if "w \<in> set pre'" for w
    using variable_at_unique [OF assms(1), of w v f nm gd] that snoc at(1) by auto
  then have "dropWhile ?P (pre @ post) = dropWhile ?P (v # post)"
    using dropWhile_append2 [of pre' ?P "v # post"] snoc by simp
  also have "\<dots> = v # post" using at by simp
  finally have "dropWhile ?P (pre @ post) = v # post" .
  moreover have "load_bytes f nm 2 \<noteq> [0, 0]" using name_not_empty at(1) n unfolding v by blast
  moreover have "\<not> ?k < 2" using at(2) by simp
  ultimately show ?thesis unfolding next_variable_def Let_def by (simp split: list.split)
qed

lemma get_variable_walk:
  assumes "well_formed_vars vs" "(n, g, d) \<in> set vs" "variable_at f nm gd (n, g, d)"
  shows "get_variable vs nm gd ds data f =
    (if unat (load64 f ds) < length d then (uefi_EFI_BUFFER_TOO_SMALL, store64 ds (of_nat (length d)) f)
     else (uefi_EFI_SUCCESS, store64 ds (of_nat (length d)) (store_bytes data d f)))"
proof -
  obtain w where w: "find (variable_at f nm gd) vs = Some w"
    using assms(2,3) by (cases "find (variable_at f nm gd) vs") (auto simp: find_None_iff)
  then have "w \<in> set vs" "variable_at f nm gd w" by (auto simp: find_Some_iff)
  then have "w = (n, g, d)" using variable_at_unique [OF assms(1)] assms(2,3) by blast
  then show ?thesis using w by (simp add: get_variable_def)
qed

subsection \<open>One round of the walk\<close>

lemma walk_at_frame:
  assumes "walk_at f nm gd s pre" "s \<le> N" "2 \<le> N" "load_bytes f' gd 16 = load_bytes f gd 16"
    and "\<And>n. n \<le> N \<Longrightarrow> load_bytes f' nm n = load_bytes f nm n"
  shows "walk_at f' nm gd s pre"
  using assms by (auto simp: walk_at_def variable_at_def split: if_splits prod.splits)

lemma load64_cong: "load_bytes f a 8 = load_bytes f' a' 8 \<Longrightarrow> load64 f a = load64 f' a'"
  by (simp add: load64_def)

lemma walk_store:
  assumes "walk_state g rt cg cn R f0 L N pre a b k len cap m"
    and "j < L" "j \<notin> {a, b, k}" "length bs \<le> N"
    and "mem m' = store_bytes (place m j) bs (mem m)" "place m' = place m" "objs m \<le> objs m'" "objs m' \<le> L"
  shows "walk_state g rt cg cn R f0 L N pre a b k len cap m'"
proof -
  note w = assms(1) [unfolded walk_state_def]
  have other: "load_bytes (mem m') (place m i) n = load_bytes (mem m) (place m i) n" if "i \<in> {a, b, k}" "n \<le> N" for i n
    unfolding assms(5) using w assms(2-4) that by (intro store_other_object [where L = L and N = N]) auto
  have "load64 (mem m') (place m a) = load64 (mem m) (place m a)"
    by (rule load64_cong) (use other w in simp)
  moreover have "walk_at (mem m') (place m k) (place m b) (unat (load64 (mem m) (place m a))) pre"
    by (rule walk_at_frame [where N = N]) (use w other in auto)
  moreover have "runtime_entries_at g rt cg cn R f0 (mem m')"
    unfolding assms(5) by (rule entries_store [where L = L and N = N]) (use w assms in auto)
  ultimately show ?thesis using w assms(6-8) by (simp add: walk_state_def)
qed

lemma walk_new_obj:
  assumes "walk_state g rt cg cn R f0 L N pre a b k len cap m" "objs m < L" "n \<le> N"
  shows "walk_state g rt cg cn R f0 L N pre a b k len cap (snd (new_obj n m))"
  by (rule walk_store [OF assms(1), where j = "objs m" and bs = "replicate n 0"])
     (use assms in \<open>auto simp: walk_state_def new_obj_def zero_fill_store\<close>)

lemma walk_variable: "walk_state g rt cg cn R f0 L N (pre @ [v]) a b k len cap m \<Longrightarrow> variable_at (mem m) (place m k) (place m b) v"
  by (simp add: walk_state_def walk_at_def)

lemma walk_store64:
  assumes "walk_state g rt cg cn R f0 L N pre a b k len cap m" "j < L" "j \<notin> {a, b, k}"
    and "mem m' = store64 (place m j) v (mem m)" "place m' = place m" "objs m' = objs m"
  shows "walk_state g rt cg cn R f0 L N pre a b k len cap m'"
  by (rule walk_store [OF assms(1-3), where bs = "le_bytes 8 (unat v)"])
     (use assms in \<open>auto simp: walk_state_def store64_def\<close>)

lemma load64_new_obj: "load64 (mem (snd (new_obj 8 m))) (place m (objs m)) = 0"
proof -
  have "load_bytes (mem (snd (new_obj 8 m))) (place m (objs m)) 8 = replicate 8 0"
    using load_store_same [of "replicate 8 0" "place m (objs m)" "mem m"] by (simp add: new_obj_def zero_fill_store)
  then show ?thesis by (simp add: load64_def numeral_eq_Suc)
qed

lemma status_codes_distinct:
  "uefi_EFI_BUFFER_TOO_SMALL \<noteq> uefi_EFI_NOT_FOUND" "uefi_EFI_SUCCESS \<noteq> uefi_EFI_NOT_FOUND"
  "uefi_EFI_SUCCESS \<noteq> uefi_EFI_BUFFER_TOO_SMALL"
  by code_simp+

lemma store_bytes_Nil [simp]: "store_bytes a [] f = f"
  by (simp add: fun_eq_iff store_bytes_def)

text \<open>A value is read whole, whatever its size.\<close>

lemma walk_GetVariable:
  assumes "walk_state g rt cg cn R f0 L N (pre @ [(n, gg, d)]) a b k len cap m" "variable_firmware fw vs cg cn"
    and "well_formed_vars vs" "(n, gg, d) \<in> set vs" "length d \<le> N" "length d < 2 ^ 64"
    and "i < L" "i \<notin> {a, b, k}" "j < L" "j \<notin> {a, b, k}" "i \<noteq> j"
  shows "\<exists>st m'. runtime_table g m = Some rt
    \<and> RT_GetVariable fw rt (place m k) (place m b) 0 (place m i) (place m j) m = Some (st, m')
    \<and> place m' = place m \<and> objs m' = objs m \<and> walk_state g rt cg cn R f0 L N (pre @ [(n, gg, d)]) a b k len cap m'
    \<and> load64 (mem m') (place m i) = of_nat (length d)
    \<and> (if unat (load64 (mem m) (place m i)) < length d then st = uefi_EFI_BUFFER_TOO_SMALL
        else st = uefi_EFI_SUCCESS \<and> load_bytes (mem m') (place m j) (length d) = d)"
proof -
  note w = assms(1) [unfolded walk_state_def]
  let ?small = "unat (load64 (mem m) (place m i)) < length d"
  let ?bs = "if ?small then [] else d"
  let ?f = "store_bytes (place m j) ?bs (mem m)"
  have "get_variable vs (place m k) (place m b) (place m i) (place m j) (mem m)
      = (if ?small then uefi_EFI_BUFFER_TOO_SMALL else uefi_EFI_SUCCESS, store64 (place m i) (of_nat (length d)) ?f)"
    using get_variable_walk [OF assms(3,4) walk_variable [OF assms(1)]] by simp
  from RT_GetVariable_run [OF conjunct1 [OF w] assms(2) this] obtain m' where
    m': "RT_GetVariable fw rt (place m k) (place m b) 0 (place m i) (place m j) m
        = Some (if ?small then uefi_EFI_BUFFER_TOO_SMALL else uefi_EFI_SUCCESS, m')"
      "mem m' = store64 (place m i) (of_nat (length d)) ?f" "place m' = place m" "objs m' = objs m" by auto
  have "walk_state g rt cg cn R f0 L N (pre @ [(n, gg, d)]) a b k len cap (m\<lparr>mem := ?f\<rparr>)"
    by (rule walk_store [OF assms(1,9,10), where bs = ?bs]) (use assms(5) w in auto)
  then have "walk_state g rt cg cn R f0 L N (pre @ [(n, gg, d)]) a b k len cap m'"
    by (rule walk_store64 [OF _ assms(7,8)]) (use m' in auto)
  moreover have "load_bytes (mem m') (place m j) (length d) = d" if "\<not> ?small"
    using store_other_object [of "place m" L N "runtime_cells g rt R" j i "length d" "le_bytes 8 (unat (of_nat (length d) :: u64))"]
      w assms(5,7,9,11) load_store_same [of d] that by (simp add: m'(2) store64_def)
  moreover have "runtime_table g m = Some rt" using runtime_table_at w by blast
  ultimately show ?thesis using m' by (auto simp: load64_store64)
qed

text \<open>The two objects \<^verbatim>\<open>getkey\<close> starts with.\<close>

lemma getkey_objects:
  assumes "walk_state g rt cg cn R f0 L N pre a b k len cap m" "objs m + 2 \<le> L"
  shows "\<exists>m1 m2. new_obj 8 m = (place m (objs m), m1) \<and> new_obj 16 m1 = (place m (Suc (objs m)), m2)
    \<and> place m2 = place m \<and> objs m2 = Suc (Suc (objs m)) \<and> load64 (mem m2) (place m (objs m)) = 0
    \<and> walk_state g rt cg cn R f0 L N pre a b k len cap m2"
proof -
  define m1 where "m1 = snd (new_obj 8 m)"
  note w = assms(1) [unfolded walk_state_def]
  have m1: "place m1 = place m" "objs m1 = Suc (objs m)" by (simp_all add: m1_def new_obj_def)
  have w1: "walk_state g rt cg cn R f0 L N pre a b k len cap m1"
    unfolding m1_def using walk_new_obj [OF assms(1)] w assms(2) by auto
  have "load_bytes (mem (snd (new_obj 16 m1))) (place m (objs m)) 8 = load_bytes (mem m1) (place m (objs m)) 8"
    using store_other_object [of "place m" L N "runtime_cells g rt R" "objs m" "Suc (objs m)" 8 "replicate 16 0" "mem m1"]
      w assms(2) by (simp add: new_obj_def zero_fill_store m1)
  then have "load64 (mem (snd (new_obj 16 m1))) (place m (objs m)) = 0"
    using load64_cong load64_new_obj [of m] by (metis m1_def)
  moreover have "walk_state g rt cg cn R f0 L N pre a b k len cap (snd (new_obj 16 m1))"
    using walk_new_obj [OF w1] w assms(2) m1 by auto
  ultimately show ?thesis
    by (intro exI [of _ m1] exI [of _ "snd (new_obj 16 m1)"]) (simp add: m1 m1_def [symmetric], simp add: m1_def new_obj_def)
qed

lemma getkey_walk:
  assumes "walk_state g rt cg cn R f0 L N (pre @ [(n, gg, d)]) a b k len cap m" "variable_firmware fw vs cg cn"
    and "well_formed_vars vs" "(n, gg, d) \<in> set vs" "length d \<le> N" "length d \<le> maxAlloc" "objs m + 3 \<le> L" "0 < c"
  shows "\<exists>r m'. getkey fw g (place m k) c (place m b) m = Some (Some d, r, m') \<and> place m' = place m \<and> objs m' \<le> objs m + 3
    \<and> walk_state g rt cg cn R f0 L N (pre @ [(n, gg, d)]) a b k len cap m'"
proof -
  let ?o = "objs m"
  have fresh: "?o \<notin> {a, b, k}" "Suc ?o \<notin> {a, b, k}" "Suc (Suc ?o) \<notin> {a, b, k}" "?o < L" "Suc ?o < L" "Suc (Suc ?o) < L"
    using assms(1,7) by (auto simp: walk_state_def)
  have dl: "length d < 2 ^ 64" using assms(6) by (simp add: maxAlloc_def)
  note run = walk_GetVariable [OF _ assms(2-5) dl]
  obtain m1 m2 where m2: "new_obj 8 m = (place m ?o, m1)" "new_obj 16 m1 = (place m (Suc ?o), m2)"
      "place m2 = place m" "objs m2 = Suc (Suc ?o)" "load64 (mem m2) (place m ?o) = 0"
      "walk_state g rt cg cn R f0 L N (pre @ [(n, gg, d)]) a b k len cap m2"
    using getkey_objects [OF assms(1)] assms(7) by auto
  obtain st m3 where m3: "runtime_table g m2 = Some rt"
      "RT_GetVariable fw rt (place m k) (place m b) 0 (place m ?o) (place m (Suc ?o)) m2 = Some (st, m3)"
      "place m3 = place m" "objs m3 = Suc (Suc ?o)" "walk_state g rt cg cn R f0 L N (pre @ [(n, gg, d)]) a b k len cap m3"
      "load64 (mem m3) (place m ?o) = of_nat (length d)"
      "if d \<noteq> [] then st = uefi_EFI_BUFFER_TOO_SMALL else st = uefi_EFI_SUCCESS"
    using run [OF m2(6) fresh(4,1,5,2)] m2(3-5) by (auto split: if_splits)
  show ?thesis
  proof (cases "d = []")
    case True
    then have "getkey fw g (place m k) c (place m b) m = Some (Some d, False, m3)"
      using assms(8) m2 m3 by (simp add: getkey_def status_codes_distinct)
    then show ?thesis using m3 by auto
  next
    case False
    obtain m4 where m4: "new_obj (length d) m3 = (place m (Suc (Suc ?o)), m4)" "place m4 = place m" "objs m4 = Suc (Suc (Suc ?o))"
        "walk_state g rt cg cn R f0 L N (pre @ [(n, gg, d)]) a b k len cap m4"
      using walk_new_obj [OF m3(5)] m3(3,4) fresh(6) assms(5) by (auto simp: new_obj_def)
    have "load_bytes (mem m4) (place m ?o) 8 = load_bytes (mem m3) (place m ?o) 8"
      using store_other_object [of "place m" L N "runtime_cells g rt R" ?o "Suc (Suc ?o)" 8 "replicate (length d) 0" "mem m3"]
        assms(1,5) fresh m4(1) m3(3,4) by (auto simp: walk_state_def new_obj_def zero_fill_store)
    then have "load64 (mem m4) (place m ?o) = of_nat (length d)" using load64_cong m3(6) by metis
    then obtain m5 where "runtime_table g m4 = Some rt"
        "RT_GetVariable fw rt (place m k) (place m b) 0 (place m ?o) (place m (Suc (Suc ?o))) m4 = Some (uefi_EFI_SUCCESS, m5)"
        "place m5 = place m" "objs m5 = Suc (Suc (Suc ?o))" "walk_state g rt cg cn R f0 L N (pre @ [(n, gg, d)]) a b k len cap m5"
        "load_bytes (mem m5) (place m (Suc (Suc ?o))) (length d) = d"
      using run [OF m4(4) fresh(4,1,6,3)] m4(2,3) unat_of_nat_small_u64 [OF dl] by auto
    moreover from this have "getkey fw g (place m k) c (place m b) m = Some (Some d, True, m5)"
      using assms(6,8) m2 m3 m4 False unat_of_nat_small_u64 [OF dl] by (simp add: getkey_def status_codes_distinct)
    ultimately show ?thesis by auto
  qed
qed

lemma need_word:
  assumes "2 * Suc n \<le> N" "N < 2 ^ 63"
  shows "unat (of_nat (2 * Suc n) :: u64) = 2 * Suc n" "unat (of_nat (2 * Suc n) - 1 :: u64) div 2 = n"
proof -
  show u: "unat (of_nat (2 * Suc n) :: u64) = 2 * Suc n"
    by (rule unat_of_nat_small_u64) (use assms in simp)
  have "of_nat (2 * Suc n) - 1 = (of_nat (Suc (2 * n)) :: u64)" by simp
  moreover have "unat (of_nat (Suc (2 * n)) :: u64) = Suc (2 * n)"
    by (rule unat_of_nat_small_u64) (use assms in simp)
  ultimately show "unat (of_nat (2 * Suc n) - 1 :: u64) div 2 = n" by simp
qed

text \<open>The state after the firmware has stored the next variable.\<close>

lemma walk_stored:
  assumes "walk_state g rt cg cn R f0 L N pre a b k len cap m" "length gg = 16"
    and "2 * Suc (length n) \<le> unat (load64 (mem m) (place m a))"
    and "mem m' = store64 (place m a) (of_nat (2 * Suc (length n)))
        (store_bytes (place m b) gg (store_bytes (place m k) (utf16_bytes (n @ [0])) (mem m)))"
    and "place m' = place m" "objs m' = objs m"
  shows "walk_state g rt cg cn R f0 L N (pre @ [(n, gg, d)]) a b k len cap m'"
    "load64 (mem m') (place m a) = of_nat (2 * Suc (length n))"
proof -
  note w = assms(1) [unfolded walk_state_def]
  have ob: "a < L" "b < L" "k < L" "a \<noteq> b" "a \<noteq> k" "b \<noteq> k" using w by auto
  have need: "2 * Suc (length n) \<le> N" using w assms(3) by linarith
  have lay: "layout (place m) L N (runtime_cells g rt R)" "N < 2 ^ 63" "16 \<le> N" using w by auto
  have sz: "load64 (mem m') (place m a) = of_nat (2 * Suc (length n))" unfolding assms(4) by (rule load64_store64)
  have "load_bytes (mem m') (place m b) 16 = gg"
    using store_other_object [OF lay(1) ob(2,1) ob(4) [symmetric], of 16 "le_bytes 8 (unat (of_nat (2 * Suc (length n)) :: u64))"]
      load_store_same [of gg "place m b"] lay(2,3) assms(2) by (simp add: assms(4) store64_def)
  moreover have "load_bytes (mem m') (place m k) (2 * Suc (length n)) = utf16_bytes (n @ [0])"
  proof -
    have "load_bytes (mem m') (place m k) (2 * Suc (length n))
        = load_bytes (store_bytes (place m k) (utf16_bytes (n @ [0])) (mem m)) (place m k) (2 * Suc (length n))"
      using store_other_object [OF lay(1) ob(3,1) ob(5) [symmetric] need, of "le_bytes 8 (unat (of_nat (2 * Suc (length n)) :: u64))"]
        store_other_object [OF lay(1) ob(3,2) ob(6) [symmetric] need, of gg] lay(2,3) assms(2)
      by (simp add: assms(4) store64_def)
    then show ?thesis using load_store_same [of "utf16_bytes (n @ [0])" "place m k"] need lay(2) by simp
  qed
  moreover have "runtime_entries_at g rt cg cn R f0 (mem m')"
    unfolding assms(4) store64_def
    by (intro entries_store [OF _ lay(1)]) (use w ob need assms(2) lay in auto)
  ultimately show "walk_state g rt cg cn R f0 L N (pre @ [(n, gg, d)]) a b k len cap m'"
    using w assms(3,5,6) need_word(1) [OF need lay(2)] sz by (simp add: walk_state_def walk_at_def variable_at_def)
  show "load64 (mem m') (place m a) = of_nat (2 * Suc (length n))" by (rule sz)
qed

lemma vars_loop_success:
  assumes "walk_state g rt cg cn R f0 L N pre a b k len cap m" "variable_firmware fw (pre @ (n, gg, d) # post) cg cn"
    and "well_formed_vars (pre @ (n, gg, d) # post)" "2 * Suc (length n) \<le> unat (load64 (mem m) (place m a))"
    and "length d \<le> N" "length d \<le> maxAlloc" "objs m + 3 \<le> L"
  shows "\<exists>m'. vars_loop fw g (place m a) (place m b) (place m k) len cap out m
      = vars_loop fw g (place m a) (place m b) (place m k) len cap (out @ [printed (n, gg, d)]) m'
    \<and> place m' = place m \<and> objs m' \<le> objs m + 3 \<and> walk_state g rt cg cn R f0 L N (pre @ [(n, gg, d)]) a b k len cap m'"
proof -
  note w = assms(1) [unfolded walk_state_def]
  have gg: "length gg = 16" "n \<noteq> []" using assms(3) by (auto simp: well_formed_vars_def)
  have need: "2 * Suc (length n) \<le> N" "N < 2 ^ 63" using w assms(4) by linarith+
  note nw = need_word [OF need]
  have "next_variable (pre @ (n, gg, d) # post) (place m a) (place m k) (place m b) (mem m)
      = (uefi_EFI_SUCCESS, store64 (place m a) (of_nat (2 * Suc (length n)))
          (store_bytes (place m b) gg (store_bytes (place m k) (utf16_bytes (n @ [0])) (mem m))))"
    using next_variable_walk [OF assms(3), of "mem m" "place m k" "place m b" "place m a"] w assms(4) by simp
  from RT_GetNextVariableName_run [OF conjunct1 [OF w] assms(2) this] obtain m1 where
    m1: "RT_GetNextVariableName fw rt (place m a) (place m k) (place m b) m = Some (uefi_EFI_SUCCESS, m1)"
      "mem m1 = store64 (place m a) (of_nat (2 * Suc (length n)))
          (store_bytes (place m b) gg (store_bytes (place m k) (utf16_bytes (n @ [0])) (mem m)))"
      "place m1 = place m" "objs m1 = objs m" by auto
  note w1 = walk_stored(1) [OF assms(1) gg(1) assms(4) m1(2-4), of d] walk_stored(2) [OF assms(1) gg(1) assms(4) m1(2-4)]
  obtain r m2 where m2: "getkey fw g (place m k) (Suc (length n)) (place m b) m1 = Some (Some d, r, m2)"
      "place m2 = place m" "objs m2 \<le> objs m + 3" "walk_state g rt cg cn R f0 L N (pre @ [(n, gg, d)]) a b k len cap m2"
    using getkey_walk [OF w1(1) assms(2,3) _ assms(5,6)] assms(7) m1(3,4) by (metis in_set_conv_decomp zero_less_Suc)
  have "load_units (mem m1) (place m k) (length n) = n"
    using load_units_name walk_variable [OF w1(1)] m1(3) by (simp add: variable_at_def)
  then have "UTF16ToString (load_units (mem m1) (place m k) (length n)) = Some (fst (printed (n, gg, d)))"
    using gg(2) by (simp add: UTF16ToString_def printed_def)
  moreover have "length n < len" "Suc (length n) \<le> cap" using w assms(4) by auto
  ultimately have "vars_loop fw g (place m a) (place m b) (place m k) len cap out m
      = vars_loop fw g (place m a) (place m b) (place m k) len cap (out @ [printed (n, gg, d)]) m2"
    using w runtime_table_at [of g rt cg cn R f0 m] m1(1) m2(1) nw w1(2)
    by (subst vars_loop.simps) (simp add: status_codes_distinct printed_def del: of_nat_mult of_nat_Suc)
  then show ?thesis using m2 by blast
qed

text \<open>A larger buffer keeps the name the walk stands at.\<close>

lemma walk_grown:
  assumes "walk_state g rt cg cn R f0 L N pre a b k len cap m" "unat (load64 (mem m) (place m a)) < 2 * Suc n"
    and "4 * Suc n \<le> N" "objs m < L" "mem m1 = store64 (place m a) (of_nat (2 * Suc n)) (mem m)" "place m1 = place m" "objs m1 = objs m"
    and "c = 2 * min len (2 * Suc n)" "m2 = snd (new_slice (load_bytes (mem m1) (place m k) c @ replicate (2 * (2 * Suc n) - c) 0) m1)"
  shows "walk_state g rt cg cn R f0 L N pre a b (objs m) (Suc n) (2 * Suc n) m2"
    "load64 (mem m2) (place m a) = of_nat (2 * Suc n)"
proof -
  note w = assms(1) [unfolded walk_state_def]
  define bs where "bs = load_bytes (mem m1) (place m k) c @ replicate (2 * (2 * Suc n) - c) 0"
  have len_bs: "length bs = 4 * Suc n" using assms(8) by (simp add: bs_def min_def)
  have c_le: "c \<le> length bs" using assms(8) len_bs by (simp add: min_def)
  have mem2: "mem m2 = store_bytes (place m (objs m)) bs (mem m1)"
    by (simp add: assms(9) bs_def new_slice_def assms(6,7))
  have ob: "a < L" "b < L" "k < L" "a \<noteq> b" "a \<noteq> k" "b \<noteq> k" "a \<noteq> objs m" "b \<noteq> objs m" using w by auto
  have lay: "layout (place m) L N (runtime_cells g rt R)" "N < 2 ^ 63" "16 \<le> N" using w by auto
  have keep1: "load_bytes (mem m1) (place m i) x = load_bytes (mem m) (place m i) x" if "i < L" "i \<noteq> a" "x \<le> N" for i x
    using store_other_object [OF lay(1) that(1) ob(1) that(2,3)] lay by (simp add: assms(5) store64_def)
  have keep2: "load_bytes (mem m2) (place m i) x = load_bytes (mem m1) (place m i) x" if "i < L" "i \<noteq> objs m" "x \<le> N" for i x
    using store_other_object [OF lay(1) that(1) assms(4) that(2,3)] lay assms(3) len_bs by (simp add: mem2)
  have "load_bytes (mem m2) (place m a) 8 = load_bytes (mem m1) (place m a) 8" using keep2 [OF ob(1,7)] lay(3) by simp
  then show sz: "load64 (mem m2) (place m a) = of_nat (2 * Suc n)"
    using load64_cong [of "mem m2" "place m a" "mem m1" "place m a"] by (simp add: assms(5) load64_store64 del: of_nat_mult of_nat_Suc)
  have name: "load_bytes (mem m2) (place m (objs m)) x = load_bytes (mem m) (place m k) x" if "x \<le> c" for x
  proof -
    have "load_bytes (mem m2) (place m (objs m)) x = take x bs"
      using load_store_sub [of 0 x bs "place m (objs m)" "mem m1"] that c_le len_bs assms(3) lay(2) by (simp add: mem2)
    also have "\<dots> = load_bytes (mem m1) (place m k) x" using that by (simp add: bs_def take_load_bytes)
    finally show ?thesis using keep1 [OF ob(3) ob(5) [symmetric], of x] that c_le len_bs assms(3) by simp
  qed
  have "load_bytes (mem m2) (place m b) 16 = load_bytes (mem m) (place m b) 16"
    using keep2 [OF ob(2,8)] keep1 [OF ob(2) ob(4) [symmetric]] lay(3) by simp
  moreover have "unat (load64 (mem m) (place m a)) \<le> c" using w assms(2,8) by (auto simp: min_def)
  ultimately have "walk_at (mem m2) (place m (objs m)) (place m b) (2 * Suc n) pre"
    using w assms(2) name by (auto simp: walk_at_def variable_at_def split: if_splits prod.splits)
  moreover have "runtime_entries_at g rt cg cn R f0 (mem m2)"
    unfolding mem2 assms(5) store64_def by (intro entries_store [OF _ lay(1)]) (use w ob assms(3,4) lay len_bs in auto)
  moreover have "place m2 = place m" "objs m2 = Suc (objs m)" by (simp_all add: assms(9) new_slice_def assms(6,7))
  ultimately show "walk_state g rt cg cn R f0 L N pre a b (objs m) (Suc n) (2 * Suc n) m2"
    using w sz assms(3,4) need_word(1) [of n N] lay(2) by (simp add: walk_state_def del: of_nat_mult of_nat_Suc)
qed

lemma vars_loop_grow:
  assumes "walk_state g rt cg cn R f0 L N pre a b k len cap m" "variable_firmware fw (pre @ (n, gg, d) # post) cg cn"
    and "well_formed_vars (pre @ (n, gg, d) # post)" "unat (load64 (mem m) (place m a)) < 2 * Suc (length n)"
    and "4 * Suc (length n) \<le> N" "4 * Suc (length n) \<le> maxAlloc" "objs m < L"
  shows "\<exists>m'. vars_loop fw g (place m a) (place m b) (place m k) len cap out m
      = vars_loop fw g (place m a) (place m b) (place m (objs m)) (Suc (length n)) (2 * Suc (length n)) out m'
    \<and> place m' = place m \<and> objs m' = Suc (objs m) \<and> load64 (mem m') (place m a) = of_nat (2 * Suc (length n))
    \<and> walk_state g rt cg cn R f0 L N pre a b (objs m) (Suc (length n)) (2 * Suc (length n)) m'"
proof -
  note w = assms(1) [unfolded walk_state_def]
  have need: "2 * Suc (length n) \<le> N" "N < 2 ^ 63" using w assms(5) by auto
  note nw = need_word(1) [OF need]
  have "next_variable (pre @ (n, gg, d) # post) (place m a) (place m k) (place m b) (mem m)
      = (uefi_EFI_BUFFER_TOO_SMALL, store64 (place m a) (of_nat (2 * Suc (length n))) (mem m))"
    using next_variable_walk [OF assms(3), of "mem m" "place m k" "place m b" "place m a"] w assms(4) by simp
  from RT_GetNextVariableName_run [OF conjunct1 [OF w] assms(2) this] obtain m1 where
    m1: "RT_GetNextVariableName fw rt (place m a) (place m k) (place m b) m = Some (uefi_EFI_BUFFER_TOO_SMALL, m1)"
      "mem m1 = store64 (place m a) (of_nat (2 * Suc (length n))) (mem m)" "place m1 = place m" "objs m1 = objs m" by auto
  define c where "c = 2 * min len (2 * Suc (length n))"
  define m2 where "m2 = snd (new_slice (load_bytes (mem m1) (place m k) c @ replicate (2 * (2 * Suc (length n)) - c) 0) m1)"
  note w2 = walk_grown [OF assms(1,4,5,7) m1(2-4) c_def m2_def]
  have "new_slice (load_bytes (mem m1) (place m k) c @ replicate (2 * (2 * Suc (length n)) - c) 0) m1 = (place m (objs m), m2)"
    by (simp add: m2_def new_slice_def m1)
  then have "vars_loop fw g (place m a) (place m b) (place m k) len cap out m
      = vars_loop fw g (place m a) (place m b) (place m (objs m)) (Suc (length n)) (2 * Suc (length n)) out m2"
    using w runtime_table_at [of g rt cg cn R f0 m] m1(1,2) nw assms(6)
    by (subst vars_loop.simps) (simp add: c_def load64_store64 Let_def del: of_nat_mult of_nat_Suc)
  then show ?thesis using w2 by (intro exI [of _ m2]) (simp add: m2_def new_slice_def m1)
qed

lemma vars_loop_walk:
  assumes "walk_state g rt cg cn R f0 L N pre a b k len cap m" "variable_firmware fw (pre @ post) cg cn"
    and "well_formed_vars (pre @ post)" "objs m + 4 * length post \<le> L"
    and "list_all (\<lambda>(n, gg, d). 4 * Suc (length n) \<le> min N maxAlloc \<and> length d \<le> min N maxAlloc) post"
  shows "\<exists>m'. vars_loop fw g (place m a) (place m b) (place m k) len cap out m = Some (out @ map printed post, m')
    \<and> same_regions R f0 (mem m')"
  using assms
proof (induction post arbitrary: pre k len cap m out)
  case Nil
  note w = Nil.prems(1) [unfolded walk_state_def]
  have "next_variable pre (place m a) (place m k) (place m b) (mem m) = (uefi_EFI_NOT_FOUND, mem m)"
    using next_variable_walk [of pre "[]"] Nil.prems(3) w by simp
  from RT_GetNextVariableName_run [OF _ _ this] w Nil.prems(2) obtain m1 where
    "RT_GetNextVariableName fw rt (place m a) (place m k) (place m b) m = Some (uefi_EFI_NOT_FOUND, m1)" "mem m1 = mem m"
    by fastforce
  moreover have "same_regions R f0 (mem m)" using w by (simp add: runtime_entries_at_def)
  ultimately show ?case using w runtime_table_at [of g rt cg cn R f0 m] status_codes_distinct
    by (subst vars_loop.simps) simp
next
  case (Cons v post)
  obtain n gg d where v: "v = (n, gg, d)" by (metis prod_cases3)
  have lim: "4 * Suc (length n) \<le> N" "4 * Suc (length n) \<le> maxAlloc" "length d \<le> N" "length d \<le> maxAlloc"
    using Cons.prems(5) by (simp_all add: v)
  note fw = Cons.prems(2) [unfolded v] and wf = Cons.prems(3) [unfolded v]
  have rest: "\<exists>m'. vars_loop fw g (place m a) (place m b) (place m i) l c out x = Some (out @ map printed (v # post), m')
      \<and> same_regions R f0 (mem m')"
    if x: "walk_state g rt cg cn R f0 L N pre a b i l c x" "2 * Suc (length n) \<le> unat (load64 (mem x) (place x a))"
      "objs x \<le> Suc (objs m)" "place x = place m" for i l c x
  proof -
    have "objs x + 3 \<le> L" using x(3) Cons.prems(4) by simp
    from vars_loop_success [OF x(1) fw wf x(2) lim(3,4) this, of out] obtain y where
      y: "vars_loop fw g (place m a) (place m b) (place m i) l c out x
          = vars_loop fw g (place m a) (place m b) (place m i) l c (out @ [printed v]) y"
        "place y = place m" "objs y \<le> objs x + 3" "walk_state g rt cg cn R f0 L N (pre @ [v]) a b i l c y"
      by (auto simp: x(4) v)
    from Cons.IH [OF y(4), of "out @ [printed v]"] Cons.prems(2-5) y(2,3) x(3) show ?thesis by (simp add: y(1))
  qed
  show ?case
  proof (cases "unat (load64 (mem m) (place m a)) < 2 * Suc (length n)")
    case True
    have "objs m < L" using Cons.prems(4) by simp
    from vars_loop_grow [OF Cons.prems(1) fw wf True lim(1,2) this, of out] obtain x where
      x: "vars_loop fw g (place m a) (place m b) (place m k) len cap out m
          = vars_loop fw g (place m a) (place m b) (place m (objs m)) (Suc (length n)) (2 * Suc (length n)) out x"
        "place x = place m" "objs x = Suc (objs m)" "load64 (mem x) (place m a) = of_nat (2 * Suc (length n))"
        "walk_state g rt cg cn R f0 L N pre a b (objs m) (Suc (length n)) (2 * Suc (length n)) x" by blast
    have "2 * Suc (length n) \<le> unat (load64 (mem x) (place x a))"
      using need_word(1) [of "length n" N] lim(1) x(2,4,5) by (simp add: walk_state_def del: of_nat_mult of_nat_Suc)
    from rest [OF x(5) this] x(2,3) show ?thesis by (simp add: x(1))
  next
    case False
    then show ?thesis using rest [OF Cons.prems(1)] by simp
  qed
qed

text \<open>The state in which the walk starts.\<close>

lemma vars_start:
  assumes "runtime_entries_at g rt cg cn R f0 (mem m)" "layout (place m) L N (runtime_cells g rt R)"
    and "objs m + 3 \<le> L" "16 \<le> N" "N < 2 ^ 63"
  shows "\<exists>m'. vars fw g m = vars_loop fw g (place m' (Suc (objs m))) (place m' (Suc (Suc (objs m)))) (place m' (objs m)) 1 1 [] m'
    \<and> objs m' = objs m + 3 \<and> walk_state g rt cg cn R f0 L N [] (Suc (objs m)) (Suc (Suc (objs m))) (objs m) 1 1 m'"
proof -
  let ?o = "objs m" and ?p = "place m"
  define f where "f = store_bytes (?p (Suc (Suc ?o))) (replicate 16 0)
    (store_bytes (?p (Suc ?o)) (le_bytes 8 2) (store_bytes (?p ?o) (replicate 2 0) (mem m)))"
  define m' where "m' = m\<lparr>objs := Suc (Suc (Suc (objs m))), mem := f\<rparr>"
  have L: "?o < L" "Suc ?o < L" "Suc (Suc ?o) < L" using assms(3) by simp_all
  have two: "replicate 2 0 = [0, 0 :: u8]" by (simp add: numeral_2_eq_2)
  have zeros: "load_bytes (store_bytes (?p ?o) [0, 0] (mem m)) (?p ?o) 2 = [0, 0]"
    using load_store_same [of "[0, 0]" "?p ?o" "mem m"] by simp (simp add: numeral_2_eq_2)
  have "runtime_entries_at g rt cg cn R f0 f"
    unfolding f_def by (intro entries_store [OF _ assms(2)]) (use assms L in \<open>auto simp del: le_bytes.simps\<close>)
  moreover have "load_bytes f (?p ?o) 2 = [0, 0]"
    using store_other_object [OF assms(2) L(1,3), of 2 "replicate 16 0"] store_other_object [OF assms(2) L(1,2), of 2 "le_bytes 8 2"]
      zeros assms(4,5) by (simp add: f_def two del: le_bytes.simps)
  moreover have "load_bytes f (?p (Suc ?o)) 8 = le_bytes 8 2"
    using store_other_object [OF assms(2) L(2,3), of 8 "replicate 16 0"] load_store_same [of "le_bytes 8 2" "?p (Suc ?o)"] assms(4,5)
    by (simp add: f_def del: le_bytes.simps)
  then have "load64 f (?p (Suc ?o)) = 2" by (simp add: load64_def le_nat_le_bytes del: le_bytes.simps)
  ultimately have "walk_state g rt cg cn R f0 L N [] (Suc ?o) (Suc (Suc ?o)) ?o 1 1 m'"
    using assms by (simp add: walk_state_def walk_at_def m'_def)
  moreover have "vars fw g m = vars_loop fw g (place m' (Suc ?o)) (place m' (Suc (Suc ?o))) (place m' ?o) 1 1 [] m'"
    by (simp add: vars_def new_obj_def new_uint64_def new_slice_def zero_fill_store m'_def f_def del: le_bytes.simps)
  moreover have "objs m' = objs m + 3" by (simp add: m'_def)
  ultimately show ?thesis by blast
qed

lemma vars_walk:
  assumes "variable_firmware fw vs cg cn" "runtime_entries_at g rt cg cn R (mem m) (mem m)" "well_formed_vars vs"
    and "layout (place m) L N (runtime_cells g rt R)" "objs m + 3 + 4 * length vs \<le> L" "16 \<le> N" "N < 2 ^ 63"
    and "list_all (\<lambda>(n, gg, d). 4 * Suc (length n) \<le> min N maxAlloc \<and> length d \<le> min N maxAlloc) vs"
  shows "\<exists>m'. vars fw g m = Some (map printed vs, m') \<and> same_regions R (mem m) (mem m')"
proof -
  obtain m1 where m1: "vars fw g m
      = vars_loop fw g (place m1 (Suc (objs m))) (place m1 (Suc (Suc (objs m)))) (place m1 (objs m)) 1 1 [] m1"
    "objs m1 = objs m + 3" "walk_state g rt cg cn R (mem m) L N [] (Suc (objs m)) (Suc (Suc (objs m))) (objs m) 1 1 m1"
    using vars_start [OF assms(2,4) _ assms(6,7)] assms(5) by fastforce
  from vars_loop_walk [OF m1(3), of fw vs "[]"] assms m1(2) show ?thesis by (simp add: m1(1))
qed

subsection \<open>The example\<close>

lemma demo_var_place: "i < 11 \<Longrightarrow> unat (place demo_var_machine i) = 64 * Suc (16383 + i)"
  unfolding demo_var_machine_def machine.simps by (rule unat_of_nat_small_u64) simp

lemma demo_var_layout:
  assumes "list_all (\<lambda>(a, n). (unat a + n \<le> 1048576 \<or> 1049344 \<le> unat a \<and> unat a + n \<le> 2 ^ 63) \<and> 0 < n) R"
  shows "layout (place demo_var_machine) 11 64 R"
proof -
  have ap: "apart (place demo_var_machine i) 64 (place demo_var_machine j) 64" if "i < j" "j < 11" for i j
  proof -
    have "64 * Suc (16383 + j) < 2 ^ 63" using that(2) by simp
    from apart_multiples [OF _ this, of "16383 + i" 64] that(1) show ?thesis
      by (simp add: demo_var_machine_def del: of_nat_mult of_nat_Suc of_nat_add mult_Suc_right)
  qed
  have "apart (place demo_var_machine i) 64 (fst r) (snd r)" if i: "i < 11" and r: "r \<in> set R" for i r
  proof -
    have "unat (fst r) + snd r \<le> 1048576 \<or> 1049344 \<le> unat (fst r) \<and> unat (fst r) + snd r \<le> 2 ^ 63" "0 < snd r"
      using assms r by (auto simp: list_all_iff)
    then show ?thesis
    proof (elim disjE conjE)
      assume "unat (fst r) + snd r \<le> 1048576"
      then show ?thesis using i \<open>0 < snd r\<close> by (intro apart_above) (simp_all add: demo_var_place)
    next
      assume "1049344 \<le> unat (fst r)" "unat (fst r) + snd r \<le> 2 ^ 63"
      then show ?thesis unfolding apart_sym [of _ 64]
        using i by (intro apart_above) (simp_all add: demo_var_place)
    qed
  qed
  moreover have "\<forall>i<11. \<forall>j<11. i \<noteq> j \<longrightarrow> apart (place demo_var_machine i) 64 (place demo_var_machine j) 64"
    using ap apart_sym by (metis linorder_neqE_nat)
  ultimately show ?thesis by (simp add: layout_def)
qed

lemma demo_var_firmware_ok: "variable_firmware demo_var_firmware demo_vars 1 2"
  by (simp add: variable_firmware_def demo_var_firmware_def)

lemma demo_vars_ok:
  "well_formed_vars demo_vars"
  "list_all (\<lambda>(n, gg, d). 4 * Suc (length n) \<le> min 64 maxAlloc \<and> length d \<le> min 64 maxAlloc) demo_vars"
  "map printed demo_vars = [(lit ''Boot'', Some [7, 0, 9]), (lit ''x'', Some [])]"
  by (code_simp, simp add: demo_vars_def maxAlloc_def, simp add: demo_vars_def printed_def utf8_encode_def lit_def)

section \<open>Properties\<close>

text \<open>
  Claim C5: The walk over the firmware variables ends and prints every variable once, in the order of the
  store, with its decoded name and its whole value. It grows the name buffer when a name does
  not fit, and reads a value in two calls whatever its size. The store is the reference the firmware
  specification describes, with names that are not empty and have no NUL, unique per vendor; four
  objects per variable are enough. Memory apart from those objects is left alone.
\<close>

theorem vars_lists_all:
  assumes "variable_firmware fw vs cg cn" "runtime_entries_at g rt cg cn R (mem m) (mem m)" "well_formed_vars vs"
    and "layout (place m) L N (runtime_cells g rt R)" "objs m + 3 + 4 * length vs \<le> L" "16 \<le> N" "N < 2 ^ 63"
    and "list_all (\<lambda>(n, gg, d). 4 * Suc (length n) \<le> min N maxAlloc \<and> length d \<le> min N maxAlloc) vs"
  shows "\<exists>m'. vars fw g m = Some (map printed vs, m') \<and> same_regions R (mem m) (mem m')"
  using assms by (rule vars_walk)

theorem vars_lists_all_witness:
  "\<exists>m'. vars demo_var_firmware demo_var_pkg demo_var_machine = Some ([(lit ''Boot'', Some [7, 0, 9]), (lit ''x'', Some [])], m')"
proof -
  have "runtime_entries_at demo_var_pkg 8192 1 2 [] (mem demo_var_machine) (mem demo_var_machine)"
    by (simp add: runtime_entries_at_def same_regions_def demo_var_pkg_def demo_var_machine_def mem_simps apart_def)
  moreover have "layout (place demo_var_machine) 11 64 (runtime_cells demo_var_pkg 8192 [])"
    by (rule demo_var_layout) (simp add: runtime_cells_def demo_var_pkg_def)
  moreover have "objs demo_var_machine + 3 + 4 * length demo_vars \<le> 11" by (simp add: demo_vars_def demo_var_machine_def)
  ultimately show ?thesis
    using vars_lists_all [OF demo_var_firmware_ok _ demo_vars_ok(1), of demo_var_pkg 8192 "[]" demo_var_machine 11 64] demo_vars_ok(2,3)
    by auto
qed

end
