(* ===== verification/Efi_Load.thy ===== *)
theory Efi_Load
  imports Verify_Stub Efi_Variables
begin

text \<open>
  \<^verbatim>\<open>cmd/efiload/main.go\<close> and \<^verbatim>\<open>cmd/recovery/main.go\<close>: the loader that lists the firmware variables
  and starts a kernel placed in memory, and the recovery shell command that starts a kernel from
  the boot volume.

  Both use the package \<^verbatim>\<open>go-boot/uefi/x64\<close>, which is not part of the repository. What they call of it
  is the record \<open>go_boot\<close>, a parameter of the definitions. \<^verbatim>\<open>pkg/ueficore\<close> is a fork of that
  package: \<open>ueficore_boot\<close> is the record made of its definitions, and the examples use it.
  Messages on the console and the SHA-256 digest, which is only printed, are left out.
\<close>

section \<open>Definitions\<close>

record ('w, 'fs, 'f) go_boot =
  gb_Handles :: "u64 \<times> u64"
  gb_Root :: "'w machine \<Rightarrow> ('fs \<times> gerr option \<times> 'w machine) option"
  gb_Open :: "'fs \<Rightarrow> gostring \<Rightarrow> 'w machine \<Rightarrow> ((gerr + 'f) \<times> 'w machine) option"
  gb_Read :: "'f \<Rightarrow> gslice \<Rightarrow> 'w machine \<Rightarrow> (int \<times> gerr option \<times> 'w machine) option"
  gb_LoadImageMem :: "int \<Rightarrow> 'fs \<Rightarrow> gostring \<Rightarrow> gslice \<Rightarrow> 'w machine \<Rightarrow> (u64 \<times> gerr option \<times> 'w machine) option"
  gb_LoadImageHandle :: "u64 \<Rightarrow> 'w machine \<Rightarrow> (u64 \<times> gerr option \<times> 'w machine) option"
  gb_StartImage :: "u64 \<Rightarrow> 'w machine \<Rightarrow> (gerr option \<times> 'w machine) option"
  gb_Exit :: "int \<Rightarrow> 'w machine \<Rightarrow> (gerr option \<times> 'w machine) option"
  gb_ResetSystem :: "int \<Rightarrow> 'w machine \<Rightarrow> (gerr option \<times> 'w machine) option"
  gb_SetWatchdogTimer :: "int \<Rightarrow> 'w machine \<Rightarrow> (gerr option \<times> 'w machine) option"
  gb_Ptrval :: "u64 \<Rightarrow> u64 option"

subsection \<open>efiload\<close>

definition load_stringToUTF16Ptr :: "gostring \<Rightarrow> 'w machine \<Rightarrow> u64 \<times> 'w machine" where
  "load_stringToUTF16Ptr s m =
     (let utf16Slice = utf16_encode (runes s); utf16Slice = utf16Slice @ [0]
      in new_slice (utf16_units_bytes utf16Slice) m)"

text \<open>
  \<^verbatim>\<open>loadAndVerify\<close>: a slice, \<open>None\<close> for nil, and an error. An error of \<^verbatim>\<open>io.ReadAll\<close> is printed
  and then dropped.
\<close>

definition loadAndVerify :: "('w, 'fs, 'f) go_boot \<Rightarrow> nat \<Rightarrow> (nat \<Rightarrow> nat) \<Rightarrow> gostring \<Rightarrow> 'w machine
    \<Rightarrow> (gslice option \<times> gerr option \<times> 'w machine) option" where
  "loadAndVerify gb fuel grow path m = do {
     (root, err, m) \<leftarrow> gb_Root gb m;
     case err of
       Some e \<Rightarrow> Some (None, Some (ErrWrap ''could not open root volume, '' e), m)
     | None \<Rightarrow> do {
         (bf, m) \<leftarrow> gb_Open gb root path m;
         case bf of
           Inl e \<Rightarrow> Some (None, Some (ErrWrap ''could not open kernel, '' e), m)
         | Inr f \<Rightarrow> do {
             (data, err, m) \<leftarrow> ReadAll fuel grow (gb_Read gb f) m;
             Some (Some data, None, m) } } }"

text \<open>The stores of the load options: size and address of the command line.\<close>

definition set_load_options :: "u64 \<Rightarrow> gostring \<Rightarrow> u64 \<Rightarrow> 'w machine \<Rightarrow> 'w machine" where
  "set_load_options addr cmdline p m =
     (let m = m\<lparr>mem := store32 (addr + 48) (of_nat (length cmdline * 2)) (mem m)\<rparr>
      in m\<lparr>mem := store64 (addr + 56) p (mem m)\<rparr>)"

definition efiload_executeKernel :: "('w, 'fs, 'f) go_boot \<Rightarrow> nat \<Rightarrow> (nat \<Rightarrow> nat) \<Rightarrow> gostring
    \<Rightarrow> gslice option \<Rightarrow> gostring \<Rightarrow> 'w machine \<Rightarrow> (gerr option \<times> 'w machine) option" where
  "efiload_executeKernel gb fuel grow path data cmdline m = do {
     (root, err, m) \<leftarrow> gb_Root gb m;
     case err of
       Some e \<Rightarrow> Some (Some (ErrWrap ''could not open root volume, '' e), m)
     | None \<Rightarrow> do {
     (data, err, m) \<leftarrow> (case data of Some b \<Rightarrow> Some (Some b, None, m) | None \<Rightarrow> loadAndVerify gb fuel grow path m);
     case err of
       Some e \<Rightarrow> Some (Some e, m)
     | None \<Rightarrow> (case data of
       None \<Rightarrow> Some (Some (ErrMsg ''could not load kernel''), m)
     | Some buf \<Rightarrow> do {
     (h, err, m) \<leftarrow> gb_LoadImageMem gb 0 root path buf m;
     case err of
       Some e \<Rightarrow> Some (Some (ErrWrap ''could not load image, '' e), m)
     | None \<Rightarrow> do {
     (addr, _, m) \<leftarrow> gb_LoadImageHandle gb h m;
     let (ptr, m) = load_stringToUTF16Ptr cmdline m;
     p \<leftarrow> Ptrval (PtrUint16 ptr);
     gb_StartImage gb h (set_load_options addr cmdline p m) } }) } }"

text \<open>
  \<^verbatim>\<open>main\<close>: the listing it prints, \<open>Some code\<close> for \<^verbatim>\<open>os.Exit(code)\<close> and \<open>None\<close> for a return. It
  panics when the configuration has no line feed, and when the kernel has less than the 16 bytes
  that are printed. \<open>g0\<close> is the state of \<^verbatim>\<open>pkg/uefi\<close> before \<^verbatim>\<open>uefi.Init\<close>.
\<close>

definition leave :: "('w, 'fs, 'f) go_boot \<Rightarrow> 'w machine \<Rightarrow> 'w machine option" where
  "leave gb m = do {
     (err, m) \<leftarrow> gb_Exit gb 0 m;
     case err of
       None \<Rightarrow> Some m
     | Some _ \<Rightarrow> do { (_, m) \<leftarrow> gb_ResetSystem gb EfiResetShutdown m; Some m } }"

definition efiload_main :: "('w, 'fs, 'f) go_boot \<Rightarrow> 'w firmware \<Rightarrow> nat \<Rightarrow> (nat \<Rightarrow> nat) \<Rightarrow> uefi_pkg \<Rightarrow> 'w machine
    \<Rightarrow> ((gostring \<times> u8 list option) list \<times> int option \<times> 'w machine) option" where
  "efiload_main gb fw fuel grow g0 m =
     (let (ah, sh) = gb_Handles gb; g = uefi_Init ah sh g0 in do {
        (listing, m) \<leftarrow> vars fw g m;
        let cfg = load_bytes (mem m) cfgOff 10240;
        let parts = SplitN cfg 10 3;
        let kerLen = Atoi (parts ! 0);
        if length parts < 2 \<or> kerLen < 16 then None
        else do {
          (err, m) \<leftarrow> efiload_executeKernel gb fuel grow kernelPath (Some (kerOff, nat kerLen)) (parts ! 1) m;
          case err of
            Some _ \<Rightarrow> Some (listing, Some 1, m)
          | None \<Rightarrow> do {
              m \<leftarrow> leave gb m;
              m \<leftarrow> leave gb m;
              Some (listing, None, m) } } })"

subsection \<open>recovery\<close>

definition CmdLine :: gostring where
  "CmdLine = lit '' initrd='' @ [92] @ lit ''initrd.img console=tty1 rdinit=/sbin/initos-initrd net.ifnames=0 panic=0 init=/bin/sh console=ttyS0 initos_sidecar=/dev/sdb initos_debug=1 ''"

definition efi_linux_path :: "string \<Rightarrow> gostring" where
  "efi_linux_path name = [92] @ lit ''EFI'' @ [92] @ lit ''linux'' @ [92] @ lit name"

definition recovery_stringToUTF16Ptr :: "gostring \<Rightarrow> 'w machine \<Rightarrow> u64 \<times> 'w machine" where
  "recovery_stringToUTF16Ptr s m =
     (let utf16Slice = utf16_encode (runes s); utf16Slice = utf16Slice @ [0]
      in new_slice (utf16_units_bytes utf16Slice) m)"

definition recovery_loadAndVerify :: "('w, 'fs, 'f) go_boot \<Rightarrow> nat \<Rightarrow> (nat \<Rightarrow> nat) \<Rightarrow> gostring \<Rightarrow> 'w machine
    \<Rightarrow> (gslice option \<times> gerr option \<times> 'w machine) option" where
  "recovery_loadAndVerify gb fuel grow path m = do {
     (root, err, m) \<leftarrow> gb_Root gb m;
     case err of
       Some e \<Rightarrow> Some (None, Some (ErrWrap ''could not open root volume, '' e), m)
     | None \<Rightarrow> do {
         (bf, m) \<leftarrow> gb_Open gb root path m;
         case bf of
           Inl e \<Rightarrow> Some (None, Some (ErrWrap ''could not open kernel, '' e), m)
         | Inr f \<Rightarrow> do {
             (data, err, m) \<leftarrow> ReadAll fuel grow (gb_Read gb f) m;
             Some (Some data, None, m) } } }"

text \<open>The bytes of a slice, the empty string for nil.\<close>

definition slice_string :: "gslice option \<Rightarrow> memory \<Rightarrow> gostring" where
  "slice_string s f = (case s of None \<Rightarrow> [] | Some (p, n) \<Rightarrow> load_bytes f p n)"

text \<open>The command line \<^verbatim>\<open>executeKernel\<close> settles on when it is given the empty one.\<close>

definition default_cmdline :: "('w, 'fs, 'f) go_boot \<Rightarrow> nat \<Rightarrow> (nat \<Rightarrow> nat) \<Rightarrow> 'w machine \<Rightarrow> (gostring \<times> 'w machine) option" where
  "default_cmdline gb fuel grow m = do {
     (cmddata, err, m) \<leftarrow> recovery_loadAndVerify gb fuel grow (efi_linux_path ''cmdline'') m;
     case err of
       Some _ \<Rightarrow> Some (CmdLine, m)
     | None \<Rightarrow> Some (slice_string cmddata (mem m), m) }"

text \<open>\<^verbatim>\<open>LoadImageMem\<close> takes the address of the first byte: a nil slice makes it panic.\<close>

definition recovery_executeKernel :: "('w, 'fs, 'f) go_boot \<Rightarrow> nat \<Rightarrow> (nat \<Rightarrow> nat) \<Rightarrow> gostring \<Rightarrow> gostring \<Rightarrow> 'w machine
    \<Rightarrow> (gerr option \<times> 'w machine) option" where
  "recovery_executeKernel gb fuel grow path cmdline m = do {
     (root, err, m) \<leftarrow> gb_Root gb m;
     case err of
       Some e \<Rightarrow> Some (Some (ErrWrap ''could not open root volume, '' e), m)
     | None \<Rightarrow> do {
     (data, err, m) \<leftarrow> recovery_loadAndVerify gb fuel grow path m;
     case err of
       Some e \<Rightarrow> Some (Some (ErrWrap ''could not open kernel, '' e), m)
     | None \<Rightarrow> do {
     (cmdline, m) \<leftarrow> (if cmdline = [] then default_cmdline gb fuel grow m else Some (cmdline, m));
     buf \<leftarrow> data;
     (h, err, m) \<leftarrow> gb_LoadImageMem gb 0 root path buf m;
     case err of
       Some e \<Rightarrow> Some (Some (ErrWrap ''could not load image, '' e), m)
     | None \<Rightarrow> do {
     (addr, _, m) \<leftarrow> gb_LoadImageHandle gb h m;
     let (ptr, m) = recovery_stringToUTF16Ptr cmdline m;
     p \<leftarrow> gb_Ptrval gb ptr;
     gb_StartImage gb h (set_load_options addr cmdline p m) } } } }"

text \<open>\<^verbatim>\<open>strings.Join(arg, " ")\<close>.\<close>

fun join_spaces :: "gostring list \<Rightarrow> gostring" where
  "join_spaces [] = []"
| "join_spaces [s] = s"
| "join_spaces (s # t # ss) = s @ [32] @ join_spaces (t # ss)"

text \<open>The function of the shell command \<^verbatim>\<open>recovery\<close>.\<close>

definition recovery_command :: "('w, 'fs, 'f) go_boot \<Rightarrow> nat \<Rightarrow> (nat \<Rightarrow> nat) \<Rightarrow> gostring list \<Rightarrow> 'w machine
    \<Rightarrow> (gerr option \<times> 'w machine) option" where
  "recovery_command gb fuel grow arg m =
     (let path = (if length arg > 0 then arg ! 0 else efi_linux_path ''kernel.efi'');
          cmdline = (if length arg > 1 then join_spaces (tl arg) else [])
      in recovery_executeKernel gb fuel grow path cmdline m)"

text \<open>
  \<^verbatim>\<open>main\<close> and \<^verbatim>\<open>initGoBoot\<close>: the shell of go-boot is the parameter \<open>shell\<close>; it is given the
  command and runs until it is left.
\<close>

definition initGoBoot :: "('w, 'fs, 'f) go_boot \<Rightarrow> nat \<Rightarrow> (nat \<Rightarrow> nat)
    \<Rightarrow> ((gostring list \<Rightarrow> 'w machine \<Rightarrow> (gerr option \<times> 'w machine) option) \<Rightarrow> 'w machine \<Rightarrow> 'w machine option)
    \<Rightarrow> 'w machine \<Rightarrow> 'w machine option" where
  "initGoBoot gb fuel grow shell m = do {
     (_, m) \<leftarrow> gb_SetWatchdogTimer gb 0 m;
     m \<leftarrow> shell (recovery_command gb fuel grow) m;
     (err, m) \<leftarrow> gb_Exit gb 0 m;
     case err of
       None \<Rightarrow> Some m
     | Some _ \<Rightarrow> do { (_, m) \<leftarrow> gb_ResetSystem gb EfiResetShutdown m; Some m } }"

subsection \<open>The interface over \<^verbatim>\<open>pkg/ueficore\<close>\<close>

definition ueficore_boot :: "dma_pkg \<Rightarrow> 'w firmware \<Rightarrow> services \<Rightarrow> ('w, efi_fs option, efi_file) go_boot" where
  "ueficore_boot dma fw svc = \<lparr>
     gb_Handles = (sv_imageHandle svc, sv_systemTable svc),
     gb_Root = Root dma fw svc,
     gb_Open = (\<lambda>root path m. do { r \<leftarrow> root; FS_Open dma fw r path m }),
     gb_Read = (\<lambda>f. File_Read fw f),
     gb_LoadImageMem = (\<lambda>policy root path buf m. do {
        boot \<leftarrow> sv_Boot svc; r \<leftarrow> root; LoadImageMem dma fw boot policy r path buf m }),
     gb_LoadImageHandle = (\<lambda>h m. do {
        boot \<leftarrow> sv_Boot svc; (_, addr, err, m) \<leftarrow> LoadImageHandle dma fw boot h m; Some (addr, err, m) }),
     gb_StartImage = (\<lambda>h m. do { boot \<leftarrow> sv_Boot svc; Some (StartImage fw boot h m) }),
     gb_Exit = (\<lambda>code m. do { boot \<leftarrow> sv_Boot svc; Some (Exit fw boot code m) }),
     gb_ResetSystem = (\<lambda>t m. do { rt \<leftarrow> sv_Runtime svc; Some (ResetSystem fw rt t m) }),
     gb_SetWatchdogTimer = (\<lambda>sec m. do { boot \<leftarrow> sv_Boot svc; Some (SetWatchdogTimer fw boot sec m) }),
     gb_Ptrval = (\<lambda>p. Ptrval (PtrUint16 p))\<rparr>"

text \<open>The load options an image is started with.\<close>

definition options_set :: "'w machine \<Rightarrow> u64 \<Rightarrow> u64 \<Rightarrow> gostring \<Rightarrow> bool" where
  "options_set m addr p cmdline \<longleftrightarrow>
     load32 (mem m) (addr + 48) = cmdline_size cmdline \<and> load64 (mem m) (addr + 56) = p
     \<and> le_units (load_bytes (mem m) p (2 * Suc (length (utf16_encode (runes cmdline))))) = utf16_encode (runes cmdline) @ [0]"

text \<open>A volume with one file, whose reader fails after two bytes, for the examples below.\<close>

definition broken_reader :: "unit \<Rightarrow> gslice \<Rightarrow> unit machine \<Rightarrow> (int \<times> gerr option \<times> unit machine) option" where
  "broken_reader f b m = Some (2, Some (ErrMsg ''device error''), m\<lparr>mem := store_bytes (fst b) [77, 90] (mem m)\<rparr>)"

definition demo_boot :: "(unit, unit, unit) go_boot" where
  "demo_boot = \<lparr>
     gb_Handles = (77, 4096),
     gb_Root = (\<lambda>m. Some ((), None, m)),
     gb_Open = (\<lambda>_ path m. Some (if path = efi_linux_path ''kernel.efi'' then Inr () else Inl (ErrMsg ''not found''), m)),
     gb_Read = broken_reader,
     gb_LoadImageMem = (\<lambda>_ _ _ _ m. Some (99, None, m)),
     gb_LoadImageHandle = (\<lambda>_ m. Some (0x300000, None, m)),
     gb_StartImage = (\<lambda>_ m. Some (None, m)),
     gb_Exit = (\<lambda>_ m. Some (None, m)),
     gb_ResetSystem = (\<lambda>_ m. Some (None, m)),
     gb_SetWatchdogTimer = (\<lambda>_ m. Some (None, m)),
     gb_Ptrval = Some\<rparr>"

section \<open>Lemmas\<close>

lemma load_stringToUTF16Ptr_stub: "load_stringToUTF16Ptr = stringToUTF16Ptr"
  by (simp add: fun_eq_iff load_stringToUTF16Ptr_def stringToUTF16Ptr_def)

lemma recovery_stringToUTF16Ptr_stub: "recovery_stringToUTF16Ptr = stringToUTF16Ptr"
  by (simp add: fun_eq_iff recovery_stringToUTF16Ptr_def stringToUTF16Ptr_def)

lemma recovery_loadAndVerify_efiload: "recovery_loadAndVerify = loadAndVerify"
  by (simp add: fun_eq_iff recovery_loadAndVerify_def loadAndVerify_def)

lemma loadAndVerify_file:
  assumes "gb_Root gb m = Some (r, None, m1)" "gb_Open gb r path m1 = Some (Inr f, m2)"
    and "ReadAll fuel grow (gb_Read gb f) m2 = Some (buf, err, m3)"
  shows "loadAndVerify gb fuel grow path m = Some (Some buf, None, m3)"
  using assms by (simp add: loadAndVerify_def)

lemma set_load_options_options:
  assumes "apart (addr + 48) 16 (place m (objs m)) (2 * Suc (length (utf16_encode (runes cmdline))))"
    and "length (utf16_encode (runes cmdline)) < 2 ^ 30"
  shows "options_set (set_load_options addr cmdline (place m (objs m)) (snd (stringToUTF16Ptr cmdline m)))
      addr (place m (objs m)) cmdline"
proof -
  let ?us = "utf16_encode (runes cmdline) @ [0]" and ?p = "place m (objs m)"
  have l: "length (utf16_units_bytes ?us) = 2 * Suc (length (utf16_encode (runes cmdline)))" by simp
  have "apart (addr + 48) 16 ?p (length (utf16_units_bytes ?us))" "length (utf16_units_bytes ?us) \<le> 2 ^ 64"
    "0 < length (utf16_units_bytes ?us)" using assms by simp_all
  note st = cmdline_stores [OF this, of "cmdline_size cmdline" "mem m"]
  show ?thesis using st le_units_units_bytes [of ?us] l
    by (simp add: options_set_def set_load_options_def stringToUTF16Ptr_def new_slice_def cmdline_size_def)
qed

lemma stringToUTF16Ptr_place: "fst (stringToUTF16Ptr s m) = place m (objs m)"
  by (simp add: stringToUTF16Ptr_def)

lemma set_load_options_with:
  "set_load_options addr cmdline (place m (objs m)) (snd (stringToUTF16Ptr cmdline m)) = with_options addr cmdline m"
  by (simp add: set_load_options_def with_options_def cmdline_size_def)

lemma ReadAll_broken:
  "ReadAll (Suc fuel) grow (broken_reader ()) m = Some ((place m (objs m), 2), Some (ErrMsg ''device error''),
     m\<lparr>objs := Suc (objs m), mem := store_bytes (place m (objs m)) [77, 90] (zero_fill (place m (objs m)) 512 (mem m))\<rparr>)"
  by (simp add: ReadAll_def new_obj_def broken_reader_def)

section \<open>Properties\<close>


text \<open>
  Claim C14: What recovery starts. Once the volume is open and the kernel file can be opened, the command
  loads whatever \<^verbatim>\<open>io.ReadAll\<close> returned for the file and starts it, with the load options set to the
  command line it was given, or to the one it settled on when that was empty. This holds
  whatever error ended the reading: a kernel that was read in part is loaded and started too.
\<close>

theorem recovery_starts:
  assumes "gb_Root gb m = Some (r, None, m1)" "gb_Root gb m1 = Some (r2, None, m2)"
    and "gb_Open gb r2 path m2 = Some (Inr f, m3)" "ReadAll fuel grow (gb_Read gb f) m3 = Some (buf, rderr, m4)"
    and "(if cmdline = [] then default_cmdline gb fuel grow m4 else Some (cmdline, m4)) = Some (c, m5)"
    and "gb_LoadImageMem gb 0 r path buf m5 = Some (h, None, m6)" "gb_LoadImageHandle gb h m6 = Some (addr, err, m7)"
    and "apart (addr + 48) 16 (place m7 (objs m7)) (2 * Suc (length (utf16_encode (runes c))))"
    and "length (utf16_encode (runes c)) < 2 ^ 30" "gb_Ptrval gb = Some"
  shows "\<exists>m8. recovery_executeKernel gb fuel grow path cmdline m = gb_StartImage gb h m8
    \<and> options_set m8 addr (place m7 (objs m7)) c \<and> calls m8 = calls m7 \<and> world m8 = world m7"
proof -
  let ?m8 = "set_load_options addr c (place m7 (objs m7)) (snd (stringToUTF16Ptr c m7))"
  have "recovery_executeKernel gb fuel grow path cmdline m = gb_StartImage gb h ?m8"
    using assms(1,5,6,7,10) loadAndVerify_file [OF assms(2-4)]
    by (simp add: recovery_executeKernel_def recovery_loadAndVerify_efiload recovery_stringToUTF16Ptr_stub
        stringToUTF16Ptr_def new_slice_def)
  then show ?thesis using set_load_options_options [OF assms(8,9)]
    by (intro exI [of _ ?m8]) (simp add: set_load_options_def stringToUTF16Ptr_def)
qed

theorem recovery_starts_witness:
  "\<exists>m8. recovery_command demo_boot 1 id [] demo_var_machine = Some (None, m8)
    \<and> options_set m8 0x300000 (place demo_var_machine 1) CmdLine"
proof -
  let ?p = "efi_linux_path ''kernel.efi''" and ?m = demo_var_machine
  let ?m4 = "?m\<lparr>objs := Suc 0, mem := store_bytes (place ?m 0) [77, 90] (zero_fill (place ?m 0) 512 (mem ?m))\<rparr>"
  have root: "gb_Root demo_boot ?m = Some ((), None, ?m)" by (simp add: demo_boot_def)
  have op: "gb_Open demo_boot () ?p ?m = Some (Inr (), ?m)" by (simp add: demo_boot_def)
  have rd: "ReadAll 1 id (gb_Read demo_boot ()) ?m = Some ((place ?m 0, 2), Some (ErrMsg ''device error''), ?m4)"
    using ReadAll_broken [of 0 id ?m] by (simp add: demo_boot_def demo_var_machine_def)
  have "efi_linux_path ''cmdline'' \<noteq> ?p" by (simp add: efi_linux_path_def lit_def)
  then have dc: "(if [] = [] then default_cmdline demo_boot 1 id ?m4 else Some ([], ?m4)) = Some (CmdLine, ?m4)"
    by (simp add: default_cmdline_def recovery_loadAndVerify_def demo_boot_def)
  have li: "gb_LoadImageMem demo_boot 0 () ?p (place ?m 0, 2) ?m4 = Some (99, None, ?m4)"
    "gb_LoadImageHandle demo_boot 99 ?m4 = Some (0x300000, None, ?m4)" "gb_Ptrval demo_boot = Some"
    by (simp_all add: demo_boot_def)
  have "list_all (\<lambda>b. unat b < 128) CmdLine" by (simp add: CmdLine_def lit_def)
  then have "length (utf16_encode (runes CmdLine)) = length CmdLine"
    by (simp add: runes_ascii utf16_encode_ascii list_all_length)
  moreover have "length CmdLine = 148" by (simp add: CmdLine_def lit_def)
  ultimately have len: "length (utf16_encode (runes CmdLine)) = 148" by simp
  have ap: "apart (0x300000 + 48) 16 (place ?m4 (objs ?m4)) (2 * Suc (length (utf16_encode (runes CmdLine))))"
    by (simp add: len apart_def demo_var_machine_def)
  from recovery_starts [OF root root op rd dc li(1,2) ap _ li(3)] len show ?thesis
    by (auto simp: recovery_command_def demo_boot_def)
qed



text \<open>
  Claim C4: The loader from start to end, over a firmware with a variable store and with a configuration that
  is a decimal kernel length, a line feed, the command line and another line feed. \<^verbatim>\<open>main\<close> lists every
  variable of the store and leaves the configuration alone. It panics when the kernel length is below
  16, because it prints the first 16 bytes; else it starts the kernel of that length with that
  command line. When that fails it exits with code 1; when the kernel returns, it leaves through the
  firmware, and if that returns as well, it does so a second time.
\<close>

theorem efiload_main_boots:
  assumes "gb_Handles gb = (ah, sh)" "g = uefi_Init ah sh g0" "variable_firmware fw vs cg cn" "well_formed_vars vs"
    and "runtime_entries_at g rt cg cn [(cfgOff, 10240)] (mem m) (mem m)"
    and "layout (place m) L N (runtime_cells g rt [(cfgOff, 10240)])" "objs m + 3 + 4 * length vs \<le> L" "16 \<le> N" "N < 2 ^ 63"
    and "list_all (\<lambda>(n, gg, d). 4 * Suc (length n) \<le> min N maxAlloc \<and> length d \<le> min N maxAlloc) vs"
    and "load_bytes (mem m) cfgOff 10240 = decimal n @ [10] @ cmdline @ [10] @ rest" "10 \<notin> set cmdline" "n < 2 ^ 63"
  shows "\<exists>m1. same_regions [(cfgOff, 10240)] (mem m) (mem m1) \<and> efiload_main gb fw fuel grow g0 m =
    (if n < 16 then None
     else case efiload_executeKernel gb fuel grow kernelPath (Some (kerOff, n)) cmdline m1 of
       None \<Rightarrow> None
     | Some (Some e, m2) \<Rightarrow> Some (map printed vs, Some 1, m2)
     | Some (None, m2) \<Rightarrow>
         (case leave gb m2 of None \<Rightarrow> None | Some m3 \<Rightarrow> map_option (\<lambda>m4. (map printed vs, None, m4)) (leave gb m3)))"
proof -
  obtain m1 where m1: "vars fw g m = Some (map printed vs, m1)" "same_regions [(cfgOff, 10240)] (mem m) (mem m1)"
    using vars_walk [OF assms(3,5,4,6-10)] by blast
  have "10 \<notin> set (decimal n)" using decimal_chars by blast
  then have "SplitN (load_bytes (mem m1) cfgOff 10240) 10 3 = [decimal n, cmdline, rest]"
    using m1(2) SplitN_config [OF _ assms(12)] by (simp add: same_regions_def assms(11))
  then have "efiload_main gb fw fuel grow g0 m =
    (if n < 16 then None
     else case efiload_executeKernel gb fuel grow kernelPath (Some (kerOff, n)) cmdline m1 of
       None \<Rightarrow> None
     | Some (Some e, m2) \<Rightarrow> Some (map printed vs, Some 1, m2)
     | Some (None, m2) \<Rightarrow>
         (case leave gb m2 of None \<Rightarrow> None | Some m3 \<Rightarrow> map_option (\<lambda>m4. (map printed vs, None, m4)) (leave gb m3)))"
    using assms(1,2) m1(1) Atoi_decimal [OF assms(13)]
    by (auto simp: efiload_main_def Let_def map_option_case split: option.split prod.split Option.bind_split)
  then show ?thesis using m1(2) by blast
qed

theorem efiload_main_boots_witness:
  "\<exists>m'. efiload_main demo_boot demo_var_firmware 1 id demo_var_pkg
      (demo_var_machine\<lparr>mem := store_bytes cfgOff (decimal 4096 @ [10] @ lit ''quiet'' @ [10] @ replicate 10229 0) (mem demo_var_machine)\<rparr>)
    = Some ([(lit ''Boot'', Some [7, 0, 9]), (lit ''x'', Some [])], None, m')"
proof -
  let ?cfg = "decimal 4096 @ [10] @ lit ''quiet'' @ [10] @ replicate 10229 0"
  let ?m = "demo_var_machine\<lparr>mem := store_bytes cfgOff ?cfg (mem demo_var_machine)\<rparr>"
  have "length (decimal 4096) = 4" by (simp add: decimal.simps [of 4096] decimal.simps [of 409] decimal.simps [of 40] decimal.simps [of 4])
  then have len: "length ?cfg = 10240" by (simp add: lit_def)
  with load_store_same [of ?cfg cfgOff "mem demo_var_machine"]
  have cfg: "load_bytes (mem ?m) cfgOff 10240 = ?cfg"
    by (simp only: machine.select_convs machine.update_convs machine.surjective) simp
  have h: "gb_Handles demo_boot = (77, 4096)" by (simp add: demo_boot_def)
  have g: "demo_var_pkg = uefi_Init 77 4096 demo_var_pkg" by (simp add: demo_var_pkg_def uefi_Init_def)
  have far: "load64 (store_bytes cfgOff ?cfg (mem demo_var_machine)) a = load64 (mem demo_var_machine) a"
    if "unat a + 8 \<le> 2 ^ 29" for a
    using that len by (intro load64_store_apart) (simp add: apart_sym [of a] apart_above cfgOff_def del: append_assoc)
  have "runtime_entries_at demo_var_pkg 8192 1 2 [(cfgOff, 10240)] (mem ?m) (mem ?m)"
    using far [of 4184] far [of 8264] far [of 8272]
    by (simp add: runtime_entries_at_def same_regions_def demo_var_pkg_def)
       (simp add: demo_var_machine_def mem_simps apart_def)
  moreover have "layout (place ?m) 11 64 (runtime_cells demo_var_pkg 8192 [(cfgOff, 10240)])"
    using demo_var_layout [of "runtime_cells demo_var_pkg 8192 [(cfgOff, 10240)]"]
    by (simp add: runtime_cells_def demo_var_pkg_def cfgOff_def)
  moreover have "objs ?m + 3 + 4 * length demo_vars \<le> 11" by (simp add: demo_vars_def demo_var_machine_def)
  ultimately obtain m1 where "efiload_main demo_boot demo_var_firmware 1 id demo_var_pkg ?m =
    (if (4096::nat) < 16 then None
     else case efiload_executeKernel demo_boot 1 id kernelPath (Some (kerOff, 4096)) (lit ''quiet'') m1 of
       None \<Rightarrow> None
     | Some (Some e, m2) \<Rightarrow> Some (map printed demo_vars, Some 1, m2)
     | Some (None, m2) \<Rightarrow>
         (case leave demo_boot m2 of None \<Rightarrow> None | Some m3 \<Rightarrow> map_option (\<lambda>m4. (map printed demo_vars, None, m4)) (leave demo_boot m3)))"
    using efiload_main_boots [OF h g demo_var_firmware_ok demo_vars_ok(1), of 8192 ?m 11 64 4096 "lit ''quiet''" "replicate 10229 0"]
      cfg demo_vars_ok(2) by (auto simp: lit_def)
  then show ?thesis
    by (simp add: demo_vars_ok(3) efiload_executeKernel_def demo_boot_def leave_def load_stringToUTF16Ptr_def new_slice_def Ptrval_def)
qed

end
