(* ===== verification/Uefi_Display.thy ===== *)
theory Uefi_Display
  imports Uefi_Enumerate Efi_Variables
begin

text \<open>
  The loops of \<^verbatim>\<open>pkg/uefi/graphics_output_protocol.go\<close> (\<^verbatim>\<open>Init\<close>, which looks for the mode with the
  most pixels), \<^verbatim>\<open>runtime.go\<close> (\<^verbatim>\<open>WaitForEvent\<close>) and \<^verbatim>\<open>simple_text_in.go\<close> (\<^verbatim>\<open>GetKey\<close>). The loops may
  run for ever when the firmware makes them; they are \<open>partial_function\<close>s, whose value is \<open>None\<close>
  then, as it is for a panic.
\<close>

section \<open>Definitions\<close>

subsection \<open>The highest mode\<close>

text \<open>
  \<open>info\<close> is the address of the variable \<^verbatim>\<open>info\<close>, \<open>hi\<close> that of \<^verbatim>\<open>highestModeInfo\<close>. Resolutions are 32-bit
  words and so is their product.
\<close>

partial_function (option) gop_scan :: "'w firmware \<Rightarrow> u64 \<Rightarrow> u64 \<Rightarrow> u64 \<Rightarrow> u32 \<Rightarrow> u32 \<Rightarrow> u32 \<Rightarrow> 'w machine
    \<Rightarrow> (u32 \<times> 'w machine) option" where
  "gop_scan fw p info hi i highestMode pixelMax m = do {
     mode \<leftarrow> go_field EFI_GRAPHICS_OUTPUT_PROTOCOL ''Mode'' p m;
     if mode = 0 then None
     else if i < load32 (mem m) mode then
       let (sz, m) = new_obj 8 m in do {
         (status, m) \<leftarrow> GOP_QueryMode fw p i sz info m;
         if status \<noteq> uefi_EFI_SUCCESS then gop_scan fw p info hi (i + 1) highestMode pixelMax m
         else let q = load64 (mem m) info in
         if q = 0 then None
         else let pixelCnt = load32 (mem m) (q + 4) * load32 (mem m) (q + 8) in
           if pixelCnt > pixelMax then
             gop_scan fw p info hi (i + 1) i pixelCnt (m\<lparr>mem := store_bytes hi (load_bytes (mem m) q 36) (mem m)\<rparr>)
           else gop_scan fw p info hi (i + 1) highestMode pixelMax m }
     else Some (highestMode, m) }"

definition GOP_Init :: "'w firmware \<Rightarrow> u64 \<Rightarrow> 'w machine \<Rightarrow> (u64 \<times> 'w machine) option" where
  "GOP_Init fw p m =
     (let (highestModeInfo, m) = new_obj 36 m;
          (new_info, m) = new_obj 36 m;
          (info, m) = new_uint64 new_info m
      in do {
        (highestMode, m) \<leftarrow> gop_scan fw p info highestModeInfo 0 0 0 m;
        (_, m) \<leftarrow> GOP_SetMode fw p highestMode m;
        Some (highestModeInfo, m) })"

subsection \<open>Waiting\<close>

partial_function (option) WaitForEvent :: "'w firmware \<Rightarrow> uefi_pkg \<Rightarrow> u64 \<Rightarrow> 'w machine \<Rightarrow> 'w machine option" where
  "WaitForEvent fw g event m = do {
     bs \<leftarrow> BS g m;
     (status, m) \<leftarrow> BS_CheckEvent fw bs event m;
     if status = uefi_EFI_SUCCESS then Some m else WaitForEvent fw g event m }"

text \<open>\<^verbatim>\<open>GetKey\<close> returns the 12 bytes of the key; both branches on the status return it.\<close>

definition GetKey :: "'w firmware \<Rightarrow> uefi_pkg \<Rightarrow> u64 \<Rightarrow> 'w machine \<Rightarrow> (u8 list \<times> 'w machine) option" where
  "GetKey fw g p m =
     (let (key, m) = new_obj 12 m in do {
        event \<leftarrow> go_field EFI_SIMPLE_TEXT_INPUT_EX_PROTOCOL ''WaitForKeyEx'' p m;
        m \<leftarrow> WaitForEvent fw g event m;
        (status, m) \<leftarrow> TextInEx_ReadKeyStroke fw p key m;
        if status \<noteq> uefi_EFI_SUCCESS then Some (load_bytes (mem m) key 12, m)
        else Some (load_bytes (mem m) key 12, m) })"

subsection \<open>The reference display\<close>

text \<open>A display: for each mode its resolution, or nothing when the firmware cannot describe it.\<close>

type_synonym display_modes = "(u32 \<times> u32) option list"

definition pixels :: "(u32 \<times> u32) option \<Rightarrow> u32" where
  "pixels x = (case x of None \<Rightarrow> 0 | Some (h, v) \<Rightarrow> h * v)"

text \<open>The first mode with the most pixels, the first of all when none has any.\<close>

definition first_largest :: "display_modes \<Rightarrow> nat \<Rightarrow> bool" where
  "first_largest ms k \<longleftrightarrow> list_all (\<lambda>x. pixels x \<le> (if k < length ms then pixels (ms ! k) else 0)) ms
     \<and> list_all (\<lambda>x. pixels x < pixels (ms ! k)) (take k ms)"

fun scan_modes :: "nat \<Rightarrow> nat \<Rightarrow> u32 \<Rightarrow> display_modes \<Rightarrow> nat \<times> u32" where
  "scan_modes i k best [] = (k, best)"
| "scan_modes i k best (x # xs) =
     (if best < pixels x then scan_modes (Suc i) i (pixels x) xs else scan_modes (Suc i) k best xs)"

text \<open>What the scan has found in the modes it has seen.\<close>

definition scan_inv :: "display_modes \<Rightarrow> nat \<times> u32 \<Rightarrow> bool" where
  "scan_inv ms r \<longleftrightarrow> (case r of (k, best) \<Rightarrow> first_largest ms k \<and> (k < length ms \<or> k = 0)
     \<and> best = (if k < length ms then pixels (ms ! k) else 0))"

text \<open>
  The display at address \<open>p\<close>: \<open>q i\<close> is the address of the description of mode \<open>i\<close>, \<open>cq\<close> the code of
  \<^verbatim>\<open>QueryMode\<close>, \<open>cs\<close> that of \<^verbatim>\<open>SetMode\<close>.
\<close>

definition display_at :: "u64 \<Rightarrow> u64 \<Rightarrow> u64 \<Rightarrow> u64 \<Rightarrow> (nat \<Rightarrow> u64) \<Rightarrow> display_modes \<Rightarrow> memory \<Rightarrow> bool" where
  "display_at p mode cq cs q ms f \<longleftrightarrow> p \<noteq> 0 \<and> mode \<noteq> 0 \<and> load64 f p = cq \<and> load64 f (p + 8) = cs
     \<and> load64 f (p + 24) = mode \<and> load32 f mode = of_nat (length ms) \<and> length ms < 2 ^ 32
     \<and> list_all (\<lambda>i. case ms ! i of None \<Rightarrow> True
         | Some (h, v) \<Rightarrow> q i \<noteq> 0 \<and> load32 f (q i + 4) = h \<and> load32 f (q i + 8) = v) [0..<length ms]"

definition display_regions :: "u64 \<Rightarrow> u64 \<Rightarrow> (nat \<Rightarrow> u64) \<Rightarrow> display_modes \<Rightarrow> (u64 \<times> nat) list" where
  "display_regions p mode q ms = [(p, 32), (mode, 4)] @ map (\<lambda>i. (q i, 36)) [0..<length ms]"

definition display_firmware :: "'w firmware \<Rightarrow> u64 \<Rightarrow> u64 \<Rightarrow> (nat \<Rightarrow> u64) \<Rightarrow> display_modes \<Rightarrow> bool" where
  "display_firmware fw p cq q ms \<longleftrightarrow> (\<forall>i<length ms. \<forall>sz info f w. fw cq [p, of_nat i, sz, info] f w =
     (case ms ! i of None \<Rightarrow> (uefi_EFI_UNSUPPORTED, f, w)
      | Some _ \<Rightarrow> (uefi_EFI_SUCCESS, store64 info (q i) (store64 sz 36 f), w)))"

text \<open>
  The state of the scan: objects \<open>a\<close> and \<open>b\<close> are \<^verbatim>\<open>info\<close> and \<^verbatim>\<open>highestModeInfo\<close>, \<open>f0\<close> is the memory
  before, \<open>(k, best)\<close> is what was found.
\<close>

definition scan_state :: "u64 \<Rightarrow> u64 \<Rightarrow> u64 \<Rightarrow> u64 \<Rightarrow> (nat \<Rightarrow> u64) \<Rightarrow> display_modes \<Rightarrow> nat \<Rightarrow> nat \<Rightarrow> memory \<Rightarrow> nat \<Rightarrow> nat
    \<Rightarrow> nat \<times> u32 \<Rightarrow> 'w machine \<Rightarrow> bool" where
  "scan_state p mode cq cs q ms L N f0 a b r m \<longleftrightarrow>
     display_at p mode cq cs q ms f0 \<and> same_regions (display_regions p mode q ms) f0 (mem m)
     \<and> layout (place m) L N (display_regions p mode q ms) \<and> 36 \<le> N \<and> N < 2 ^ 63
     \<and> a < objs m \<and> b < objs m \<and> a \<noteq> b \<and> objs m \<le> L
     \<and> load_bytes (mem m) (place m b) 36 = (case r of (k, best) \<Rightarrow> if best = 0 then replicate 36 0 else load_bytes f0 (q k) 36)"

text \<open>
  A firmware whose event at \<open>event\<close> is signalled after a number of polls: \<open>pending w\<close> polls are left in
  world \<open>w\<close>, and a poll changes nothing else.
\<close>

definition event_firmware :: "'w firmware \<Rightarrow> u64 \<Rightarrow> u64 \<Rightarrow> ('w \<Rightarrow> nat) \<Rightarrow> bool" where
  "event_firmware fw code event pending \<longleftrightarrow> (\<forall>f w. case fw code [event] f w of (st, f', w') \<Rightarrow>
     f' = f \<and> (if pending w = 0 then st = uefi_EFI_SUCCESS else st \<noteq> uefi_EFI_SUCCESS \<and> pending w' < pending w))"

text \<open>A display with three modes, the second of which the firmware cannot describe.\<close>

definition demo_modes :: display_modes where "demo_modes = [Some (640, 480), None, Some (1024, 768)]"

definition demo_mode_at :: "nat \<Rightarrow> u64" where "demo_mode_at i = of_nat (16384 + 64 * i)"

definition demo_display_firmware :: "unit firmware" where
  "demo_display_firmware code args f w =
     (case args of
        [p, i, sz, info] \<Rightarrow>
          if i = 0 \<or> i = 2 then (uefi_EFI_SUCCESS, store64 info (demo_mode_at (unat i)) (store64 sz 36 f), w)
          else (uefi_EFI_UNSUPPORTED, f, w)
      | _ \<Rightarrow> (uefi_EFI_SUCCESS, f, w))"

definition demo_display_memory :: memory where
  "demo_display_memory = store_bytes 4096 ([1, 0, 0, 0, 0, 0, 0, 0, 2] @ replicate 7 0) (store_bytes 4120 [0, 32] (store_bytes 8192 [3]
     (store_bytes 16388 [128, 2, 0, 0, 224, 1] (store_bytes 16516 [0, 4, 0, 0, 0, 3] (\<lambda>_. 0)))))"

definition demo_display_machine :: "unit machine" where
  "demo_display_machine = demo_var_machine\<lparr>mem := demo_display_memory\<rparr>"

section \<open>Lemmas\<close>

lemma pixels_zero_le: "0 \<le> pixels x"
  by (rule word_zero_le)

lemma scan_modes_inv: "scan_inv pre (k, best) \<Longrightarrow> scan_inv (pre @ xs) (scan_modes (length pre) k best xs)"
proof (induction xs arbitrary: pre k best)
  case (Cons x xs)
  have "scan_inv (pre @ [x]) (if best < pixels x then (length pre, pixels x) else (k, best))"
  proof (cases "best < pixels x")
    case True
    then show ?thesis using Cons.prems by (auto simp: scan_inv_def first_largest_def list_all_iff)
  next
    case False
    show ?thesis
    proof (cases "pre = []")
      case True
      then show ?thesis using Cons.prems False by (auto simp: scan_inv_def first_largest_def word_gt_0)
    next
      case ne: False
      then have "k < length pre" using Cons.prems by (auto simp: scan_inv_def)
      then show ?thesis using Cons.prems False by (auto simp: scan_inv_def first_largest_def nth_append not_less)
    qed
  qed
  then show ?case using Cons.IH [of "pre @ [x]"] by (simp split: if_splits)
qed simp

lemma load32_cong: "load_bytes f a 4 = load_bytes f' a' 4 \<Longrightarrow> load32 f a = load32 f' a'"
  by (simp add: load32_def)

lemma region_part:
  assumes "load_bytes f a n = load_bytes f' a n" "k + j \<le> n"
  shows "load_bytes f (a + of_nat k) j = load_bytes f' (a + of_nat k) j"
  using arg_cong [OF assms(1), of "\<lambda>bs. take j (drop k bs)"] assms(2) by (simp add: drop_load_bytes take_load_bytes)

text \<open>The display is described by its regions.\<close>

lemma display_at_same:
  assumes "display_at p mode cq cs q ms f" "same_regions (display_regions p mode q ms) f f'"
  shows "display_at p mode cq cs q ms f'"
proof -
  have same: "load_bytes f' a n = load_bytes f a n" if "(a, n) \<in> set (display_regions p mode q ms)" for a n
    using assms(2) that by (auto simp: same_regions_def list_all_iff)
  have p: "load_bytes f' p 32 = load_bytes f p 32" and mo: "load_bytes f' mode 4 = load_bytes f mode 4"
    by (rule same; simp add: display_regions_def)+
  have q: "load_bytes f' (q i) 36 = load_bytes f (q i) 36" if "i < length ms" for i
    by (rule same) (use that in \<open>simp add: display_regions_def\<close>)
  have w: "load64 f' p = load64 f p" "load64 f' (p + 8) = load64 f (p + 8)" "load64 f' (p + 24) = load64 f (p + 24)"
    using region_part [OF p, of 0 8] region_part [OF p, of 8 8] region_part [OF p, of 24 8] by (simp_all add: load64_def)
  have "load32 f' (q i + 4) = load32 f (q i + 4)" "load32 f' (q i + 8) = load32 f (q i + 8)" if "i < length ms" for i
    using region_part [OF q [OF that], of 4 4] region_part [OF q [OF that], of 8 4] by (simp_all add: load32_def)
  then show ?thesis using assms(1) w load32_cong [OF mo]
    by (auto simp: display_at_def list_all_iff split: option.splits)
qed

lemma of_nat_less_u32: "i < 2 ^ 32 \<Longrightarrow> n < 2 ^ 32 \<Longrightarrow> (of_nat i :: u32) < of_nat n \<longleftrightarrow> i < n"
  by (simp add: word_less_nat_alt unat_of_nat)

lemma ucast_of_nat_u32: "i < 2 ^ 32 \<Longrightarrow> (ucast (of_nat i :: u32) :: u64) = of_nat i"
proof -
  assume "i < 2 ^ 32"
  then have "unat (of_nat i :: u32) = i" by (simp add: unat_of_nat)
  then have "of_nat (unat (of_nat i :: u32)) = (of_nat i :: u64)" by simp
  then show ?thesis by simp
qed

lemma query_run:
  assumes "display_firmware fw p cq q ms" "display_at p mode cq cs q ms (mem m)" "i < length ms"
  shows "GOP_QueryMode fw p (of_nat i) sz info m = Some (case ms ! i of
      None \<Rightarrow> (uefi_EFI_UNSUPPORTED, m\<lparr>calls := calls m @ [Direct cq [p, of_nat i, sz, info]]\<rparr>)
    | Some _ \<Rightarrow> (uefi_EFI_SUCCESS, m\<lparr>mem := store64 info (q i) (store64 sz 36 (mem m)),
        calls := calls m @ [Direct cq [p, of_nat i, sz, info]]\<rparr>))"
proof -
  have "i < 2 ^ 32" "p \<noteq> 0" "load64 (mem m) p = cq" using assms(2,3) by (auto simp: display_at_def)
  then show ?thesis
    using query_mode.method_run [of "(p, of_nat i, sz, info)" fw m] assms(1,3)
    by (simp add: ucast_of_nat_u32 uefi_direct_def display_firmware_def split: option.split)
qed

lemma gop_scan_done:
  assumes "display_at p mode cq cs q ms (mem m)" "length ms \<le> i" "i < 2 ^ 32"
  shows "gop_scan fw p info hi (of_nat i) k best m = Some (k, m)"
proof -
  have "go_offset EFI_GRAPHICS_OUTPUT_PROTOCOL ''Mode'' = Some 24" by code_simp
  moreover have "\<not> (of_nat i :: u32) < of_nat (length ms)"
    using of_nat_less_u32 [of i "length ms"] assms by (simp add: display_at_def)
  ultimately show ?thesis using assms(1)
    by (subst gop_scan.simps) (simp add: go_field_def display_at_def)
qed

lemma scan_store:
  assumes "scan_state p mode cq cs q ms L N f0 a b r m" "j < L" "j \<noteq> b" "length bs \<le> N"
    and "mem m' = store_bytes (place m j) bs (mem m)" "place m' = place m" "objs m \<le> objs m'" "objs m' \<le> L"
  shows "scan_state p mode cq cs q ms L N f0 a b r m'"
proof -
  note w = assms(1) [unfolded scan_state_def]
  have lay: "layout (place m) L N (display_regions p mode q ms)" using w by blast
  have "load_bytes (mem m') (place m b) 36 = load_bytes (mem m) (place m b) 36"
    unfolding assms(5) using w assms(2-4) by (intro store_other_object [OF lay]) auto
  moreover have "same_regions (display_regions p mode q ms) f0 (mem m')"
    unfolding assms(5) using w assms(2,4) by (intro same_regions_store [OF lay]) auto
  ultimately show ?thesis using w assms(6-8) by (auto simp: scan_state_def)
qed

lemma scan_display: "scan_state p mode cq cs q ms L N f0 a b r m \<Longrightarrow> display_at p mode cq cs q ms (mem m)"
  using display_at_same by (auto simp: scan_state_def)

lemma display_mode: "display_at p mode cq cs q ms f \<Longrightarrow> i < length ms \<Longrightarrow> ms ! i = Some (h, v)
    \<Longrightarrow> q i \<noteq> 0 \<and> load32 f (q i + 4) = h \<and> load32 f (q i + 8) = v"
  by (auto simp: display_at_def list_all_iff dest!: bspec [of _ _ i])

text \<open>The memory after a description was found, and after it was copied.\<close>

lemma scan_found:
  assumes "scan_state p mode cq cs q ms L N f0 a b (k, best) m" "objs m < L" "m1 = snd (new_obj 8 m)"
    and "mem m2 = store64 (place m a) (q i) (store64 (place m (objs m)) 36 (mem m1))" "place m2 = place m" "objs m2 = Suc (objs m)"
  shows "scan_state p mode cq cs q ms L N f0 a b (k, best) m2"
proof -
  note w = assms(1) [unfolded scan_state_def]
  have ab: "a < L" "a \<noteq> b" "objs m \<noteq> b" "8 \<le> N" using w by auto
  have m1: "mem m1 = store_bytes (place m (objs m)) (replicate 8 0) (mem m)" "place m1 = place m" "objs m1 = Suc (objs m)"
    by (simp_all add: assms(3) new_obj_def zero_fill_store)
  have "scan_state p mode cq cs q ms L N f0 a b (k, best) m1"
    by (rule scan_store [OF assms(1,2) ab(3) _ m1(1,2)]) (use ab(4) m1 assms(2) in auto)
  then have "scan_state p mode cq cs q ms L N f0 a b (k, best) (m1\<lparr>mem := store64 (place m (objs m)) 36 (mem m1)\<rparr>)"
    by (rule scan_store [OF _ assms(2) ab(3), where bs = "le_bytes 8 36"]) (use ab(4) m1 assms(2) in \<open>auto simp: store64_def\<close>)
  then show ?thesis
    by (rule scan_store [OF _ ab(1,2), where bs = "le_bytes 8 (unat (q i))"]) (use ab(4) m1 assms in \<open>auto simp: store64_def\<close>)
qed

lemma scan_copy:
  assumes "scan_state p mode cq cs q ms L N f0 a b r m" "i < length ms" "c \<noteq> 0"
  shows "scan_state p mode cq cs q ms L N f0 a b (i, c) (m\<lparr>mem := store_bytes (place m b) (load_bytes (mem m) (q i) 36) (mem m)\<rparr>)"
proof -
  note w = assms(1) [unfolded scan_state_def]
  let ?R = "display_regions p mode q ms"
  have "same_regions ?R f0 (store_bytes (place m b) (load_bytes (mem m) (q i) 36) (mem m))"
    using w by (intro same_regions_store [where L = L and N = N]) auto
  moreover have "load_bytes (mem m) (q i) 36 = load_bytes f0 (q i) 36"
    using w assms(2) by (auto simp: same_regions_def list_all_iff display_regions_def)
  then have "load_bytes (store_bytes (place m b) (load_bytes (mem m) (q i) 36) (mem m)) (place m b) 36 = load_bytes f0 (q i) 36"
    using load_store_same [of "load_bytes (mem m) (q i) 36" "place m b"] by simp
  ultimately show ?thesis using w assms(3) by (simp add: scan_state_def)
qed

lemma gop_scan_step:
  assumes "scan_state p mode cq cs q ms L N f0 a b (k, best) m" "display_firmware fw p cq q ms" "i < length ms" "objs m < L"
  shows "\<exists>m'. gop_scan fw p (place m a) (place m b) (of_nat i) (of_nat k) best m =
      (case (if best < pixels (ms ! i) then (i, pixels (ms ! i)) else (k, best)) of
         (k', best') \<Rightarrow> gop_scan fw p (place m a) (place m b) (of_nat (Suc i)) (of_nat k') best' m')
    \<and> place m' = place m \<and> objs m' = Suc (objs m)
    \<and> scan_state p mode cq cs q ms L N f0 a b (if best < pixels (ms ! i) then (i, pixels (ms ! i)) else (k, best)) m'"
proof -
  define m1 where "m1 = snd (new_obj 8 m)"
  have m1: "new_obj 8 m = (place m (objs m), m1)" "place m1 = place m" "objs m1 = Suc (objs m)"
    by (simp_all add: m1_def new_obj_def)
  note d = scan_display [OF assms(1)]
  have s1: "scan_state p mode cq cs q ms L N f0 a b (k, best) m1"
    by (rule scan_store [OF assms(1,4), where bs = "replicate 8 0"])
       (use assms(1,4) in \<open>auto simp: scan_state_def m1_def new_obj_def zero_fill_store\<close>)
  have off: "go_offset EFI_GRAPHICS_OUTPUT_PROTOCOL ''Mode'' = Some 24" by code_simp
  have lt: "(of_nat i :: u32) < of_nat (length ms)" using assms(3) d by (simp add: of_nat_less_u32 display_at_def)
  show ?thesis
  proof (cases "ms ! i")
    case None
    let ?m' = "m1\<lparr>calls := calls m1 @ [Direct cq [p, of_nat i, place m (objs m), place m a]]\<rparr>"
    have "GOP_QueryMode fw p (of_nat i) (place m (objs m)) (place m a) m1 = Some (uefi_EFI_UNSUPPORTED, ?m')"
      using query_run [OF assms(2) scan_display [OF s1] assms(3)] None by simp
    moreover have "uefi_EFI_UNSUPPORTED \<noteq> uefi_EFI_SUCCESS" by code_simp
    ultimately have "gop_scan fw p (place m a) (place m b) (of_nat i) (of_nat k) best m
        = gop_scan fw p (place m a) (place m b) (of_nat (Suc i)) (of_nat k) best ?m'"
      using d off lt m1(1) by (subst gop_scan.simps) (simp add: go_field_def display_at_def add.commute)
    moreover have "\<not> best < pixels (ms ! i)" using None by (simp add: pixels_def)
    moreover have "scan_state p mode cq cs q ms L N f0 a b (k, best) ?m'" using s1 by (simp add: scan_state_def)
    ultimately show ?thesis using m1 by (intro exI [of _ ?m']) simp
  next
    case (Some hv)
    obtain h v where hv: "hv = (h, v)" by fastforce
    let ?f = "store64 (place m a) (q i) (store64 (place m (objs m)) 36 (mem m1))"
    let ?m2 = "m1\<lparr>mem := ?f, calls := calls m1 @ [Direct cq [p, of_nat i, place m (objs m), place m a]]\<rparr>"
    have s2: "scan_state p mode cq cs q ms L N f0 a b (k, best) ?m2"
      by (rule scan_found [OF assms(1,4) m1_def]) (use m1 in auto)
    have "GOP_QueryMode fw p (of_nat i) (place m (objs m)) (place m a) m1 = Some (uefi_EFI_SUCCESS, ?m2)"
      using query_run [OF assms(2) scan_display [OF s1] assms(3)] Some by simp
    moreover have "q i \<noteq> 0 \<and> load32 ?f (q i + 4) = h \<and> load32 ?f (q i + 8) = v"
      using display_mode [OF scan_display [OF s2] assms(3)] Some hv by simp
    moreover have "pixels (ms ! i) = h * v" using Some hv by (simp add: pixels_def)
    ultimately have "gop_scan fw p (place m a) (place m b) (of_nat i) (of_nat k) best m
        = (if best < pixels (ms ! i)
           then gop_scan fw p (place m a) (place m b) (of_nat (Suc i)) (of_nat i) (pixels (ms ! i))
             (?m2\<lparr>mem := store_bytes (place ?m2 b) (load_bytes (mem ?m2) (q i) 36) (mem ?m2)\<rparr>)
           else gop_scan fw p (place m a) (place m b) (of_nat (Suc i)) (of_nat k) best ?m2)"
      using d off lt m1 by (subst gop_scan.simps) (simp add: go_field_def display_at_def add.commute load64_store64 Let_def)
    moreover have "pixels (ms ! i) \<noteq> 0" if "best < pixels (ms ! i)" using that by (auto simp: word_gt_0)
    ultimately show ?thesis using s2 scan_copy [OF s2 assms(3)] m1
      by (cases "best < pixels (ms ! i)") (auto split: if_splits)
  qed
qed

lemma gop_scan_modes:
  assumes "scan_state p mode cq cs q ms L N f0 a b (k, best) m" "display_firmware fw p cq q ms"
    and "objs m + length xs \<le> L" "drop i ms = xs" "i \<le> length ms" "scan_modes i k best xs = r"
  shows "\<exists>m'. gop_scan fw p (place m a) (place m b) (of_nat i) (of_nat k) best m = Some (of_nat (fst r), m')
    \<and> place m' = place m \<and> scan_state p mode cq cs q ms L N f0 a b r m'"
  using assms
proof (induction xs arbitrary: i k best m)
  case Nil
  then have "length ms \<le> i" "i < 2 ^ 32" using scan_display [OF Nil.prems(1)] by (auto simp: display_at_def)
  then show ?case using gop_scan_done [OF scan_display [OF Nil.prems(1)], of i] Nil.prems by auto
next
  case (Cons x xs)
  then have i: "i < length ms" "ms ! i = x" "drop (Suc i) ms = xs"
    by (metis drop_all list.distinct(1) not_le, metis hd_drop_conv_nth drop_all list.distinct(1) list.sel(1) not_le,
        metis drop_Suc tl_drop list.sel(3))
  obtain k' best' where r': "(if best < pixels (ms ! i) then (i, pixels (ms ! i)) else (k, best)) = (k', best')" by fastforce
  have "objs m < L" using Cons.prems(3) by simp
  from gop_scan_step [OF Cons.prems(1,2) i(1) this, unfolded r'] obtain m1 where
    m1: "gop_scan fw p (place m a) (place m b) (of_nat i) (of_nat k) best m
        = gop_scan fw p (place m a) (place m b) (of_nat (Suc i)) (of_nat k') best' m1"
      "place m1 = place m" "objs m1 = Suc (objs m)" "scan_state p mode cq cs q ms L N f0 a b (k', best') m1" by auto
  have "scan_modes (Suc i) k' best' xs = r" using r' Cons.prems(6) i(2) by (auto split: if_splits)
  with Cons.IH [OF m1(4) Cons.prems(2) _ i(3)] Cons.prems(3) i(1) m1 show ?case by auto
qed

text \<open>The state in which the scan starts.\<close>

lemma scan_start:
  assumes "display_at p mode cq cs q ms (mem m)" "layout (place m) L N (display_regions p mode q ms)"
    and "objs m + 3 \<le> L" "36 \<le> N" "N < 2 ^ 63"
  shows "\<exists>m'. GOP_Init fw p m = do {
      (k, x) \<leftarrow> gop_scan fw p (place m' (Suc (Suc (objs m)))) (place m' (objs m)) 0 0 0 m';
      (_, m'') \<leftarrow> GOP_SetMode fw p k x;
      Some (place m' (objs m), m'') }
    \<and> place m' = place m \<and> objs m' = objs m + 3
    \<and> scan_state p mode cq cs q ms L N (mem m) (Suc (Suc (objs m))) (objs m) (0, 0) m'"
proof -
  let ?o = "objs m" and ?p = "place m"
  define f where "f = store_bytes (?p (Suc (Suc ?o))) (le_bytes 8 (unat (?p (Suc ?o))))
    (store_bytes (?p (Suc ?o)) (replicate 36 0) (store_bytes (?p ?o) (replicate 36 0) (mem m)))"
  define m' where "m' = m\<lparr>objs := Suc (Suc (Suc (objs m))), mem := f\<rparr>"
  have L: "?o < L" "Suc ?o < L" "Suc (Suc ?o) < L" using assms(3) by simp_all
  have "same_regions (display_regions p mode q ms) (mem m) (mem m)"
    by (auto simp: same_regions_def list_all_iff display_regions_def)
  then have "same_regions (display_regions p mode q ms) (mem m) f"
    unfolding f_def by (intro same_regions_store [OF assms(2)]) (use L assms(4) in \<open>auto simp del: le_bytes.simps\<close>)
  moreover have "load_bytes f (?p ?o) 36 = replicate 36 0"
    using store_other_object [OF assms(2) L(1,3), of 36 "le_bytes 8 (unat (?p (Suc ?o)))"]
      store_other_object [OF assms(2) L(1,2), of 36 "replicate 36 0"]
      load_store_same [of "replicate 36 0" "?p ?o"] assms(4,5) by (simp add: f_def del: le_bytes.simps)
  ultimately have "scan_state p mode cq cs q ms L N (mem m) (Suc (Suc ?o)) ?o (0, 0) m'"
    using assms by (simp add: scan_state_def m'_def)
  moreover have "GOP_Init fw p m = do {
      (k, x) \<leftarrow> gop_scan fw p (place m' (Suc (Suc ?o))) (place m' ?o) 0 0 0 m';
      (_, m'') \<leftarrow> GOP_SetMode fw p k x;
      Some (place m' ?o, m'') }"
    by (simp add: GOP_Init_def new_obj_def new_uint64_def new_slice_def zero_fill_store m'_def f_def del: le_bytes.simps)
  moreover have "place m' = place m" "objs m' = objs m + 3" by (simp_all add: m'_def)
  ultimately show ?thesis by blast
qed

subsection \<open>Waiting\<close>

lemma WaitForEvent_polls:
  assumes "event_firmware fw code event pending" "BS g m = Some bs" "bs \<noteq> 0" "load64 (mem m) (bs + 0x78) = code"
  shows "\<exists>m'. WaitForEvent fw g event m = Some m' \<and> mem m' = mem m \<and> place m' = place m \<and> objs m' = objs m
    \<and> (\<exists>n \<le> pending (world m). calls m' = calls m @ replicate (Suc n) (Direct code [event]))"
  using assms(2-)
proof (induction "pending (world m)" arbitrary: m rule: less_induct)
  case less
  obtain st f w where r: "fw code [event] (mem m) (world m) = (st, f, w)" by (metis prod_cases3)
  have ev: "case fw code [event] (mem m) (world m) of (st, f', w') \<Rightarrow> f' = mem m
      \<and> (if pending (world m) = 0 then st = uefi_EFI_SUCCESS else st \<noteq> uefi_EFI_SUCCESS \<and> pending w' < pending (world m))"
    by (rule assms(1) [unfolded event_firmware_def, THEN spec, THEN spec])
  then have fw: "f = mem m" "if pending (world m) = 0 then st = uefi_EFI_SUCCESS else st \<noteq> uefi_EFI_SUCCESS \<and> pending w < pending (world m)"
    by (simp_all add: r)
  let ?m = "m\<lparr>mem := f, world := w, calls := calls m @ [Direct code [event]]\<rparr>"
  have run: "BS_CheckEvent fw bs event m = Some (st, ?m)"
    using check_event.method_run [of "(bs, event)" fw m] less.prems r by (simp add: uefi_direct_def)
  show ?case
  proof (cases "pending (world m) = 0")
    case True
    then have "WaitForEvent fw g event m = Some ?m"
      using fw less.prems(1) run by (subst WaitForEvent.simps) simp
    then show ?thesis using fw True by (intro exI [of _ ?m]) auto
  next
    case False
    have "BS g ?m = Some bs" using less.prems(1) fw(1)
      by (cases "go_offset EFI_SYSTEM_TABLE ''BootServices''") (simp_all add: BS_def go_field_def field_def split: if_splits)
    with less.hyps [of ?m] False fw less.prems obtain m' n where
      m': "WaitForEvent fw g event ?m = Some m'" "mem m' = mem m" "place m' = place m" "objs m' = objs m"
        "n \<le> pending w" "calls m' = calls ?m @ replicate (Suc n) (Direct code [event])" by auto
    have "WaitForEvent fw g event m = WaitForEvent fw g event ?m"
      using False fw less.prems(1) run by (subst WaitForEvent.simps) simp
    moreover have "calls m' = calls m @ replicate (Suc (Suc n)) (Direct code [event])" using m'(6) by simp
    moreover have "Suc n \<le> pending (world m)" using m'(5) fw(2) False by simp
    ultimately show ?thesis using m'(1-4) by (intro exI [of _ m'] conjI exI [of _ "Suc n"]) simp_all
  qed
qed

subsection \<open>The example\<close>

lemma demo_display_firmware_ok: "display_firmware demo_display_firmware 4096 1 demo_mode_at demo_modes"
  by (auto simp: display_firmware_def demo_display_firmware_def demo_modes_def less_Suc_eq)
     (simp add: numeral_2_eq_2 [symmetric])

lemma demo_display_words:
  "load64 demo_display_memory 4096 = 1" "load64 demo_display_memory 4104 = 2" "load64 demo_display_memory 4120 = 8192"
  "load32 demo_display_memory 8192 = 3" "load32 demo_display_memory 16388 = 640" "load32 demo_display_memory 16392 = 480"
  "load32 demo_display_memory 16516 = 1024" "load32 demo_display_memory 16520 = 768"
  by (simp_all add: demo_display_memory_def load32_def load64_def store64_def load_bytes_def upt_rec store_bytes_def nth_Cons')

lemma demo_display_at: "display_at 4096 8192 1 2 demo_mode_at demo_modes (mem demo_display_machine)"
  by (simp add: display_at_def demo_display_machine_def demo_display_words demo_modes_def demo_mode_at_def upt_rec)

lemma demo_display_layout: "layout (place demo_display_machine) 11 64 (display_regions 4096 8192 demo_mode_at demo_modes)"
proof -
  have "list_all (\<lambda>(a, n). (unat a + n \<le> 1048576 \<or> 1049344 \<le> unat a \<and> unat a + n \<le> 2 ^ 63) \<and> 0 < n)
      (display_regions 4096 8192 demo_mode_at demo_modes)"
    by (simp add: display_regions_def demo_modes_def demo_mode_at_def upt_rec)
  from demo_var_layout [OF this] show ?thesis by (simp add: demo_display_machine_def)
qed

lemmas demo_display_ok = demo_display_firmware_ok demo_display_at demo_display_layout

section \<open>Properties\<close>

text \<open>
  Claim C16: \<^verbatim>\<open>Init\<close> of the graphics protocol asks for every mode, skips those the firmware cannot describe, and
  then sets the first one with the most pixels, the product of the resolutions as a 32-bit word; with
  no mode at all it sets mode 0. It returns the address of a copy of the description of that mode,
  zeros when no mode has a pixel. The loop ends.
\<close>

theorem GOP_Init_largest:
  assumes "display_firmware fw p cq q ms" "display_at p mode cq cs q ms (mem m)"
    and "layout (place m) L N (display_regions p mode q ms)" "objs m + 3 + length ms \<le> L" "36 \<le> N" "N < 2 ^ 63"
  shows "\<exists>k m1 st m2. GOP_Init fw p m = Some (place m (objs m), m2) \<and> first_largest ms k \<and> (k < length ms \<or> k = 0)
    \<and> uefi_direct fw cs [p, of_nat k] m1 = (st, m2)
    \<and> load_bytes (mem m1) (place m (objs m)) 36
      = (if k < length ms \<and> pixels (ms ! k) \<noteq> 0 then load_bytes (mem m) (q k) 36 else replicate 36 0)"
proof -
  obtain k best where r: "scan_modes 0 0 0 ms = (k, best)" by fastforce
  have "scan_inv [] (0, 0)" by (simp add: scan_inv_def first_largest_def)
  from scan_modes_inv [OF this, of ms] have k: "first_largest ms k" "k < length ms \<or> k = 0"
      "best = (if k < length ms then pixels (ms ! k) else 0)" by (simp_all add: r scan_inv_def)
  obtain m0 where m0: "GOP_Init fw p m = do {
      (k, x) \<leftarrow> gop_scan fw p (place m0 (Suc (Suc (objs m)))) (place m0 (objs m)) 0 0 0 m0;
      (_, m'') \<leftarrow> GOP_SetMode fw p k x;
      Some (place m0 (objs m), m'') }"
      "place m0 = place m" "objs m0 = objs m + 3"
      "scan_state p mode cq cs q ms L N (mem m) (Suc (Suc (objs m))) (objs m) (0, 0) m0"
    using scan_start [OF assms(2,3) _ assms(5,6)] assms(4) by fastforce
  from gop_scan_modes [OF m0(4) assms(1), of ms 0] assms(4) m0(3) r obtain m1 where
    m1: "gop_scan fw p (place m0 (Suc (Suc (objs m)))) (place m0 (objs m)) 0 0 0 m0 = Some (of_nat k, m1)"
      "place m1 = place m0" "scan_state p mode cq cs q ms L N (mem m) (Suc (Suc (objs m))) (objs m) (k, best) m1" by auto
  have "p \<noteq> 0" "load64 (mem m1) (p + 8) = cs" "length ms < 2 ^ 32"
    using scan_display [OF m1(3)] by (simp_all add: display_at_def)
  then have set_mode: "GOP_SetMode fw p (of_nat k) m1 = Some (uefi_direct fw cs [p, of_nat k] m1)"
    using gop_set_mode.method_run [of "(p, of_nat k)" fw m1] k(2) by (auto simp: ucast_of_nat_u32)
  obtain st m2 where m2: "uefi_direct fw cs [p, of_nat k] m1 = (st, m2)" by fastforce
  have "GOP_Init fw p m = Some (place m (objs m), m2)" using m0(1,2) m1(1) set_mode m2 by simp
  moreover have "load_bytes (mem m1) (place m (objs m)) 36
      = (if k < length ms \<and> pixels (ms ! k) \<noteq> 0 then load_bytes (mem m) (q k) 36 else replicate 36 0)"
    using m1(3) k(3) by (simp add: scan_state_def m1(2) m0(2))
  ultimately show ?thesis using k m2 by blast
qed

theorem GOP_Init_largest_witness:
  "\<exists>k m1 st m2. GOP_Init demo_display_firmware 4096 demo_display_machine = Some (place demo_display_machine 0, m2)
    \<and> first_largest demo_modes k \<and> (k < length demo_modes \<or> k = 0)
    \<and> uefi_direct demo_display_firmware 2 [4096, of_nat k] m1 = (st, m2)
    \<and> load_bytes (mem m1) (place demo_display_machine 0) 36
      = (if k < length demo_modes \<and> pixels (demo_modes ! k) \<noteq> 0
         then load_bytes (mem demo_display_machine) (demo_mode_at k) 36 else replicate 36 0)"
proof -
  have "objs demo_display_machine = 0" "length demo_modes = 3"
    by (simp_all add: demo_display_machine_def demo_var_machine_def demo_modes_def)
  then show ?thesis using GOP_Init_largest [OF demo_display_ok] by simp
qed

text \<open>
  \<^verbatim>\<open>GetKey\<close> returns once the event of the keyboard is signalled, after any number of polls: it then reads one key
  stroke into the zeroed key and returns these 12 bytes, whatever the status of that call.
\<close>

theorem GetKey_waits:
  assumes "event_firmware fw code event pending" "BS g (snd (new_obj 12 m)) = Some bs" "bs \<noteq> 0"
    and "load64 (mem (snd (new_obj 12 m))) (bs + 0x78) = code" "p \<noteq> 0"
    and "go_field EFI_SIMPLE_TEXT_INPUT_EX_PROTOCOL ''WaitForKeyEx'' p (snd (new_obj 12 m)) = Some event"
  shows "\<exists>m1 st m2. GetKey fw g p m = Some (load_bytes (mem m2) (place m (objs m)) 12, m2)
    \<and> mem m1 = zero_fill (place m (objs m)) 12 (mem m)
    \<and> uefi_direct fw (load64 (mem m1) (p + 8)) [p, place m (objs m)] m1 = (st, m2)"
proof -
  obtain m1 where m1: "WaitForEvent fw g event (snd (new_obj 12 m)) = Some m1" "mem m1 = mem (snd (new_obj 12 m))"
    using WaitForEvent_polls [OF assms(1-4)] by blast
  obtain st m2 where m2: "uefi_direct fw (load64 (mem m1) (p + 8)) [p, place m (objs m)] m1 = (st, m2)" by fastforce
  have "TextInEx_ReadKeyStroke fw p (place m (objs m)) m1 = Some (st, m2)"
    using read_key.method_run [of "(p, place m (objs m))" fw m1] assms(5) m2 by simp
  then have "GetKey fw g p m = Some (load_bytes (mem m2) (place m (objs m)) 12, m2)"
    using m1(1) assms(6) by (simp add: GetKey_def new_obj_def)
  then show ?thesis using m1(2) m2 by (auto simp: new_obj_def)
qed

end
