(* ===== verification/Uefi_Constants.thy ===== *)
theory Uefi_Constants
  imports Services Memory_Map Boot_Services Uefi_Status Uefi_Spec
begin

text \<open>
  The enumerations both UEFI packages declare: status codes (\<^verbatim>\<open>ueficore/error.go\<close>,
  \<^verbatim>\<open>uefi/efistatus.go\<close>), memory, allocation and reset types (\<^verbatim>\<open>ueficore/pages.go\<close>,
  \<^verbatim>\<open>ueficore/reset.go\<close>, \<^verbatim>\<open>uefi/uefi_spec.go\<close>), and the revisions of the tables
  (\<^verbatim>\<open>uefi/uefi_spec.go\<close>). A constant block that counts with \<^verbatim>\<open>iota\<close> is the list of its names.
\<close>

section \<open>Definitions\<close>

text \<open>The value of a name in a block that counts with \<^verbatim>\<open>iota\<close> from 0.\<close>

fun iota :: "string list \<Rightarrow> string \<Rightarrow> nat option" where
  "iota [] x = None"
| "iota (n # ns) x = (if n = x then Some 0 else map_option Suc (iota ns x))"

definition core_status_names :: "string list" where
  "core_status_names =
    [''EFI_SUCCESS'', ''EFI_LOAD_ERROR'', ''EFI_INVALID_PARAMETER'', ''EFI_UNSUPPORTED'', ''EFI_BAD_BUFFER_SIZE'',
     ''EFI_BUFFER_TOO_SMALL'', ''EFI_NOT_READY'', ''EFI_DEVICE_ERROR'', ''EFI_WRITE_PROTECTED'',
     ''EFI_OUT_OF_RESOURCES'', ''EFI_VOLUME_CORRUPTED'', ''EFI_VOLUME_FULL'', ''EFI_NO_MEDIA'',
     ''EFI_MEDIA_CHANGED'', ''EFI_NOT_FOUND'', ''EFI_ACCESS_DENIED'', ''EFI_NO_RESPONSE'', ''EFI_NO_MAPPING'',
     ''EFI_TIMEOUT'', ''EFI_NOT_STARTED'', ''EFI_ALREADY_STARTED'', ''EFI_ABORTED'', ''EFI_ICMP_ERROR'',
     ''EFI_TFTP_ERROR'', ''EFI_PROTOCOL_ERROR'', ''EFI_INCOMPATIBLE_VERSION'', ''EFI_SECURITY_VIOLATION'',
     ''EFI_CRC_ERROR'', ''EFI_END_OF_MEDIA'', ''EFI_END_OF_FILE'', ''EFI_INVALID_LANGUAGE'',
     ''EFI_COMPROMISED_DATA'', ''EFI_IP_ADDRESS_CONFLICT'', ''EFI_HTTP_ERROR'']"

definition uefi_status_codes :: "(string \<times> u64) list" where
  "uefi_status_codes =
    [(''EFI_SUCCESS'', uefi_EFI_SUCCESS), (''EFI_LOAD_ERROR'', uefi_EFI_LOAD_ERROR),
     (''EFI_INVALID_PARAMETER'', uefi_EFI_INVALID_PARAMETER), (''EFI_UNSUPPORTED'', uefi_EFI_UNSUPPORTED),
     (''EFI_BAD_BUFFER_SIZE'', uefi_EFI_BAD_BUFFER_SIZE), (''EFI_BUFFER_TOO_SMALL'', uefi_EFI_BUFFER_TOO_SMALL),
     (''EFI_NOT_READY'', uefi_EFI_NOT_READY), (''EFI_DEVICE_ERROR'', uefi_EFI_DEVICE_ERROR),
     (''EFI_WRITE_PROTECTED'', uefi_EFI_WRITE_PROTECTED), (''EFI_OUT_OF_RESOURCES'', uefi_EFI_OUT_OF_RESOURCES),
     (''EFI_VOLUME_CORRUPTED'', uefi_EFI_VOLUME_CORRUPTED), (''EFI_VOLUME_FULL'', uefi_EFI_VOLUME_FULL),
     (''EFI_NO_MEDIA'', uefi_EFI_NO_MEDIA), (''EFI_MEDIA_CHANGED'', uefi_EFI_MEDIA_CHANGED),
     (''EFI_NOT_FOUND'', uefi_EFI_NOT_FOUND), (''EFI_ACCESS_DENIED'', uefi_EFI_ACCESS_DENIED),
     (''EFI_NO_RESPONSE'', uefi_EFI_NO_RESPONSE), (''EFI_NO_MAPPING'', uefi_EFI_NO_MAPPING),
     (''EFI_TIMEOUT'', uefi_EFI_TIMEOUT), (''EFI_NOT_STARTED'', uefi_EFI_NOT_STARTED),
     (''EFI_ALREADY_STARTED'', uefi_EFI_ALREADY_STARTED), (''EFI_ABORTED'', uefi_EFI_ABORTED),
     (''EFI_ICMP_ERROR'', uefi_EFI_ICMP_ERROR), (''EFI_TFTP_ERROR'', uefi_EFI_TFTP_ERROR),
     (''EFI_PROTOCOL_ERROR'', uefi_EFI_PROTOCOL_ERROR),
     (''EFI_INCOMPATIBLE_VERSION'', uefi_EFI_INCOMPATIBLE_VERSION),
     (''EFI_SECURITY_VIOLATION'', uefi_EFI_SECURITY_VIOLATION), (''EFI_CRC_ERROR'', uefi_EFI_CRC_ERROR),
     (''EFI_END_OF_MEDIA'', uefi_EFI_END_OF_MEDIA), (''EFI_END_OF_FILE'', uefi_EFI_END_OF_FILE),
     (''EFI_INVALID_LANGUAGE'', uefi_EFI_INVALID_LANGUAGE), (''EFI_COMPROMISED_DATA'', uefi_EFI_COMPROMISED_DATA),
     (''EFI_IP_ADDRESS_CONFLICT'', uefi_EFI_IP_ADDRESS_CONFLICT), (''EFI_HTTP_ERROR'', uefi_EFI_HTTP_ERROR)]"

definition core_memory_types :: "string list" where
  "core_memory_types =
    [''EfiReservedMemoryType'', ''EfiLoaderCode'', ''EfiLoaderData'', ''EfiBootServicesCode'',
     ''EfiBootServicesData'', ''EfiRuntimeServicesCode'', ''EfiRuntimeServicesData'', ''EfiConventionalMemory'',
     ''EfiUnusableMemory'', ''EfiACPIReclaimMemory'', ''EfiACPIMemoryNVS'', ''EfiMemoryMappedIO'',
     ''EfiMemoryMappedIOPortSpace'', ''EfiPalCode'', ''EfiPersistentMemory'', ''EfiUnacceptedMemoryType'',
     ''EfiMaxMemoryType'']"

definition uefi_memory_types :: "string list" where
  "uefi_memory_types =
    [''EfiReservedMemoryType'', ''EfiLoaderCode'', ''EfiLoaderData'', ''EfiBootServicesCode'',
     ''EfiBootServicesData'', ''EfiRuntimeServicesCode'', ''EfiRuntimeServicesData'', ''EfiConventionalMemory'',
     ''EfiUnusableMemory'', ''EfiACPIReclaimMemory'', ''EfiACPIMemoryNVS'', ''EfiMemoryMappedIO'',
     ''EfiMemoryMappedIOPortSpace'', ''EfiPalCode'', ''EfiPersistentMemory'', ''EfiUnacceptedMemoryType'',
     ''EfiMaxMemoryType'']"

definition core_allocate_types :: "string list" where
  "core_allocate_types = [''AllocateAnyPages'', ''AllocateMaxAddress'', ''AllocateAddress'', ''MaxAllocateType'']"

definition uefi_allocate_types :: "string list" where
  "uefi_allocate_types = [''AllocateAnyPages'', ''AllocateMaxAddress'', ''AllocateAddress'', ''MaxAllocateType'']"

definition core_reset_types :: "string list" where
  "core_reset_types = [''EfiResetCold'', ''EfiResetWarm'', ''EfiResetShutdown'', ''EfiResetPlatformSpecific'']"

definition uefi_reset_types :: "(string \<times> int) list" where
  "uefi_reset_types = [(''EfiResetCold'', 0), (''EfiResetWarm'', 1), (''EfiResetShutdown'', 2)]"

text \<open>
  The revisions of the three tables, in the order of the source; the literals \<^verbatim>\<open>02\<close> and \<^verbatim>\<open>00\<close> are octal
  numbers of one digit. The last entry of each block is \<^verbatim>\<open>EFI_SPECIFICATION_VERSION\<close>.
\<close>

definition runtime_revisions :: "(string \<times> u32) list" where
  "runtime_revisions =
    [(''EFI_1_02_RUNTIME_SERVICES_REVISION'', EFI_SPECIFICATION_REVISION_MAJORMINOR 1 2),
     (''EFI_1_10_RUNTIME_SERVICES_REVISION'', EFI_SPECIFICATION_REVISION_MAJORMINOR 1 10),
     (''EFI_2_00_RUNTIME_SERVICES_REVISION'', EFI_SPECIFICATION_REVISION_MAJORMINOR 2 0),
     (''EFI_2_10_RUNTIME_SERVICES_REVISION'', EFI_SPECIFICATION_REVISION_MAJORMINOR 2 10),
     (''EFI_2_20_RUNTIME_SERVICES_REVISION'', EFI_SPECIFICATION_REVISION_MAJORMINOR 2 20),
     (''EFI_2_30_RUNTIME_SERVICES_REVISION'', EFI_SPECIFICATION_REVISION_MAJORMINOR 2 30),
     (''EFI_2_31_RUNTIME_SERVICES_REVISION'', EFI_SPECIFICATION_REVISION_MAJORMINOR 2 31),
     (''EFI_2_40_RUNTIME_SERVICES_REVISION'', EFI_SPECIFICATION_REVISION_MAJORMINOR 2 40),
     (''EFI_2_50_RUNTIME_SERVICES_REVISION'', EFI_SPECIFICATION_REVISION_MAJORMINOR 2 50),
     (''EFI_2_60_RUNTIME_SERVICES_REVISION'', EFI_SPECIFICATION_REVISION_MAJORMINOR 2 60),
     (''EFI_2_70_RUNTIME_SERVICES_REVISION'', EFI_SPECIFICATION_REVISION_MAJORMINOR 2 70),
     (''EFI_2_80_RUNTIME_SERVICES_REVISION'', EFI_SPECIFICATION_REVISION_MAJORMINOR 2 80),
     (''EFI_2_90_RUNTIME_SERVICES_REVISION'', EFI_SPECIFICATION_REVISION_MAJORMINOR 2 90),
     (''EFI_2_100_RUNTIME_SERVICES_REVISION'', EFI_SPECIFICATION_REVISION_MAJORMINOR 2 100)]"

definition boot_revisions :: "(string \<times> u32) list" where
  "boot_revisions =
    [(''EFI_1_02_BOOT_SERVICES_REVISION'', EFI_SPECIFICATION_REVISION_MAJORMINOR 1 2),
     (''EFI_1_10_BOOT_SERVICES_REVISION'', EFI_SPECIFICATION_REVISION_MAJORMINOR 1 10),
     (''EFI_2_00_BOOT_SERVICES_REVISION'', EFI_SPECIFICATION_REVISION_MAJORMINOR 2 0),
     (''EFI_2_10_BOOT_SERVICES_REVISION'', EFI_SPECIFICATION_REVISION_MAJORMINOR 2 10),
     (''EFI_2_20_BOOT_SERVICES_REVISION'', EFI_SPECIFICATION_REVISION_MAJORMINOR 2 20),
     (''EFI_2_30_BOOT_SERVICES_REVISION'', EFI_SPECIFICATION_REVISION_MAJORMINOR 2 30),
     (''EFI_2_31_BOOT_SERVICES_REVISION'', EFI_SPECIFICATION_REVISION_MAJORMINOR 2 31),
     (''EFI_2_40_BOOT_SERVICES_REVISION'', EFI_SPECIFICATION_REVISION_MAJORMINOR 2 40),
     (''EFI_2_50_BOOT_SERVICES_REVISION'', EFI_SPECIFICATION_REVISION_MAJORMINOR 2 50),
     (''EFI_2_60_BOOT_SERVICES_REVISION'', EFI_SPECIFICATION_REVISION_MAJORMINOR 2 60),
     (''EFI_2_70_BOOT_SERVICES_REVISION'', EFI_SPECIFICATION_REVISION_MAJORMINOR 2 70),
     (''EFI_2_80_BOOT_SERVICES_REVISION'', EFI_SPECIFICATION_REVISION_MAJORMINOR 2 80),
     (''EFI_2_90_BOOT_SERVICES_REVISION'', EFI_SPECIFICATION_REVISION_MAJORMINOR 2 90),
     (''EFI_2_100_BOOT_SERVICES_REVISION'', EFI_SPECIFICATION_REVISION_MAJORMINOR 2 100)]"

definition system_revisions :: "(string \<times> u32) list" where
  "system_revisions =
    [(''EFI1_02_SYSTEM_TABLE_REVISION'', EFI_SPECIFICATION_REVISION_MAJORMINOR 1 2),
     (''EFI1_10_SYSTEM_TABLE_REVISION'', EFI_SPECIFICATION_REVISION_MAJORMINOR 1 10),
     (''EFI2_00_SYSTEM_TABLE_REVISION'', EFI_SPECIFICATION_REVISION_MAJORMINOR 2 0),
     (''EFI2_10_SYSTEM_TABLE_REVISION'', EFI_SPECIFICATION_REVISION_MAJORMINOR 2 10),
     (''EFI2_20_SYSTEM_TABLE_REVISION'', EFI_SPECIFICATION_REVISION_MAJORMINOR 2 20),
     (''EFI2_30_SYSTEM_TABLE_REVISION'', EFI_SPECIFICATION_REVISION_MAJORMINOR 2 30),
     (''EFI2_31_SYSTEM_TABLE_REVISION'', EFI_SPECIFICATION_REVISION_MAJORMINOR 2 31),
     (''EFI2_40_SYSTEM_TABLE_REVISION'', EFI_SPECIFICATION_REVISION_MAJORMINOR 2 40),
     (''EFI2_50_SYSTEM_TABLE_REVISION'', EFI_SPECIFICATION_REVISION_MAJORMINOR 2 50),
     (''EFI2_60_SYSTEM_TABLE_REVISION'', EFI_SPECIFICATION_REVISION_MAJORMINOR 2 60),
     (''EFI2_70_SYSTEM_TABLE_REVISION'', EFI_SPECIFICATION_REVISION_MAJORMINOR 2 70),
     (''EFI2_80_SYSTEM_TABLE_REVISION'', EFI_SPECIFICATION_REVISION_MAJORMINOR 2 80),
     (''EFI2_90_SYSTEM_TABLE_REVISION'', EFI_SPECIFICATION_REVISION_MAJORMINOR 2 90),
     (''EFI2_100_SYSTEM_TABLE_REVISION'', EFI_SPECIFICATION_REVISION_MAJORMINOR 2 100)]"

definition current_revision :: u32 where "current_revision = EFI_SPECIFICATION_VERSION"

text \<open>A block is in ascending order of its values.\<close>

definition ascending :: "(string \<times> u32) list \<Rightarrow> bool" where
  "ascending rs \<longleftrightarrow> sorted_wrt (<) (map snd rs)"

section \<open>Lemmas\<close>

lemmas uefi_status_defs = uefi_EFI_SUCCESS_def uefi_EFI_LOAD_ERROR_def uefi_EFI_INVALID_PARAMETER_def
  uefi_EFI_UNSUPPORTED_def uefi_EFI_BAD_BUFFER_SIZE_def uefi_EFI_BUFFER_TOO_SMALL_def uefi_EFI_NOT_READY_def
  uefi_EFI_DEVICE_ERROR_def uefi_EFI_WRITE_PROTECTED_def uefi_EFI_OUT_OF_RESOURCES_def
  uefi_EFI_VOLUME_CORRUPTED_def uefi_EFI_VOLUME_FULL_def uefi_EFI_NO_MEDIA_def uefi_EFI_MEDIA_CHANGED_def
  uefi_EFI_NOT_FOUND_def uefi_EFI_ACCESS_DENIED_def uefi_EFI_NO_RESPONSE_def uefi_EFI_NO_MAPPING_def
  uefi_EFI_TIMEOUT_def uefi_EFI_NOT_STARTED_def uefi_EFI_ALREADY_STARTED_def uefi_EFI_ABORTED_def
  uefi_EFI_ICMP_ERROR_def uefi_EFI_TFTP_ERROR_def uefi_EFI_PROTOCOL_ERROR_def
  uefi_EFI_INCOMPATIBLE_VERSION_def uefi_EFI_SECURITY_VIOLATION_def uefi_EFI_CRC_ERROR_def
  uefi_EFI_END_OF_MEDIA_def uefi_EFI_END_OF_FILE_def uefi_EFI_INVALID_LANGUAGE_def
  uefi_EFI_COMPROMISED_DATA_def uefi_EFI_IP_ADDRESS_CONFLICT_def uefi_EFI_HTTP_ERROR_def

lemma majorminor_minor: "EFI_SPECIFICATION_REVISION_MAJORMINOR a b AND 65535 = ucast b"
proof -
  have "(65535 :: u32) = mask 16" by (simp add: mask_eq_exp_minus_1)
  then have "EFI_SPECIFICATION_REVISION_MAJORMINOR a b AND 65535 = take_bit 16 (EFI_SPECIFICATION_REVISION_MAJORMINOR a b)"
    by (simp add: take_bit_eq_mask)
  also have "\<dots> = ucast b"
    by (rule bit_word_eqI) (auto simp: EFI_SPECIFICATION_REVISION_MAJORMINOR_def bit_simps dest: bit_imp_le_length)
  finally show ?thesis .
qed

lemma majorminor_major: "drop_bit 16 (EFI_SPECIFICATION_REVISION_MAJORMINOR a b) = ucast a"
  by (rule bit_word_eqI) (auto simp: EFI_SPECIFICATION_REVISION_MAJORMINOR_def bit_simps dest: bit_imp_le_length)

section \<open>Properties\<close>


text \<open>
  The memory and allocation types are the same numbers in both packages, and so are the reset types \<^verbatim>\<open>pkg/uefi\<close>
  has; the numbers the model uses are those of the blocks.
\<close>

theorem enumerations_agree:
  "core_memory_types = uefi_memory_types \<and> core_allocate_types = uefi_allocate_types
   \<and> list_all (\<lambda>(x, v). map_option int (iota core_reset_types x) = Some v) uefi_reset_types
   \<and> map (\<lambda>x. map_option of_nat (iota core_memory_types x))
       [''EfiLoaderCode'', ''EfiLoaderData'', ''EfiBootServicesCode'', ''EfiBootServicesData'', ''EfiConventionalMemory'',
        ''EfiACPIReclaimMemory'', ''EfiACPIMemoryNVS'', ''EfiPersistentMemory'']
     = map Some [EfiLoaderCode, EfiLoaderData, EfiBootServicesCode, EfiBootServicesData, EfiConventionalMemory,
        EfiACPIReclaimMemory, EfiACPIMemoryNVS, EfiPersistentMemory]
   \<and> map (\<lambda>x. map_option int (iota core_allocate_types x)) [''AllocateAnyPages'', ''AllocateMaxAddress'', ''AllocateAddress'']
     = map Some [AllocateAnyPages, AllocateMaxAddress, AllocateAddress]
   \<and> map (\<lambda>x. map_option int (iota core_reset_types x)) [''EfiResetCold'', ''EfiResetWarm'', ''EfiResetShutdown'']
     = map Some [EfiResetCold, EfiResetWarm, EfiResetShutdown]"
  by (intro conjI) code_simp+

text \<open>
  Revisions: \<^verbatim>\<open>SystemTable.Revision\<close> of \<^verbatim>\<open>pkg/ueficore\<close> takes apart what
  \<^verbatim>\<open>EFI_SPECIFICATION_REVISION_MAJORMINOR\<close> of \<^verbatim>\<open>pkg/uefi\<close> puts together, for all 16-bit numbers, and
  the revisions each table declares are in ascending order; the current revision is the first of them.
\<close>

theorem revision_roundtrip:
  "Revision (d\<lparr>st_Header := (st_Header d)\<lparr>Revision_field := EFI_SPECIFICATION_REVISION_MAJORMINOR major minor\<rparr>\<rparr>)
     = (ucast major, ucast minor)
   \<and> list_all ascending [runtime_revisions, boot_revisions, system_revisions]
   \<and> list_all (\<lambda>rs. snd (hd rs) = current_revision) [runtime_revisions, boot_revisions, system_revisions]"
proof (intro conjI)
  show "Revision (d\<lparr>st_Header := (st_Header d)\<lparr>Revision_field := EFI_SPECIFICATION_REVISION_MAJORMINOR major minor\<rparr>\<rparr>)
     = (ucast major, ucast minor)"
    by (simp add: Revision_def majorminor_major majorminor_minor)
qed code_simp+

end
