(* ===== verification/Spec2Isabelle.thy ===== *)
theory Spec2Isabelle
  imports Guid Console Stub_Program Graphics Disk_IO Serial_Port Uefi_Clock Efi_Variables Efi_Load Uefi_Display Uefi_Constants
begin

text \<open>
  A verification development of the Go UEFI programs under \<^verbatim>\<open>src/goefi\<close>.

  \<^bold>\<open>The program.\<close> Three UEFI applications are built from two libraries. \<^verbatim>\<open>cmd/efi-verify\<close> is the stub
  that is packed with a kernel into one image: it reads the kernel's length and the command line from a
  configuration at a fixed address, loads the kernel from memory and starts it. \<^verbatim>\<open>cmd/efiload\<close> does
  the same after it has listed the firmware's variables; \<^verbatim>\<open>cmd/recovery\<close> adds a shell command that starts a
  kernel from the boot volume. \<^verbatim>\<open>pkg/ueficore\<close> is the library under them: calls into the firmware, the
  system table, memory map, protocols, files, device paths, images, console. \<^verbatim>\<open>pkg/uefi\<close> is a second,
  larger library: the tables and protocols of the UEFI specification as structs with one method per
  service, and disks, serial ports, clock, text and display on top of them.

  \<^bold>\<open>The model.\<close> A run is explicit state passing over the record \<open>machine\<close> (theory \<open>Machine\<close>): a flat
  64-bit byte memory, the place of each Go object whose address is taken, the log of calls, and a world
  the firmware owns. The firmware is a parameter of every definition: a function from code address,
  arguments, memory and world to a status, a memory and a world. \<open>None\<close> is a panic or a loop that does not
  end; errors are values of \<open>gerr\<close>. Integers have the width they have in Go.

  \<^bold>\<open>Theories and sources.\<close>
  \<^item> \<open>Prelude\<close>, \<open>Go_Text\<close>, \<open>Read_All\<close>: integer types, little-endian bytes, Go strings, runes, UTF-8 and
    UTF-16, \<^verbatim>\<open>strconv.Atoi\<close>, \<^verbatim>\<open>bytes.SplitN\<close>, \<^verbatim>\<open>io.ReadAll\<close>; where objects lie (\<open>layout\<close>) and which
    regions a run leaves alone (\<open>same_regions\<close>).
  \<^item> \<open>Machine\<close>, \<open>Calling\<close>, \<open>Service\<close>: memory and objects; \<^verbatim>\<open>ueficore/uefi.go\<close>, \<^verbatim>\<open>uefi.s\<close> and
    \<^verbatim>\<open>error.go\<close>, with the assembly routine \<^verbatim>\<open>callFn\<close> on registers and stack.
  \<^item> \<open>Encoding\<close>, \<open>Guid\<close>, \<open>Console\<close>, \<open>Services\<close>, \<open>Memory_Map\<close>, \<open>Boot_Services\<close>, \<open>File_System\<close>,
    \<open>Device_Path\<close>, \<open>Image\<close>, \<open>Graphics\<close>, \<open>Heap_Init\<close>, \<open>Start_Up\<close>: \<^verbatim>\<open>ueficore/desc.go\<close>, \<^verbatim>\<open>guid.go\<close>,
    \<^verbatim>\<open>console.go\<close>, \<^verbatim>\<open>uefi.go\<close> and \<^verbatim>\<open>config.go\<close>, \<^verbatim>\<open>mem.go\<close> and \<^verbatim>\<open>pages.go\<close>, \<^verbatim>\<open>protocol.go\<close>,
    \<^verbatim>\<open>exit.go\<close>, \<^verbatim>\<open>wdog.go\<close> and \<^verbatim>\<open>reset.go\<close>, \<^verbatim>\<open>file.go\<close> and \<^verbatim>\<open>fs.go\<close>, \<^verbatim>\<open>path.go\<close>, \<^verbatim>\<open>image.go\<close>,
    \<^verbatim>\<open>graphics.go\<close>, \<^verbatim>\<open>x64/mem.go\<close>, \<^verbatim>\<open>x64/x64.go\<close> and \<^verbatim>\<open>x64/x64.s\<close>.
  \<^item> \<open>Verify_Stub\<close>, \<open>Efi_Variables\<close>, \<open>Efi_Load\<close>: the three commands; \<open>Stub_Program\<close> is the stub with its start-up.
  \<^item> \<open>Boot_Path\<close>, \<open>Boot_File\<close>: the contract of a firmware that does what the UEFI specification documents for
    the calls of the boot path (\<open>boot_platform\<close>, \<open>platform_firmware\<close>, \<open>file_firmware\<close>), the state of a machine on that path
    (\<open>boot_state\<close>) and its steps (\<open>boot_step\<close>), with one lemma per operation. \<open>Boot_Example\<close> is a concrete
    firmware that satisfies it.
  \<^item> \<open>Uefi_Call\<close>, \<open>Uefi_Status\<close>, \<open>Uefi_Spec\<close>, \<open>Uefi_Protocols\<close>, \<open>Uefi_Enumerate\<close>, \<open>Disk_IO\<close>,
    \<open>Serial_Port\<close>, \<open>Uefi_Text\<close>, \<open>Uefi_Clock\<close>, \<open>Uefi_Display\<close>: \<^verbatim>\<open>uefi/call.go\<close> and
    \<^verbatim>\<open>asm_amd64.S\<close>, \<^verbatim>\<open>efistatus.go\<close>, \<^verbatim>\<open>uefi_spec.go\<close>, the protocol files, the functions that enumerate
    handles, \<^verbatim>\<open>media_io_protocol.go\<close>, \<^verbatim>\<open>serial_io_protocol.go\<close>, \<^verbatim>\<open>util.go\<close>, \<^verbatim>\<open>clock.go\<close> and
    \<^verbatim>\<open>device/x86/cpu.go\<close>, \<^verbatim>\<open>graphics_output_protocol.go\<close>, \<^verbatim>\<open>runtime.go\<close> and \<^verbatim>\<open>simple_text_in.go\<close>.
  \<^item> \<open>Uefi_Constants\<close>: the enumerations both libraries declare and the revisions of the tables.

  \<^bold>\<open>Interfaces.\<close> Five locales carry the proofs. \<open>struct_codec\<close> (\<open>Encoding\<close>) is a struct of fixed size with
    its binary form; the structs \<^verbatim>\<open>pkg/ueficore\<close> shares with the firmware interpret it. \<open>efi_service\<close> (\<open>Service\<close>) is an
    operation that is one table call and its status. \<open>direct_method\<close> and \<open>loaded_method\<close>
    (\<open>Uefi_Protocols\<close>) are the two ways a method of \<^verbatim>\<open>pkg/uefi\<close> reaches its code: by the address in the
    struct, or by the address of the entry. \<open>byte_reader\<close> (\<open>Read_All\<close>) is the contract under which
    \<^verbatim>\<open>io.ReadAll\<close> returns a whole stream; a file of the boot volume interprets it, with the regions that reading keeps.

  \<^bold>\<open>What is shown.\<close>
  \<^item> The programs end to end: entered by a documented firmware, the stub runs through the start of the runtime and
    loads and starts exactly the kernel image it is configured for, with the configured command line and no other
    change to the kernel's loaded image protocol; the recovery command does so with the content of a file of the boot volume.
  \<^item> The boot path, over any firmware: the stub and the loader start the kernel of the configured length with the
    configured command line in its load options, on every outcome of the firmware; the loader makes the
    stub's calls; recovery starts what it read of the kernel file, after a read error as well.
  \<^item> Calls: both assembly routines put every argument where the x64 convention wants it; for which
    numbers of arguments the stack is aligned and the frame large enough, and for which it is not.
  \<^item> Data: round trips of GUIDs, UTF-16 text, device paths and structs; the memory map is read exactly
    and safely; the E820 map is the join of maximal groups of adjacent descriptors and gives every address
    the type the EFI map gives it; the layouts, service offsets, GUIDs and
    enumerations of the two libraries agree, but for the last five status codes.
  \<^item> Devices: disks implement a byte array; a serial read returns once the device delivers; the
    variable walk ends and lists every variable; the display scan ends with the first largest mode; key
    input returns when its event is signalled.
  \<^item> State: error objects of \<^verbatim>\<open>pkg/uefi\<close> keep identity and code in every reachable error table
    (an inductive step relation); \<^verbatim>\<open>ExitBootServices\<close> uses the key of the map read right before.

  \<^bold>\<open>Fuel and bounds.\<close> \<^verbatim>\<open>io.ReadAll\<close> and the retry loop of the serial port take fuel; the properties give the
  amount that is enough, one step per read and one per time-out. The loops over variables, display modes and
  events are \<open>partial_function\<close>s, and the properties show that they return. \<open>layout\<close> bounds the objects of a
  run: four per variable, one per display mode, 17 for the stub with its start-up, two per byte of a file that is read. \<open>maxAlloc\<close>, 2^48, is the limit of \<^verbatim>\<open>make\<close> in the Go runtime.

  \<^bold>\<open>Parameters.\<close> The firmware; tamago (\<^verbatim>\<open>dma\<close> as the record \<open>dma_pkg\<close>, \<^verbatim>\<open>runtime.MemRegion\<close>, CPU and
  serial set-up as the record \<open>tamago\<close>); go-boot, which \<^verbatim>\<open>cmd/efiload\<close> and \<^verbatim>\<open>cmd/recovery\<close> import, as the record \<open>go_boot\<close>; the
  \<^verbatim>\<open>CPUID\<close> and time-stamp instructions; the growth of a slice in \<^verbatim>\<open>append\<close>.

  \<^bold>\<open>Not modelled.\<close> Messages on the console of the commands and the SHA-256 digest that is only printed; the
  mutex around calls, since one core runs one goroutine through it; running out of memory; the
  start of the Go runtime itself between \<^verbatim>\<open>cpuinit\<close> and the hooks of the package; the single-instruction routines; \<^verbatim>\<open>arch_x86.go\<close>, whose body is commented out; constants
  that no code reads (colours, DHCP events, CPU models, event and attribute bits); the signing tools, scripts and the other stubs
  of the repository, which are not Go.
\<close>

lemmas guid_value_simps = guid_value_bytes_def EFI_LOADED_IMAGE_GUID_value_def EFI_LOADED_IMAGE_PROTOCOL_GUID_value_def
  EFI_SIMPLE_FILE_SYSTEM_PROTOCOL_GUID_value_def GraphicsOutputProtocolGUID_value_def

lemma le_bytes_2: "le_bytes 2 v = [of_nat v, of_nat (v div 256)]"
  by (simp only: numeral_2_eq_2 le_bytes.simps)

lemma le_bytes_4: "le_bytes 4 v = [of_nat v, of_nat (v div 256), of_nat (v div 256 div 256), of_nat (v div 256 div 256 div 256)]"
proof -
  have "4 = Suc (Suc (Suc (Suc 0)))" by simp
  then show ?thesis by (simp only: le_bytes.simps)
qed

text \<open>The bytes of the GUIDs in memory.\<close>

lemma guid_values:
  "guid_value_bytes EFI_LOADED_IMAGE_PROTOCOL_GUID_value
    = [0xa1, 0x31, 0x1b, 0x5b, 0x62, 0x95, 0xd2, 0x11, 0x8e, 0x3f, 0x00, 0xa0, 0xc9, 0x69, 0x72, 0x3b]"
  "guid_value_bytes EFI_LOADED_IMAGE_GUID_value
    = [0xa1, 0x31, 0x1b, 0x5b, 0x62, 0x95, 0xd2, 0x11, 0x8e, 0x3f, 0x00, 0xa0, 0xc9, 0x69, 0x72, 0x3b]"
  "guid_value_bytes EFI_SIMPLE_FILE_SYSTEM_PROTOCOL_GUID_value
    = [0x22, 0x5b, 0x4e, 0x96, 0x59, 0x64, 0xd2, 0x11, 0x8e, 0x39, 0x00, 0xa0, 0xc9, 0x69, 0x72, 0x3b]"
  "guid_value_bytes GraphicsOutputProtocolGUID_value
    = [0xde, 0xa9, 0x42, 0x90, 0xdc, 0x23, 0x38, 0x4a, 0x96, 0xfb, 0x7a, 0xde, 0xd0, 0x80, 0x51, 0x6a]"
  by (simp_all add: guid_value_simps le_bytes_4 le_bytes_2)

section \<open>Properties of the two UEFI packages together\<close>


end
